(* ===== verification/Prelude.thy ===== *)
theory Prelude
  imports Main "HOL-Library.Word" "HOL-Library.State_Monad" "HOL-Library.Sublist"
begin

text \<open>
  Shared material of the development: the machine integers of the Rust sources, their
  big-endian byte representation, the result type of fallible code, effectful code as a
  state monad over an abstract world, and the generic list lemmas the components share.

  Integers keep the width they have in the sources. The driver is built with
  \<open>cargo build --release\<close> and no crate profile turns overflow checks on, so \<open>+\<close>, \<open>-\<close> and \<open>*\<close>
  wrap around, as they do on words. A signed \<open>i64\<close> is a 64-bit word that is compared
  through \<open>sint\<close>.
\<close>

section \<open>Machine integers and bytes\<close>

type_synonym byte = "8 word"
type_synonym u16 = "16 word"
type_synonym u32 = "32 word"
type_synonym u64 = "64 word"
type_synonym i64 = "64 word"

text \<open>Collections the component proofs unfold with.\<close>

named_theorems io_simps \<open>unfolding rules for effectful code\<close>
named_theorems wire_simps \<open>lengths and positions of the fields of a frame\<close>
named_theorems text_simps \<open>evaluation of text operations\<close>

text \<open>Bounds of the unsigned readings.\<close>

lemma unat_bounds:
  "unat (a :: byte) < 256" "unat (b :: u16) < 65536" "unat (c :: u32) < 4294967296"
  "unat (d :: u64) < 18446744073709551616"
  using unsigned_less [of a] unsigned_less [of b] unsigned_less [of c] unsigned_less [of d]
  by simp_all

section \<open>Big-endian integers\<close>

text \<open>\<open>be_bytes n k\<close> is \<open>to_be_bytes\<close> of an \<open>n\<close>-byte integer with value \<open>k\<close>;
  \<open>be_value\<close> is the value \<open>from_be_bytes\<close> reads.\<close>

fun be_bytes :: "nat \<Rightarrow> nat \<Rightarrow> byte list" where
  "be_bytes 0 k = []"
| "be_bytes (Suc n) k = be_bytes n (k div 256) @ [word_of_nat k]"

definition be_value :: "byte list \<Rightarrow> nat" where
  "be_value bs = foldl (\<lambda>a b. a * 256 + unat b) 0 bs"

lemma length_be_bytes [simp, wire_simps]: "length (be_bytes n k) = n"
  by (induction n arbitrary: k) auto

lemma be_value_Nil [simp]: "be_value [] = 0"
  by (simp add: be_value_def)

lemma be_value_snoc [simp]: "be_value (bs @ [b]) = be_value bs * 256 + unat b"
  by (simp add: be_value_def)

lemma be_value_less: "be_value bs < 256 ^ length bs"
proof (induction bs rule: rev_induct)
  case Nil
  show ?case by simp
next
  case (snoc b bs)
  have "unat b < 256" by (rule unat_bounds)
  with snoc.IH show ?case by simp
qed

lemma be_value_be_bytes [simp]: "be_value (be_bytes n k) = k mod 256 ^ n"
proof (induction n arbitrary: k)
  case 0
  show ?case by simp
next
  case (Suc n)
  have "be_value (be_bytes (Suc n) k) = (k div 256 mod 256 ^ n) * 256 + k mod 256"
    by (simp add: Suc.IH unat_of_nat)
  also have "\<dots> = k mod 256 ^ Suc n"
    by (simp add: mod_mult2_eq mult.commute)
  finally show ?case .
qed

lemma be_bytes_be_value [simp]: "length bs = n \<Longrightarrow> be_bytes n (be_value bs) = bs"
proof (induction bs arbitrary: n rule: rev_induct)
  case Nil
  then show ?case by simp
next
  case (snoc b bs)
  have "unat b < 256" by (rule unat_bounds)
  have "word_of_nat (be_value bs * 256 + unat b) = (word_of_nat ((be_value bs * 256 + unat b) mod 256) :: byte)"
    by (simp only: word_of_nat_eq_iff take_bit_eq_mod) simp
  then have "word_of_nat (be_value bs * 256 + unat b) = b"
    using \<open>unat b < 256\<close> by simp
  with \<open>unat b < 256\<close> snoc show ?case by (auto simp: be_value_snoc)
qed

text \<open>The fixed-width readers and writers of the sources.\<close>

definition put_u16 :: "u16 \<Rightarrow> byte list" where
  "put_u16 w = be_bytes 2 (unat w)"

definition put_u32 :: "u32 \<Rightarrow> byte list" where
  "put_u32 w = be_bytes 4 (unat w)"

definition put_i64 :: "i64 \<Rightarrow> byte list" where
  "put_i64 w = be_bytes 8 (unat w)"

definition get_u16 :: "byte list \<Rightarrow> u16" where
  "get_u16 bs = word_of_nat (be_value bs)"

definition get_u32 :: "byte list \<Rightarrow> u32" where
  "get_u32 bs = word_of_nat (be_value bs)"

definition get_i64 :: "byte list \<Rightarrow> i64" where
  "get_i64 bs = word_of_nat (be_value bs)"

lemma length_put [simp, wire_simps]:
  "length (put_u16 a) = 2" "length (put_u32 b) = 4" "length (put_i64 c) = 8"
  by (simp_all add: put_u16_def put_u32_def put_i64_def)

lemma get_put [simp]:
  "get_u16 (put_u16 a) = a" "get_u32 (put_u32 b) = b" "get_i64 (put_i64 c) = c"
proof -
  show "get_u16 (put_u16 a) = a"
    using unat_bounds by (simp add: get_u16_def put_u16_def)
  show "get_u32 (put_u32 b) = b"
    using unat_bounds by (simp add: get_u32_def put_u32_def)
  show "get_i64 (put_i64 c) = c"
    using unat_bounds by (simp add: get_i64_def put_i64_def)
qed

lemma put_get_u16: "length bs = 2 \<Longrightarrow> put_u16 (get_u16 bs) = bs"
  using be_value_less [of bs] by (simp add: get_u16_def put_u16_def unat_of_nat)

lemma put_get_u32: "length bs = 4 \<Longrightarrow> put_u32 (get_u32 bs) = bs"
  using be_value_less [of bs] by (simp add: get_u32_def put_u32_def unat_of_nat)

lemma put_get_i64: "length bs = 8 \<Longrightarrow> put_i64 (get_i64 bs) = bs"
  using be_value_less [of bs] by (simp add: get_i64_def put_i64_def unat_of_nat)

lemmas put_get = put_get_u16 put_get_u32 put_get_i64

section \<open>Lists cut at fixed positions\<close>

text \<open>\<open>subrange i j xs\<close> is Rust's \<open>xs[i..j]\<close> for \<open>i \<le> j \<le> length xs\<close>; the sources
  index only after a length check.\<close>

definition subrange :: "nat \<Rightarrow> nat \<Rightarrow> 'a list \<Rightarrow> 'a list" where
  "subrange i j xs = take (j - i) (drop i xs)"

lemma length_subrange [simp, wire_simps]: "j \<le> length xs \<Longrightarrow> length (subrange i j xs) = j - i"
  by (simp add: subrange_def)

lemma subrange_append_left: "j \<le> length xs \<Longrightarrow> subrange i j (xs @ ys) = subrange i j xs"
  by (cases "i \<le> length xs") (simp_all add: subrange_def)

lemma subrange_append_right: "length xs = k \<Longrightarrow> k \<le> i \<Longrightarrow> subrange i j (xs @ ys) = subrange (i - k) (j - k) ys"
  by (cases "i \<le> j") (simp_all add: subrange_def)

lemma subrange_join: "i \<le> j \<Longrightarrow> j \<le> k \<Longrightarrow> subrange i j xs @ subrange j k xs = subrange i k xs"
proof -
  assume ij: "i \<le> j" and jk: "j \<le> k"
  have "subrange i k xs = take ((j - i) + (k - j)) (drop i xs)"
    using ij jk by (simp add: subrange_def)
  also have "\<dots> = take (j - i) (drop i xs) @ take (k - j) (drop (j - i) (drop i xs))"
    by (rule take_add)
  also have "drop (j - i) (drop i xs) = drop j xs"
    using ij by simp
  finally show ?thesis by (simp add: subrange_def)
qed

lemma subrange_0_take: "subrange 0 n xs = take n xs"
  by (simp add: subrange_def)

section \<open>Results and effectful code\<close>

text \<open>A Rust \<open>Result<T, E>\<close> is \<open>'e + 'a\<close> with \<open>Inl\<close> the error. Effectful code runs in a
  state monad over an abstract world \<open>'w\<close>.\<close>

type_synonym ('w, 'a) io = "('w, 'a) state"

text \<open>\<open>run_io m w\<close> is the value and the world after running \<open>m\<close> in \<open>w\<close>.\<close>

abbreviation run_io :: "('w, 'a) io \<Rightarrow> 'w \<Rightarrow> 'a \<times> 'w" where
  "run_io m w \<equiv> run_state m w"

text \<open>\<open>and_then\<close> is the \<open>?\<close> operator: an error returns early, a value is passed on.\<close>

definition and_then :: "('w, 'e + 'a) io \<Rightarrow> ('a \<Rightarrow> ('w, 'e + 'b) io) \<Rightarrow> ('w, 'e + 'b) io" where
  "and_then m f = State_Monad.bind m
     (\<lambda>r. case r of Inl e \<Rightarrow> State_Monad.return (Inl e) | Inr x \<Rightarrow> f x)"

lemma run_and_then [io_simps]:
  "run_io (and_then m f) w =
     (case run_io m w of (Inl e, w') \<Rightarrow> (Inl e, w') | (Inr x, w') \<Rightarrow> run_io (f x) w')"
  by (simp add: and_then_def split: prod.splits sum.splits)

lemma and_then_return [simp]:
  "and_then (State_Monad.return (Inr x)) f = f x"
  "and_then (State_Monad.return (Inl e)) f = State_Monad.return (Inl e)"
  by (simp_all add: and_then_def)

text \<open>An action is \<^emph>\<open>pure\<close> at a world when it leaves the world as it is.\<close>

definition keeps_world :: "('w, 'a) io \<Rightarrow> bool" where
  "keeps_world m \<longleftrightarrow> (\<forall>w. snd (run_io m w) = w)"

lemma keeps_world_return [simp, intro]: "keeps_world (State_Monad.return x)"
  by (simp add: keeps_world_def)

lemma keeps_world_bind [intro]:
  "keeps_world m \<Longrightarrow> (\<And>x. keeps_world (f x)) \<Longrightarrow> keeps_world (State_Monad.bind m f)"
  by (auto simp: keeps_world_def split: prod.splits) (metis snd_conv)

lemma keeps_world_run: "keeps_world m \<Longrightarrow> run_io m w = (fst (run_io m w), w)"
  by (simp add: keeps_world_def prod_eq_iff)

text \<open>\<open>preserves f m\<close>: running \<open>m\<close> does not change what \<open>f\<close> observes of the world.\<close>

definition preserves :: "('w \<Rightarrow> 'o) \<Rightarrow> ('w, 'a) io \<Rightarrow> bool" where
  "preserves f m \<longleftrightarrow> (\<forall>w. f (snd (run_io m w)) = f w)"

lemma preserves_run: "preserves f m \<Longrightarrow> run_io m w = (x, w') \<Longrightarrow> f w' = f w"
  unfolding preserves_def by (metis snd_conv)

lemma preserves_return [intro]: "preserves f (State_Monad.return x)"
  by (simp add: preserves_def)

lemma preserves_bind [intro]:
  "preserves f m \<Longrightarrow> (\<And>x. preserves f (g x)) \<Longrightarrow> preserves f (State_Monad.bind m g)"
  by (simp add: preserves_def split: prod.splits) (metis snd_conv)

lemma preserves_option [intro]:
  "preserves f m \<Longrightarrow> (\<And>x. preserves f (g x)) \<Longrightarrow> preserves f (case v of None \<Rightarrow> m | Some x \<Rightarrow> g x)"
  by (cases v) simp_all

section \<open>Optional values\<close>

text \<open>\<open>unwrap_or\<close> of \<open>Option\<close>.\<close>

definition unwrap_or :: "'a option \<Rightarrow> 'a \<Rightarrow> 'a" where
  "unwrap_or x d = (case x of None \<Rightarrow> d | Some y \<Rightarrow> y)"

lemma unwrap_or_simps [simp]: "unwrap_or None d = d" "unwrap_or (Some y) d = y"
  by (simp_all add: unwrap_or_def)

text \<open>\<open>Result::ok\<close>.\<close>

definition ok :: "'e + 'a \<Rightarrow> 'a option" where
  "ok r = (case r of Inl _ \<Rightarrow> None | Inr x \<Rightarrow> Some x)"

lemma ok_simps [simp]: "ok (Inl e) = None" "ok (Inr x) = Some x"
  by (simp_all add: ok_def)

section \<open>Iterators\<close>

text \<open>\<open>max_by_key\<close>: the last of the greatest elements.\<close>

fun max_by_key :: "('a \<Rightarrow> 'b::linorder) \<Rightarrow> 'a list \<Rightarrow> 'a option" where
  "max_by_key f [] = None"
| "max_by_key f (x # xs) =
     (case max_by_key f xs of None \<Rightarrow> Some x | Some y \<Rightarrow> if f x \<le> f y then Some y else Some x)"

lemma max_by_key_None [simp]: "max_by_key f xs = None \<longleftrightarrow> xs = []"
  by (cases xs) (auto split: option.splits)

lemma max_by_key_Some:
  "max_by_key f xs = Some x \<Longrightarrow> x \<in> set xs \<and> (\<forall>y \<in> set xs. f y \<le> f x)"
proof (induction xs arbitrary: x)
  case Nil
  then show ?case by simp
next
  case (Cons a xs)
  show ?case
  proof (cases "max_by_key f xs")
    case None
    with Cons.prems show ?thesis by simp
  next
    case (Some y)
    from Cons.IH [OF Some] Cons.prems Some show ?thesis
      by (auto split: if_splits)
  qed
qed

section \<open>Signed differences\<close>

text \<open>The difference of two non-negative \<open>i64\<close> values does not overflow.\<close>

lemma sint_diff_nonneg:
  fixes a b :: i64
  assumes "0 \<le> sint a" "0 \<le> sint b"
  shows "sint (a - b) = sint a - sint b"
proof -
  have "sint a < 2 ^ 63" "sint b < 2 ^ 63"
    using sint_lt [of a] sint_lt [of b] by simp_all
  with assms show ?thesis
    by (simp add: sint_word_diff signed_take_bit_int_eq_self)
qed

section \<open>State machines\<close>

text \<open>The contract of an invariant: it holds initially and every step keeps it. The state
  machines of the components are interpretations of it.\<close>

locale invariant_of =
  fixes init :: "'s \<Rightarrow> bool" and step :: "'s \<Rightarrow> 's \<Rightarrow> bool" and inv :: "'s \<Rightarrow> bool"
  assumes inv_init: "init s \<Longrightarrow> inv s"
    and inv_step: "inv s \<Longrightarrow> step s t \<Longrightarrow> inv t"
begin

lemma inv_steps: "rtranclp step s t \<Longrightarrow> inv s \<Longrightarrow> inv t"
  by (induction rule: rtranclp_induct) (auto intro: inv_step)

lemma reachable_inv: "init s \<Longrightarrow> rtranclp step s t \<Longrightarrow> inv t"
  using inv_steps inv_init by blast

end

end
