(* ===== verification/Rust_Text.thy ===== *)
theory Rust_Text
  imports Prelude "HOL-Library.Char_ord" "HOL-Library.List_Lexorder"
begin

text \<open>
  The operations of Rust's \<open>str\<close> and of its number parsers that the sources use. A string
  is its sequence of bytes (\<open>len\<close>, \<open>bytes\<close> and the ordering of \<open>str\<close> are those of the bytes);
  white space is the ASCII part of Unicode's white space, the only part that occurs in the
  tool outputs and attribute values the driver handles.
\<close>

section \<open>Characters\<close>

definition is_ws :: "char \<Rightarrow> bool" where
  "is_ws c \<longleftrightarrow> (of_char c :: nat) \<in> {9, 10, 11, 12, 13, 32}"

definition is_digit :: "char \<Rightarrow> bool" where
  "is_digit c \<longleftrightarrow> 48 \<le> (of_char c :: nat) \<and> (of_char c :: nat) \<le> 57"

definition is_ascii_alphanumeric :: "char \<Rightarrow> bool" where
  "is_ascii_alphanumeric c \<longleftrightarrow>
     is_digit c \<or> (65 \<le> (of_char c :: nat) \<and> (of_char c :: nat) \<le> 90)
                \<or> (97 \<le> (of_char c :: nat) \<and> (of_char c :: nat) \<le> 122)"

definition digit_char :: "nat \<Rightarrow> char" where
  "digit_char d = char_of (48 + d)"

definition digit_val :: "char \<Rightarrow> nat" where
  "digit_val c = of_char c - 48"

lemma is_digit_digit_char [simp]: "d < 10 \<Longrightarrow> is_digit (digit_char d)"
  by (simp add: is_digit_def digit_char_def)

lemma digit_val_digit_char [simp]: "d < 10 \<Longrightarrow> digit_val (digit_char d) = d"
  by (simp add: digit_val_def digit_char_def)

lemma digit_not_ws: "is_digit c \<Longrightarrow> \<not> is_ws c"
  by (auto simp: is_digit_def is_ws_def)

section \<open>Trimming, prefixes and containment\<close>

definition trim_start :: "string \<Rightarrow> string" where
  "trim_start s = dropWhile is_ws s"

definition trim :: "string \<Rightarrow> string" where
  "trim s = rev (dropWhile is_ws (rev (dropWhile is_ws s)))"

definition starts_with :: "string \<Rightarrow> string \<Rightarrow> bool" where
  "starts_with s p \<longleftrightarrow> prefix p s"

definition strip_prefix :: "string \<Rightarrow> string \<Rightarrow> string option" where
  "strip_prefix s p = (if prefix p s then Some (drop (length p) s) else None)"

fun contains_str :: "string \<Rightarrow> string \<Rightarrow> bool" where
  "contains_str [] p \<longleftrightarrow> p = []"
| "contains_str (c # s) p \<longleftrightarrow> prefix p (c # s) \<or> contains_str s p"

text \<open>Text with no white space at either end is unchanged by \<open>trim\<close>.\<close>

definition trimmed :: "string \<Rightarrow> bool" where
  "trimmed s \<longleftrightarrow> (s = [] \<or> (\<not> is_ws (hd s) \<and> \<not> is_ws (last s)))"

lemma dropWhile_hd: "s \<noteq> [] \<Longrightarrow> \<not> p (hd s) \<Longrightarrow> dropWhile p s = s"
  by (cases s) auto

lemma trim_trimmed [simp]: "trimmed s \<Longrightarrow> trim s = s"
  by (cases "s = []") (auto simp: trim_def trimmed_def dropWhile_hd hd_rev)

lemma no_ws_trimmed [intro]: "(\<And>c. c \<in> set s \<Longrightarrow> \<not> is_ws c) \<Longrightarrow> trimmed s"
  by (auto simp: trimmed_def)

lemma set_trim: "set (trim s) \<subseteq> set s"
proof
  fix c assume "c \<in> set (trim s)"
  then have "c \<in> set (dropWhile is_ws (rev (dropWhile is_ws s)))" by (simp add: trim_def)
  then have "c \<in> set (rev (dropWhile is_ws s))" by (rule set_dropWhileD)
  then have "c \<in> set (dropWhile is_ws s)" by simp
  then show "c \<in> set s" by (rule set_dropWhileD)
qed

lemma contains_str_append [simp]: "contains_str (a @ p @ b) p"
proof (induction a)
  case Nil
  show ?case by (cases "p @ b") (simp_all add: prefix_def, metis)
next
  case (Cons c a)
  then show ?case by simp
qed

lemma contains_str_iff: "contains_str s p \<longleftrightarrow> (\<exists>a b. s = a @ p @ b)"
proof
  show "contains_str s p \<Longrightarrow> \<exists>a b. s = a @ p @ b"
  proof (induction s)
    case Nil
    then show ?case by simp
  next
    case (Cons c s)
    then consider (pre) "prefix p (c # s)" | (rec) "contains_str s p" by auto
    then show ?case
    proof cases
      case pre
      then obtain b where "c # s = [] @ p @ b" by (auto simp: prefix_def)
      then show ?thesis by blast
    next
      case rec
      with Cons.IH obtain a b where "c # s = (c # a) @ p @ b" by auto
      then show ?thesis by blast
    qed
  qed
qed auto

section \<open>Splitting and joining\<close>

text \<open>\<open>split_by p\<close> is \<open>split\<close> on a character class: it always yields at least one piece.\<close>

fun split_by :: "(char \<Rightarrow> bool) \<Rightarrow> string \<Rightarrow> string list" where
  "split_by p [] = [[]]"
| "split_by p (c # s) =
     (if p c then [] # split_by p s
      else (case split_by p s of [] \<Rightarrow> [[c]] | x # xs \<Rightarrow> (c # x) # xs))"

definition split_on :: "char \<Rightarrow> string \<Rightarrow> string list" where
  "split_on d s = split_by (\<lambda>c. c = d) s"

definition split_whitespace :: "string \<Rightarrow> string list" where
  "split_whitespace s = filter (\<lambda>x. x \<noteq> []) (split_by is_ws s)"

text \<open>\<open>split_once\<close>: the text before and after the first occurrence of the separator.\<close>

definition split_once :: "char \<Rightarrow> string \<Rightarrow> (string \<times> string) option" where
  "split_once d s =
     (if d \<in> set s then Some (takeWhile (\<lambda>c. c \<noteq> d) s, tl (dropWhile (\<lambda>c. c \<noteq> d) s)) else None)"

fun join :: "string \<Rightarrow> string list \<Rightarrow> string" where
  "join sep [] = []"
| "join sep [x] = x"
| "join sep (x # y # xs) = x @ sep @ join sep (y # xs)"

text \<open>\<open>lines\<close>: the pieces between newlines, without a final empty piece and without a
  carriage return before the newline.\<close>

definition strip_cr :: "string \<Rightarrow> string" where
  "strip_cr l = (if l \<noteq> [] \<and> last l = CHR 0x0D then butlast l else l)"

definition lines :: "string \<Rightarrow> string list" where
  "lines s =
     (let ps = split_on (CHR 0x0A) s;
          front = butlast ps;
          final = last ps
      in map strip_cr front @ (if final = [] then [] else [final]))"

lemma split_by_not_Nil [simp]: "split_by p s \<noteq> []"
  by (cases s) (auto split: list.splits)

lemma split_by_free: "(\<And>c. c \<in> set s \<Longrightarrow> \<not> p c) \<Longrightarrow> split_by p s = [s]"
  by (induction s) auto

lemma split_by_sep: "(\<And>c. c \<in> set s \<Longrightarrow> \<not> p c) \<Longrightarrow> p d \<Longrightarrow> split_by p (s @ d # t) = s # split_by p t"
  by (induction s) auto

lemma split_by_append_sep: "p d \<Longrightarrow> split_by p (a @ d # t) = split_by p a @ split_by p t"
  by (induction a) (auto split: list.splits)

text \<open>The last word of a line.\<close>

lemma last_word:
  assumes "t \<noteq> []" "\<And>c. c \<in> set t \<Longrightarrow> \<not> is_ws c" "is_ws d"
  shows "split_whitespace (a @ d # t) = split_whitespace a @ [t]"
  using assms split_by_free [of t is_ws] by (simp add: split_whitespace_def split_by_append_sep)

lemma split_by_pieces_free: "x \<in> set (split_by p s) \<Longrightarrow> c \<in> set x \<Longrightarrow> \<not> p c"
proof (induction s arbitrary: x c)
  case Nil
  then show ?case by simp
next
  case (Cons d s)
  obtain y ys where ys: "split_by p s = y # ys"
    using split_by_not_Nil by (meson neq_Nil_conv)
  have IH: "\<And>z e. z \<in> set (y # ys) \<Longrightarrow> e \<in> set z \<Longrightarrow> \<not> p e"
    using Cons.IH ys by simp
  show ?case
  proof (cases "p d")
    case True
    with Cons.prems ys IH [of x c] show ?thesis by (cases "x = []") auto
  next
    case False
    with Cons.prems ys IH [of x c] IH [of y c] show ?thesis by (cases "x = d # y") auto
  qed
qed

lemma concat_split_by: "set (concat (split_by p s)) \<subseteq> set s"
proof (induction s)
  case Nil
  then show ?case by simp
next
  case (Cons d s)
  obtain y ys where ys: "split_by p s = y # ys"
    using split_by_not_Nil by (meson neq_Nil_conv)
  show ?case using Cons.IH ys by auto
qed

lemma split_on_join:
  assumes "xs \<noteq> []" and "\<And>x. x \<in> set xs \<Longrightarrow> d \<notin> set x"
  shows "split_on d (join [d] xs) = xs"
  using assms
proof (induction xs rule: induct_list012)
  case 1
  then show ?case by simp
next
  case (2 x)
  then show ?case by (auto simp: split_on_def intro: split_by_free)
next
  case (3 x y xs)
  then have "split_on d (join [d] (x # y # xs)) = x # split_on d (join [d] (y # xs))"
    unfolding split_on_def join.simps by (subst split_by_sep [symmetric]) auto
  with 3 show ?case by simp
qed

lemma join_split_on: "join [d] (split_on d s) = s"
proof (induction s)
  case Nil
  then show ?case by (simp add: split_on_def)
next
  case (Cons c s)
  obtain y ys where ys: "split_by (\<lambda>c. c = d) s = y # ys"
    using split_by_not_Nil by (meson neq_Nil_conv)
  show ?case
    using Cons.IH ys by (cases ys) (auto simp: split_on_def)
qed

lemma join_eq_Nil: "join [d] xs = [] \<longleftrightarrow> xs = [] \<or> xs = [[]]"
  by (cases xs rule: remdups_adj.cases) auto

lemma set_join: "set (join sep xs) \<subseteq> set sep \<union> \<Union> (set ` set xs)"
  by (induction sep xs rule: join.induct) auto

lemma split_once_append: "d \<notin> set a \<Longrightarrow> split_once d (a @ d # b) = Some (a, b)"
  by (induction a) (auto simp: split_once_def)

section \<open>Decimal numbers\<close>

fun show_nat :: "nat \<Rightarrow> string" where
  "show_nat n = (if n < 10 then [digit_char n] else show_nat (n div 10) @ [digit_char (n mod 10)])"

declare show_nat.simps [simp del]

definition show_u64 :: "u64 \<Rightarrow> string" where
  "show_u64 w = show_nat (unat w)"

definition show_u32 :: "u32 \<Rightarrow> string" where
  "show_u32 w = show_nat (unat w)"

definition show_i64 :: "i64 \<Rightarrow> string" where
  "show_i64 w = (if sint w < 0 then CHR ''-'' # show_nat (nat (- sint w)) else show_nat (nat (sint w)))"

definition digits_value :: "string \<Rightarrow> nat" where
  "digits_value s = foldl (\<lambda>a c. a * 10 + digit_val c) 0 s"

definition parse_digits :: "string \<Rightarrow> nat option" where
  "parse_digits s = (if s \<noteq> [] \<and> list_all is_digit s then Some (digits_value s) else None)"

text \<open>An unsigned parser accepts one leading \<open>+\<close>; a signed one also a leading \<open>-\<close>.\<close>

definition strip_plus :: "string \<Rightarrow> string" where
  "strip_plus s = (case s of c # t \<Rightarrow> (if c = CHR ''+'' then t else s) | [] \<Rightarrow> [])"

definition parse_bounded :: "nat \<Rightarrow> string \<Rightarrow> nat option" where
  "parse_bounded b s = Option.bind (parse_digits (strip_plus s)) (\<lambda>n. if n < b then Some n else None)"

definition parse_u64 :: "string \<Rightarrow> u64 option" where
  "parse_u64 s = map_option word_of_nat (parse_bounded (2 ^ 64) s)"

definition parse_u32 :: "string \<Rightarrow> u32 option" where
  "parse_u32 s = map_option word_of_nat (parse_bounded (2 ^ 32) s)"

definition parse_i64 :: "string \<Rightarrow> i64 option" where
  "parse_i64 s =
     (case s of
        c # t \<Rightarrow>
          (if c = CHR ''-''
           then Option.bind (parse_digits t)
                  (\<lambda>n. if n \<le> 2 ^ 63 then Some (- word_of_nat n) else None)
           else map_option word_of_nat (parse_bounded (2 ^ 63) s))
      | [] \<Rightarrow> None)"

lemma show_nat_digits: "list_all is_digit (show_nat n)"
proof (induction n rule: show_nat.induct)
  case (1 n)
  then show ?case by (subst show_nat.simps) auto
qed

lemma show_nat_not_Nil [simp]: "show_nat n \<noteq> []"
  by (subst show_nat.simps) simp

lemma digits_value_show_nat [simp]: "digits_value (show_nat n) = n"
proof (induction n rule: show_nat.induct)
  case (1 n)
  show ?case
  proof (cases "n < 10")
    case True
    then show ?thesis by (simp add: show_nat.simps [of n] digits_value_def)
  next
    case False
    with "1.IH" have "digits_value (show_nat (n div 10)) = n div 10" by simp
    with False show ?thesis by (simp add: show_nat.simps [of n] digits_value_def)
  qed
qed

lemma parse_digits_show_nat [simp]: "parse_digits (show_nat n) = Some n"
  by (simp add: parse_digits_def show_nat_digits)

lemma hd_show_nat_digit: "is_digit (hd (show_nat n))"
  using show_nat_digits [of n] by (cases "show_nat n") auto

lemma strip_plus_show_nat [simp]: "strip_plus (show_nat n) = show_nat n"
  using hd_show_nat_digit [of n] by (cases "show_nat n") (auto simp: strip_plus_def is_digit_def)

lemma trimmed_show_nat [simp]: "trimmed (show_nat n)"
  using show_nat_digits [of n] by (intro no_ws_trimmed) (auto simp: list_all_iff digit_not_ws)

lemma not_in_show_nat: "\<not> is_digit c \<Longrightarrow> c \<notin> set (show_nat n)"
  using show_nat_digits [of n] by (auto simp: list_all_iff)

lemma parse_u64_show [simp]: "parse_u64 (show_u64 w) = Some w"
  using unat_bounds(4) [of w] by (simp add: parse_u64_def show_u64_def parse_bounded_def)

lemma parse_u32_show [simp]: "parse_u32 (show_u32 w) = Some w"
  using unat_bounds(3) [of w] by (simp add: parse_u32_def show_u32_def parse_bounded_def)

lemma parse_u64_non_digit: "c \<in> set s \<Longrightarrow> \<not> is_digit c \<Longrightarrow> c \<noteq> CHR ''+'' \<Longrightarrow> parse_u64 s = None"
  by (cases s) (auto simp: parse_u64_def parse_bounded_def strip_plus_def parse_digits_def list_all_iff)

section \<open>Bytes and text\<close>

definition text_bytes :: "string \<Rightarrow> byte list" where
  "text_bytes s = map (\<lambda>c. word_of_nat (of_char c)) s"

definition bytes_text :: "byte list \<Rightarrow> string" where
  "bytes_text bs = map (\<lambda>b. char_of (unat b)) bs"

text \<open>The well-formed byte sequences of UTF-8, as \<open>String::from_utf8\<close> checks them.\<close>

definition in_range :: "nat \<Rightarrow> nat \<Rightarrow> byte \<Rightarrow> bool" where
  "in_range lo hi b \<longleftrightarrow> lo \<le> unat b \<and> unat b \<le> hi"

fun valid_utf8 :: "byte list \<Rightarrow> bool" where
  "valid_utf8 [] \<longleftrightarrow> True"
| "valid_utf8 (a # bs) \<longleftrightarrow>
     (if in_range 0 0x7F a then valid_utf8 bs
      else if in_range 0xC2 0xDF a then
        (case bs of b # r \<Rightarrow> in_range 0x80 0xBF b \<and> valid_utf8 r | [] \<Rightarrow> False)
      else if in_range 0xE0 0xEF a then
        (case bs of
           b # c # r \<Rightarrow>
             in_range (if unat a = 0xE0 then 0xA0 else 0x80) (if unat a = 0xED then 0x9F else 0xBF) b
             \<and> in_range 0x80 0xBF c \<and> valid_utf8 r
         | _ \<Rightarrow> False)
      else if in_range 0xF0 0xF4 a then
        (case bs of
           b # c # d # r \<Rightarrow>
             in_range (if unat a = 0xF0 then 0x90 else 0x80) (if unat a = 0xF4 then 0x8F else 0xBF) b
             \<and> in_range 0x80 0xBF c \<and> in_range 0x80 0xBF d \<and> valid_utf8 r
         | _ \<Rightarrow> False)
      else False)"

definition from_utf8 :: "byte list \<Rightarrow> string option" where
  "from_utf8 bs = (if valid_utf8 bs then Some (bytes_text bs) else None)"

lemma bytes_text_text_bytes [simp]: "bytes_text (text_bytes s) = s"
proof -
  have "unat (word_of_nat (of_char c) :: byte) = of_char c" for c
    by (simp add: unat_of_nat)
  then show ?thesis by (simp add: bytes_text_def text_bytes_def comp_def)
qed

end
