(* ===== verification/Wire_Message.thy ===== *)
theory Wire_Message
  imports Prelude
begin

text \<open>
  The framed network messages of \<open>crates/btrfs-protocol/src/message.rs\<close>: message types and
  their codes, \<open>Message::encode\<close> and \<open>Message::decode\<close>, the payload structures, and the
  interface \<open>framing\<close> that the connection layer relies on.
\<close>

section \<open>Constants and message types\<close>

definition MAGIC :: "byte list" where
  "MAGIC = [0x42, 0x54, 0x52, 0x46]"

definition PROTOCOL_VERSION :: u16 where
  "PROTOCOL_VERSION = 1"

definition MAX_PAYLOAD_SIZE :: nat where
  "MAX_PAYLOAD_SIZE = 64 * 1024 * 1024"

datatype message_type =
    Auth | AuthOk | AuthFailed
  | Heartbeat | HeartbeatAck
  | CreateVolume | CreateVolumeAck | DeleteVolume | DeleteVolumeAck | GetVolumeInfo | GetVolumeInfoAck
  | SendStart | SendData | SendComplete | SendError | SendIncrementalStart
  | NodeJoin | NodeLeave | NodeList | NodeListAck
  | StateSync | StateSyncAck | VolumeList | VolumeListAck
  | QuorumVote | QuorumVoteResponse | ConflictDetected
  | VolumeUnpublish | VolumeUnpublishAck

text \<open>The discriminants of the enum (\<open>msg_type as u16\<close>).\<close>

fun type_code :: "message_type \<Rightarrow> u16" where
  "type_code Auth = 0x0001"
| "type_code AuthOk = 0x0002"
| "type_code AuthFailed = 0x0003"
| "type_code Heartbeat = 0x0100"
| "type_code HeartbeatAck = 0x0101"
| "type_code CreateVolume = 0x0200"
| "type_code CreateVolumeAck = 0x0201"
| "type_code DeleteVolume = 0x0202"
| "type_code DeleteVolumeAck = 0x0203"
| "type_code GetVolumeInfo = 0x0204"
| "type_code GetVolumeInfoAck = 0x0205"
| "type_code SendStart = 0x0300"
| "type_code SendData = 0x0301"
| "type_code SendComplete = 0x0302"
| "type_code SendError = 0x0303"
| "type_code SendIncrementalStart = 0x0304"
| "type_code NodeJoin = 0x0400"
| "type_code NodeLeave = 0x0401"
| "type_code NodeList = 0x0402"
| "type_code NodeListAck = 0x0403"
| "type_code StateSync = 0x0500"
| "type_code StateSyncAck = 0x0501"
| "type_code VolumeList = 0x0502"
| "type_code VolumeListAck = 0x0503"
| "type_code QuorumVote = 0x0600"
| "type_code QuorumVoteResponse = 0x0601"
| "type_code ConflictDetected = 0x0602"
| "type_code VolumeUnpublish = 0x0700"
| "type_code VolumeUnpublishAck = 0x0701"

text \<open>The arms of the \<open>match\<close> in \<open>decode\<close>, in their order.\<close>

definition type_arms :: "(u16 \<times> message_type) list" where
  "type_arms =
    [(0x0001, Auth), (0x0002, AuthOk), (0x0003, AuthFailed),
     (0x0100, Heartbeat), (0x0101, HeartbeatAck),
     (0x0200, CreateVolume), (0x0201, CreateVolumeAck), (0x0202, DeleteVolume),
     (0x0203, DeleteVolumeAck), (0x0204, GetVolumeInfo), (0x0205, GetVolumeInfoAck),
     (0x0300, SendStart), (0x0301, SendData), (0x0302, SendComplete), (0x0303, SendError),
     (0x0304, SendIncrementalStart),
     (0x0400, NodeJoin), (0x0401, NodeLeave), (0x0402, NodeList), (0x0403, NodeListAck),
     (0x0500, StateSync), (0x0501, StateSyncAck), (0x0502, VolumeList), (0x0503, VolumeListAck),
     (0x0600, QuorumVote), (0x0601, QuorumVoteResponse), (0x0602, ConflictDetected),
     (0x0700, VolumeUnpublish), (0x0701, VolumeUnpublishAck)]"

definition type_of_code :: "u16 \<Rightarrow> message_type option" where
  "type_of_code c = map_of type_arms c"

section \<open>Messages\<close>

record message =
  msg_type :: message_type
  payload :: "byte list"
  timestamp :: i64

text \<open>\<open>Message::new\<close> stamps the message with the current time, read by the caller.\<close>

definition new_message :: "message_type \<Rightarrow> byte list \<Rightarrow> i64 \<Rightarrow> message" where
  "new_message t p now = \<lparr>msg_type = t, payload = p, timestamp = now\<rparr>"

definition encode :: "message \<Rightarrow> byte list" where
  "encode m = MAGIC @ put_u16 PROTOCOL_VERSION @ put_u16 (type_code (msg_type m))
     @ put_u32 (word_of_nat (length (payload m))) @ put_i64 (timestamp m) @ payload m"

datatype decode_error =
    InvalidMagic | UnsupportedVersion u16 | PayloadTooLarge nat | UnknownMessageType

text \<open>\<open>decode\<close> returns its result and the buffer it leaves behind; the buffer is advanced
  before the type code is looked up.\<close>

definition decode :: "byte list \<Rightarrow> (decode_error + message option) \<times> byte list" where
  "decode buf =
     (if length buf < 20 then (Inr None, buf)
      else if subrange 0 4 buf \<noteq> MAGIC then (Inl InvalidMagic, buf)
      else
        let version = get_u16 (subrange 4 6 buf) in
        if version \<noteq> PROTOCOL_VERSION then (Inl (UnsupportedVersion version), buf)
        else
          let code = get_u16 (subrange 6 8 buf);
              payload_len = unat (get_u32 (subrange 8 12 buf));
              ts = get_i64 (subrange 12 20 buf) in
          if MAX_PAYLOAD_SIZE < payload_len then (Inl (PayloadTooLarge payload_len), buf)
          else if length buf < 20 + payload_len then (Inr None, buf)
          else
            let p = subrange 20 (20 + payload_len) buf;
                rest = drop (20 + payload_len) buf in
            (case type_of_code code of
               None \<Rightarrow> (Inl UnknownMessageType, rest)
             | Some t \<Rightarrow> (Inr (Some \<lparr>msg_type = t, payload = p, timestamp = ts\<rparr>), rest)))"

text \<open>A message whose payload respects the limit both sides assume.\<close>

definition sendable :: "message \<Rightarrow> bool" where
  "sendable m \<longleftrightarrow> length (payload m) \<le> MAX_PAYLOAD_SIZE"

section \<open>Payload structures\<close>

type_synonym clock_entries = "(string \<times> u64) list"

record node_info =
  ni_id :: string
  ni_addr :: string
  ni_zone :: string
  ni_role :: string
  ni_free_space :: u64
  ni_last_seen :: i64

record heartbeat_payload =
  hb_node_id :: string
  hb_addr :: string
  hb_zone :: string
  hb_role :: string
  hb_free_space :: u64

record send_start_request =
  ss_volume_id :: string
  ss_snapshot_name :: string
  ss_is_incremental :: bool
  ss_parent_snapshot :: "string option"

record send_complete_response =
  sc_volume_id :: string
  sc_success :: bool
  sc_error :: "string option"
  sc_checksum :: "string option"

record volume_unpublish_request =
  vu_volume_id :: string
  vu_node_id :: string

record quorum_vote_request =
  qr_volume_id :: string
  qr_epoch :: u64
  qr_vector_clock :: clock_entries
  qr_requester_node :: string

record quorum_vote_response =
  qv_volume_id :: string
  qv_peer_epoch :: u64
  qv_peer_vector_clock :: clock_entries
  qv_vote_granted :: bool
  qv_peer_node :: string
  qv_conflict :: bool

record conflict_info =
  ci_volume_id :: string
  ci_node_a :: string
  ci_node_b :: string
  ci_epoch_a :: u64
  ci_epoch_b :: u64
  ci_vector_clock_a :: clock_entries
  ci_vector_clock_b :: clock_entries

record epoch_info =
  ep_volume_id :: string
  ep_epoch :: u64
  ep_vector_clock :: clock_entries
  ep_status :: string
  ep_last_synced_from :: "string option"

section \<open>Type codes\<close>

lemma type_of_code_type_code [simp]: "type_of_code (type_code t) = Some t"
  by (cases t) (simp_all add: type_of_code_def type_arms_def)

lemma type_code_of_code: "type_of_code c = Some t \<Longrightarrow> type_code t = c"
proof -
  assume "type_of_code c = Some t"
  then have "(c, t) \<in> set type_arms"
    unfolding type_of_code_def by (rule map_of_SomeD)
  then show ?thesis by (auto simp: type_arms_def)
qed

section \<open>Lengths and fields of a frame\<close>

lemma length_MAGIC [simp, wire_simps]: "length MAGIC = 4"
  by (simp add: MAGIC_def)

lemma length_encode [simp, wire_simps]: "length (encode m) = 20 + length (payload m)"
  by (simp add: encode_def)

lemma sendable_len32: "sendable m \<Longrightarrow> unat (word_of_nat (length (payload m)) :: u32) = length (payload m)"
  by (simp add: sendable_def MAX_PAYLOAD_SIZE_def unat_of_nat)

text \<open>The header of an encoded message, read back field by field from any buffer that
  starts with at least the header.\<close>

lemma encode_fields:
  "subrange 0 4 (encode m @ r) = MAGIC"
  "subrange 4 6 (encode m @ r) = put_u16 PROTOCOL_VERSION"
  "subrange 6 8 (encode m @ r) = put_u16 (type_code (msg_type m))"
  "subrange 8 12 (encode m @ r) = put_u32 (word_of_nat (length (payload m)))"
  "subrange 12 20 (encode m @ r) = put_i64 (timestamp m)"
  "subrange 20 (20 + length (payload m)) (encode m @ r) = payload m"
  by (simp_all add: encode_def subrange_append_left subrange_append_right subrange_0_take)

lemma decode_long_header:
  assumes "20 \<le> length buf" "subrange 0 4 buf = MAGIC"
    "get_u16 (subrange 4 6 buf) = PROTOCOL_VERSION"
  shows "decode buf =
     (let n = unat (get_u32 (subrange 8 12 buf)) in
      if MAX_PAYLOAD_SIZE < n then (Inl (PayloadTooLarge n), buf)
      else if length buf < 20 + n then (Inr None, buf)
      else (case type_of_code (get_u16 (subrange 6 8 buf)) of
               None \<Rightarrow> (Inl UnknownMessageType, drop (20 + n) buf)
             | Some t \<Rightarrow> (Inr (Some \<lparr>msg_type = t, payload = subrange 20 (20 + n) buf,
                                     timestamp = get_i64 (subrange 12 20 buf)\<rparr>), drop (20 + n) buf)))"
  using assms by (simp add: decode_def Let_def)

lemma decode_encode_append: "sendable m \<Longrightarrow> decode (encode m @ r) = (Inr (Some m), r)"
  by (subst decode_long_header)
    (simp_all add: encode_fields sendable_len32 sendable_def not_less)

lemma take_encode_fields:
  assumes "20 \<le> n" and "j \<le> 20"
  shows "subrange i j (take n (encode m)) = subrange i j (encode m)"
proof -
  have "encode m = take n (encode m) @ drop n (encode m)" by simp
  moreover have "j \<le> length (take n (encode m))" using assms by simp
  ultimately show ?thesis by (metis subrange_append_left)
qed

lemma decode_strict_prefix:
  assumes "sendable m" "strict_prefix p (encode m)"
  shows "decode p = (Inr None, p)"
proof (cases "length p < 20")
  case True
  then show ?thesis by (simp add: decode_def)
next
  case False
  from assms(2) have p: "p = take (length p) (encode m)" and len: "length p < 20 + length (payload m)"
    using prefix_length_less [OF assms(2)] by (auto simp: strict_prefix_def prefix_def)
  have fields: "subrange i j p = subrange i j (encode m @ [])" if "j \<le> 20" for i j
    using take_encode_fields [of "length p" j i m] False that p by simp
  have "subrange 0 4 p = MAGIC" "get_u16 (subrange 4 6 p) = PROTOCOL_VERSION"
    "get_u32 (subrange 8 12 p) = word_of_nat (length (payload m))"
    by (simp_all only: fields encode_fields get_put)
  with False len assms(1) show ?thesis
    by (simp add: decode_long_header sendable_len32) (simp add: sendable_def)
qed

lemma decode_waiting:
  assumes "decode buf = (Inr None, buf')"
  shows "buf' = buf \<and> length buf < 20 + MAX_PAYLOAD_SIZE"
  using assms by (auto simp: decode_def Let_def split: if_splits option.splits)

lemma decode_sound:
  assumes "decode buf = (Inr (Some m), rest)"
  shows "buf = encode m @ rest \<and> sendable m"
proof -
  let ?n = "unat (get_u32 (subrange 8 12 buf))"
  from assms have len: "20 \<le> length buf" and mg: "subrange 0 4 buf = MAGIC"
    and ver: "get_u16 (subrange 4 6 buf) = PROTOCOL_VERSION"
    by (auto simp: decode_def Let_def split: if_splits)
  from assms len mg ver have n: "?n \<le> MAX_PAYLOAD_SIZE" "20 + ?n \<le> length buf"
    and ty: "type_of_code (get_u16 (subrange 6 8 buf)) = Some (msg_type m)"
    and pl: "payload m = subrange 20 (20 + ?n) buf"
    and ts: "timestamp m = get_i64 (subrange 12 20 buf)"
    and rest: "rest = drop (20 + ?n) buf"
    by (auto simp: decode_long_header Let_def split: if_splits option.splits)
  have plen: "length (payload m) = ?n" using pl n by simp
  have "encode m = subrange 0 4 buf @ subrange 4 6 buf @ subrange 6 8 buf @ subrange 8 12 buf
      @ subrange 12 20 buf @ subrange 20 (20 + ?n) buf"
    using len put_get(1) [of "subrange 4 6 buf"] ver
    by (simp add: encode_def mg plen type_code_of_code [OF ty] put_get ts flip: pl)
  also have "\<dots> = take (20 + ?n) buf"
    by (simp add: subrange_join) (simp add: subrange_0_take)
  finally have "encode m @ rest = buf" by (simp add: rest)
  then show ?thesis using n plen by (simp add: sendable_def)
qed

lemma decode_error_buffer:
  assumes "decode buf = (Inl e, rest)"
  shows "rest = buf \<or> (e = UnknownMessageType \<and> length rest + 20 \<le> length buf)"
  using assms by (auto simp: decode_def Let_def split: if_splits option.splits)

section \<open>The interface of the frame codec\<close>

text \<open>What a connection needs of a codec: an accepted message decodes from the front of any
  buffer, an incomplete frame is waited for and leaves the buffer alone, waiting happens on
  short buffers only, and whatever is delivered was on the wire.\<close>

locale framing =
  fixes enc :: "'m \<Rightarrow> 'b list"
    and dec :: "'b list \<Rightarrow> ('e + 'm option) \<times> 'b list"
    and accepts :: "'m \<Rightarrow> bool"
    and limit :: nat
  assumes dec_enc: "accepts m \<Longrightarrow> dec (enc m @ r) = (Inr (Some m), r)"
    and dec_partial: "accepts m \<Longrightarrow> strict_prefix p (enc m) \<Longrightarrow> dec p = (Inr None, p)"
    and dec_waits: "dec buf = (Inr None, buf') \<Longrightarrow> buf' = buf \<and> length buf < limit"
    and dec_sound: "dec buf = (Inr (Some m), rest) \<Longrightarrow> buf = enc m @ rest \<and> accepts m"
    and enc_not_Nil: "enc m \<noteq> []"
begin

text \<open>However a stream that starts with a frame is cut, a reader either still waits or is
  handed exactly that frame's message.\<close>

lemma dec_front:
  assumes "accepts m" "buf @ ahead = enc m @ rest"
  shows "dec buf = (Inr None, buf) \<and> strict_prefix buf (enc m)
       \<or> (\<exists>r. buf = enc m @ r \<and> r @ ahead = rest \<and> dec buf = (Inr (Some m), r))"
proof -
  from assms(2) consider (short) "strict_prefix buf (enc m)" | (long) r where "buf = enc m @ r" "r @ ahead = rest"
    by (metis append_eq_append_conv2 append_self_conv prefix_def strict_prefix_def)
  then show ?thesis
  proof cases
    case short
    with assms(1) show ?thesis by (simp add: dec_partial)
  next
    case long
    with assms(1) show ?thesis by (auto simp: dec_enc)
  qed
qed

lemma enc_inj: "accepts m \<Longrightarrow> accepts m' \<Longrightarrow> enc m @ r = enc m' @ r' \<Longrightarrow> m = m' \<and> r = r'"
  by (metis dec_enc option.inject prod.inject sum.inject(2))

lemma dec_deterministic_stream:
  "dec buf = (Inr (Some m), rest) \<Longrightarrow> length rest < length buf"
  using dec_sound [of buf m rest] enc_not_Nil [of m] by simp

end

interpretation frame: framing encode decode sendable "20 + MAX_PAYLOAD_SIZE"
proof unfold_locales
  show "sendable m \<Longrightarrow> decode (encode m @ r) = (Inr (Some m), r)" for m r
    by (rule decode_encode_append)
  show "sendable m \<Longrightarrow> strict_prefix p (encode m) \<Longrightarrow> decode p = (Inr None, p)" for m p
    by (rule decode_strict_prefix)
  show "decode buf = (Inr None, buf') \<Longrightarrow> buf' = buf \<and> length buf < 20 + MAX_PAYLOAD_SIZE" for buf buf'
    by (rule decode_waiting)
  show "decode buf = (Inr (Some m), rest) \<Longrightarrow> buf = encode m @ rest \<and> sendable m" for buf m rest
    by (rule decode_sound)
  show "encode m \<noteq> []" for m
    using length_encode [of m] by fastforce
qed

section \<open>Properties of the codec\<close>

text \<open>C3. Decoding inverts encoding: a message whose payload is at most
  \<open>MAX_PAYLOAD_SIZE\<close> bytes is read back unchanged from the front of any buffer, and the bytes
  behind the frame stay in the buffer.\<close>

theorem decode_encode:
  assumes "length (payload m) \<le> MAX_PAYLOAD_SIZE"
  shows "decode (encode m @ rest) = (Inr (Some m), rest)"
  using assms by (intro frame.dec_enc) (simp add: sendable_def)

theorem decode_encode_witness:
  "decode (encode \<lparr>msg_type = QuorumVote, payload = [1, 2, 255], timestamp = 1700000000000\<rparr> @ [9, 9])
     = (Inr (Some \<lparr>msg_type = QuorumVote, payload = [1, 2, 255], timestamp = 1700000000000\<rparr>), [9, 9])"
  by (rule decode_encode) (simp add: MAX_PAYLOAD_SIZE_def)

text \<open>C31. Decoding never invents a message: when it delivers one, the buffer began with
  exactly that message's encoding, the rest of the buffer is kept, and the payload is within
  the limit.\<close>

theorem decode_delivers_wire_bytes:
  assumes "decode buf = (Inr (Some m), rest)"
  shows "buf = encode m @ rest \<and> length (payload m) \<le> MAX_PAYLOAD_SIZE"
  using frame.dec_sound [OF assms] by (simp add: sendable_def)

theorem decode_delivers_wire_bytes_witness:
  "MAGIC @ [0, 1, 3, 1, 0, 0, 0, 1, 0, 0, 0, 0, 0, 0, 0, 5, 7] @ [8]
     = encode \<lparr>msg_type = SendData, payload = [7], timestamp = 5\<rparr> @ [8]
   \<and> length (payload \<lparr>msg_type = SendData, payload = [7], timestamp = 5\<rparr>) \<le> MAX_PAYLOAD_SIZE"
  by (rule decode_delivers_wire_bytes)
    (simp add: decode_def MAGIC_def PROTOCOL_VERSION_def MAX_PAYLOAD_SIZE_def subrange_def
      get_u16_def get_u32_def get_i64_def be_value_def type_of_code_def type_arms_def)

text \<open>C32. Memory is bounded and oversized frames are refused early: a buffer on which
  \<open>decode\<close> asks for more input is shorter than header plus \<open>MAX_PAYLOAD_SIZE\<close> and is left
  untouched, and a header announcing a larger payload is an error as soon as the 20 header
  bytes are there.\<close>

theorem decode_bounded_waiting:
  "(\<forall>buf buf'. decode buf = (Inr None, buf') \<longrightarrow> buf' = buf \<and> length buf < 20 + MAX_PAYLOAD_SIZE)
   \<and> (\<forall>code n ts ahead. MAX_PAYLOAD_SIZE < unat n \<longrightarrow>
        decode (MAGIC @ put_u16 PROTOCOL_VERSION @ put_u16 code @ put_u32 n @ put_i64 ts @ ahead)
          = (Inl (PayloadTooLarge (unat n)),
             MAGIC @ put_u16 PROTOCOL_VERSION @ put_u16 code @ put_u32 n @ put_i64 ts @ ahead))"
proof (intro conjI allI impI)
  fix code n ts ahead
  assume "MAX_PAYLOAD_SIZE < unat (n :: u32)"
  then show "decode (MAGIC @ put_u16 PROTOCOL_VERSION @ put_u16 code @ put_u32 n @ put_i64 ts @ ahead)
          = (Inl (PayloadTooLarge (unat n)),
             MAGIC @ put_u16 PROTOCOL_VERSION @ put_u16 code @ put_u32 n @ put_i64 ts @ ahead)"
    by (subst decode_long_header)
      (simp_all add: subrange_append_left subrange_append_right subrange_0_take)
next
  show "decode buf = (Inr None, buf') \<Longrightarrow> buf' = buf" for buf buf'
    using frame.dec_waits by blast
  show "decode buf = (Inr None, buf') \<Longrightarrow> length buf < 20 + MAX_PAYLOAD_SIZE" for buf buf'
    using frame.dec_waits by blast
qed

theorem decode_bounded_waiting_witness:
  "decode (MAGIC @ put_u16 PROTOCOL_VERSION @ put_u16 3 @ put_u32 0xFFFFFFFF @ put_i64 0 @ [])
     = (Inl (PayloadTooLarge 4294967295),
        MAGIC @ put_u16 PROTOCOL_VERSION @ put_u16 3 @ put_u32 0xFFFFFFFF @ put_i64 0 @ [])"
  using decode_bounded_waiting [THEN conjunct2, rule_format, of "0xFFFFFFFF" 3 0 "[]"]
  by (simp add: MAX_PAYLOAD_SIZE_def)

end
