(* ===== verification/Environment.thy ===== *)
theory Environment
  imports Rust_Text Wire_Message
begin

text \<open>
  What the driver uses and does not contain: external programs (\<open>btrfs\<close>, \<open>setfattr\<close>,
  \<open>mount\<close>, \dots), the file system, the clock, random numbers, sockets, the cryptographic
  crates and \<open>serde_json\<close>. They are one record of functions over an abstract world \<open>'w\<close>, an
  argument of every definition that uses them; what a theorem relies on of them is a
  hypothesis of that theorem. No definition here models code of the repository except
  \<open>BtrfsCommand\<close> (\<open>crates/btrfs-ops/src/commands.rs\<close>).
\<close>

section \<open>The parameters\<close>

text \<open>The result of a finished process (\<open>std::process::Output\<close>), with its streams decoded as
  text; an action that yields \<open>Inl\<close> could not be started.\<close>

record cmd_output =
  success :: bool
  stdout :: string
  stderr :: string

datatype read_result = ReadOk "byte list" | ReadTimeout | ReadErr string

datatype write_result = WriteOk | WriteTimeout | WriteErr string

text \<open>The calendar functions of the \<open>chrono\<close> crate; an instant is its distance from 1970 in
  nanoseconds.\<close>

record chrono =
  stamp_text :: "int \<Rightarrow> string"
  parse_datetime :: "string \<Rightarrow> int option"
  on_sunday :: "int \<Rightarrow> bool"
  day_of_month :: "int \<Rightarrow> nat"

record crypto =
  hmac_sha256 :: "byte list \<Rightarrow> byte list \<Rightarrow> byte list"
  sha256 :: "byte list \<Rightarrow> byte list"
  hex_decode :: "byte list \<Rightarrow> byte list option"
  blake3_hex :: "byte list \<Rightarrow> string"
  has_aesni :: bool
  aes_seal :: "byte list \<Rightarrow> byte list \<Rightarrow> byte list \<Rightarrow> byte list"
  aes_open :: "byte list \<Rightarrow> byte list \<Rightarrow> byte list \<Rightarrow> byte list option"
  xchacha_seal :: "byte list \<Rightarrow> byte list \<Rightarrow> byte list \<Rightarrow> byte list"
  xchacha_open :: "byte list \<Rightarrow> byte list \<Rightarrow> byte list \<Rightarrow> byte list option"

text \<open>The JSON object a published volume carries.\<close>

record publish_context =
  pc_path :: string
  pc_node_id :: string
  pc_readonly :: bool

text \<open>\<open>serde_json::to_vec\<close> and \<open>serde_json::from_slice\<close> at the types the driver uses.\<close>

record json =
  heartbeat_to :: "heartbeat_payload \<Rightarrow> byte list"
  heartbeat_from :: "byte list \<Rightarrow> heartbeat_payload option"
  nodes_to :: "node_info list \<Rightarrow> byte list"
  nodes_from :: "byte list \<Rightarrow> node_info list option"
  vote_req_to :: "quorum_vote_request \<Rightarrow> byte list"
  vote_req_from :: "byte list \<Rightarrow> quorum_vote_request option"
  vote_resp_to :: "quorum_vote_response \<Rightarrow> byte list"
  vote_resp_from :: "byte list \<Rightarrow> quorum_vote_response option"
  conflict_to :: "conflict_info \<Rightarrow> byte list"
  conflict_from :: "byte list \<Rightarrow> conflict_info option"
  delete_to :: "string \<Rightarrow> byte list"
  delete_from :: "byte list \<Rightarrow> string option"
  unpublish_to :: "volume_unpublish_request \<Rightarrow> byte list"
  unpublish_from :: "byte list \<Rightarrow> volume_unpublish_request option"
  start_to :: "send_start_request \<Rightarrow> byte list"
  start_from :: "byte list \<Rightarrow> send_start_request option"
  complete_to :: "send_complete_response \<Rightarrow> byte list"
  complete_from :: "byte list \<Rightarrow> send_complete_response option"
  context_to :: "publish_context \<Rightarrow> string option"

record 'w env =
  run_cmd :: "string \<Rightarrow> string list \<Rightarrow> ('w, string + cmd_output) io"
  now_ms :: "('w, i64) io"
  utc_now :: "('w, int) io"
  sleep_ms :: "u64 \<Rightarrow> ('w, unit) io"
  new_uuid :: "('w, string) io"
  random_bytes :: "nat \<Rightarrow> ('w, byte list) io"
  read_dir :: "string \<Rightarrow> ('w, string list option) io"
  path_exists :: "string \<Rightarrow> ('w, bool) io"
  create_dir_all :: "string \<Rightarrow> ('w, string + unit) io"
  remove_dir_all :: "string \<Rightarrow> ('w, bool) io"
  read_file :: "string \<Rightarrow> ('w, string option) io"
  write_file :: "string \<Rightarrow> string \<Rightarrow> ('w, string + unit) io"
  valid_addr :: "string \<Rightarrow> bool"
  tcp_connect :: "string \<Rightarrow> ('w, string + nat) io"
  tcp_accept :: "nat \<Rightarrow> ('w, string + nat) io"
  tcp_write :: "nat \<Rightarrow> byte list \<Rightarrow> ('w, string + unit) io"
  tcp_read :: "nat \<Rightarrow> ('w, read_result) io"
  peer_addr :: "nat \<Rightarrow> ('w, string + string) io"
  tcp_listen :: "string \<Rightarrow> ('w, string + nat) io"
  spawn :: "string \<Rightarrow> string list \<Rightarrow> ('w, string + nat) io"
  child_read :: "nat \<Rightarrow> ('w, string + byte list) io"
  child_write_all :: "nat \<Rightarrow> byte list \<Rightarrow> ('w, string + unit) io"
  child_write :: "nat \<Rightarrow> byte list \<Rightarrow> ('w, write_result) io"
  child_drop :: "nat \<Rightarrow> ('w, unit) io"
  child_close :: "nat \<Rightarrow> ('w, string + unit) io"
  child_kill :: "nat \<Rightarrow> ('w, unit) io"
  child_wait :: "nat \<Rightarrow> ('w, string + bool) io"
  child_stderr :: "nat \<Rightarrow> ('w, string) io"
  child_stdin :: "nat \<Rightarrow> byte list \<Rightarrow> ('w, string + unit) io"
  child_output :: "nat \<Rightarrow> ('w, string + cmd_output) io"
  is_dir :: "string \<Rightarrow> ('w, bool) io"
  remove_file :: "string \<Rightarrow> ('w, bool) io"
  mount_setattr :: "string \<Rightarrow> u64 \<Rightarrow> ('w, string + unit) io"
  ioprio_set :: "u64 \<Rightarrow> u64 \<Rightarrow> ('w, string + unit) io"
  serve_unix :: "string \<Rightarrow> ('w, string + unit) io"
  serve_tcp :: "string \<Rightarrow> ('w, string + unit) io"
  unicode_alnum :: "string \<Rightarrow> bool"
  cr :: crypto
  js :: json
  ch :: chrono

text \<open>A child process is written to through a buffered writer: \<open>child_write\<close> (with a time limit) and
  \<open>child_write_all\<close> hand it bytes, \<open>child_close\<close> shuts it down after flushing, and \<open>child_drop\<close>
  drops it. \<open>child_stdin\<close> writes to the pipe directly and \<open>child_output\<close> is \<open>wait_with_output\<close>.
  \<open>serve_unix\<close> and \<open>serve_tcp\<close> bind an address and run the gRPC server; \<open>unicode_alnum\<close> is
  \<open>char::is_alphanumeric\<close> on the encoding of a character outside ASCII.\<close>

section \<open>Documented behaviour used as hypotheses\<close>

text \<open>\<open>from_slice\<close> inverts \<open>to_vec\<close> at the types of the vote exchange.\<close>

definition vote_json_ok :: "json \<Rightarrow> bool" where
  "vote_json_ok J \<longleftrightarrow> (\<forall>q. vote_req_from J (vote_req_to J q) = Some q)
                  \<and> (\<forall>v. vote_resp_from J (vote_resp_to J v) = Some v)"

text \<open>An AEAD cipher opens what it sealed under the same key and nonce, and its output is
  at least the 16 bytes of the authentication tag.\<close>

definition aead_ok :: "crypto \<Rightarrow> bool" where
  "aead_ok C \<longleftrightarrow>
     (\<forall>k n p. aes_open C k n (aes_seal C k n p) = Some p \<and> 16 \<le> length (aes_seal C k n p))
   \<and> (\<forall>k n p. xchacha_open C k n (xchacha_seal C k n p) = Some p \<and> 16 \<le> length (xchacha_seal C k n p))"

text \<open>Opening a sealed text never gives more bytes than were sealed.\<close>

definition aead_shrinks :: "crypto \<Rightarrow> bool" where
  "aead_shrinks C \<longleftrightarrow>
     (\<forall>k n c p. aes_open C k n c = Some p \<longrightarrow> length p \<le> length c)
   \<and> (\<forall>k n c p. xchacha_open C k n c = Some p \<longrightarrow> length p \<le> length c)"

text \<open>Digest sizes: HMAC-SHA256 and SHA-256 give 32 bytes; decoding hex halves the length.\<close>

definition digest_sizes_ok :: "crypto \<Rightarrow> bool" where
  "digest_sizes_ok C \<longleftrightarrow>
     (\<forall>k d. length (hmac_sha256 C k d) = 32) \<and> (\<forall>d. length (sha256 C d) = 32)
   \<and> (\<forall>s k. hex_decode C s = Some k \<longrightarrow> length s = 2 * length k)"

section \<open>The btrfs command wrapper\<close>

text \<open>\<open>BtrfsCommand::run\<close>: the standard output of a successful run, an error otherwise.\<close>

definition btrfs_run :: "'w env \<Rightarrow> string \<Rightarrow> string list \<Rightarrow> ('w, string + string) io" where
  "btrfs_run E cmd args = do {
     r \<leftarrow> run_cmd E ''btrfs'' (cmd # args);
     State_Monad.return
       (case r of
          Inl e \<Rightarrow> Inl ''Failed to execute btrfs command''
        | Inr output \<Rightarrow>
            (if \<not> success output then Inl (''btrfs '' @ cmd @ '' failed: '' @ stderr output)
             else Inr (stdout output)))
   }"

text \<open>\<open>BtrfsCommand::run_with_stdin\<close>.\<close>

definition btrfs_run_with_stdin ::
  "'w env \<Rightarrow> string \<Rightarrow> string list \<Rightarrow> byte list \<Rightarrow> ('w, string + string) io" where
  "btrfs_run_with_stdin E cmd args input = do {
     c \<leftarrow> spawn E ''btrfs'' (cmd # args);
     case c of
       Inl e \<Rightarrow> State_Monad.return (Inl ''Failed to spawn btrfs command'')
     | Inr child \<Rightarrow> do {
         written \<leftarrow> child_stdin E child input;
         case written of
           Inl e \<Rightarrow> State_Monad.return (Inl ''Failed to write stdin'')
         | Inr _ \<Rightarrow> do {
             r \<leftarrow> child_output E child;
             State_Monad.return
               (case r of
                  Inl e \<Rightarrow> Inl ''Failed to wait for btrfs command''
                | Inr output \<Rightarrow>
                    (if \<not> success output then Inl (''btrfs '' @ cmd @ '' failed: '' @ stderr output)
                     else Inr (stdout output)))
           }
       }
   }"

text \<open>\<open>BtrfsCommand::send_volume\<close> and \<open>receive_volume\<close> are stubs in the sources: they log
  and succeed.\<close>

definition send_volume :: "string \<Rightarrow> string \<Rightarrow> u16 \<Rightarrow> string option \<Rightarrow> ('w, string + unit) io" where
  "send_volume vol_path target port parent = State_Monad.return (Inr ())"

definition receive_volume :: "string \<Rightarrow> ('w, string + unit) io" where
  "receive_volume path = State_Monad.return (Inr ())"

lemma run_btrfs_run [io_simps]:
  "run_io (btrfs_run E cmd args) w =
     (case run_io (run_cmd E ''btrfs'' (cmd # args)) w of
        (Inl e, w') \<Rightarrow> (Inl ''Failed to execute btrfs command'', w')
      | (Inr output, w') \<Rightarrow>
          (if success output then Inr (stdout output)
           else Inl (''btrfs '' @ cmd @ '' failed: '' @ stderr output), w'))"
  by (simp add: btrfs_run_def split: prod.splits sum.splits)

text \<open>\<open>Path::join\<close> as \<open>DirEntry::path\<close> uses it.\<close>

definition path_join :: "string \<Rightarrow> string \<Rightarrow> string" where
  "path_join d n = (if d = [] then n else if last d = CHR ''/'' then d @ n else d @ ''/'' @ n)"

end
