(* ===== verification/Sample_World.thy ===== *)
theory Sample_World
  imports Environment
begin

text \<open>
  One concrete environment, used by the witnesses of the theorems that have hypotheses about
  the environment: it shows that those hypotheses can hold together. Its world is an
  in-memory attribute store, a list of scripted socket reads per socket and the bytes written.
\<close>

definition sample_mac :: "byte list \<Rightarrow> byte list \<Rightarrow> byte list" where
  "sample_mac k d = take 32 (k @ d @ replicate 32 0)"

definition sample_seal :: "byte list \<Rightarrow> byte list \<Rightarrow> byte list \<Rightarrow> byte list" where
  "sample_seal k n p = p @ replicate 16 0"

definition sample_open :: "byte list \<Rightarrow> byte list \<Rightarrow> byte list \<Rightarrow> byte list option" where
  "sample_open k n c = (if 16 \<le> length c then Some (take (length c - 16) c) else None)"

definition sample_crypto :: crypto where
  "sample_crypto = \<lparr>hmac_sha256 = sample_mac, sha256 = (\<lambda>d. take 32 (d @ replicate 32 0)),
     hex_decode = (\<lambda>s. None), blake3_hex = (\<lambda>d. map (\<lambda>b. char_of (unat b)) d), has_aesni = False,
     aes_seal = sample_seal, aes_open = sample_open,
     xchacha_seal = sample_seal, xchacha_open = sample_open\<rparr>"

lemma sample_crypto_simps:
  "hmac_sha256 sample_crypto = sample_mac" "has_aesni sample_crypto = False"
  "hex_decode sample_crypto = (\<lambda>s. None)"
  by (simp_all add: sample_crypto_def)

lemma sample_crypto_laws:
  "aead_ok sample_crypto" "digest_sizes_ok sample_crypto" "aead_shrinks sample_crypto"
  by (auto simp: aead_ok_def aead_shrinks_def digest_sizes_ok_def sample_crypto_def sample_seal_def sample_open_def
      sample_mac_def)


text \<open>The world: scripted reads, bytes written, the clock, existing paths and attributes.\<close>

record sample =
  s_reads :: "read_result list"
  s_written :: "byte list"
  s_clock :: i64
  s_paths :: "string list"
  s_attrs :: "((string \<times> string) \<times> string) list"
  s_buffer :: "byte list"
  s_pipe :: "byte list"
  s_child_out :: "byte list list"
  s_killed :: bool

definition out_ok :: "string \<Rightarrow> cmd_output" where
  "out_ok s = \<lparr>success = True, stdout = s, stderr = []\<rparr>"

definition out_fail :: cmd_output where
  "out_fail = \<lparr>success = False, stdout = [], stderr = ''failed''\<rparr>"

fun sample_cmd :: "string \<Rightarrow> string list \<Rightarrow> sample \<Rightarrow> (string + cmd_output) \<times> sample" where
  "sample_cmd prog [a, k, b, c, p] w =
     (if prog = ''getfattr'' then
        (case map_of (s_attrs w) (p, k) of
           Some v \<Rightarrow> (Inr (out_ok v), w) | None \<Rightarrow> (Inr out_fail, w))
      else if prog = ''btrfs'' \<and> a = ''subvolume'' \<and> k = ''snapshot'' \<and> c \<in> set (s_paths w) then
        (Inr (out_ok []), w\<lparr>s_paths := p # s_paths w,
           s_attrs := map (\<lambda>e. ((p, snd (fst e)), snd e)) (filter (\<lambda>e. fst (fst e) = c) (s_attrs w))
                      @ filter (\<lambda>e. fst (fst e) \<noteq> p) (s_attrs w)\<rparr>)
      else (Inr out_fail, w))"
| "sample_cmd prog [a, k, b, v, c, p] w =
     (if prog = ''setfattr'' then
        (if p \<in> set (s_paths w) then (Inr (out_ok []), w\<lparr>s_attrs := ((p, k), v) # s_attrs w\<rparr>)
         else (Inr out_fail, w))
      else (Inr out_fail, w))"
| "sample_cmd prog [a, k, b, p] w =
     (if prog = ''setfattr'' then
        (Inr (out_ok []), w\<lparr>s_attrs := filter (\<lambda>e. fst e \<noteq> (p, k)) (s_attrs w)\<rparr>)
      else (Inr out_fail, w))"
| "sample_cmd prog [a, b, p] w =
     (if prog = ''btrfs'' \<and> a = ''subvolume'' \<and> b = ''show'' then
        (Inr (if p \<in> set (s_paths w) then out_ok ''Subvolume ID: 256'' else out_fail), w)
      else if prog = ''btrfs'' \<and> a = ''subvolume'' \<and> b = ''create'' then
        (if p \<in> set (s_paths w) then (Inr out_fail, w)
         else (Inr (out_ok []), w\<lparr>s_paths := p # s_paths w,
                 s_attrs := filter (\<lambda>e. fst (fst e) \<noteq> p) (s_attrs w)\<rparr>))
      else if prog = ''btrfs'' \<and> a = ''subvolume'' \<and> b = ''delete'' then
        (Inr (out_ok []), w\<lparr>s_paths := removeAll p (s_paths w),
            s_attrs := filter (\<lambda>e. fst (fst e) \<noteq> p) (s_attrs w)\<rparr>)
      else (Inr out_fail, w))"
| "sample_cmd prog args w = (Inr out_fail, w)"

text \<open>JSON codecs that encode nothing useful but the vote exchange, which they keep apart by
  its first byte; enough for the witnesses that need a decodable vote.\<close>

definition sample_json :: json where
  "sample_json = \<lparr>heartbeat_to = (\<lambda>_. []), heartbeat_from = (\<lambda>_. None),
     nodes_to = (\<lambda>_. []), nodes_from = (\<lambda>_. None),
     vote_req_to = (\<lambda>_. []), vote_req_from = (\<lambda>_. None),
     vote_resp_to = (\<lambda>_. []), vote_resp_from = (\<lambda>_. None),
     conflict_to = (\<lambda>_. []), conflict_from = (\<lambda>_. None),
     delete_to = text_bytes, delete_from = (\<lambda>b. Some (bytes_text b)),
     unpublish_to = (\<lambda>_. []), unpublish_from = (\<lambda>_. None),
     start_to = (\<lambda>_. []), start_from = (\<lambda>_. None),
     complete_to = (\<lambda>_. []), complete_from = (\<lambda>_. None),
     context_to = (\<lambda>c. Some (pc_path c @ (if pc_readonly c then '' ro'' else '' rw'')))\<rparr>"

definition sample_chrono :: chrono where
  "sample_chrono = \<lparr>stamp_text = (\<lambda>t. show_nat (nat t)), parse_datetime = (\<lambda>s. None),
     on_sunday = (\<lambda>t. (t div 86400000000000) mod 7 = 3), day_of_month = (\<lambda>t. 15)\<rparr>"

definition sample_env :: "sample env" where
  "sample_env = \<lparr>run_cmd = (\<lambda>p args. State (sample_cmd p args)),
     now_ms = State (\<lambda>w. (s_clock w, w)),
     utc_now = State (\<lambda>w. (sint (s_clock w) * 1000000, w)),
     sleep_ms = (\<lambda>d. State (\<lambda>w. ((), w\<lparr>s_clock := s_clock w + d\<rparr>))),
     new_uuid = State_Monad.return ''uuid'',
     random_bytes = (\<lambda>n. State_Monad.return (replicate n 0)),
     read_dir = (\<lambda>d. State (\<lambda>w. (Some (map (\<lambda>p. drop (Suc (length d)) p) (s_paths w)), w))),
     path_exists = (\<lambda>p. State (\<lambda>w. (p \<in> set (s_paths w), w))),
     create_dir_all = (\<lambda>p. State_Monad.return (Inr ())),
     remove_dir_all = (\<lambda>p. State_Monad.return True),
     read_file = (\<lambda>p. State_Monad.return None),
     write_file = (\<lambda>p c. State_Monad.return (Inr ())),
     valid_addr = (\<lambda>a. a \<noteq> []),
     tcp_connect = (\<lambda>a. State_Monad.return (Inl ''refused'')),
     tcp_accept = (\<lambda>l. State_Monad.return (Inr 0)),
     tcp_write = (\<lambda>s bs. State (\<lambda>w. (Inr (), w\<lparr>s_written := s_written w @ bs\<rparr>))),
     tcp_read = (\<lambda>s. State (\<lambda>w. case s_reads w of
         [] \<Rightarrow> (ReadOk [], w) | r # rs \<Rightarrow> (r, w\<lparr>s_reads := rs\<rparr>))),
     peer_addr = (\<lambda>s. State_Monad.return (Inr ''peer'')),
     tcp_listen = (\<lambda>a. State_Monad.return (Inr 0)),
     spawn = (\<lambda>p args. State_Monad.return (Inr 0)),
     child_read = (\<lambda>c. State (\<lambda>w. case s_child_out w of
         [] \<Rightarrow> (Inr [], w) | b # bs \<Rightarrow> (Inr b, w\<lparr>s_child_out := bs\<rparr>))),
     child_write_all = (\<lambda>c bs. State (\<lambda>w. (Inr (), w\<lparr>s_buffer := s_buffer w @ bs\<rparr>))),
     child_write = (\<lambda>c bs. State (\<lambda>w. (WriteOk, w\<lparr>s_buffer := s_buffer w @ bs\<rparr>))),
     child_drop = (\<lambda>c. State (\<lambda>w. ((), w\<lparr>s_buffer := []\<rparr>))),
     child_close = (\<lambda>c. State (\<lambda>w. (Inr (), w\<lparr>s_pipe := s_pipe w @ s_buffer w, s_buffer := []\<rparr>))),
     child_kill = (\<lambda>c. State (\<lambda>w. ((), w\<lparr>s_killed := True\<rparr>))),
     child_wait = (\<lambda>c. State (\<lambda>w. (Inr (\<not> s_killed w), w))),
     child_stderr = (\<lambda>c. State_Monad.return []),
     child_stdin = (\<lambda>c bs. State (\<lambda>w. (Inr (), w\<lparr>s_pipe := s_pipe w @ bs\<rparr>))),
     child_output = (\<lambda>c. State_Monad.return (Inr (out_ok []))),
     is_dir = (\<lambda>p. State (\<lambda>w. (p \<in> set (s_paths w), w))),
     remove_file = (\<lambda>p. State_Monad.return True),
     mount_setattr = (\<lambda>p a. State_Monad.return (Inl ''not supported'')),
     ioprio_set = (\<lambda>who v. State_Monad.return (Inr ())),
     serve_unix = (\<lambda>p. State_Monad.return (Inr ())),
     serve_tcp = (\<lambda>a. State_Monad.return (Inr ())),
     unicode_alnum = (\<lambda>c. False),
     cr = sample_crypto, js = sample_json, ch = sample_chrono\<rparr>"

definition sample_start :: sample where
  "sample_start = \<lparr>s_reads = [], s_written = [], s_clock = 1700000000000,
     s_paths = [''/data/vol1''],
     s_attrs = [((''/data/vol1'', ''user.csi.volume_id''), ''vol-1'')],
     s_buffer = [], s_pipe = [], s_child_out = [], s_killed = False\<rparr>"

text \<open>The fields of the environment, so that proofs need not unfold it.\<close>

lemma sample_env_simps:
  "run_cmd sample_env p args = State (sample_cmd p args)"
  "now_ms sample_env = State (\<lambda>w. (s_clock w, w))"
  "utc_now sample_env = State (\<lambda>w. (sint (s_clock w) * 1000000, w))"
  "sleep_ms sample_env ms = State (\<lambda>w. ((), w\<lparr>s_clock := s_clock w + ms\<rparr>))"
  "new_uuid sample_env = State_Monad.return ''uuid''"
  "random_bytes sample_env n = State_Monad.return (replicate n 0)"
  "read_dir sample_env d = State (\<lambda>w. (Some (map (\<lambda>p. drop (Suc (length d)) p) (s_paths w)), w))"
  "path_exists sample_env q = State (\<lambda>w. (q \<in> set (s_paths w), w))"
  "create_dir_all sample_env q = State_Monad.return (Inr ())"
  "remove_dir_all sample_env q = State_Monad.return True"
  "read_file sample_env q = State_Monad.return None"
  "valid_addr sample_env a \<longleftrightarrow> a \<noteq> []"
  "tcp_connect sample_env a = State_Monad.return (Inl ''refused'')"
  "tcp_accept sample_env l = State_Monad.return (Inr 0)"
  "tcp_write sample_env s bs = State (\<lambda>w. (Inr (), w\<lparr>s_written := s_written w @ bs\<rparr>))"
  "tcp_read sample_env s = State (\<lambda>w. case s_reads w of
         [] \<Rightarrow> (ReadOk [], w) | r # rs \<Rightarrow> (r, w\<lparr>s_reads := rs\<rparr>))"
  "tcp_listen sample_env a = State_Monad.return (Inr 0)"
  "spawn sample_env p args = State_Monad.return (Inr 0)"
  "child_read sample_env c = State (\<lambda>w. case s_child_out w of
         [] \<Rightarrow> (Inr [], w) | b # bs \<Rightarrow> (Inr b, w\<lparr>s_child_out := bs\<rparr>))"
  "child_write_all sample_env c bs = State (\<lambda>w. (Inr (), w\<lparr>s_buffer := s_buffer w @ bs\<rparr>))"
  "child_write sample_env c bs = State (\<lambda>w. (WriteOk, w\<lparr>s_buffer := s_buffer w @ bs\<rparr>))"
  "child_drop sample_env c = State (\<lambda>w. ((), w\<lparr>s_buffer := []\<rparr>))"
  "child_close sample_env c = State (\<lambda>w. (Inr (), w\<lparr>s_pipe := s_pipe w @ s_buffer w, s_buffer := []\<rparr>))"
  "peer_addr sample_env s = State_Monad.return (Inr ''peer'')"
  "child_kill sample_env c = State (\<lambda>w. ((), w\<lparr>s_killed := True\<rparr>))"
  "child_wait sample_env c = State (\<lambda>w. (Inr (\<not> s_killed w), w))"
  "child_stderr sample_env c = State_Monad.return []"
  "write_file sample_env q t = State_Monad.return (Inr ())"
  "ch sample_env = sample_chrono"
  "cr sample_env = sample_crypto" "js sample_env = sample_json"
  by (simp_all add: sample_env_def)

text \<open>An environment over any world, whose actions do nothing; witnesses override the fields they need.\<close>

definition idle_env :: "'w env" where
  "idle_env = \<lparr>run_cmd = (\<lambda>_ _. State_Monad.return (Inr (out_ok []))),
     now_ms = State_Monad.return 0,
     utc_now = State_Monad.return 0,
     sleep_ms = (\<lambda>_. State_Monad.return ()),
     new_uuid = State_Monad.return [],
     random_bytes = (\<lambda>_. State_Monad.return []),
     read_dir = (\<lambda>_. State_Monad.return None),
     path_exists = (\<lambda>_. State_Monad.return False),
     create_dir_all = (\<lambda>_. State_Monad.return (Inr ())),
     remove_dir_all = (\<lambda>_. State_Monad.return False),
     read_file = (\<lambda>_. State_Monad.return None),
     write_file = (\<lambda>_ _. State_Monad.return (Inr ())),
     valid_addr = (\<lambda>_. False),
     tcp_connect = (\<lambda>_. State_Monad.return (Inr 0)),
     tcp_accept = (\<lambda>_. State_Monad.return (Inr 0)),
     tcp_write = (\<lambda>_ _. State_Monad.return (Inr ())),
     tcp_read = (\<lambda>_. State_Monad.return (ReadOk [])),
     peer_addr = (\<lambda>_. State_Monad.return (Inr [])),
     tcp_listen = (\<lambda>_. State_Monad.return (Inr 0)),
     spawn = (\<lambda>_ _. State_Monad.return (Inr 0)),
     child_read = (\<lambda>_. State_Monad.return (Inr [])),
     child_write_all = (\<lambda>_ _. State_Monad.return (Inr ())),
     child_write = (\<lambda>_ _. State_Monad.return WriteOk),
     child_drop = (\<lambda>_. State_Monad.return ()),
     child_close = (\<lambda>_. State_Monad.return (Inr ())),
     child_kill = (\<lambda>_. State_Monad.return ()),
     child_wait = (\<lambda>_. State_Monad.return (Inr False)),
     child_stderr = (\<lambda>_. State_Monad.return []),
     child_stdin = (\<lambda>_ _. State_Monad.return (Inr ())),
     child_output = (\<lambda>_. State_Monad.return (Inr (out_ok []))),
     is_dir = (\<lambda>_. State_Monad.return False),
     remove_file = (\<lambda>_. State_Monad.return False),
     mount_setattr = (\<lambda>_ _. State_Monad.return (Inr ())),
     ioprio_set = (\<lambda>_ _. State_Monad.return (Inr ())),
     serve_unix = (\<lambda>_. State_Monad.return (Inr ())),
     serve_tcp = (\<lambda>_. State_Monad.return (Inr ())),
     unicode_alnum = (\<lambda>_. False),
     cr = sample_crypto,
     js = sample_json,
     ch = sample_chrono\<rparr>"

end
