(* ===== verification/Vector_Clock.thy ===== *)
theory Vector_Clock
  imports Rust_Text Wire_Message "HOL-Library.AList" "HOL-Library.Multiset"
begin

text \<open>
  The vector clocks of \<open>crates/btrfs-ops/src/xattr.rs\<close>: parsing and printing, comparison,
  merging and conflict detection. A \<open>HashMap<String, V>\<close> is an association list whose keys are
  distinct; its order stands for the unspecified iteration order, and the theorems hold for
  every order. The interface \<open>clock_order\<close> is what conflict detection relies on.
\<close>

section \<open>Hash maps\<close>

type_synonym 'v hmap = "(string \<times> 'v) list"

abbreviation hm_get :: "'v hmap \<Rightarrow> string \<Rightarrow> 'v option" where
  "hm_get m k \<equiv> map_of m k"

abbreviation hm_insert :: "string \<Rightarrow> 'v \<Rightarrow> 'v hmap \<Rightarrow> 'v hmap" where
  "hm_insert k v m \<equiv> AList.update k v m"

abbreviation hm_remove :: "string \<Rightarrow> 'v hmap \<Rightarrow> 'v hmap" where
  "hm_remove k m \<equiv> AList.delete k m"

abbreviation hm_wf :: "'v hmap \<Rightarrow> bool" where
  "hm_wf m \<equiv> distinct (map fst m)"

text \<open>\<open>iter().cloned().collect()\<close> into a map: later entries win.\<close>

definition hm_collect :: "(string \<times> 'v) list \<Rightarrow> 'v hmap" where
  "hm_collect es = foldl (\<lambda>m (k, v). hm_insert k v m) [] es"

lemma hm_wf_insert [simp]: "hm_wf m \<Longrightarrow> hm_wf (hm_insert k v m)"
  by (rule distinct_update)

lemma hm_wf_remove [simp]: "hm_wf m \<Longrightarrow> hm_wf (hm_remove k m)"
  by (simp add: distinct_delete)

lemma hm_get_insert [simp]: "hm_get (hm_insert k v m) x = (if x = k then Some v else hm_get m x)"
  by (simp add: update_conv')

lemma hm_get_remove [simp]: "hm_get (hm_remove k m) x = (if x = k then None else hm_get m x)"
  by (simp add: delete_conv')

lemma hm_collect_snoc: "hm_collect (es @ [(k, v)]) = hm_insert k v (hm_collect es)"
  by (simp add: hm_collect_def)

lemma hm_wf_collect [simp]: "hm_wf (hm_collect es)"
  by (induction es rule: rev_induct) (auto simp: hm_collect_snoc, simp add: hm_collect_def)

lemma hm_get_collect_distinct: "hm_wf es \<Longrightarrow> hm_get (hm_collect es) = hm_get es"
proof (induction es rule: rev_induct)
  case Nil
  then show ?case by (simp add: hm_collect_def)
next
  case (snoc e es)
  obtain k v where "e = (k, v)" by fastforce
  with snoc show ?case
    by (auto simp: hm_collect_snoc map_add_def fun_eq_iff rev_image_eqI split: option.splits dest!: map_of_SomeD)
qed

section \<open>Operations on clocks\<close>

type_synonym clock = "u64 hmap"

definition parse_clock_pair :: "clock \<Rightarrow> string \<Rightarrow> clock" where
  "parse_clock_pair m pair =
     (case split_once (CHR '':'') (trim pair) of
        None \<Rightarrow> m
      | Some (node, epoch) \<Rightarrow>
          (case parse_u64 (trim epoch) of None \<Rightarrow> m | Some e \<Rightarrow> hm_insert (trim node) e m))"

definition parse_vector_clock :: "string \<Rightarrow> clock" where
  "parse_vector_clock val = foldl parse_clock_pair [] (split_on (CHR '','') val)"

definition format_entry :: "string \<times> u64 \<Rightarrow> string" where
  "format_entry e = fst e @ '':'' @ show_u64 (snd e)"

definition format_vector_clock :: "clock \<Rightarrow> string" where
  "format_vector_clock c = join '','' (sort (map format_entry c))"

definition merge_vector_clocks :: "clock \<Rightarrow> clock \<Rightarrow> clock" where
  "merge_vector_clocks local remote =
     foldl (\<lambda>m (node, epoch). hm_insert node (max (unwrap_or (hm_get m node) 0) epoch) m) local remote"

definition vector_clock_le :: "clock \<Rightarrow> clock \<Rightarrow> bool" where
  "vector_clock_le a b \<longleftrightarrow>
     list_all (\<lambda>(node, epoch_a). \<not> unwrap_or (hm_get b node) 0 < epoch_a) a"

definition has_conflict :: "clock \<Rightarrow> clock \<Rightarrow> bool" where
  "has_conflict local remote =
     (if local = [] \<or> remote = [] then False
      else \<not> vector_clock_le local remote \<and> \<not> vector_clock_le remote local)"

text \<open>The entry update of a migration: add one to this node's component.\<close>

definition bump_clock :: "string \<Rightarrow> clock \<Rightarrow> clock" where
  "bump_clock node c =
     hm_insert node (case hm_get c node of None \<Rightarrow> 1 | Some e \<Rightarrow> e + 1) c"

section \<open>Components of a clock\<close>

text \<open>The component of a node, 0 when the node is absent: the meaning of a clock.\<close>

definition component :: "clock \<Rightarrow> string \<Rightarrow> u64" where
  "component c k = unwrap_or (hm_get c k) 0"

lemma component_Nil [simp]: "component [] k = 0"
  by (simp add: component_def)

lemma vector_clock_le_iff: "hm_wf a \<Longrightarrow> vector_clock_le a b \<longleftrightarrow> (\<forall>k. component a k \<le> component b k)"
proof
  assume wf: "hm_wf a" and le: "vector_clock_le a b"
  show "\<forall>k. component a k \<le> component b k"
  proof
    fix k
    show "component a k \<le> component b k"
    proof (cases "hm_get a k")
      case None
      then show ?thesis by (simp add: component_def)
    next
      case (Some e)
      then have "(k, e) \<in> set a" by (rule map_of_SomeD)
      with le Some show ?thesis by (auto simp: vector_clock_le_def list_all_iff component_def not_less)
    qed
  qed
next
  assume wf: "hm_wf a" and le: "\<forall>k. component a k \<le> component b k"
  show "vector_clock_le a b"
    unfolding vector_clock_le_def list_all_iff
  proof
    fix p assume "p \<in> set a"
    then obtain k e where p: "p = (k, e)" "(k, e) \<in> set a" by (metis surj_pair)
    with wf have "component a k = e" by (simp add: component_def)
    with le p show "case p of (node, epoch_a) \<Rightarrow> \<not> unwrap_or (hm_get b node) 0 < epoch_a"
      by (metis component_def case_prod_conv not_less)
  qed
qed

lemma merge_wf [simp]: "hm_wf a \<Longrightarrow> hm_wf (merge_vector_clocks a b)"
  unfolding merge_vector_clocks_def
  by (induction b arbitrary: a) (auto simp: split_beta)

lemma component_insert [simp]: "component (hm_insert k v c) x = (if x = k then v else component c x)"
  by (simp add: component_def)

lemma merge_at: "hm_wf b \<Longrightarrow> component (merge_vector_clocks a b) k = max (component a k) (component b k)"
  unfolding merge_vector_clocks_def
proof (induction b arbitrary: a)
  case Nil
  then show ?case by (simp add: max_def)
next
  case (Cons p b)
  obtain n e where p: "p = (n, e)" by fastforce
  with Cons.prems have nb: "hm_get b n = None" by (simp add: map_of_eq_None_iff)
  let ?a = "hm_insert n (max (component a n) e) a"
  have "component (foldl (\<lambda>m (node, epoch). hm_insert node (max (unwrap_or (hm_get m node) 0) epoch) m) a (p # b)) k
      = component (foldl (\<lambda>m (node, epoch). hm_insert node (max (unwrap_or (hm_get m node) 0) epoch) m) ?a b) k"
    by (simp add: p component_def)
  also have "\<dots> = max (component ?a k) (component b k)" using Cons by simp
  also have "\<dots> = max (component a k) (component (p # b) k)"
    using nb by (auto simp: p component_def max_def)
  finally show ?case .
qed

section \<open>The interface conflict detection relies on\<close>

text \<open>A comparison and a merge on well-formed clocks: a preorder with least upper bounds and
  the empty clock below everything.\<close>

locale clock_order =
  fixes wf :: "'c \<Rightarrow> bool" and le :: "'c \<Rightarrow> 'c \<Rightarrow> bool" and merge :: "'c \<Rightarrow> 'c \<Rightarrow> 'c"
    and bot :: "'c"
  assumes le_refl: "wf a \<Longrightarrow> le a a"
    and le_trans: "wf a \<Longrightarrow> wf b \<Longrightarrow> wf c \<Longrightarrow> le a b \<Longrightarrow> le b c \<Longrightarrow> le a c"
    and wf_merge: "wf a \<Longrightarrow> wf b \<Longrightarrow> wf (merge a b)"
    and merge_upper1: "wf a \<Longrightarrow> wf b \<Longrightarrow> le a (merge a b)"
    and merge_upper2: "wf a \<Longrightarrow> wf b \<Longrightarrow> le b (merge a b)"
    and merge_least: "wf a \<Longrightarrow> wf b \<Longrightarrow> wf c \<Longrightarrow> le a c \<Longrightarrow> le b c \<Longrightarrow> le (merge a b) c"
    and bot_least: "wf bot \<and> le bot a"
begin

text \<open>Merging a clock that is already below changes nothing, and merges agree in any order,
  up to \<open>le\<close> both ways.\<close>

lemma merge_absorb: "wf a \<Longrightarrow> wf b \<Longrightarrow> le b a \<Longrightarrow> le (merge a b) a \<and> le a (merge a b)"
  by (simp add: merge_least merge_upper1 le_refl)

lemma merge_commute: "wf a \<Longrightarrow> wf b \<Longrightarrow> le (merge a b) (merge b a)"
  by (simp add: merge_least merge_upper1 merge_upper2 wf_merge)

lemma merge_assoc:
  assumes w: "wf a" "wf b" "wf c"
  shows "le (merge (merge a b) c) (merge a (merge b c))"
proof -
  let ?m = "merge a (merge b c)"
  have wm: "wf (merge b c)" "wf (merge a b)" "wf ?m" using w by (simp_all add: wf_merge)
  have bc: "le (merge b c) ?m" using w wm by (simp add: merge_upper2)
  have "le a ?m" using w wm by (simp add: merge_upper1)
  moreover have "le b ?m" by (rule le_trans [OF w(2) wm(1,3) merge_upper1 [OF w(2,3)] bc])
  moreover have "le c ?m" by (rule le_trans [OF w(3) wm(1,3) merge_upper2 [OF w(2,3)] bc])
  ultimately show ?thesis using w wm by (simp add: merge_least)
qed

text \<open>A clock above both sides of a conflict is in conflict with neither.\<close>

lemma merge_resolves: "wf a \<Longrightarrow> wf b \<Longrightarrow> le a (merge a b) \<or> le (merge a b) a"
  by (simp add: merge_upper1)

end

interpretation vc: clock_order hm_wf vector_clock_le merge_vector_clocks "[]"
proof unfold_locales
  fix a b c :: clock
  show "hm_wf a \<Longrightarrow> vector_clock_le a a" by (simp add: vector_clock_le_iff)
  show "hm_wf a \<Longrightarrow> hm_wf b \<Longrightarrow> hm_wf c \<Longrightarrow> vector_clock_le a b \<Longrightarrow> vector_clock_le b c \<Longrightarrow> vector_clock_le a c"
    by (meson order_trans vector_clock_le_iff)
  show "hm_wf a \<Longrightarrow> hm_wf b \<Longrightarrow> hm_wf (merge_vector_clocks a b)" by simp
  show "hm_wf a \<Longrightarrow> hm_wf b \<Longrightarrow> vector_clock_le a (merge_vector_clocks a b)"
    by (simp add: vector_clock_le_iff merge_at)
  show "hm_wf a \<Longrightarrow> hm_wf b \<Longrightarrow> vector_clock_le b (merge_vector_clocks a b)"
    by (simp add: vector_clock_le_iff merge_at)
  show "hm_wf a \<Longrightarrow> hm_wf b \<Longrightarrow> hm_wf c \<Longrightarrow> vector_clock_le a c \<Longrightarrow> vector_clock_le b c
      \<Longrightarrow> vector_clock_le (merge_vector_clocks a b) c"
    by (simp add: vector_clock_le_iff merge_at)
  show "hm_wf [] \<and> vector_clock_le [] a" by (simp add: vector_clock_le_def)
qed

lemma has_conflict_iff:
  assumes "hm_wf a" "hm_wf b"
  shows "has_conflict a b \<longleftrightarrow> (\<exists>k. component b k < component a k) \<and> (\<exists>k. component a k < component b k)"
proof -
  have "vector_clock_le a b" if "a = [] \<or> b = [] \<and> a = []"
    using that vc.bot_least by auto
  then show ?thesis
    using assms vc.bot_least by (auto simp: has_conflict_def vector_clock_le_iff not_le)
qed

section \<open>Printing and parsing\<close>

text \<open>Node names that survive the textual form: no separator and no white space at the ends.\<close>

definition clean_name :: "string \<Rightarrow> bool" where
  "clean_name n \<longleftrightarrow> CHR '':'' \<notin> set n \<and> CHR '','' \<notin> set n \<and> trimmed n"

lemma trimmed_entry: "clean_name n \<Longrightarrow> trimmed (format_entry (n, v))"
proof -
  assume n: "clean_name n"
  have d: "trimmed (show_u64 v)" "show_u64 v \<noteq> []" by (simp_all add: show_u64_def)
  then have "\<not> is_ws (last (format_entry (n, v)))"
    by (simp add: format_entry_def trimmed_def)
  moreover have "\<not> is_ws (hd (format_entry (n, v)))"
    using n by (cases n) (auto simp: format_entry_def clean_name_def trimmed_def is_ws_def)
  ultimately show ?thesis by (simp add: trimmed_def)
qed

lemma parse_format_entry:
  "clean_name n \<Longrightarrow> parse_clock_pair m (format_entry (n, v)) = hm_insert n v m"
proof -
  assume n: "clean_name n"
  have "split_once (CHR '':'') (n @ '':'' @ show_u64 v) = Some (n, show_u64 v)"
    using n by (simp add: clean_name_def split_once_append)
  moreover have "trim n = n" using n by (simp add: clean_name_def)
  moreover have "trim (show_u64 v) = show_u64 v" by (simp add: show_u64_def)
  ultimately show ?thesis
    using trim_trimmed [OF trimmed_entry [OF n, of v]]
    by (simp add: parse_clock_pair_def format_entry_def)
qed

lemma comma_free_entry: "clean_name n \<Longrightarrow> CHR '','' \<notin> set (format_entry (n, v))"
  using not_in_show_nat [of "CHR '',''"]
  by (auto simp: clean_name_def format_entry_def show_u64_def is_digit_def)

lemma sort_map_key: "sort (map f xs) = map f (sort_key f xs)"
  by (rule properties_for_sort) (simp_all add: sorted_sort_key)

lemma foldl_parse_entries:
  "(\<And>e. e \<in> set es \<Longrightarrow> clean_name (fst e)) \<Longrightarrow>
     foldl parse_clock_pair [] (map format_entry es) = hm_collect es"
proof (induction es rule: rev_induct)
  case Nil
  then show ?case by (simp add: hm_collect_def)
next
  case (snoc e es)
  obtain k v where "e = (k, v)" by fastforce
  moreover have "clean_name k" using snoc.prems [of e] \<open>e = (k, v)\<close> by simp
  ultimately show ?case using snoc by (simp add: parse_format_entry hm_collect_snoc)
qed

lemma clock_text_roundtrip:
  assumes "hm_wf c" and "\<forall>n \<in> set (map fst c). clean_name n"
  shows "hm_get (parse_vector_clock (format_vector_clock c)) = hm_get c"
proof (cases "c = []")
  case True
  then show ?thesis
    by (simp add: parse_vector_clock_def format_vector_clock_def split_on_def parse_clock_pair_def
        split_once_def trim_def)
next
  case False
  let ?es = "sort_key format_entry c"
  have clean: "clean_name (fst e)" if "e \<in> set ?es" for e using assms(2) that by auto
  have "split_on (CHR '','') (format_vector_clock c) = map format_entry ?es"
    unfolding format_vector_clock_def sort_map_key
  proof (rule split_on_join)
    show "map format_entry ?es \<noteq> []" using False by (metis Nil_is_map_conv set_empty set_sort)
    fix x assume "x \<in> set (map format_entry ?es)"
    then obtain e where "e \<in> set ?es" "x = format_entry e" by auto
    then show "CHR '','' \<notin> set x" using comma_free_entry [of "fst e" "snd e"] clean [of e] by simp
  qed
  then have "parse_vector_clock (format_vector_clock c) = hm_collect ?es"
    unfolding parse_vector_clock_def by (simp only: foldl_parse_entries [OF clean])
  moreover have wf: "hm_wf ?es"
    using assms(1) by (metis distinct_map distinct_sort set_sort)
  ultimately have "hm_get (parse_vector_clock (format_vector_clock c)) = hm_get ?es"
    by (simp add: hm_get_collect_distinct)
  also have "\<dots> = hm_get c"
    using wf assms(1) by (simp add: map_of_inject_set)
  finally show ?thesis .
qed

lemma parse_vector_clock_wf [simp]: "hm_wf (parse_vector_clock t)"
proof -
  have step: "hm_wf m \<Longrightarrow> hm_wf (parse_clock_pair m p)" for m p
    by (auto simp: parse_clock_pair_def split: option.splits)
  have "hm_wf m \<Longrightarrow> hm_wf (foldl parse_clock_pair m ps)" for m ps
    by (induction ps arbitrary: m) (simp_all add: step)
  then show ?thesis by (simp add: parse_vector_clock_def)
qed

text \<open>The update of a migration moves a clock strictly up, unless the component wraps.\<close>

lemma component_bump: "component (bump_clock node c) k = (if k = node then component c k + 1 else component c k)"
  by (simp add: bump_clock_def component_def split: option.splits)

lemma bump_clock_wf [simp]: "hm_wf c \<Longrightarrow> hm_wf (bump_clock node c)"
  by (simp add: bump_clock_def)

lemma bump_clock_above:
  assumes "hm_wf c" "component c node \<noteq> - 1"
  shows "vector_clock_le c (bump_clock node c) \<and> \<not> vector_clock_le (bump_clock node c) c"
proof -
  have "component c node < component c node + 1"
  proof -
    have "1 + component c node \<noteq> 0" using assms(2) by (metis add.commute eq_neg_iff_add_eq_0)
    then show ?thesis by (simp add: word_less_nat_alt unatSuc add.commute)
  qed
  then show ?thesis using assms(1)
    by (auto simp: vector_clock_le_iff component_bump intro: less_imp_le dest: leD)
qed

section \<open>Properties\<close>

text \<open>C6. Conflict detection is exact: two clocks conflict if and only if they are concurrent,
  that is, each has a node component greater than the other's (an absent node counts as 0).\<close>

theorem has_conflict_iff_concurrent:
  assumes "hm_wf a" "hm_wf b"
  shows "has_conflict a b \<longleftrightarrow> (\<exists>k. component b k < component a k) \<and> (\<exists>k. component a k < component b k)"
  using assms by (rule has_conflict_iff)

theorem has_conflict_iff_concurrent_witness:
  "has_conflict [(''a'', 2), (''b'', 1)] [(''a'', 1), (''c'', 1)]
   \<and> (\<exists>k. component [(''a'', 1), (''c'', 1)] k < component [(''a'', 2), (''b'', 1)] k)"
proof -
  have "component [(''a'', 1), (''c'', 1)] ''a'' < component [(''a'', 2), (''b'', 1)] ''a''"
    "component [(''a'', 2), (''b'', 1)] ''c'' < component [(''a'', 1), (''c'', 1)] ''c''"
    by (simp_all add: component_def)
  moreover have "hm_wf [(''a'', 2 :: u64), (''b'', 1)]" "hm_wf [(''a'', 1 :: u64), (''c'', 1)]" by simp_all
  ultimately show ?thesis using has_conflict_iff_concurrent by blast
qed

text \<open>Merging clocks takes the larger component of every node, so it gives the least
  clock above both; it is associative and commutative up to order equivalence, and the merged
  clock is in conflict with neither side.\<close>

theorem merge_vector_clocks_lub:
  assumes "hm_wf a" "hm_wf b" "hm_wf c"
  shows "component (merge_vector_clocks a b) k = max (component a k) (component b k)
       \<and> (vector_clock_le (merge_vector_clocks a b) c \<longleftrightarrow> vector_clock_le a c \<and> vector_clock_le b c)
       \<and> vector_clock_le (merge_vector_clocks a b) (merge_vector_clocks b a)
       \<and> vector_clock_le (merge_vector_clocks (merge_vector_clocks a b) c)
                         (merge_vector_clocks a (merge_vector_clocks b c))
       \<and> \<not> has_conflict a (merge_vector_clocks a b) \<and> \<not> has_conflict b (merge_vector_clocks a b)"
proof (intro conjI)
  show "component (merge_vector_clocks a b) k = max (component a k) (component b k)" using assms by (simp add: merge_at)
  show "vector_clock_le (merge_vector_clocks a b) c \<longleftrightarrow> vector_clock_le a c \<and> vector_clock_le b c"
    using assms by (auto simp: vector_clock_le_iff merge_at)
  show "vector_clock_le (merge_vector_clocks a b) (merge_vector_clocks b a)"
    using assms by (simp add: vc.merge_commute)
  show "vector_clock_le (merge_vector_clocks (merge_vector_clocks a b) c)
                         (merge_vector_clocks a (merge_vector_clocks b c))"
    using assms by (simp add: vc.merge_assoc)
  show "\<not> has_conflict a (merge_vector_clocks a b)"
    using assms by (simp add: has_conflict_def vc.merge_upper1)
  show "\<not> has_conflict b (merge_vector_clocks a b)"
    using assms by (simp add: has_conflict_def vc.merge_upper2)
qed

theorem merge_vector_clocks_lub_witness:
  "component (merge_vector_clocks [(''a'', 2), (''b'', 1)] [(''b'', 4)]) ''b'' = 4
   \<and> \<not> has_conflict [(''a'', 2), (''b'', 1)] (merge_vector_clocks [(''a'', 2), (''b'', 1)] [(''b'', 4)])"
  using merge_vector_clocks_lub [of "[(''a'', 2), (''b'', 1)]" "[(''b'', 4)]" "[]" "''b''"]
  by (simp add: component_def)

text \<open>C29. The textual form of a clock loses nothing: parsing the printed clock gives back the
  same component for every node, provided node names contain neither separator character nor
  white space at their ends.\<close>

theorem parse_format_vector_clock:
  assumes "hm_wf c" and "\<forall>n \<in> set (map fst c). clean_name n"
  shows "hm_get (parse_vector_clock (format_vector_clock c)) = hm_get c"
  using assms by (rule clock_text_roundtrip)

theorem parse_format_vector_clock_witness:
  "hm_get (parse_vector_clock (format_vector_clock [(''node-b'', 7), (''node-a'', 3)]))
     = hm_get [(''node-b'', 7), (''node-a'', 3)]"
  by (rule parse_format_vector_clock) (simp_all add: clean_name_def trimmed_def is_ws_def)

end
