(* ===== verification/Snapshot.thy ===== *)
theory Snapshot
  imports Sample_World Vector_Clock
begin

text \<open>
  Snapshots, \<open>crates/btrfs-ops/src/snapshot.rs\<close>: creating, inspecting, listing and deleting
  them with the \<open>btrfs\<close> program, the retention policy, and the snapshot pair of a replication.
  An instant is a number of nanoseconds; the calendar and the text formats of instants are
  parameters.
\<close>

section \<open>Operations\<close>

record snapshot =
  sn_id :: u64
  sn_name :: string
  sn_path :: string
  sn_subvolume_id :: u64
  sn_created_at :: int
  sn_size :: u64

text \<open>\<open>.context(msg)?\<close>: an error is reported as \<open>msg\<close>.\<close>

definition context_err :: "string \<Rightarrow> ('w, string + 'a) io \<Rightarrow> ('w, string + 'a) io" where
  "context_err msg m = do {
     r \<leftarrow> m;
     State_Monad.return (case r of Inl _ \<Rightarrow> Inl msg | Inr x \<Rightarrow> Inr x)
   }"

text \<open>\<open>line.split(':').nth(1)\<close>.\<close>

definition second_field :: "string \<Rightarrow> string option" where
  "second_field line = (case split_on (CHR '':'') line of _ # x # _ \<Rightarrow> Some x | _ \<Rightarrow> None)"

definition field_u64 :: "string \<Rightarrow> u64" where
  "field_u64 line = unwrap_or (parse_u64 (trim (unwrap_or (second_field line) ''0''))) 0"

text \<open>The loop of \<open>get_info\<close> over the output of \<open>btrfs subvolume show\<close>; an unreadable creation time
  is replaced by the current time.\<close>

fun show_lines :: "'w env \<Rightarrow> string list \<Rightarrow> u64 \<times> u64 \<times> int \<Rightarrow> ('w, u64 \<times> u64 \<times> int) io" where
  "show_lines E [] info = State_Monad.return info"
| "show_lines E (line # rest) (i, parent, created) = do {
     let i' = (if contains_str line ''Subvolume ID:'' then field_u64 line else i);
     let parent' = (if contains_str line ''Parent ID:'' then field_u64 line else parent);
     created' \<leftarrow> (if contains_str line ''Creation time:'' then
                    (case second_field line of
                       None \<Rightarrow> State_Monad.return created
                     | Some time_str \<Rightarrow>
                         (case parse_datetime (ch E) (trim time_str) of
                            Some t \<Rightarrow> State_Monad.return t
                          | None \<Rightarrow> utc_now E))
                  else State_Monad.return created);
     show_lines E rest (i', parent', created')
   }"

definition snapshot_info :: "'w env \<Rightarrow> string \<Rightarrow> string \<Rightarrow> ('w, string + snapshot) io" where
  "snapshot_info E base name =
     (let path = base @ ''/'' @ name in
      and_then (btrfs_run E ''subvolume'' [''show'', path])
        (\<lambda>output. do {
           now \<leftarrow> utc_now E;
           (i, parent, created) \<leftarrow> show_lines E (lines output) (0, 0, now);
           State_Monad.return (Inr \<lparr>sn_id = i, sn_name = name, sn_path = path,
             sn_subvolume_id = parent, sn_created_at = created, sn_size = 0\<rparr>)
         }))"

definition create_snapshot :: "'w env \<Rightarrow> string \<Rightarrow> string \<Rightarrow> string \<Rightarrow> ('w, string + snapshot) io" where
  "create_snapshot E base subvolume_name snapshot_name =
     and_then
       (context_err ''Failed to create snapshot''
         (btrfs_run E ''subvolume''
           [''snapshot'', ''-r'', base @ ''/'' @ subvolume_name, base @ ''/'' @ snapshot_name]))
       (\<lambda>_. snapshot_info E base snapshot_name)"

definition create_writable :: "'w env \<Rightarrow> string \<Rightarrow> string \<Rightarrow> string \<Rightarrow> ('w, string + snapshot) io" where
  "create_writable E base subvolume_name snapshot_name =
     and_then
       (context_err ''Failed to create writable snapshot''
         (btrfs_run E ''subvolume''
           [''snapshot'', base @ ''/'' @ subvolume_name, base @ ''/'' @ snapshot_name]))
       (\<lambda>_. snapshot_info E base snapshot_name)"

definition delete_snapshot :: "'w env \<Rightarrow> string \<Rightarrow> string \<Rightarrow> ('w, string + unit) io" where
  "delete_snapshot E base name =
     and_then
       (context_err ''Failed to delete snapshot''
         (btrfs_run E ''subvolume'' [''delete'', base @ ''/'' @ name]))
       (\<lambda>_. State_Monad.return (Inr ()))"

text \<open>One line of \<open>btrfs subvolume list\<close>; the path is everything from the seventh word on.\<close>

definition parse_snapshot_line :: "int \<Rightarrow> string \<Rightarrow> snapshot option" where
  "parse_snapshot_line now line =
     (let parts = split_whitespace line in
      if length parts < 7 \<or> parts ! 0 \<noteq> ''ID'' then None
      else
        (case parse_u64 (parts ! 1) of
           None \<Rightarrow> None
         | Some i \<Rightarrow>
             (let path = join '' '' (drop 6 parts) in
              Some \<lparr>sn_id = i, sn_name = last (split_on (CHR ''/'') path), sn_path = path,
                sn_subvolume_id = 0, sn_created_at = now, sn_size = 0\<rparr>)))"

text \<open>The clock is read only for a line that parses.\<close>

fun list_lines :: "'w env \<Rightarrow> string list \<Rightarrow> ('w, snapshot list) io" where
  "list_lines E [] = State_Monad.return []"
| "list_lines E (line # rest) =
     (if parse_snapshot_line 0 line = None then list_lines E rest
      else do {
        now \<leftarrow> utc_now E;
        snaps \<leftarrow> list_lines E rest;
        State_Monad.return (case parse_snapshot_line now line of None \<Rightarrow> snaps | Some s \<Rightarrow> s # snaps)
      })"

definition list_snapshots :: "'w env \<Rightarrow> string \<Rightarrow> ('w, string + snapshot list) io" where
  "list_snapshots E base =
     and_then (btrfs_run E ''subvolume'' [''list'', ''-s'', base])
       (\<lambda>output. do {
          snaps \<leftarrow> list_lines E (lines output);
          State_Monad.return (Inr snaps)
        })"

text \<open>\<open>Duration::num_days\<close>: whole days, truncated towards zero.\<close>

definition DAY :: int where "DAY = 86400000000000"

definition num_days :: "int \<Rightarrow> int" where
  "num_days age = (if 0 \<le> age then age div DAY else - ((- age) div DAY))"

definition retained :: "chrono \<Rightarrow> u32 \<Rightarrow> u32 \<Rightarrow> u32 \<Rightarrow> int \<Rightarrow> snapshot \<Rightarrow> bool" where
  "retained H daily weekly monthly now snap \<longleftrightarrow>
     (let age = num_days (now - sn_created_at snap) in
      age < uint daily
      \<or> age < uint weekly * 7 \<and> on_sunday H (sn_created_at snap)
      \<or> age < uint monthly * 30 \<and> day_of_month H (sn_created_at snap) = 1)"

fun cleanup_loop ::
  "'w env \<Rightarrow> string \<Rightarrow> u32 \<Rightarrow> u32 \<Rightarrow> u32 \<Rightarrow> int \<Rightarrow> snapshot list \<Rightarrow> u32 \<Rightarrow> ('w, string + u32) io" where
  "cleanup_loop E base daily weekly monthly now [] deleted = State_Monad.return (Inr deleted)"
| "cleanup_loop E base daily weekly monthly now (snap # rest) deleted =
     (if retained (ch E) daily weekly monthly now snap
      then cleanup_loop E base daily weekly monthly now rest deleted
      else and_then (delete_snapshot E base (sn_name snap))
             (\<lambda>_. cleanup_loop E base daily weekly monthly now rest (deleted + 1)))"

definition cleanup :: "'w env \<Rightarrow> string \<Rightarrow> u32 \<Rightarrow> u32 \<Rightarrow> u32 \<Rightarrow> ('w, string + u32) io" where
  "cleanup E base daily weekly monthly =
     and_then (list_snapshots E base)
       (\<lambda>snaps. do {
          now \<leftarrow> utc_now E;
          cleanup_loop E base daily weekly monthly now (sort_key sn_created_at snaps) 0
        })"

text \<open>The new snapshot and the latest earlier one of the same subvolume.\<close>

definition create_for_replication ::
  "'w env \<Rightarrow> string \<Rightarrow> string \<Rightarrow> ('w, string + snapshot \<times> snapshot option) io" where
  "create_for_replication E base subvolume_name = do {
     now \<leftarrow> utc_now E;
     let snap_name = subvolume_name @ ''_snap_'' @ stamp_text (ch E) now;
     and_then (create_snapshot E base subvolume_name snap_name)
       (\<lambda>snap. and_then (list_snapshots E base)
          (\<lambda>snaps. State_Monad.return (Inr (snap,
             max_by_key sn_created_at
               (filter (\<lambda>s. starts_with (sn_name s) (subvolume_name @ ''_snap_'') \<and> sn_id s \<noteq> sn_id snap)
                 snaps)))))
   }"

section \<open>Facts about listings\<close>

lemma words_join:
  "(\<And>w. w \<in> set ws \<Longrightarrow> w \<noteq> [] \<and> (\<forall>c \<in> set w. \<not> is_ws c)) \<Longrightarrow> split_whitespace (join '' '' ws) = ws"
proof (induction ws rule: induct_list012)
  case 1
  then show ?case by (simp add: split_whitespace_def)
next
  case (2 x)
  then show ?case by (simp add: split_whitespace_def split_by_free)
next
  case (3 x y zs)
  have "is_ws (CHR '' '')" by (simp add: is_ws_def)
  then have "split_by is_ws (x @ CHR '' '' # join '' '' (y # zs)) = [x] @ split_by is_ws (join '' '' (y # zs))"
    using 3(3) [of x] by (simp add: split_by_append_sep split_by_free [of x is_ws])
  moreover have "split_whitespace (join '' '' (y # zs)) = y # zs"
    by (rule 3(2)) (use 3(3) in auto)
  moreover have "x \<noteq> []" using 3(3) by simp
  ultimately show ?case by (simp add: split_whitespace_def)
qed

lemma list_lines_created:
  assumes "\<And>w. P (fst (run_io (utc_now E) w))"
  shows "s \<in> set (fst (run_io (list_lines E ls) w)) \<Longrightarrow> P (sn_created_at s)"
proof (induction ls arbitrary: w)
  case Nil
  then show ?case by simp
next
  case (Cons l ls)
  obtain now w1 where now: "run_io (utc_now E) w = (now, w1)" by (metis surj_pair)
  obtain snaps w2 where rest: "run_io (list_lines E ls) w1 = (snaps, w2)" by (metis surj_pair)
  show ?case
  proof (cases "parse_snapshot_line 0 l")
    case None
    with Cons show ?thesis by simp
  next
    case (Some x)
    have "P now" using assms [of w] now by simp
    moreover have "sn_created_at y = now" if "parse_snapshot_line now l = Some y" for y
      using that by (auto simp: parse_snapshot_line_def Let_def split: if_splits option.splits)
    moreover have "P (sn_created_at s)" if "s \<in> set snaps"
      using Cons.IH [of w1] that rest by simp
    ultimately show ?thesis using Cons.prems Some now rest by (auto split: option.splits)
  qed
qed

lemma list_snapshots_created:
  assumes "\<And>w. P (fst (run_io (utc_now E) w))"
    and "run_io (list_snapshots E base) w = (Inr snaps, w1)" and "s \<in> set snaps"
  shows "P (sn_created_at s)"
proof -
  from assms(2) obtain ls w' where "snaps = fst (run_io (list_lines E ls) w')"
    by (auto simp: list_snapshots_def run_and_then split: prod.splits sum.splits) (metis fst_conv)
  with assms(3) list_lines_created [where P = P, OF assms(1)] show ?thesis by blast
qed

lemma cleanup_loop_keeps:
  "(\<And>s. s \<in> set snaps \<Longrightarrow> retained (ch E) d w m now s) \<Longrightarrow>
     cleanup_loop E base d w m now snaps n = State_Monad.return (Inr n)"
  by (induction snaps) auto

text \<open>An environment for the witnesses whose commands succeed and print a fixed text, with a
  stopped clock.\<close>

definition quiet_env :: "string \<Rightarrow> sample env" where
  "quiet_env out = sample_env\<lparr>run_cmd := (\<lambda>p args. State_Monad.return (Inr (out_ok out))),
     utc_now := State_Monad.return 5\<rparr>"

lemma quiet_env_simps:
  "btrfs_run (quiet_env out) cmd args = State_Monad.return (Inr out)"
  "utc_now (quiet_env out) = State_Monad.return 5"
  by (simp_all add: btrfs_run_def quiet_env_def out_ok_def)

section \<open>Properties\<close>

text \<open>The pair of a replication: when it succeeds, the new snapshot is named after the
  subvolume and the time and lies in the snapshot directory, and the previous one, if any, is
  another snapshot of the same subvolume from the listing and none of the others is newer.\<close>

theorem replication_pair_sound:
  assumes "run_io (create_for_replication E base vol) w = (Inr (snap, prev), w')"
  shows "sn_name snap = vol @ ''_snap_'' @ stamp_text (ch E) (fst (run_io (utc_now E) w))
       \<and> sn_path snap = base @ ''/'' @ sn_name snap
       \<and> (\<exists>snaps w1. run_io (list_snapshots E base) w1 = (Inr snaps, w')
            \<and> (\<forall>p. prev = Some p \<longrightarrow> p \<in> set snaps \<and> prefix (vol @ ''_snap_'') (sn_name p) \<and> sn_id p \<noteq> sn_id snap)
            \<and> (\<forall>s \<in> set snaps. prefix (vol @ ''_snap_'') (sn_name s) \<and> sn_id s \<noteq> sn_id snap \<longrightarrow>
                 (\<exists>p. prev = Some p \<and> sn_created_at s \<le> sn_created_at p)))"
proof -
  obtain now w0 where now: "run_io (utc_now E) w = (now, w0)" by (metis surj_pair)
  let ?name = "vol @ ''_snap_'' @ stamp_text (ch E) now"
  from assms now obtain w1 snaps where mk: "run_io (create_snapshot E base vol ?name) w0 = (Inr snap, w1)"
    and ls: "run_io (list_snapshots E base) w1 = (Inr snaps, w')"
    and prev: "prev = max_by_key sn_created_at
        (filter (\<lambda>s. starts_with (sn_name s) (vol @ ''_snap_'') \<and> sn_id s \<noteq> sn_id snap) snaps)"
    by (auto simp: create_for_replication_def run_and_then Let_def split: prod.splits sum.splits)
  have "sn_name snap = ?name \<and> sn_path snap = base @ ''/'' @ ?name"
    using mk by (auto simp: create_snapshot_def snapshot_info_def run_and_then Let_def
        split: prod.splits sum.splits)
  moreover have "(\<forall>p. prev = Some p \<longrightarrow> p \<in> set snaps \<and> prefix (vol @ ''_snap_'') (sn_name p) \<and> sn_id p \<noteq> sn_id snap)
      \<and> (\<forall>s \<in> set snaps. prefix (vol @ ''_snap_'') (sn_name s) \<and> sn_id s \<noteq> sn_id snap \<longrightarrow>
          (\<exists>p. prev = Some p \<and> sn_created_at s \<le> sn_created_at p))"
  proof (cases prev)
    case None
    then have "filter (\<lambda>s. starts_with (sn_name s) (vol @ ''_snap_'') \<and> sn_id s \<noteq> sn_id snap) snaps = []"
      using prev by simp
    with None show ?thesis by (auto simp: filter_empty_conv starts_with_def)
  next
    case (Some p)
    from max_by_key_Some [OF prev [symmetric, unfolded Some]] Some show ?thesis
      by (auto simp: starts_with_def)
  qed
  ultimately show ?thesis using now ls by auto
qed

theorem replication_pair_sound_witness:
  "\<exists>snap w'. run_io (create_for_replication (quiet_env []) ''/snap'' ''vol'') sample_start = (Inr (snap, None), w')
     \<and> sn_path snap = ''/snap/'' @ sn_name snap"
proof -
  have "\<exists>snap w'. run_io (create_for_replication (quiet_env []) ''/snap'' ''vol'') sample_start = (Inr (snap, None), w')"
    by (simp add: create_for_replication_def create_snapshot_def context_err_def snapshot_info_def
        list_snapshots_def quiet_env_simps lines_def split_on_def Let_def)
  with replication_pair_sound [of "quiet_env []" "''/snap''" "''vol''" sample_start] show ?thesis by fastforce
qed

text \<open>What is read as the path of a listed snapshot is not its path: for a line
  \<open>ID i gen g top level p path x\<close>, the format the source names, the result is
  \<open>p path x\<close>, so an incremental send is given a parent that does not exist.\<close>

theorem listed_path_includes_parent:
  assumes "\<forall>t \<in> {g, p, x}. t \<noteq> [] \<and> (\<forall>c \<in> set t. \<not> is_ws c)"
  shows "\<exists>s. parse_snapshot_line now
            (join '' '' [''ID'', show_u64 i, ''gen'', g, ''top'', ''level'', p, ''path'', x]) = Some s
         \<and> sn_id s = i \<and> sn_path s = p @ '' path '' @ x"
proof -
  have "c \<in> set (show_u64 i) \<Longrightarrow> \<not> is_ws c" for c
    using show_nat_digits [of "unat i"] by (auto simp: show_u64_def list_all_iff is_digit_def is_ws_def)
  moreover have "show_u64 i \<noteq> []" by (simp add: show_u64_def)
  ultimately have "split_whitespace (join '' '' [''ID'', show_u64 i, ''gen'', g, ''top'', ''level'', p, ''path'', x])
      = [''ID'', show_u64 i, ''gen'', g, ''top'', ''level'', p, ''path'', x]"
    using assms by (intro words_join) (auto simp: is_ws_def)
  then show ?thesis by (simp add: parse_snapshot_line_def Let_def parse_u64_show del: join.simps(3)) (simp add: numeral_eq_Suc)
qed

theorem listed_path_includes_parent_witness:
  "\<exists>s. parse_snapshot_line 0
      (join '' '' [''ID'', show_u64 258, ''gen'', ''100'', ''top'', ''level'', ''5'', ''path'', ''snapshots/s1'']) = Some s
   \<and> sn_id s = 258 \<and> sn_path s = ''5'' @ '' path '' @ ''snapshots/s1''"
  by (rule listed_path_includes_parent) (simp add: is_ws_def)

text \<open>The retention cleanup deletes nothing: listed snapshots carry the time of the listing as
  their creation time, so as long as the clock does not advance by a day during the call and at
  least one daily snapshot is to be kept, no delete command is run and 0 is returned.\<close>

theorem cleanup_deletes_nothing:
  assumes "\<forall>w. t0 \<le> fst (run_io (utc_now E) w) \<and> fst (run_io (utc_now E) w) < t0 + DAY" and "1 \<le> daily"
  shows "run_io (cleanup E base daily weekly monthly) w =
     (case run_io (list_snapshots E base) w of
        (Inl e, w1) \<Rightarrow> (Inl e, w1)
      | (Inr snaps, w1) \<Rightarrow> (Inr 0, snd (run_io (utc_now E) w1)))"
proof (cases "run_io (list_snapshots E base) w")
  case (Pair r w1)
  show ?thesis
  proof (cases r)
    case (Inl e)
    with Pair show ?thesis by (simp add: cleanup_def run_and_then)
  next
    case (Inr snaps)
    obtain now w2 where now: "run_io (utc_now E) w1 = (now, w2)" by (metis surj_pair)
    then have rng: "t0 \<le> now" "now < t0 + DAY" using assms(1) by (metis fst_conv)+
    have "0 < uint daily" using assms(2) by (simp add: word_le_def)
    moreover have "num_days (now - sn_created_at s) \<le> 0" if "s \<in> set snaps" for s
    proof -
      have "t0 \<le> sn_created_at s \<and> sn_created_at s < t0 + DAY"
        using list_snapshots_created [where P = "\<lambda>t. t0 \<le> t \<and> t < t0 + DAY", OF _ Pair [unfolded Inr] that] assms(1)
        by blast
      with rng show ?thesis by (auto simp: num_days_def DAY_def)
    qed
    ultimately have "retained (ch E) daily weekly monthly now s" if "s \<in> set snaps" for s
      using that unfolding retained_def Let_def by (metis order_le_less_trans)
    then have "cleanup_loop E base daily weekly monthly now (sort_key sn_created_at snaps) 0 = State_Monad.return (Inr 0)"
      by (intro cleanup_loop_keeps) simp
    with Pair Inr now show ?thesis by (simp add: cleanup_def run_and_then)
  qed
qed

theorem cleanup_deletes_nothing_witness:
  "fst (run_io (cleanup (quiet_env ''ID 258 gen 9 top level 5 path s1'') ''/snap'' 7 4 3) sample_start) = Inr 0"
proof -
  let ?E = "quiet_env ''ID 258 gen 9 top level 5 path s1''"
  have "\<forall>w. 5 \<le> fst (run_io (utc_now ?E) w) \<and> fst (run_io (utc_now ?E) w) < 5 + DAY"
    by (simp add: quiet_env_simps DAY_def)
  moreover have "1 \<le> (7 :: u32)" by (simp add: word_le_def)
  moreover have "\<exists>snaps w1. run_io (list_snapshots ?E ''/snap'') sample_start = (Inr snaps, w1)"
    by (simp add: list_snapshots_def quiet_env_simps split: prod.splits)
  ultimately show ?thesis using cleanup_deletes_nothing [of 5 ?E 7 "''/snap''" 4 3 sample_start] by auto
qed

end
