(* ===== verification/F64.thy ===== *)
theory F64
  imports Rust_Text "HOL-Library.Log_Nat" Complex_Main
begin

text \<open>
  The \<open>f64\<close> arithmetic the sources use: decimal parsing, multiplication, division, comparison
  and the saturating cast to \<open>u64\<close>, with IEEE 754 rounding to nearest, ties to even. A finite
  value is the rational it denotes; the sign of zero is not represented, since no operation
  used here can observe it.
\<close>

datatype f64 = NaN | Infinity bool | Finite rat

definition pow2 :: "int \<Rightarrow> rat" where
  "pow2 k = (if 0 \<le> k then 2 ^ nat k else 1 / 2 ^ nat (- k))"

text \<open>The largest \<open>k\<close> with \<open>2^k \<le> x\<close>, for a positive \<open>x\<close>.\<close>

definition ilog2 :: "rat \<Rightarrow> int" where
  "ilog2 x = (let (n, d) = quotient_of x; k = bitlen n - bitlen d in if pow2 k \<le> x then k else k - 1)"

definition round_half_even :: "rat \<Rightarrow> int" where
  "round_half_even x =
     (let f = \<lfloor>x\<rfloor>; d = x - of_int f in
      if d < 1 / 2 then f else if 1 / 2 < d then f + 1 else if even f then f else f + 1)"

text \<open>The double nearest to a rational: a 53-bit significand, exponents down to the subnormal
  range, overflow to infinity.\<close>

definition round_f64 :: "rat \<Rightarrow> f64" where
  "round_f64 x =
     (if x = 0 then Finite 0
      else
        let e = max (- 1074) (ilog2 \<bar>x\<bar> - 52);
            r = of_int (round_half_even (\<bar>x\<bar> / pow2 e)) * pow2 e in
        if 2 ^ 1024 \<le> r then Infinity (x < 0) else Finite (if x < 0 then - r else r))"

fun f64_sign :: "f64 \<Rightarrow> bool" where
  "f64_sign NaN = False"
| "f64_sign (Infinity s) = s"
| "f64_sign (Finite x) = (x < 0)"

fun f64_mul :: "f64 \<Rightarrow> f64 \<Rightarrow> f64" where
  "f64_mul (Finite x) (Finite y) = round_f64 (x * y)"
| "f64_mul (Infinity s) (Finite y) = (if y = 0 then NaN else Infinity (s \<noteq> (y < 0)))"
| "f64_mul (Finite x) (Infinity s) = (if x = 0 then NaN else Infinity (s \<noteq> (x < 0)))"
| "f64_mul (Infinity s) (Infinity t) = Infinity (s \<noteq> t)"
| "f64_mul _ _ = NaN"

text \<open>Division by a non-zero divisor, the only case the sources reach.\<close>

fun f64_div :: "f64 \<Rightarrow> f64 \<Rightarrow> f64" where
  "f64_div (Finite x) (Finite y) =
     (if y = 0 then (if x = 0 then NaN else Infinity (x < 0)) else round_f64 (x / y))"
| "f64_div (Infinity s) (Finite y) = Infinity (s \<noteq> (y < 0))"
| "f64_div (Finite x) (Infinity s) = Finite 0"
| "f64_div _ _ = NaN"

fun f64_less :: "f64 \<Rightarrow> f64 \<Rightarrow> bool" where
  "f64_less (Finite x) (Finite y) = (x < y)"
| "f64_less (Infinity s) (Finite y) = s"
| "f64_less (Finite x) (Infinity s) = (\<not> s)"
| "f64_less (Infinity s) (Infinity t) = (s \<and> \<not> t)"
| "f64_less _ _ = False"

text \<open>\<open>u64 as f64\<close> and the saturating cast \<open>f64 as u64\<close>.\<close>

definition f64_of_u64 :: "u64 \<Rightarrow> f64" where
  "f64_of_u64 w = round_f64 (of_int (uint w))"

fun u64_of_f64 :: "f64 \<Rightarrow> u64" where
  "u64_of_f64 NaN = 0"
| "u64_of_f64 (Infinity s) = (if s then 0 else - 1)"
| "u64_of_f64 (Finite x) = (if x \<le> 0 then 0 else if 2 ^ 64 \<le> x then - 1 else word_of_int \<lfloor>x\<rfloor>)"

text \<open>\<open>str::parse::<f64>\<close>: an optional sign, then \<open>inf\<close>, \<open>infinity\<close> or \<open>nan\<close> in any case, or digits
  with an optional point, at least one digit, and an optional exponent. The value is the
  double nearest to the decimal number.\<close>

definition to_lower :: "char \<Rightarrow> char" where
  "to_lower c = (if 65 \<le> (of_char c :: nat) \<and> (of_char c :: nat) \<le> 90 then char_of ((of_char c :: nat) + 32) else c)"

definition to_lowercase :: "string \<Rightarrow> string" where
  "to_lowercase s = map to_lower s"

fun split_sign :: "string \<Rightarrow> bool \<times> string" where
  "split_sign (c # s) = (if c = CHR ''-'' then (True, s) else if c = CHR ''+'' then (False, s) else (False, c # s))"
| "split_sign [] = (False, [])"

text \<open>The value of the exponent behind \<open>e\<close>, \<open>Some 0\<close> when there is none.\<close>

definition parse_exponent :: "string \<Rightarrow> int option" where
  "parse_exponent s =
     (case s of
        [] \<Rightarrow> Some 0
      | c # r \<Rightarrow>
          if to_lower c \<noteq> CHR ''e'' then None
          else let (neg, ds) = split_sign r in
               if ds = [] \<or> \<not> list_all is_digit ds then None
               else Some (if neg then - int (digits_value ds) else int (digits_value ds)))"

definition pow10 :: "int \<Rightarrow> rat" where
  "pow10 k = (if 0 \<le> k then 10 ^ nat k else 1 / 10 ^ nat (- k))"

definition parse_decimal :: "string \<Rightarrow> rat option" where
  "parse_decimal s =
     (let whole = takeWhile is_digit s;
          r1 = dropWhile is_digit s;
          point = (r1 \<noteq> [] \<and> hd r1 = CHR ''.'');
          part = (if point then takeWhile is_digit (tl r1) else []);
          r2 = (if point then dropWhile is_digit (tl r1) else r1) in
      if whole = [] \<and> part = [] then None
      else map_option (\<lambda>e. of_nat (digits_value (whole @ part)) * pow10 (e - int (length part)))
             (parse_exponent r2))"

definition parse_f64 :: "string \<Rightarrow> f64 option" where
  "parse_f64 s =
     (let (neg, body) = split_sign s in
      if to_lowercase body = ''inf'' \<or> to_lowercase body = ''infinity'' then Some (Infinity neg)
      else if to_lowercase body = ''nan'' then Some NaN
      else map_option (\<lambda>x. round_f64 (if neg then - x else x)) (parse_decimal body))"

end
