(* ===== verification/Subvolume.thy ===== *)
theory Subvolume
  imports Snapshot F64
begin

text \<open>
  Subvolumes, \<open>crates/btrfs-ops/src/subvolume.rs\<close>: creating, deleting, inspecting and listing them
  with the \<open>btrfs\<close> program, and the size notation of its output.
\<close>

section \<open>Operations\<close>

record subvolume =
  sub_id :: u64
  sub_path :: string
  sub_name :: string
  sub_size :: u64
  sub_uuid :: string
  sub_parent_id :: "u64 option"
  sub_created_at :: "string option"

text \<open>\<open>value * 1024.0 * ... * 1024.0\<close>, \<open>n\<close> times, from the left.\<close>

fun times_1024 :: "nat \<Rightarrow> f64 \<Rightarrow> f64" where
  "times_1024 0 x = x"
| "times_1024 (Suc n) x = times_1024 n (f64_mul x (Finite 1024))"

definition size_units :: "(string \<times> nat) list" where
  "size_units = [(''b'', 0), (''bytes'', 0), (''kb'', 1), (''kib'', 1), (''mb'', 2), (''mib'', 2),
     (''gb'', 3), (''gib'', 3), (''tb'', 4), (''tib'', 4)]"

definition parse_size :: "string \<Rightarrow> u64" where
  "parse_size s =
     (case split_whitespace s of
        a # b # _ \<Rightarrow>
          (let v = unwrap_or (parse_f64 a) (Finite 0) in
           case map_of size_units (to_lowercase b) of
             None \<Rightarrow> 0
           | Some n \<Rightarrow> u64_of_f64 (times_1024 n v))
      | _ \<Rightarrow> 0)"

definition parse_subvolume_line :: "string \<Rightarrow> subvolume option" where
  "parse_subvolume_line line =
     (let parts = split_whitespace line in
      if length parts < 7 \<or> parts ! 0 \<noteq> ''ID'' then None
      else
        (case parse_u64 (parts ! 1) of
           None \<Rightarrow> None
         | Some i \<Rightarrow>
             (let path = join '' '' (drop 6 parts) in
              Some \<lparr>sub_id = i, sub_path = path, sub_name = last (split_on (CHR ''/'') path), sub_size = 0,
                sub_uuid = [], sub_parent_id = Some 5, sub_created_at = None\<rparr>)))"

text \<open>One line of \<open>btrfs subvolume show\<close>.\<close>

definition subvolume_line :: "u64 \<times> string \<times> u64 \<Rightarrow> string \<Rightarrow> u64 \<times> string \<times> u64" where
  "subvolume_line info line =
     (let (i, uuid, size) = info;
          i = (if contains_str line ''Subvolume ID:'' then field_u64 line else i);
          uuid = (if contains_str line ''UUID:'' then trim (unwrap_or (second_field line) []) else uuid);
          size = (if contains_str line ''Size:'' then parse_size line else size) in
      (i, uuid, size))"

definition subvolume_info :: "'w env \<Rightarrow> string \<Rightarrow> string \<Rightarrow> ('w, string + subvolume) io" where
  "subvolume_info E base name =
     (let path = base @ ''/'' @ name in
      and_then (btrfs_run E ''subvolume'' [''show'', path])
        (\<lambda>output. let (i, uuid, size) = foldl subvolume_line (0, [], 0) (lines output) in
           State_Monad.return (Inr \<lparr>sub_id = i, sub_path = path, sub_name = name, sub_size = size,
             sub_uuid = uuid, sub_parent_id = None, sub_created_at = None\<rparr>)))"

definition subvolume_create :: "'w env \<Rightarrow> string \<Rightarrow> string \<Rightarrow> ('w, string + subvolume) io" where
  "subvolume_create E base name =
     and_then
       (context_err ''Failed to create subvolume'' (btrfs_run E ''subvolume'' [''create'', base @ ''/'' @ name]))
       (\<lambda>_. subvolume_info E base name)"

definition subvolume_delete :: "'w env \<Rightarrow> string \<Rightarrow> string \<Rightarrow> ('w, string + unit) io" where
  "subvolume_delete E base name =
     and_then
       (context_err ''Failed to delete subvolume'' (btrfs_run E ''subvolume'' [''delete'', base @ ''/'' @ name]))
       (\<lambda>_. State_Monad.return (Inr ()))"

definition subvolume_list :: "'w env \<Rightarrow> string \<Rightarrow> ('w, string + subvolume list) io" where
  "subvolume_list E base =
     and_then (btrfs_run E ''subvolume'' [''list'', base])
       (\<lambda>output. State_Monad.return (Inr (List.map_filter parse_subvolume_line (lines output))))"

definition subvolume_exists :: "'w env \<Rightarrow> string \<Rightarrow> string \<Rightarrow> ('w, bool) io" where
  "subvolume_exists E base name = path_exists E (base @ ''/'' @ name)"

definition subvolume_size :: "'w env \<Rightarrow> string \<Rightarrow> string \<Rightarrow> ('w, string + u64) io" where
  "subvolume_size E base name =
     and_then (subvolume_info E base name) (\<lambda>s. State_Monad.return (Inr (sub_size s)))"

text \<open>The exit status of \<open>chattr\<close> is not looked at.\<close>

definition set_nocow :: "'w env \<Rightarrow> string \<Rightarrow> string \<Rightarrow> ('w, string + unit) io" where
  "set_nocow E base name =
     (let path = base @ ''/'' @ name in
      and_then (context_err ''Failed to set NOCOW attribute'' (run_cmd E ''chattr'' [''+C'', path]))
        (\<lambda>_. and_then
          (context_err ''Failed to set btrfs nocow property'' (btrfs_run E ''property'' [''set'', path, ''nocow'', ''true'']))
          (\<lambda>_. State_Monad.return (Inr ()))))"

section \<open>The size of a subvolume\<close>

text \<open>The line handed to \<open>parse_size\<close> begins with its label, which is not a number, so the size that is
  read from a line \<open>Size: N unit\<close> is 0 whatever the number and the unit are.\<close>

lemma label_is_not_a_number: "parse_f64 ''Size:'' = None"
  by (simp add: parse_f64_def to_lowercase_def to_lower_def parse_decimal_def is_digit_def)

lemma f64_zero_times: "times_1024 n (Finite 0) = Finite 0"
  by (induction n) (simp_all add: round_f64_def)

lemma labelled_size_is_zero:
  assumes "split_whitespace line = ''Size:'' # rest"
  shows "parse_size line = 0"
  using assms by (cases rest) (simp_all add: parse_size_def label_is_not_a_number f64_zero_times split: option.splits)

end
