(* ===== verification/Usage.thy ===== *)
theory Usage
  imports Subvolume
begin

text \<open>
  Filesystem and device usage, \<open>crates/btrfs-ops/src/usage.rs\<close>, and the load checks and I/O priority of
  \<open>crates/btrfs-ops/src/io_priority.rs\<close>. Letters are folded as in ASCII.
\<close>

section \<open>Repeated prefixes and suffixes\<close>

text \<open>\<open>trim_start_matches\<close> and \<open>trim_end_matches\<close> with a non-empty text.\<close>

function trim_start_matches :: "string \<Rightarrow> string \<Rightarrow> string" where
  "trim_start_matches pat s =
     (if pat \<noteq> [] \<and> prefix pat s then trim_start_matches pat (drop (length pat) s) else s)"
  by pat_completeness auto
termination
  by (relation "measure (\<lambda>(pat, s). length s)") (auto simp: prefix_def)

declare trim_start_matches.simps [simp del]

definition trim_end_matches :: "string \<Rightarrow> string \<Rightarrow> string" where
  "trim_end_matches pat s = rev (trim_start_matches (rev pat) (rev s))"

definition ends_with :: "string \<Rightarrow> string \<Rightarrow> bool" where
  "ends_with s pat \<longleftrightarrow> suffix pat s"

section \<open>Sizes\<close>

text \<open>The number before a unit given by its two spellings.\<close>

definition number_before :: "string \<Rightarrow> string \<Rightarrow> string \<Rightarrow> f64" where
  "number_before long short s =
     unwrap_or (parse_f64 (trim (trim_end_matches short (trim_end_matches long s)))) (Finite 0)"

definition parse_size_value :: "string \<Rightarrow> u64" where
  "parse_size_value t =
     (let s = to_lowercase (trim t) in
      if ends_with s ''tib'' \<or> ends_with s ''tb'' then u64_of_f64 (times_1024 4 (number_before ''tib'' ''tb'' s))
      else if ends_with s ''gib'' \<or> ends_with s ''gb'' then u64_of_f64 (times_1024 3 (number_before ''gib'' ''gb'' s))
      else if ends_with s ''mib'' \<or> ends_with s ''mb'' then u64_of_f64 (times_1024 2 (number_before ''mib'' ''mb'' s))
      else if ends_with s ''kib'' \<or> ends_with s ''kb'' then u64_of_f64 (times_1024 1 (number_before ''kib'' ''kb'' s))
      else 0)"

fun size_after_word :: "string list \<Rightarrow> u64" where
  "size_after_word (a # b # rest) = (if a = ''size'' then parse_size_value b else size_after_word (b # rest))"
| "size_after_word _ = 0"

definition parse_size_from_line :: "string \<Rightarrow> u64" where
  "parse_size_from_line line = size_after_word (split_whitespace line)"

section \<open>Filesystem and device usage\<close>

record filesystem_usage =
  fu_total :: u64
  fu_used :: u64
  fu_free :: u64
  fu_data_size :: u64
  fu_metadata_size :: u64
  fu_system_size :: u64
  fu_fragmentation_ratio :: f64
  fu_device_count :: u32

record device_usage =
  du_path :: string
  du_size :: u64
  du_used :: u64
  du_free :: u64
  du_usage_percent :: f64
  du_imbalance :: u64

definition overall_line :: "string \<Rightarrow> u64 \<times> u64 \<Rightarrow> u64 \<times> u64" where
  "overall_line line acc =
     (if contains_str line ''Overall:'' then
        (case split_once (CHR '':'') line of
           None \<Rightarrow> acc
         | Some (_, value_part) \<Rightarrow>
             (case split_whitespace value_part of
                a # b # _ \<Rightarrow>
                  (if a = ''size'' then (parse_size_value b, snd acc)
                   else if a = ''used'' then (fst acc, parse_size_value b)
                   else acc)
              | _ \<Rightarrow> acc))
      else acc)"

text \<open>The four independent readings of one trimmed line: overall, data, metadata and system sizes.\<close>

definition fs_usage_line :: "(u64 \<times> u64) \<times> u64 \<times> u64 \<times> u64 \<Rightarrow> string \<Rightarrow> (u64 \<times> u64) \<times> u64 \<times> u64 \<times> u64" where
  "fs_usage_line acc raw =
     (let line = trim raw; (overall, data, metadata, system) = acc in
      (overall_line line overall,
       if contains_str line ''Data:'' then parse_size_from_line line else data,
       if contains_str line ''Metadata:'' then parse_size_from_line line else metadata,
       if contains_str line ''System:'' then parse_size_from_line line else system))"

definition parse_usage_output :: "string \<Rightarrow> filesystem_usage" where
  "parse_usage_output output =
     (let ((t, u), data, metadata, system) = foldl fs_usage_line ((0, 0), 0, 0, 0) (lines output) in
      \<lparr>fu_total = t, fu_used = u, fu_free = t - u, fu_data_size = data, fu_metadata_size = metadata,
       fu_system_size = system, fu_fragmentation_ratio = Finite 0, fu_device_count = 1\<rparr>)"

definition usage_percent :: "u64 \<Rightarrow> u64 \<Rightarrow> f64" where
  "usage_percent sz used =
     (if 0 < sz then f64_mul (f64_div (f64_of_u64 used) (f64_of_u64 sz)) (Finite 100) else Finite 0)"

definition device_line :: "string \<Rightarrow> device_usage option" where
  "device_line line =
     (if contains_str line ''/dev/'' then
        (case split_whitespace line of
           path # a # b # _ # _ \<Rightarrow>
             (let sz = parse_size_value a; used = parse_size_value b in
              Some \<lparr>du_path = path, du_size = sz, du_used = used, du_free = sz - used,
                du_usage_percent = usage_percent sz used, du_imbalance = 0\<rparr>)
         | _ \<Rightarrow> None)
      else None)"

definition parse_device_usage :: "string \<Rightarrow> device_usage list" where
  "parse_device_usage output = List.map_filter device_line (lines output)"

definition get_usage :: "'w env \<Rightarrow> string \<Rightarrow> ('w, string + filesystem_usage) io" where
  "get_usage E base =
     and_then (btrfs_run E ''filesystem'' [''usage'', ''-b'', base])
       (\<lambda>output. State_Monad.return (Inr (parse_usage_output output)))"

definition get_device_usage :: "'w env \<Rightarrow> string \<Rightarrow> ('w, string + device_usage list) io" where
  "get_device_usage E base =
     and_then (btrfs_run E ''filesystem'' [''usage'', base])
       (\<lambda>output. State_Monad.return (Inr (parse_device_usage output)))"

definition usage_free_space :: "'w env \<Rightarrow> string \<Rightarrow> ('w, string + u64) io" where
  "usage_free_space E base = and_then (get_usage E base) (\<lambda>u. State_Monad.return (Inr (fu_free u)))"

definition get_fragmentation :: "'w env \<Rightarrow> string \<Rightarrow> ('w, string + f64) io" where
  "get_fragmentation E base = and_then (get_usage E base) (\<lambda>u. State_Monad.return (Inr (fu_fragmentation_ratio u)))"

definition over_threshold :: "f64 \<Rightarrow> device_usage \<Rightarrow> bool" where
  "over_threshold threshold d = f64_less (f64_mul threshold (Finite 100)) (du_usage_percent d)"

definition needs_balance :: "'w env \<Rightarrow> string \<Rightarrow> f64 \<Rightarrow> ('w, string + bool) io" where
  "needs_balance E base threshold =
     and_then (get_device_usage E base)
       (\<lambda>ds. State_Monad.return (Inr (list_ex (over_threshold threshold) ds)))"

definition ONE_WEEK_MS :: i64 where "ONE_WEEK_MS = 7 * 24 * 60 * 60 * 1000"

definition needs_scrub :: "'w env \<Rightarrow> i64 option \<Rightarrow> ('w, string + bool) io" where
  "needs_scrub E last_scrub =
     (case last_scrub of
        None \<Rightarrow> State_Monad.return (Inr True)
      | Some t \<Rightarrow> do {
          now \<leftarrow> now_ms E;
          State_Monad.return (Inr (\<not> sint (now - t) < sint ONE_WEEK_MS))
        })"

section \<open>Load checks and I/O priority\<close>

definition set_io_priority_idle :: "'w env \<Rightarrow> ('w, string + unit) io" where
  "set_io_priority_idle E = do {
     r \<leftarrow> ioprio_set E 1 (push_bit 13 3);
     State_Monad.return (case r of Inl e \<Rightarrow> Inl (''ioprio_set IDLE failed: '' @ e) | Inr _ \<Rightarrow> Inr ())
   }"

text \<open>The first word of \<open>/proc/loadavg\<close>, as a number.\<close>

definition load_value :: "string \<Rightarrow> f64 option" where
  "load_value content = (case split_whitespace content of [] \<Rightarrow> None | w # _ \<Rightarrow> parse_f64 w)"

definition is_system_busy :: "'w env \<Rightarrow> f64 \<Rightarrow> ('w, bool) io" where
  "is_system_busy E threshold = do {
     content \<leftarrow> read_file E ''/proc/loadavg'';
     State_Monad.return
       (case Option.bind content load_value of None \<Rightarrow> False | Some load \<Rightarrow> f64_less threshold load)
   }"

definition get_load_average :: "'w env \<Rightarrow> ('w, f64) io" where
  "get_load_average E = do {
     content \<leftarrow> read_file E ''/proc/loadavg'';
     State_Monad.return (unwrap_or (Option.bind content load_value) (Finite 0))
   }"

text \<open>\<open>Path::file_name\<close>.\<close>

definition file_name :: "string \<Rightarrow> string option" where
  "file_name p =
     (let cs = filter (\<lambda>c. c \<noteq> [] \<and> c \<noteq> ''.'') (split_on (CHR ''/'') p) in
      if cs = [] \<or> last cs = ''..'' then None else Some (last cs))"

definition device_of :: "string \<Rightarrow> string \<Rightarrow> string option" where
  "device_of mounts mount_point =
     Option.bind (find (\<lambda>line. contains_str line mount_point) (lines mounts))
       (\<lambda>line. case split_whitespace line of [] \<Rightarrow> None | dev # _ \<Rightarrow> file_name dev)"

definition stat_busy :: "string \<Rightarrow> f64 \<Rightarrow> bool" where
  "stat_busy content busy_threshold =
     (let ws = split_whitespace content in
      if length ws \<le> 9 then False
      else case parse_u64 (ws ! 9) of
             None \<Rightarrow> False
           | Some io_time_ms \<Rightarrow> f64_less busy_threshold (f64_of_u64 io_time_ms))"

definition is_disk_busy :: "'w env \<Rightarrow> string \<Rightarrow> f64 \<Rightarrow> ('w, bool) io" where
  "is_disk_busy E mount_point busy_threshold = do {
     mounts \<leftarrow> read_file E ''/proc/mounts'';
     case Option.bind mounts (\<lambda>m. device_of m mount_point) of
       None \<Rightarrow> State_Monad.return False
     | Some dev \<Rightarrow> do {
         let short = trim_start_matches ''dm-'' dev;
         stat \<leftarrow> read_file E (''/sys/block/'' @ short @ ''/stat'');
         case stat of
           Some c \<Rightarrow> State_Monad.return (stat_busy c busy_threshold)
         | None \<Rightarrow> do {
             stat \<leftarrow> read_file E (''/sys/block/dm-'' @ short @ ''/stat'');
             State_Monad.return (case stat of None \<Rightarrow> False | Some c \<Rightarrow> stat_busy c busy_threshold)
           }
       }
   }"

end
