(* ===== verification/Config.thy ===== *)
theory Config
  imports F64 Vector_Clock Environment
begin

text \<open>
  The configuration of the exchange engine, \<open>crates/btrfs-exchange/src/config.rs\<close>: its
  structures, the built-in defaults and volume profiles, and loading and saving. The TOML codec
  is a parameter.
\<close>

section \<open>Structures\<close>

record volume_profile =
  vp_name :: string
  vp_nocow :: bool
  vp_compression :: string
  vp_compression_level :: byte
  vp_sync_writes :: bool
  vp_quota_enforced :: bool
  vp_create_flags :: "string list"
  vp_mount_options :: "string list"

record database_config =
  db_enabled :: bool
  db_sqlite_wal_mode :: bool
  db_checkpoint_interval :: u64
  db_enable_nocow :: bool

record replication_config =
  default_replica_count :: u32
  default_interval :: u64
  max_concurrent :: u32
  data_dir :: string
  snapshot_dir :: string
  enable_incremental :: bool
  database :: database_config
  volume_profiles :: "volume_profile hmap"

record snapshot_retention =
  sr_daily :: u32
  sr_weekly :: u32
  sr_monthly :: u32

record maintenance_config =
  mt_enabled :: bool
  mt_balance_schedule :: string
  mt_balance_threshold :: f64
  mt_scrub_schedule :: string
  mt_snapshot_cleanup_schedule :: string
  mt_snapshot_retention :: snapshot_retention

record exchange_config =
  node_id :: string
  listen_addr :: string
  listen_port :: u16
  replication_port :: u16
  zone :: string
  cfg_auth_key :: string
  seed_nodes :: "string list"
  gossip_interval :: u64
  heartbeat_interval :: u64
  node_timeout :: u64
  replication :: replication_config
  maintenance :: maintenance_config

text \<open>\<open>format!("{}:{}", listen_addr, port)\<close>.\<close>

definition addr_text :: "string \<Rightarrow> u16 \<Rightarrow> string" where
  "addr_text host port = host @ '':'' @ show_nat (unat port)"

section \<open>Defaults\<close>

definition default_profile :: volume_profile where
  "default_profile = \<lparr>vp_name = ''default'', vp_nocow = False, vp_compression = ''zstd'',
     vp_compression_level = 1, vp_sync_writes = False, vp_quota_enforced = True,
     vp_create_flags = [], vp_mount_options = [''noatime'']\<rparr>"

definition database_profile :: volume_profile where
  "database_profile = \<lparr>vp_name = ''database'', vp_nocow = False, vp_compression = ''zstd'',
     vp_compression_level = 1, vp_sync_writes = True, vp_quota_enforced = True,
     vp_create_flags = [], vp_mount_options = [''noatime,sync'']\<rparr>"

definition log_profile :: volume_profile where
  "log_profile = \<lparr>vp_name = ''log'', vp_nocow = True, vp_compression = ''lzo'',
     vp_compression_level = 1, vp_sync_writes = False, vp_quota_enforced = True,
     vp_create_flags = [], vp_mount_options = [''noatime'']\<rparr>"

definition default_database_config :: database_config where
  "default_database_config = \<lparr>db_enabled = True, db_sqlite_wal_mode = True,
     db_checkpoint_interval = 30, db_enable_nocow = False\<rparr>"

definition default_volume_profiles :: "volume_profile hmap" where
  "default_volume_profiles =
     hm_insert ''log'' log_profile
       (hm_insert ''database'' database_profile (hm_insert ''default'' default_profile []))"

definition default_replication_config :: replication_config where
  "default_replication_config = \<lparr>default_replica_count = 2, default_interval = 30,
     max_concurrent = 4, data_dir = ''/mnt/data'', snapshot_dir = ''/mnt/snapshots'',
     enable_incremental = True, database = default_database_config,
     volume_profiles = default_volume_profiles\<rparr>"

definition default_maintenance_config :: maintenance_config where
  "default_maintenance_config = \<lparr>mt_enabled = True, mt_balance_schedule = ''0 2 * * *'',
     mt_balance_threshold = round_f64 (7 / 10), mt_scrub_schedule = ''0 3 * * 0'',
     mt_snapshot_cleanup_schedule = ''0 4 * * *'',
     mt_snapshot_retention = \<lparr>sr_daily = 7, sr_weekly = 4, sr_monthly = 3\<rparr>\<rparr>"

definition default_exchange_config :: "'w env \<Rightarrow> ('w, exchange_config) io" where
  "default_exchange_config E = do {
     uuid \<leftarrow> new_uuid E;
     State_Monad.return
       \<lparr>node_id = uuid, listen_addr = ''0.0.0.0'', listen_port = 9200, replication_port = 9300,
        zone = ''default'', cfg_auth_key = [], seed_nodes = [], gossip_interval = 10,
        heartbeat_interval = 30, node_timeout = 90, replication = default_replication_config,
        maintenance = default_maintenance_config\<rparr>
   }"

section \<open>Loading and saving\<close>

text \<open>\<open>parse\<close> and \<open>print\<close> are \<open>toml::from_str\<close> and \<open>toml::to_string_pretty\<close>.\<close>

definition load :: "'w env \<Rightarrow> (string \<Rightarrow> exchange_config option) \<Rightarrow> string \<Rightarrow> ('w, string + exchange_config) io" where
  "load E parse path = do {
     content \<leftarrow> read_file E path;
     State_Monad.return
       (case content of
          None \<Rightarrow> Inl ''cannot read configuration''
        | Some t \<Rightarrow> (case parse t of None \<Rightarrow> Inl ''invalid configuration'' | Some c \<Rightarrow> Inr c))
   }"

definition save :: "'w env \<Rightarrow> (exchange_config \<Rightarrow> string option) \<Rightarrow> exchange_config \<Rightarrow> string \<Rightarrow> ('w, string + unit) io" where
  "save E print c path =
     (case print c of
        None \<Rightarrow> State_Monad.return (Inl ''cannot serialize configuration'')
      | Some t \<Rightarrow> write_file E path t)"

end
