(* ===== verification/Hmac_Auth.thy ===== *)
theory Hmac_Auth
  imports Sample_World "HOL-Library.Signed_Division"
begin

text \<open>
  Token authentication of \<open>crates/btrfs-protocol/src/auth.rs\<close>: HMAC tokens over a
  millisecond timestamp, their freshness check and the 40-byte payload that carries them.
\<close>

section \<open>Model\<close>

datatype auth_error = InvalidSignature | TimestampExpired | InvalidTimestamp | KeyGenerationFailed

text \<open>The \<open>Display\<close> texts of the errors.\<close>

fun auth_error_text :: "auth_error \<Rightarrow> string" where
  "auth_error_text InvalidSignature = ''Invalid HMAC signature''"
| "auth_error_text TimestampExpired = ''Timestamp expired''"
| "auth_error_text InvalidTimestamp = ''Invalid timestamp''"
| "auth_error_text KeyGenerationFailed = ''Key generation failed''"

record hmac_auth =
  key :: "byte list"
  max_age_secs :: i64

definition new_auth :: "byte list \<Rightarrow> i64 \<Rightarrow> hmac_auth" where
  "new_auth k age = \<lparr>key = k, max_age_secs = age\<rparr>"

definition compute_hmac :: "crypto \<Rightarrow> hmac_auth \<Rightarrow> i64 \<Rightarrow> byte list" where
  "compute_hmac C a ts = hmac_sha256 C (key a) (put_i64 ts)"

definition generate_token :: "'w env \<Rightarrow> hmac_auth \<Rightarrow> ('w, i64 \<times> byte list) io" where
  "generate_token E a = do {
     ts \<leftarrow> now_ms E;
     State_Monad.return (ts, compute_hmac (cr E) a ts)
   }"

text \<open>\<open>i64::abs\<close> and \<open>/\<close> with wrap-around; division truncates towards zero.\<close>

definition i64_abs :: "i64 \<Rightarrow> i64" where
  "i64_abs w = (if sint w < 0 then - w else w)"

definition i64_div :: "i64 \<Rightarrow> i64 \<Rightarrow> i64" where
  "i64_div a b = word_of_int (sint a sdiv sint b)"

definition token_age :: "i64 \<Rightarrow> i64 \<Rightarrow> i64" where
  "token_age now ts = i64_div (i64_abs (now - ts)) 1000"

definition check_token :: "crypto \<Rightarrow> hmac_auth \<Rightarrow> i64 \<Rightarrow> i64 \<Rightarrow> byte list \<Rightarrow> auth_error + unit" where
  "check_token C a now ts signature =
     (if sint (max_age_secs a) < sint (token_age now ts) then Inl TimestampExpired
      else if signature \<noteq> compute_hmac C a ts then Inl InvalidSignature
      else Inr ())"

definition validate_token :: "'w env \<Rightarrow> hmac_auth \<Rightarrow> i64 \<Rightarrow> byte list \<Rightarrow> ('w, auth_error + unit) io" where
  "validate_token E a ts signature = do {
     now \<leftarrow> now_ms E;
     State_Monad.return (check_token (cr E) a now ts signature)
   }"

definition generate_key :: "'w env \<Rightarrow> ('w, auth_error + byte list) io" where
  "generate_key E = do {
     k \<leftarrow> random_bytes E 32;
     State_Monad.return (Inr k)
   }"

definition serialize_auth_payload :: "i64 \<Rightarrow> byte list \<Rightarrow> byte list" where
  "serialize_auth_payload ts hmac = put_i64 ts @ hmac"

definition deserialize_auth_payload :: "byte list \<Rightarrow> auth_error + (i64 \<times> byte list)" where
  "deserialize_auth_payload data =
     (if length data < 40 then Inl InvalidSignature
      else Inr (get_i64 (subrange 0 8 data), subrange 8 40 data))"

section \<open>Arithmetic of the age check\<close>

lemma sint_i64_bounds: "- (2 ^ 63) \<le> sint (w :: i64)" "sint (w :: i64) < 2 ^ 63"
  using sint_greater_eq [of w] sint_less [of w] by simp_all

lemma sint_word_of_int_i64: "- (2 ^ 63) \<le> x \<Longrightarrow> x < 2 ^ 63 \<Longrightarrow> sint (word_of_int x :: i64) = x"
  by (simp add: signed_of_int signed_take_bit_int_eq_self)

lemma i64_via_int: "(w :: i64) = word_of_int (sint w)"
  by simp

lemma sint_diff_exact:
  fixes a b :: i64
  assumes "\<bar>sint a - sint b\<bar> < 2 ^ 63"
  shows "sint (a - b) = sint a - sint b"
proof -
  have "a - b = word_of_int (sint a - sint b)" by simp
  with assms show ?thesis by (simp add: sint_word_of_int_i64 del: of_int_diff)
qed

lemma sint_abs_exact:
  fixes w :: i64
  assumes "sint w \<noteq> - (2 ^ 63)"
  shows "sint (i64_abs w) = \<bar>sint w\<bar>"
proof (cases "sint w < 0")
  case True
  have "- w = word_of_int (- sint w)" by simp
  moreover have "- sint w < 2 ^ 63" using assms sint_i64_bounds [of w] by simp
  ultimately have "sint (- w) = - sint w"
    using True by (simp add: sint_word_of_int_i64 del: of_int_minus)
  with True show ?thesis by (simp add: i64_abs_def)
next
  case False
  then show ?thesis by (simp add: i64_abs_def)
qed

lemma sint_token_age:
  fixes now ts :: i64
  assumes "\<bar>sint now - sint ts\<bar> < 2 ^ 63"
  shows "sint (token_age now ts) = \<bar>sint now - sint ts\<bar> div 1000"
proof -
  let ?d = "\<bar>sint now - sint ts\<bar>"
  have "sint (now - ts) = sint now - sint ts" using assms by (rule sint_diff_exact)
  then have abs: "sint (i64_abs (now - ts)) = ?d" using assms by (simp add: sint_abs_exact)
  have "?d sdiv 1000 = ?d div 1000" by (simp add: signed_divide_int_def sgn_if)
  moreover have "sint (1000 :: i64) = 1000" by simp
  moreover have "- (2 ^ 63) \<le> ?d div 1000" "?d div 1000 < 2 ^ 63" using assms by auto
  ultimately show ?thesis
    by (simp add: token_age_def i64_div_def abs sint_word_of_int_i64)
qed

lemma less_div_thousand: "m < d div 1000 \<longleftrightarrow> 1000 * (m + 1) \<le> (d :: int)"
proof -
  define q r where "q = d div 1000" and "r = d mod 1000"
  have "d = 1000 * q + r" "0 \<le> r" "r < 1000" by (simp_all add: q_def r_def)
  then have "m < q \<longleftrightarrow> 1000 * (m + 1) \<le> d" by auto
  then show ?thesis by (simp add: q_def)
qed

section \<open>Properties\<close>

text \<open>C22. Token validation is exact: for timestamps whose distance from the local clock fits
  an \<open>i64\<close>, a token is accepted if and only if it carries the HMAC of its timestamp under the
  shared key and is less than \<open>max_age_secs + 1\<close> seconds away from the clock, in the past or
  in the future; a stale token is reported as expired whatever its signature.\<close>

theorem check_token_exact:
  assumes "\<bar>sint now - sint ts\<bar> < 2 ^ 63"
  shows "(check_token C a now ts s = Inr () \<longleftrightarrow>
            s = hmac_sha256 C (key a) (put_i64 ts)
            \<and> \<bar>sint now - sint ts\<bar> < 1000 * (sint (max_age_secs a) + 1))
       \<and> (check_token C a now ts s = Inl TimestampExpired \<longleftrightarrow>
            1000 * (sint (max_age_secs a) + 1) \<le> \<bar>sint now - sint ts\<bar>)"
proof -
  let ?stale = "1000 * (sint (max_age_secs a) + 1) \<le> \<bar>sint now - sint ts\<bar>"
  have "m < d div 1000 \<longleftrightarrow> 1000 * (m + 1) \<le> d" for m d :: int
    by (rule less_div_thousand)
  then have iff: "sint (max_age_secs a) < sint (token_age now ts) \<longleftrightarrow> ?stale"
    by (simp only: sint_token_age [OF assms])
  show ?thesis
    unfolding check_token_def compute_hmac_def iff
    by (cases ?stale) auto
qed

text \<open>The window at a concrete clock: the HMAC of 30.999 seconds ago is still accepted with
  \<open>max_age_secs = 30\<close>.\<close>

theorem check_token_exact_witness:
  "check_token sample_crypto (new_auth [] 30) 100000 69001 (sample_mac [] (put_i64 69001)) = Inr ()
   \<and> check_token sample_crypto (new_auth [] 30) 100000 69000 (sample_mac [] (put_i64 69000))
       = Inl TimestampExpired"
proof
  have h1: "\<bar>sint (100000 :: i64) - sint (69001 :: i64)\<bar> < 2 ^ 63"
    and h2: "\<bar>sint (100000 :: i64) - sint (69000 :: i64)\<bar> < 2 ^ 63" by simp_all
  show "check_token sample_crypto (new_auth [] 30) 100000 69001 (sample_mac [] (put_i64 69001)) = Inr ()"
    by (rule check_token_exact [OF h1, THEN conjunct1, THEN iffD2]) (simp add: new_auth_def sample_crypto_def)
  show "check_token sample_crypto (new_auth [] 30) 100000 69000 (sample_mac [] (put_i64 69000))
       = Inl TimestampExpired"
    by (rule check_token_exact [OF h2, THEN conjunct2, THEN iffD2]) (simp add: new_auth_def sample_crypto_def)
qed

text \<open>The authentication payload round-trips: a 32-byte signature and its timestamp are
  recovered from the serialized payload, whatever follows it, and every payload shorter than
  40 bytes is rejected.\<close>

theorem auth_payload_roundtrip:
  assumes "length h = 32"
  shows "deserialize_auth_payload (serialize_auth_payload ts h @ extra) = Inr (ts, h)
       \<and> deserialize_auth_payload (take 39 (serialize_auth_payload ts h @ extra)) = Inl InvalidSignature"
  using assms
  by (simp add: deserialize_auth_payload_def serialize_auth_payload_def subrange_append_left
      subrange_append_right subrange_0_take)

theorem auth_payload_roundtrip_witness:
  "deserialize_auth_payload (serialize_auth_payload (-5) (replicate 32 7) @ [1]) = Inr (-5, replicate 32 7)
   \<and> deserialize_auth_payload (take 39 (serialize_auth_payload (-5) (replicate 32 7) @ [1])) = Inl InvalidSignature"
  by (rule auth_payload_roundtrip) simp

end
