(* ===== verification/Transport.thy ===== *)
theory Transport
  imports Hmac_Auth
begin

text \<open>
  The authenticated, encrypted connections of \<open>crates/btrfs-protocol/src/transport.rs\<close>:
  key preparation, the adaptive payload cipher, sending and receiving of framed messages over
  a byte stream, and the authentication handshake of both sides.
\<close>

section \<open>Errors\<close>

datatype transport_error =
    Io string | ConnectionClosed | TAuthFailed string | Protocol string | DecodeError string

fun transport_error_text :: "transport_error \<Rightarrow> string" where
  "transport_error_text (Io e) = ''IO error: '' @ e"
| "transport_error_text ConnectionClosed = ''Connection closed''"
| "transport_error_text (TAuthFailed m) = ''Authentication failed: '' @ m"
| "transport_error_text (Protocol m) = ''Protocol error: '' @ m"
| "transport_error_text (DecodeError m) = ''Message decode error: '' @ m"

fun decode_error_text :: "decode_error \<Rightarrow> string" where
  "decode_error_text InvalidMagic = ''Invalid magic bytes''"
| "decode_error_text (UnsupportedVersion v) = ''Unsupported protocol version: '' @ show_nat (unat v)"
| "decode_error_text (PayloadTooLarge n) =
     ''Payload too large: '' @ show_nat n @ '' bytes (max '' @ show_nat MAX_PAYLOAD_SIZE @ '')''"
| "decode_error_text UnknownMessageType = ''Unknown message type''"

section \<open>The payload cipher\<close>

datatype cipher_kind = Aes256Gcm | XChaCha20

datatype payload_cipher = AesCipher "byte list" | XChaChaCipher "byte list"

definition new_cipher :: "crypto \<Rightarrow> byte list \<Rightarrow> payload_cipher" where
  "new_cipher C raw_key = (if has_aesni C then AesCipher raw_key else XChaChaCipher raw_key)"

fun kind :: "payload_cipher \<Rightarrow> cipher_kind" where
  "kind (AesCipher k) = Aes256Gcm"
| "kind (XChaChaCipher k) = XChaCha20"

fun nonce_len :: "payload_cipher \<Rightarrow> nat" where
  "nonce_len (AesCipher k) = 12"
| "nonce_len (XChaChaCipher k) = 24"

fun cipher_key :: "payload_cipher \<Rightarrow> byte list" where
  "cipher_key (AesCipher k) = k"
| "cipher_key (XChaChaCipher k) = k"

text \<open>Sealing under a given nonce, and \<open>encrypt\<close>, which draws the nonce.\<close>

fun seal_with :: "crypto \<Rightarrow> payload_cipher \<Rightarrow> byte list \<Rightarrow> byte list \<Rightarrow> byte list" where
  "seal_with C (AesCipher k) nonce p = nonce @ aes_seal C k nonce p"
| "seal_with C (XChaChaCipher k) nonce p = nonce @ xchacha_seal C k nonce p"

definition encrypt :: "'w env \<Rightarrow> payload_cipher \<Rightarrow> byte list \<Rightarrow> ('w, byte list) io" where
  "encrypt E c plaintext = do {
     nonce \<leftarrow> random_bytes E (nonce_len c);
     State_Monad.return (seal_with (cr E) c nonce plaintext)
   }"

definition decrypt :: "crypto \<Rightarrow> payload_cipher \<Rightarrow> byte list \<Rightarrow> byte list option" where
  "decrypt C c data =
     (let n = nonce_len c in
      if length data < n + 16 then None
      else case c of
             AesCipher k \<Rightarrow> aes_open C k (take n data) (drop n data)
           | XChaChaCipher k \<Rightarrow> xchacha_open C k (take n data) (drop n data))"

section \<open>Keys\<close>

definition normalize_key :: "crypto \<Rightarrow> byte list \<Rightarrow> byte list" where
  "normalize_key C k = sha256 C k"

definition raw_key :: "crypto \<Rightarrow> byte list \<Rightarrow> byte list" where
  "raw_key C k =
     (if length k = 64 then (case hex_decode C k of Some r \<Rightarrow> r | None \<Rightarrow> normalize_key C k)
      else if length k = 32 then k
      else normalize_key C k)"

record tcp_transport =
  auth :: hmac_auth
  auth_key :: "byte list"

definition new_transport :: "crypto \<Rightarrow> byte list \<Rightarrow> tcp_transport" where
  "new_transport C k = \<lparr>auth = new_auth (raw_key C k) 30, auth_key = raw_key C k\<rparr>"

section \<open>Connections\<close>

record connection =
  sock :: nat
  read_buf :: "byte list"
  cipher :: "payload_cipher option"

definition new_connection :: "nat \<Rightarrow> connection" where
  "new_connection s = \<lparr>sock = s, read_buf = [], cipher = None\<rparr>"

definition wire_payload :: "'w env \<Rightarrow> connection \<Rightarrow> message \<Rightarrow> ('w, byte list) io" where
  "wire_payload E conn msg =
     (case cipher conn of Some c \<Rightarrow> encrypt E c (payload msg) | None \<Rightarrow> State_Monad.return (payload msg))"

definition send_message :: "'w env \<Rightarrow> connection \<Rightarrow> message \<Rightarrow> ('w, transport_error + unit) io" where
  "send_message E conn msg = do {
     p \<leftarrow> wire_payload E conn msg;
     r \<leftarrow> tcp_write E (sock conn)
            (encode \<lparr>msg_type = msg_type msg, payload = p, timestamp = timestamp msg\<rparr>);
     State_Monad.return (case r of Inl e \<Rightarrow> Inl (Io e) | Inr _ \<Rightarrow> Inr ())
   }"

definition open_payload :: "crypto \<Rightarrow> payload_cipher option \<Rightarrow> message \<Rightarrow> transport_error + message" where
  "open_payload C c wire =
     (case c of
        None \<Rightarrow> Inr wire
      | Some c' \<Rightarrow>
          (case decrypt C c' (payload wire) of
             None \<Rightarrow> Inl (Protocol ''Payload decryption failed'')
           | Some p \<Rightarrow> Inr (wire\<lparr>payload := p\<rparr>)))"

text \<open>The receive loop: decode what is buffered, read more when a frame is incomplete. It
  returns on every input: a read that yields nothing ends it, and the buffer of an
  incomplete frame is bounded.\<close>

function recv_message ::
  "'w env \<Rightarrow> connection \<Rightarrow> ('w, (transport_error + message) \<times> connection) io" where
  "recv_message E conn =
     (case decode (read_buf conn) of
        (Inl e, b) \<Rightarrow> State_Monad.return (Inl (Io (decode_error_text e)), conn\<lparr>read_buf := b\<rparr>)
      | (Inr (Some wire), b) \<Rightarrow>
          State_Monad.return (open_payload (cr E) (cipher conn) wire, conn\<lparr>read_buf := b\<rparr>)
      | (Inr None, b) \<Rightarrow> do {
          r \<leftarrow> tcp_read E (sock conn);
          case r of
            ReadTimeout \<Rightarrow> State_Monad.return (Inl (Protocol ''Receive timed out''), conn)
          | ReadErr e \<Rightarrow> State_Monad.return (Inl (Io e), conn)
          | ReadOk bs \<Rightarrow>
              if bs = [] then State_Monad.return (Inl ConnectionClosed, conn)
              else recv_message E (conn\<lparr>read_buf := b @ bs\<rparr>)
        })"
  by pat_completeness auto
termination
  by (relation "measure (\<lambda>(E, conn). 20 + MAX_PAYLOAD_SIZE - length (read_buf conn))")
    (auto dest!: frame.dec_waits [OF sym] intro!: diff_less_mono2)

declare recv_message.simps [simp del]

section \<open>The handshake\<close>

definition connect :: "'w env \<Rightarrow> tcp_transport \<Rightarrow> string \<Rightarrow> ('w, transport_error + connection) io" where
  "connect E T addr = do {
     r \<leftarrow> tcp_connect E addr;
     case r of
       Inl e \<Rightarrow> State_Monad.return (Inl (Io e))
     | Inr s \<Rightarrow> do {
         let conn = new_connection s;
         (ts, signature) \<leftarrow> generate_token E (auth T);
         now \<leftarrow> now_ms E;
         sent \<leftarrow> send_message E conn (new_message Auth (serialize_auth_payload ts signature) now);
         case sent of
           Inl e \<Rightarrow> State_Monad.return (Inl e)
         | Inr _ \<Rightarrow> do {
             (response, conn) \<leftarrow> recv_message E conn;
             State_Monad.return
               (case response of
                  Inl e \<Rightarrow> Inl e
                | Inr m \<Rightarrow>
                    (case msg_type m of
                       AuthOk \<Rightarrow> Inr (conn\<lparr>cipher := Some (new_cipher (cr E) (auth_key T))\<rparr>)
                     | AuthFailed \<Rightarrow>
                         Inl (TAuthFailed (unwrap_or (from_utf8 (payload m)) ''Unknown error''))
                     | _ \<Rightarrow> Inl (Protocol ''Unexpected response to auth'')))
           }
       }
   }"

definition accept :: "'w env \<Rightarrow> tcp_transport \<Rightarrow> nat \<Rightarrow> ('w, transport_error + connection) io" where
  "accept E T listener = do {
     r \<leftarrow> tcp_accept E listener;
     case r of
       Inl e \<Rightarrow> State_Monad.return (Inl (Io e))
     | Inr s \<Rightarrow> do {
         (received, conn) \<leftarrow> recv_message E (new_connection s);
         case received of
           Inl e \<Rightarrow> State_Monad.return (Inl e)
         | Inr msg \<Rightarrow>
             (if msg_type msg = Auth then
                (case deserialize_auth_payload (payload msg) of
                   Inl e \<Rightarrow> State_Monad.return (Inl (TAuthFailed (auth_error_text e)))
                 | Inr (ts, signature) \<Rightarrow> do {
                     v \<leftarrow> validate_token E (auth T) ts signature;
                     now \<leftarrow> now_ms E;
                     case v of
                       Inr _ \<Rightarrow> do {
                         sent \<leftarrow> send_message E conn (new_message AuthOk [] now);
                         State_Monad.return
                           (case sent of
                              Inl e \<Rightarrow> Inl e
                            | Inr _ \<Rightarrow> Inr (conn\<lparr>cipher := Some (new_cipher (cr E) (auth_key T))\<rparr>))
                       }
                     | Inl e \<Rightarrow> do {
                         sent \<leftarrow> send_message E conn
                           (new_message AuthFailed (text_bytes (auth_error_text e)) now);
                         State_Monad.return
                           (case sent of
                              Inl e' \<Rightarrow> Inl e'
                            | Inr _ \<Rightarrow> Inl (TAuthFailed (auth_error_text e)))
                       }
                   })
              else State_Monad.return (Inl (Protocol ''Expected auth message'')))
       }
   }"

section \<open>Reads that deliver a stream\<close>

text \<open>\<open>delivers E s w cs w'\<close>: successive reads of socket \<open>s\<close> from world \<open>w\<close> return the non-empty
  chunks \<open>cs\<close> and end in \<open>w'\<close>.\<close>

fun delivers :: "'w env \<Rightarrow> nat \<Rightarrow> 'w \<Rightarrow> byte list list \<Rightarrow> 'w \<Rightarrow> bool" where
  "delivers E s w [] w' \<longleftrightarrow> w' = w"
| "delivers E s w (c # cs) w' \<longleftrightarrow>
     c \<noteq> [] \<and> fst (run_io (tcp_read E s) w) = ReadOk c
     \<and> delivers E s (snd (run_io (tcp_read E s) w)) cs w'"

lemma recv_message_front:
  assumes "sendable wire" "read_buf conn @ concat cs = encode wire @ rest"
    "delivers E (sock conn) w cs w'"
  shows "\<exists>cs1 cs2 w1 r. cs = cs1 @ cs2 \<and> delivers E (sock conn) w cs1 w1
     \<and> delivers E (sock conn) w1 cs2 w' \<and> r @ concat cs2 = rest
     \<and> run_io (recv_message E conn) w
         = ((open_payload (cr E) (cipher conn) wire, conn\<lparr>read_buf := r\<rparr>), w1)"
  using assms
proof (induction cs arbitrary: conn w)
  case Nil
  then have "decode (read_buf conn) = (Inr (Some wire), rest)"
    by (simp add: frame.dec_enc)
  then have "run_io (recv_message E conn) w
      = ((open_payload (cr E) (cipher conn) wire, conn\<lparr>read_buf := rest\<rparr>), w)"
    by (subst recv_message.simps) simp
  with Nil.prems show ?case by auto
next
  case (Cons c cs)
  let ?w1 = "snd (run_io (tcp_read E (sock conn)) w)"
  from frame.dec_front [OF Cons.prems(1,2)]
  consider (wait) "decode (read_buf conn) = (Inr None, read_buf conn)"
    | (ready) r where "decode (read_buf conn) = (Inr (Some wire), r)" "r @ concat (c # cs) = rest"
    by blast
  then show ?case
  proof cases
    case wait
    let ?conn = "conn\<lparr>read_buf := read_buf conn @ c\<rparr>"
    have "run_io (recv_message E conn) w = run_io (recv_message E ?conn) ?w1"
      using Cons.prems(3) wait
      by (subst recv_message.simps) (auto split: prod.splits)
    moreover have "\<exists>cs1 cs2 w1 r. cs = cs1 @ cs2 \<and> delivers E (sock ?conn) ?w1 cs1 w1
        \<and> delivers E (sock ?conn) w1 cs2 w' \<and> r @ concat cs2 = rest
        \<and> run_io (recv_message E ?conn) ?w1
            = ((open_payload (cr E) (cipher ?conn) wire, ?conn\<lparr>read_buf := r\<rparr>), w1)"
      using Cons.prems by (intro Cons.IH) auto
    then obtain cs1 cs2 w1 r where "cs = cs1 @ cs2" "delivers E (sock conn) ?w1 cs1 w1"
      "delivers E (sock conn) w1 cs2 w'" "r @ concat cs2 = rest"
      "run_io (recv_message E ?conn) ?w1
         = ((open_payload (cr E) (cipher conn) wire, conn\<lparr>read_buf := r\<rparr>), w1)"
      by auto
    ultimately show ?thesis using Cons.prems(3)
      by (intro exI [of _ "c # cs1"] exI [of _ cs2] exI [of _ w1] exI [of _ r]) simp
  next
    case ready
    then have "run_io (recv_message E conn) w
        = ((open_payload (cr E) (cipher conn) wire, conn\<lparr>read_buf := r\<rparr>), w)"
      by (subst recv_message.simps) simp
    with ready Cons.prems(3) show ?thesis
      by (intro exI [of _ "[]"] exI [of _ "c # cs"] exI [of _ w] exI [of _ r]) auto
  qed
qed

text \<open>Receiving keeps everything that reading from a socket keeps.\<close>

lemma recv_message_keeps:
  assumes "\<And>s w. given (snd (run_io (tcp_read E s) w)) = given w"
  shows "given (snd (run_io (recv_message E conn) w)) = given w"
proof (induction "20 + MAX_PAYLOAD_SIZE - length (read_buf conn)" arbitrary: conn w rule: less_induct)
  case less
  obtain d b where d: "decode (read_buf conn) = (d, b)" by (metis surj_pair)
  consider (err) e where "d = Inl e" | (ready) wire where "d = Inr (Some wire)" | (wait) "d = Inr None"
    by (metis sum.exhaust option.exhaust)
  then show ?case
  proof cases
    case err
    with d show ?thesis by (subst recv_message.simps) simp
  next
    case ready
    with d show ?thesis by (subst recv_message.simps) simp
  next
    case wait
    have b: "b = read_buf conn" "length (read_buf conn) < 20 + MAX_PAYLOAD_SIZE"
      using frame.dec_waits [OF d [unfolded wait]] by simp_all
    obtain r w1 where r: "run_io (tcp_read E (sock conn)) w = (r, w1)" by (metis surj_pair)
    then have w1: "given w1 = given w" using assms [of "sock conn" w] by simp
    have "given (snd (run_io (recv_message E (conn\<lparr>read_buf := b @ bs\<rparr>)) w1)) = given w1" if "bs \<noteq> []" for bs
      using b that by (intro less) (auto intro!: diff_less_mono2 simp: less_le_trans)
    with d wait r w1 show ?thesis
      by (subst recv_message.simps) (cases r; auto)
  qed
qed

text \<open>The special case of one read that brings a whole frame.\<close>

lemma recv_one_frame:
  assumes "sendable m" "read_buf conn = []" "run_io (tcp_read E (sock conn)) w = (ReadOk (encode m), w1)"
  shows "run_io (recv_message E conn) w = ((open_payload (cr E) (cipher conn) m, conn), w1)"
proof -
  have "decode [] = (Inr None, [])" by (simp add: decode_def)
  moreover have "decode (encode m) = (Inr (Some m), [])"
    using frame.dec_enc [OF assms(1), of "[]"] by simp
  ultimately show ?thesis
    using assms(2,3) frame.enc_not_Nil [of m]
    by (subst recv_message.simps) (simp, subst recv_message.simps, simp)
qed

lemma decrypt_seal:
  assumes "aead_ok C" "length nonce = nonce_len c"
  shows "decrypt C c (seal_with C c nonce p) = Some p"
proof -
  have "\<not> length (aes_seal C k n p) < 16" "\<not> length (xchacha_seal C k n p) < 16" for k n
    using assms(1) by (simp_all add: aead_ok_def not_less)
  with assms show ?thesis by (cases c) (auto simp: decrypt_def aead_ok_def Let_def)
qed

lemma length_seal_with: "aead_ok C \<Longrightarrow> 16 + length nonce \<le> length (seal_with C c nonce p)"
  by (cases c) (simp_all add: aead_ok_def)

text \<open>What \<open>send_message\<close> puts on the wire for a payload sealed as \<open>p\<close>.\<close>

lemma open_wire_message:
  assumes "aead_ok (cr E)" "\<forall>n w. length (fst (run_io (random_bytes E n) w)) = n"
    "run_io (wire_payload E conn msg) w = (p, w')"
  shows "open_payload (cr E) (cipher conn) (msg\<lparr>payload := p\<rparr>) = Inr msg"
proof (cases "cipher conn")
  case None
  with assms(3) show ?thesis by (simp add: wire_payload_def open_payload_def)
next
  case (Some c)
  let ?n = "fst (run_io (random_bytes E (nonce_len c)) w)"
  from Some assms(3) have "p = seal_with (cr E) c ?n (payload msg)"
    by (auto simp: wire_payload_def encrypt_def split: prod.splits)
  with Some assms(1,2) show ?thesis
    by (simp add: open_payload_def decrypt_seal)
qed

text \<open>\<open>accept\<close> after a well-formed \<open>Auth\<close> message: the outcome is the token check's.\<close>

lemma accept_after_auth:
  assumes "run_io (tcp_accept E l) w = (Inr s, w1)"
    and "run_io (recv_message E (new_connection s)) w1 = ((Inr m, c1), w2)"
    and "msg_type m = Auth" and "40 \<le> length (payload m)"
    and "run_io (now_ms E) w2 = (now, w3)" and "run_io (now_ms E) w3 = (now', w4)"
  shows "run_io (accept E T l) w =
     (case check_token (cr E) (auth T) now (get_i64 (subrange 0 8 (payload m))) (subrange 8 40 (payload m)) of
        Inr _ \<Rightarrow>
          (case run_io (send_message E c1 (new_message AuthOk [] now')) w4 of
             (Inl e, w5) \<Rightarrow> (Inl e, w5)
           | (Inr _, w5) \<Rightarrow> (Inr (c1\<lparr>cipher := Some (new_cipher (cr E) (auth_key T))\<rparr>), w5))
      | Inl e \<Rightarrow>
          (case run_io (send_message E c1 (new_message AuthFailed (text_bytes (auth_error_text e)) now')) w4 of
             (Inl e', w5) \<Rightarrow> (Inl e', w5)
           | (Inr _, w5) \<Rightarrow> (Inl (TAuthFailed (auth_error_text e)), w5)))"
  using assms
  by (simp add: accept_def deserialize_auth_payload_def validate_token_def
      split: sum.split prod.split)

section \<open>Properties\<close>

text \<open>C20. Receiving does not depend on how the stream was cut: whatever chunks the socket
  delivers, once the buffered bytes and the chunks start with the frame of an accepted message,
  \<open>recv_message\<close> returns, with that frame's payload opened by the connection's cipher, and
  leaves every later byte either in the buffer or unread.\<close>

theorem recv_message_any_chunking:
  assumes "length (payload wire) \<le> MAX_PAYLOAD_SIZE"
    and "read_buf conn @ concat chunks = encode wire @ rest"
    and "delivers E (sock conn) w chunks w'"
  shows "\<exists>taken left w1 buf. chunks = taken @ left \<and> buf @ concat left = rest
     \<and> delivers E (sock conn) w1 left w'
     \<and> run_io (recv_message E conn) w
         = ((open_payload (cr E) (cipher conn) wire, conn\<lparr>read_buf := buf\<rparr>), w1)"
  using recv_message_front [of wire conn chunks rest E w w'] assms
  by (simp add: sendable_def) blast

theorem recv_message_any_chunking_witness:
  "\<exists>taken left w1 buf.
      [take 3 (encode (new_message Heartbeat [1] 5)), drop 3 (encode (new_message Heartbeat [1] 5)) @ [66]]
        = taken @ left
    \<and> buf @ concat left = [66]
    \<and> delivers sample_env 0 w1 left (sample_start\<lparr>s_reads := []\<rparr>)
    \<and> run_io (recv_message sample_env (new_connection 0))
         (sample_start\<lparr>s_reads := [ReadOk (take 3 (encode (new_message Heartbeat [1] 5))),
                                   ReadOk (drop 3 (encode (new_message Heartbeat [1] 5)) @ [66])]\<rparr>)
       = ((open_payload sample_crypto None (new_message Heartbeat [1] 5),
           (new_connection 0)\<lparr>read_buf := buf\<rparr>), w1)"
proof -
  let ?m = "new_message Heartbeat [1] 5"
  let ?cs = "[take 3 (encode ?m), drop 3 (encode ?m) @ [66]]"
  have "length (payload ?m) \<le> MAX_PAYLOAD_SIZE"
    by (simp add: new_message_def MAX_PAYLOAD_SIZE_def)
  moreover have "read_buf (new_connection 0) @ concat ?cs = encode ?m @ [66]"
    by (simp add: new_connection_def)
  moreover have "take 3 (encode ?m) \<noteq> []"
    using length_encode [of ?m] by (metis take_eq_Nil length_0_conv zero_neq_numeral add_is_0)
  then have "delivers sample_env (sock (new_connection 0))
      (sample_start\<lparr>s_reads := map ReadOk ?cs\<rparr>) ?cs (sample_start\<lparr>s_reads := []\<rparr>)"
    by (simp add: sample_env_simps new_connection_def)
  ultimately show ?thesis
    using recv_message_any_chunking [of ?m "new_connection 0" ?cs "[66]" sample_env
        "sample_start\<lparr>s_reads := map ReadOk ?cs\<rparr>" "sample_start\<lparr>s_reads := []\<rparr>"]
    by (simp add: new_connection_def sample_env_simps)
qed

text \<open>End to end: with ciphers under the same key on both sides, the bytes one side writes
  for a message, delivered to the other side in any chunks, make it receive exactly that
  message, and nothing is left in its buffer.\<close>

theorem send_then_recv:
  assumes "aead_ok (cr E)" and "\<forall>n w. length (fst (run_io (random_bytes E n) w)) = n"
    and "run_io (wire_payload E a msg) w = (p, w1)" and "length p \<le> MAX_PAYLOAD_SIZE"
    and "cipher b = cipher a" and "read_buf b = []" and "cr E' = cr E"
    and "delivers E' (sock b) v chunks v'" and "concat chunks = encode (msg\<lparr>payload := p\<rparr>)"
  shows "run_io (send_message E a msg) w =
           (case run_io (tcp_write E (sock a) (concat chunks)) w1 of
              (Inl e, w2) \<Rightarrow> (Inl (Io e), w2) | (Inr _, w2) \<Rightarrow> (Inr (), w2))
       \<and> (\<exists>v1. run_io (recv_message E' b) v = ((Inr msg, b), v1))"
proof
  have frame_eq: "\<lparr>msg_type = msg_type msg, payload = p, timestamp = timestamp msg\<rparr> = msg\<lparr>payload := p\<rparr>"
    by simp
  show "run_io (send_message E a msg) w =
           (case run_io (tcp_write E (sock a) (concat chunks)) w1 of
              (Inl e, w2) \<Rightarrow> (Inl (Io e), w2) | (Inr _, w2) \<Rightarrow> (Inr (), w2))"
    using assms(3)
    by (simp add: send_message_def frame_eq assms(9) split: prod.splits sum.splits)
  have snd: "sendable (msg\<lparr>payload := p\<rparr>)" using assms(4) by (simp add: sendable_def)
  have buf: "read_buf b @ concat chunks = encode (msg\<lparr>payload := p\<rparr>) @ []"
    using assms(6,9) by simp
  from recv_message_front [OF snd buf assms(8)] obtain left v1 r where "r @ concat left = []"
    and run: "run_io (recv_message E' b) v
      = ((open_payload (cr E') (cipher b) (msg\<lparr>payload := p\<rparr>), b\<lparr>read_buf := r\<rparr>), v1)"
    by blast
  then have "b\<lparr>read_buf := r\<rparr> = b" using assms(6) by simp
  moreover have "open_payload (cr E') (cipher b) (msg\<lparr>payload := p\<rparr>) = Inr msg"
    using open_wire_message [OF assms(1-3)] assms(5,7) by simp
  ultimately show "\<exists>v1. run_io (recv_message E' b) v = ((Inr msg, b), v1)"
    using run by auto
qed

theorem send_then_recv_witness:
  "run_io (send_message sample_env \<lparr>sock = 0, read_buf = [], cipher = Some (XChaChaCipher [5])\<rparr>
        (new_message NodeLeave [1, 2] 9)) sample_start =
     (case run_io (tcp_write sample_env 0 (concat [encode (new_message NodeLeave (replicate 24 0 @ [1, 2] @ replicate 16 0) 9)])) sample_start of
        (Inl e, w2) \<Rightarrow> (Inl (Io e), w2) | (Inr _, w2) \<Rightarrow> (Inr (), w2))
   \<and> (\<exists>v1. run_io (recv_message sample_env \<lparr>sock = 1, read_buf = [], cipher = Some (XChaChaCipher [5])\<rparr>)
         (sample_start\<lparr>s_reads := [ReadOk (encode (new_message NodeLeave (replicate 24 0 @ [1, 2] @ replicate 16 0) 9))]\<rparr>)
       = ((Inr (new_message NodeLeave [1, 2] 9), \<lparr>sock = 1, read_buf = [], cipher = Some (XChaChaCipher [5])\<rparr>), v1))"
proof -
  let ?a = "\<lparr>sock = 0, read_buf = [], cipher = Some (XChaChaCipher [5])\<rparr>"
  let ?b = "\<lparr>sock = 1, read_buf = [], cipher = Some (XChaChaCipher [5])\<rparr>"
  let ?m = "new_message NodeLeave [1, 2] 9"
  let ?p = "replicate 24 0 @ [1, 2] @ replicate 16 0 :: byte list"
  let ?v = "sample_start\<lparr>s_reads := [ReadOk (encode (?m\<lparr>payload := ?p\<rparr>))]\<rparr>"
  have "encode (?m\<lparr>payload := ?p\<rparr>) \<noteq> []" by (rule frame.enc_not_Nil)
  then have "delivers sample_env (sock ?b) ?v [encode (?m\<lparr>payload := ?p\<rparr>)] (?v\<lparr>s_reads := []\<rparr>)"
    by (simp add: sample_env_simps)
  moreover have "run_io (wire_payload sample_env ?a ?m) sample_start = (?p, sample_start)"
    by (simp add: wire_payload_def encrypt_def sample_env_simps sample_crypto_def sample_seal_def new_message_def)
  moreover have "aead_ok (cr sample_env)" "cr sample_env = cr sample_env"
    using sample_crypto_laws by (simp_all add: sample_env_simps)
  moreover have "\<forall>n w. length (fst (run_io (random_bytes sample_env n) w)) = n"
    by (simp add: sample_env_simps)
  moreover have "length ?p \<le> MAX_PAYLOAD_SIZE" by (simp add: MAX_PAYLOAD_SIZE_def)
  ultimately show ?thesis
    using send_then_recv [of sample_env ?a ?m sample_start ?p sample_start ?b sample_env ?v
        "[encode (?m\<lparr>payload := ?p\<rparr>)]" "?v\<lparr>s_reads := []\<rparr>"]
    by (simp add: new_message_def)
qed

text \<open>C4. No connection is accepted without a valid token: \<open>accept\<close> returns a connection only
  after the peer's first message was an \<open>Auth\<close> message whose payload carries a token that
  \<open>check_token\<close> accepts under the shared key at the time it is read; the returned connection
  encrypts with that key.\<close>

theorem accept_requires_valid_token:
  assumes "run_io (accept E T l) w = (Inr conn, w')"
  shows "\<exists>s w1 m c1 w2 now w3.
      run_io (tcp_accept E l) w = (Inr s, w1)
    \<and> run_io (recv_message E (new_connection s)) w1 = ((Inr m, c1), w2)
    \<and> msg_type m = Auth \<and> 40 \<le> length (payload m)
    \<and> run_io (now_ms E) w2 = (now, w3)
    \<and> check_token (cr E) (auth T) now (get_i64 (subrange 0 8 (payload m))) (subrange 8 40 (payload m)) = Inr ()
    \<and> cipher conn = Some (new_cipher (cr E) (auth_key T))"
proof -
  from assms obtain s w1 where s: "run_io (tcp_accept E l) w = (Inr s, w1)"
    by (auto simp: accept_def split: prod.splits sum.splits)
  with assms obtain m c1 w2 where m: "run_io (recv_message E (new_connection s)) w1 = ((Inr m, c1), w2)"
    by (auto simp: accept_def split: prod.splits sum.splits)
  from assms s m have ty: "msg_type m = Auth" and len: "40 \<le> length (payload m)"
    by (auto simp: accept_def deserialize_auth_payload_def split: if_splits)
  obtain now w3 now' w4 where now: "run_io (now_ms E) w2 = (now, w3)" "run_io (now_ms E) w3 = (now', w4)"
    by (meson surj_pair)
  from assms accept_after_auth [OF s m ty len now, of T]
  have "check_token (cr E) (auth T) now (get_i64 (subrange 0 8 (payload m))) (subrange 8 40 (payload m)) = Inr ()
      \<and> cipher conn = Some (new_cipher (cr E) (auth_key T))"
    by (auto split: prod.splits sum.splits)
  with s m ty len now(1) show ?thesis by blast
qed

theorem accept_requires_valid_token_witness:
  "\<exists>s w1 m c1 w2 now w3.
      run_io (tcp_accept sample_env 0) (sample_start\<lparr>s_reads := [ReadOk (encode (new_message Auth
         (serialize_auth_payload 1700000000000 (sample_mac (replicate 32 1) (put_i64 1700000000000))) 0))]\<rparr>)
        = (Inr s, w1)
    \<and> run_io (recv_message sample_env (new_connection s)) w1 = ((Inr m, c1), w2)
    \<and> msg_type m = Auth \<and> 40 \<le> length (payload m)
    \<and> run_io (now_ms sample_env) w2 = (now, w3)
    \<and> check_token (cr sample_env) (auth (new_transport sample_crypto (replicate 32 1))) now
        (get_i64 (subrange 0 8 (payload m))) (subrange 8 40 (payload m)) = Inr ()
    \<and> cipher ((new_connection 0)\<lparr>cipher := Some (XChaChaCipher (replicate 32 1))\<rparr>)
        = Some (new_cipher (cr sample_env) (auth_key (new_transport sample_crypto (replicate 32 1))))"
proof -
  let ?mac = "sample_mac (replicate 32 1) (put_i64 1700000000000)"
  let ?m = "new_message Auth (serialize_auth_payload 1700000000000 ?mac) 0"
  let ?w = "sample_start\<lparr>s_reads := [ReadOk (encode ?m)]\<rparr>"
  let ?w2 = "sample_start\<lparr>s_reads := []\<rparr>"
  let ?T = "new_transport sample_crypto (replicate 32 1)"
  have mac: "length ?mac = 32" by (simp add: sample_mac_def)
  have m: "payload ?m = put_i64 1700000000000 @ ?mac" "msg_type ?m = Auth" "40 \<le> length (payload ?m)"
    using mac by (simp_all add: new_message_def serialize_auth_payload_def)
  have acc: "run_io (tcp_accept sample_env 0) ?w = (Inr 0, ?w)" by (simp add: sample_env_simps)
  have "decode (encode ?m) = (Inr (Some ?m), [])"
    using frame.dec_enc [of ?m "[]"] m(1) mac by (simp add: sendable_def MAX_PAYLOAD_SIZE_def)
  then have rcv: "run_io (recv_message sample_env (new_connection 0)) ?w = ((Inr ?m, new_connection 0), ?w2)"
    by (subst recv_message.simps, subst recv_message.simps)
      (simp add: new_connection_def decode_def [of "[]"] sample_env_simps open_payload_def frame.enc_not_Nil)
  have now: "run_io (now_ms sample_env) ?w2 = (1700000000000, ?w2)" by (simp add: sample_env_simps sample_start_def)
  have key32: "raw_key C (replicate 32 1) = replicate 32 1" for C by (simp add: raw_key_def)
  have "check_token sample_crypto (auth ?T) 1700000000000 1700000000000 ?mac = Inr ()"
    by (simp add: check_token_def compute_hmac_def new_transport_def new_auth_def key32
        token_age_def i64_div_def i64_abs_def sample_crypto_def)
  then have tok: "check_token (cr sample_env) (auth ?T) 1700000000000
      (get_i64 (subrange 0 8 (payload ?m))) (subrange 8 40 (payload ?m)) = Inr ()"
    using mac by (simp add: m(1) subrange_append_left subrange_append_right subrange_0_take sample_env_simps)
  have "fst (run_io (accept sample_env ?T 0) ?w)
      = Inr ((new_connection 0)\<lparr>cipher := Some (XChaChaCipher (replicate 32 1))\<rparr>)"
    unfolding accept_after_auth [OF acc rcv m(2,3) now now] tok
    by (simp add: send_message_def wire_payload_def new_connection_def new_transport_def new_cipher_def
        key32 sample_env_simps sample_crypto_simps)
  then show ?thesis
    by (metis accept_requires_valid_token [of sample_env ?T 0 ?w] prod.collapse)
qed

text \<open>Key preparation never fails: for every configured key, of any length, the transport
  holds a 32-byte key, which is what both ciphers and the token HMAC are created with.\<close>

theorem transport_key_is_32_bytes:
  assumes "digest_sizes_ok C"
  shows "length (auth_key (new_transport C k)) = 32
       \<and> key (auth (new_transport C k)) = auth_key (new_transport C k)
       \<and> length (cipher_key (new_cipher C (auth_key (new_transport C k)))) = 32"
proof -
  have "length (raw_key C k) = 32"
    using assms by (auto simp: raw_key_def normalize_key_def digest_sizes_ok_def split: option.splits)
  then show ?thesis by (simp add: new_transport_def new_auth_def new_cipher_def)
qed

theorem transport_key_is_32_bytes_witness:
  "length (auth_key (new_transport sample_crypto [1, 2, 3])) = 32
   \<and> key (auth (new_transport sample_crypto [1, 2, 3])) = auth_key (new_transport sample_crypto [1, 2, 3])
   \<and> length (cipher_key (new_cipher sample_crypto (auth_key (new_transport sample_crypto [1, 2, 3])))) = 32"
  by (rule transport_key_is_32_bytes) (rule sample_crypto_laws(2))

end
