(* ===== verification/Handshake.thy ===== *)
theory Handshake
  imports Transport
begin

text \<open>
  The two ends of the authentication handshake of \<open>transport.rs\<close> together: a client and a server that
  were configured with the same key.
\<close>

section \<open>The handshake\<close>

text \<open>The message of a client with key \<open>k\<close> whose clock shows \<open>ts\<close>, and then \<open>t\<close>.\<close>

abbreviation hello :: "crypto \<Rightarrow> byte list \<Rightarrow> i64 \<Rightarrow> i64 \<Rightarrow> message" where
  "hello C k ts t \<equiv> new_message Auth (serialize_auth_payload ts (compute_hmac C (auth (new_transport C k)) ts)) t"

lemma length_hmac: "digest_sizes_ok C \<Longrightarrow> length (compute_hmac C a ts) = 32"
  by (simp add: compute_hmac_def digest_sizes_ok_def)

lemma hello_payload:
  assumes "digest_sizes_ok C"
  shows "length (payload (hello C k ts t)) = 40" "get_i64 (subrange 0 8 (payload (hello C k ts t))) = ts"
    "subrange 8 40 (payload (hello C k ts t)) = compute_hmac C (auth (new_transport C k)) ts"
  using length_hmac [OF assms]
  by (simp_all add: new_message_def serialize_auth_payload_def subrange_append_left subrange_append_right
      subrange_0_take)

lemma fresh_token_accepted:
  assumes "\<bar>sint now - sint ts\<bar> < 31000"
  shows "check_token C (auth (new_transport C k)) now ts (compute_hmac C (auth (new_transport C k)) ts) = Inr ()"
proof -
  have "sint (token_age now ts) = \<bar>sint now - sint ts\<bar> div 1000"
    using assms by (intro sint_token_age) simp
  with assms have "\<not> 30 < sint (token_age now ts)" by (simp add: less_div_thousand)
  then show ?thesis by (simp add: check_token_def new_transport_def new_auth_def)
qed

lemma recv_plain:
  assumes "length (payload m) \<le> MAX_PAYLOAD_SIZE" "concat cs = encode m" "delivers E s w cs w'"
  shows "\<exists>w1. run_io (recv_message E (new_connection s)) w = ((Inr m, new_connection s), w1)"
proof -
  have "sendable m" using assms(1) by (simp add: sendable_def)
  from recv_message_front [OF this, of "new_connection s" cs "[]" E w w'] assms(2,3)
  obtain r w1 where "r = []" "run_io (recv_message E (new_connection s)) w
      = ((open_payload (cr E) (cipher (new_connection s)) m, (new_connection s)\<lparr>read_buf := r\<rparr>), w1)"
    by (auto simp: new_connection_def)
  then show ?thesis by (simp add: new_connection_def open_payload_def)
qed

text \<open>Documented behaviour of a socket: \<open>sent w\<close> are the bytes written to it so far. A write succeeds and
  appends its bytes; reading, opening connections and looking at the clock write nothing.\<close>

definition write_log :: "'w env \<Rightarrow> nat \<Rightarrow> ('w \<Rightarrow> byte list) \<Rightarrow> bool" where
  "write_log E s sent \<longleftrightarrow>
     (\<forall>bs w. fst (run_io (tcp_write E s bs) w) = Inr () \<and> sent (snd (run_io (tcp_write E s bs) w)) = sent w @ bs)
   \<and> (\<forall>s' w. sent (snd (run_io (tcp_read E s') w)) = sent w)
   \<and> (\<forall>l w. sent (snd (run_io (tcp_accept E l) w)) = sent w)
   \<and> (\<forall>addr w. sent (snd (run_io (tcp_connect E addr) w)) = sent w)
   \<and> (\<forall>w. sent (snd (run_io (now_ms E) w)) = sent w)"

lemma write_logD:
  assumes "write_log E s sent"
  shows "\<exists>w'. run_io (tcp_write E s bs) w = (Inr (), w') \<and> sent w' = sent w @ bs"
    and "run_io (recv_message E conn) w = (r, w') \<Longrightarrow> sent w' = sent w"
    and "run_io (tcp_accept E l) w = (a, w') \<Longrightarrow> sent w' = sent w"
    and "run_io (tcp_connect E addr) w = (b, w') \<Longrightarrow> sent w' = sent w"
    and "run_io (now_ms E) w = (now, w') \<Longrightarrow> sent w' = sent w"
  using assms recv_message_keeps [of sent E conn w]
  by (auto simp: write_log_def prod_eq_iff)

lemma send_plain:
  assumes "write_log E s sent"
  shows "\<exists>w'. run_io (send_message E (new_connection s) m) w = (Inr (), w') \<and> sent w' = sent w @ encode m"
  using write_logD(1) [OF assms, of "encode m" w]
  by (cases m) (auto simp: send_message_def wire_payload_def new_connection_def)

lemma accept_honest:
  assumes "digest_sizes_ok (cr E)" "run_io (tcp_accept E l) v = (Inr s, v1)"
    and "concat cs = encode (hello (cr E) k ts t)" "delivers E s v1 cs v2"
    and "\<forall>x. \<bar>sint (fst (run_io (now_ms E) x)) - sint ts\<bar> < 31000"
    and "write_log E s sent"
  shows "\<exists>t' v'. run_io (accept E (new_transport (cr E) k) l) v
       = (Inr ((new_connection s)\<lparr>cipher := Some (new_cipher (cr E) (auth_key (new_transport (cr E) k)))\<rparr>), v')
     \<and> sent v' = sent v @ encode (new_message AuthOk [] t')"
proof -
  let ?m = "hello (cr E) k ts t"
  note body = hello_payload [OF assms(1), where k = k and ts = ts and t = t]
  from recv_plain [OF _ assms(3,4)] body(1) obtain v3
    where rcv: "run_io (recv_message E (new_connection s)) v1 = ((Inr ?m, new_connection s), v3)"
    by (auto simp: MAX_PAYLOAD_SIZE_def)
  obtain now v4 now' v5 where now: "run_io (now_ms E) v3 = (now, v4)" "run_io (now_ms E) v4 = (now', v5)"
    by (meson surj_pair)
  have "\<bar>sint now - sint ts\<bar> < 31000" using assms(5) now(1) by (metis fst_conv)
  then have tok: "check_token (cr E) (auth (new_transport (cr E) k)) now (get_i64 (subrange 0 8 (payload ?m)))
      (subrange 8 40 (payload ?m)) = Inr ()"
    unfolding body by (rule fresh_token_accepted)
  have "msg_type ?m = Auth" "40 \<le> length (payload ?m)" using body(1) by (simp_all add: new_message_def)
  note run = accept_after_auth [OF assms(2) rcv this now]
  obtain v6 where snd: "run_io (send_message E (new_connection s) (new_message AuthOk [] now')) v5 = (Inr (), v6)"
      "sent v6 = sent v5 @ encode (new_message AuthOk [] now')"
    using send_plain [OF assms(6)] by blast
  have "sent v5 = sent v"
    using write_logD(3) [OF assms(6,2)] write_logD(2) [OF assms(6) rcv] write_logD(5) [OF assms(6)] now by metis
  with snd show ?thesis unfolding run tok by auto
qed

text \<open>The client's side up to its first read, and then with the answer.\<close>

lemma connect_sends:
  assumes "run_io (tcp_connect E addr) w = (Inr s, w1)"
    and "run_io (now_ms E) w1 = (ts, w2)" "run_io (now_ms E) w2 = (t, w3)"
    and "run_io (tcp_write E s (encode (hello (cr E) k ts t))) w3 = (Inr (), w4)"
  shows "run_io (connect E (new_transport (cr E) k) addr) w =
     (case run_io (recv_message E (new_connection s)) w4 of
        ((response, conn), w') \<Rightarrow>
          (case response of
             Inl e \<Rightarrow> Inl e
           | Inr m \<Rightarrow>
               (case msg_type m of
                  AuthOk \<Rightarrow> Inr (conn\<lparr>cipher := Some (new_cipher (cr E) (auth_key (new_transport (cr E) k)))\<rparr>)
                | AuthFailed \<Rightarrow> Inl (TAuthFailed (unwrap_or (from_utf8 (payload m)) ''Unknown error''))
                | _ \<Rightarrow> Inl (Protocol ''Unexpected response to auth'')), w'))"
proof -
  have "run_io (send_message E (new_connection s) (hello (cr E) k ts t)) w3 = (Inr (), w4)"
    using assms(4) by (simp add: send_message_def wire_payload_def new_connection_def new_message_def)
  then show ?thesis using assms(1-3)
    by (simp add: connect_def generate_token_def new_message_def Let_def split: prod.splits)
qed

lemma connect_writes:
  assumes "run_io (tcp_connect E addr) w = (Inr s, w1)"
    and "run_io (now_ms E) w1 = (ts, w2)" "run_io (now_ms E) w2 = (t, w3)"
    and "run_io (tcp_write E s (encode (hello (cr E) k ts t))) w3 = (Inr (), w4)"
    and "write_log E s sent" "run_io (connect E (new_transport (cr E) k) addr) w = (ra, w')"
  shows "sent w' = sent w @ encode (hello (cr E) k ts t)"
proof -
  have "sent w' = sent w4" using assms(6) write_logD(2) [OF assms(5), of "new_connection s" w4]
    unfolding connect_sends [OF assms(1-4)] by (auto split: prod.splits)
  moreover have "sent w4 = sent w3 @ encode (hello (cr E) k ts t)"
    using write_logD(1) [OF assms(5), of "encode (hello (cr E) k ts t)" w3] assms(4) by auto
  ultimately show ?thesis using write_logD(4,5) [OF assms(5)] assms(1-3) by metis
qed

lemma connect_answered:
  assumes "run_io (tcp_connect E addr) w = (Inr s, w1)"
    and "run_io (now_ms E) w1 = (ts, w2)" "run_io (now_ms E) w2 = (t, w3)"
    and "run_io (tcp_write E s (encode (hello (cr E) k ts t))) w3 = (Inr (), w4)"
    and "concat cs = encode (new_message AuthOk [] t')" "delivers E s w4 cs w5"
  shows "\<exists>w'. run_io (connect E (new_transport (cr E) k) addr) w
     = (Inr ((new_connection s)\<lparr>cipher := Some (new_cipher (cr E) (auth_key (new_transport (cr E) k)))\<rparr>), w')"
proof -
  have "length (payload (new_message AuthOk [] t')) \<le> MAX_PAYLOAD_SIZE" by (simp add: new_message_def)
  from recv_plain [OF this assms(5,6)] obtain w6 where
    "run_io (recv_message E (new_connection s)) w4 = ((Inr (new_message AuthOk [] t'), new_connection s), w6)" by blast
  then show ?thesis unfolding connect_sends [OF assms(1-4)] by (simp add: new_message_def)
qed

text \<open>Only the choice of the cipher looks at the processor.\<close>

lemma new_transport_aesni [simp]: "new_transport (C\<lparr>has_aesni := h\<rparr>) k = new_transport C k"
  by (simp add: new_transport_def raw_key_def normalize_key_def cong: option.case_cong)

lemma compute_hmac_aesni [simp]: "compute_hmac (C\<lparr>has_aesni := h\<rparr>) = compute_hmac C"
  by (intro ext) (simp add: compute_hmac_def)

lemma digest_sizes_ok_aesni [simp]: "digest_sizes_ok (C\<lparr>has_aesni := h\<rparr>) = digest_sizes_ok C"
  by (simp add: digest_sizes_ok_def)

lemma new_cipher_parts:
  "cipher_key (new_cipher C k) = k" "kind (new_cipher C k) = (if has_aesni C then Aes256Gcm else XChaCha20)"
  by (simp_all add: new_cipher_def)

text \<open>C5. Nodes that share a key connect: let what the client's \<open>connect\<close> writes reach the server and
  what the server's \<open>accept\<close> writes reach the client, each in whatever pieces, with clocks that differ
  by less than 31 seconds. Then \<open>connect\<close> and \<open>accept\<close> both return a connection with an empty buffer,
  and both encrypt under the same key, which is \<open>k\<close> itself when it has 32 bytes. The cipher is each
  node's own choice: AES-256-GCM where its processor has AES instructions and XChaCha20 where not, so
  that the two ends use the same cipher if and only if both or neither have them.\<close>

theorem handshake_agrees:
  assumes "digest_sizes_ok (cr E)" and "cr E' = (cr E)\<lparr>has_aesni := aes'\<rparr>"
    and "write_log E s sent" and "write_log E' s' sent'"
    and "run_io (tcp_connect E addr) w = (Inr s, w1)"
    and "run_io (now_ms E) w1 = (ts, w2)" and "run_io (now_ms E) w2 = (t, w3)"
    and "run_io (tcp_write E s (concat cs)) w3 = (Inr (), w4)"
    and "run_io (connect E (new_transport (cr E) k) addr) w = (ra, w')" and "sent w' = sent w @ concat cs"
    and "run_io (tcp_accept E' l) v = (Inr s', v1)" and "delivers E' s' v1 cs v2"
    and "\<forall>x. \<bar>sint (fst (run_io (now_ms E') x)) - sint ts\<bar> < 31000"
    and "run_io (accept E' (new_transport (cr E') k) l) v = (rb, v')" and "sent' v' = sent' v @ concat cs'"
    and "delivers E s w4 cs' w5"
  shows "\<exists>a b ca cb. ra = Inr a \<and> rb = Inr b \<and> read_buf a = [] \<and> read_buf b = []
     \<and> cipher a = Some ca \<and> cipher b = Some cb \<and> cipher_key ca = cipher_key cb
     \<and> (length k = 32 \<longrightarrow> cipher_key ca = k)
     \<and> kind ca = (if has_aesni (cr E) then Aes256Gcm else XChaCha20)
     \<and> kind cb = (if has_aesni (cr E') then Aes256Gcm else XChaCha20)
     \<and> (ca = cb \<longleftrightarrow> has_aesni (cr E) = has_aesni (cr E'))"
proof -
  let ?hello = "encode (hello (cr E) k ts t)"
  obtain u4 where wr: "run_io (tcp_write E s ?hello) w3 = (Inr (), u4)"
    using write_logD(1) [OF assms(3)] by blast
  have cs: "concat cs = ?hello" using connect_writes [OF assms(5-7) wr assms(3,9)] assms(10) by simp
  with wr assms(8) have [simp]: "u4 = w4" by simp
  obtain t' y where acc: "run_io (accept E' (new_transport (cr E') k) l) v
       = (Inr ((new_connection s')\<lparr>cipher := Some (new_cipher (cr E') (auth_key (new_transport (cr E') k)))\<rparr>), y)"
       "sent' y = sent' v @ encode (new_message AuthOk [] t')"
    using accept_honest [OF _ assms(11) _ assms(12,13,4), of k t] assms(1,2) cs by auto
  then have ok: "concat cs' = encode (new_message AuthOk [] t')" using assms(14,15) by simp
  from connect_answered [OF assms(5-7) wr ok] assms(16)
  have "ra = Inr ((new_connection s)\<lparr>cipher := Some (new_cipher (cr E) (auth_key (new_transport (cr E) k)))\<rparr>)"
    using assms(9) by auto
  moreover have "rb = Inr ((new_connection s')\<lparr>cipher := Some (new_cipher (cr E') (auth_key (new_transport (cr E') k)))\<rparr>)"
    using acc(1) assms(14) by simp
  moreover have "auth_key (new_transport (cr E') k) = auth_key (new_transport (cr E) k)"
    using assms(2) by simp
  moreover have "length k = 32 \<Longrightarrow> auth_key (new_transport (cr E) k) = k"
    by (simp add: new_transport_def raw_key_def)
  ultimately show ?thesis by (auto simp: new_connection_def new_cipher_parts) (auto simp: new_cipher_def split: if_splits)
qed

text \<open>A client without AES instructions meets a server with them.\<close>

definition meeting_env :: "bool \<Rightarrow> sample env" where
  "meeting_env aes = sample_env\<lparr>tcp_connect := (\<lambda>a. State_Monad.return (Inr 0)),
     now_ms := State_Monad.return 1700000000000, cr := sample_crypto\<lparr>has_aesni := aes\<rparr>\<rparr>"

lemma meeting_env_simps:
  "tcp_connect (meeting_env x) a = State_Monad.return (Inr 0)" "now_ms (meeting_env x) = State_Monad.return 1700000000000"
  "tcp_accept (meeting_env x) l = tcp_accept sample_env l" "tcp_write (meeting_env x) s bs = tcp_write sample_env s bs"
  "tcp_read (meeting_env x) s = tcp_read sample_env s" "cr (meeting_env x) = sample_crypto\<lparr>has_aesni := x\<rparr>"
  by (simp_all add: meeting_env_def sample_env_simps)

lemma meeting_log: "write_log (meeting_env x) 0 s_written"
  by (auto simp: write_log_def meeting_env_simps sample_env_simps split: list.splits)

theorem handshake_agrees_witness:
  "\<exists>t a w' b v' ca cb.
     run_io (connect (meeting_env False) (new_transport (cr (meeting_env False)) [1, 2, 3]) ''node2'')
       (sample_start\<lparr>s_reads := [ReadOk (encode (new_message AuthOk [] t))]\<rparr>) = (Inr a, w')
   \<and> run_io (accept (meeting_env True) (new_transport (cr (meeting_env True)) [1, 2, 3]) 0)
       (sample_start\<lparr>s_reads := [ReadOk (encode (hello (cr (meeting_env False)) [1, 2, 3] 1700000000000 1700000000000))]\<rparr>)
       = (Inr b, v')
   \<and> cipher a = Some ca \<and> cipher b = Some cb \<and> cipher_key ca = cipher_key cb \<and> ca \<noteq> cb"
proof -
  let ?now = "1700000000000 :: i64" and ?C = "cr (meeting_env False)"
  let ?hello = "encode (hello ?C [1, 2, 3] ?now ?now)"
  let ?v = "sample_start\<lparr>s_reads := [ReadOk ?hello]\<rparr>"
  have near: "\<forall>x. \<bar>sint (fst (run_io (now_ms (meeting_env True)) x)) - sint ?now\<bar> < 31000"
    and ac: "run_io (tcp_accept (meeting_env True) 0) ?v = (Inr 0, ?v)"
    and dv: "delivers (meeting_env True) 0 ?v [?hello] (?v\<lparr>s_reads := []\<rparr>)"
    and cr: "cr (meeting_env True) = ?C\<lparr>has_aesni := True\<rparr>" "digest_sizes_ok ?C"
    using sample_crypto_laws(2) by (simp_all add: meeting_env_simps sample_env_simps frame.enc_not_Nil)
  obtain t rb v' where rb: "run_io (accept (meeting_env True) (new_transport (cr (meeting_env True)) [1, 2, 3]) 0) ?v = (rb, v')"
    and ans: "s_written v' = s_written ?v @ concat [encode (new_message AuthOk [] t)]"
    using accept_honest [OF _ ac _ dv near meeting_log, of "[1, 2, 3]" ?now] cr by auto
  let ?w = "sample_start\<lparr>s_reads := [ReadOk (encode (new_message AuthOk [] t))]\<rparr>"
  let ?w4 = "?w\<lparr>s_written := s_written ?w @ ?hello\<rparr>"
  have cn: "run_io (tcp_connect (meeting_env False) ''node2'') ?w = (Inr 0, ?w)"
    "run_io (now_ms (meeting_env False)) ?w = (?now, ?w)"
    and wr: "run_io (tcp_write (meeting_env False) 0 (concat [?hello])) ?w = (Inr (), ?w4)"
    and dw: "delivers (meeting_env False) 0 ?w4 [encode (new_message AuthOk [] t)] (?w4\<lparr>s_reads := []\<rparr>)"
    by (simp_all add: meeting_env_simps sample_env_simps frame.enc_not_Nil)
  obtain ra w' where ra: "run_io (connect (meeting_env False) (new_transport ?C [1, 2, 3]) ''node2'') ?w = (ra, w')"
    by (meson surj_pair)
  have "s_written w' = s_written ?w @ concat [?hello]"
    using connect_writes [OF cn(1) cn(2) cn(2) _ meeting_log ra] wr by simp
  from handshake_agrees [OF cr(2,1) meeting_log meeting_log cn(1) cn(2) cn(2) wr ra this ac dv near rb ans dw]
  obtain a b ca cb where "ra = Inr a" "rb = Inr b" "cipher a = Some ca" "cipher b = Some cb"
    "cipher_key ca = cipher_key cb" "ca \<noteq> cb"
    by (auto simp: meeting_env_simps)
  with ra rb show ?thesis by blast
qed

end
