(* ===== verification/Xattr_Ops.thy ===== *)
theory Xattr_Ops
  imports Sample_World Vector_Clock
begin

text \<open>
  Volume metadata as extended attributes, \<open>crates/btrfs-ops/src/xattr.rs\<close>: reading, writing
  and removing attributes with the \<open>getfattr\<close> and \<open>setfattr\<close> programs, and the epoch, vector
  clock, status and replica count built on them.
\<close>

section \<open>Keys and values\<close>

definition CSI_XATTR_PREFIX :: string where "CSI_XATTR_PREFIX = ''user.csi.''"

definition XATTR_EPOCH :: string where "XATTR_EPOCH = ''epoch''"
definition XATTR_VECTOR_CLOCK :: string where "XATTR_VECTOR_CLOCK = ''vector_clock''"
definition XATTR_LAST_SYNCED_FROM :: string where "XATTR_LAST_SYNCED_FROM = ''last_synced_from''"
definition XATTR_VOLUME_STATUS :: string where "XATTR_VOLUME_STATUS = ''volume_status''"
definition XATTR_REPLICA_COUNT :: string where "XATTR_REPLICA_COUNT = ''replica_count''"

definition VOLUME_STATUS_ACTIVE :: string where "VOLUME_STATUS_ACTIVE = ''active''"
definition VOLUME_STATUS_READONLY :: string where "VOLUME_STATUS_READONLY = ''readonly''"
definition VOLUME_STATUS_CONFLICT :: string where "VOLUME_STATUS_CONFLICT = ''conflict''"

lemmas xattr_keys = XATTR_EPOCH_def XATTR_VECTOR_CLOCK_def XATTR_LAST_SYNCED_FROM_def
  XATTR_VOLUME_STATUS_def XATTR_REPLICA_COUNT_def
lemmas status_values = VOLUME_STATUS_ACTIVE_def VOLUME_STATUS_READONLY_def VOLUME_STATUS_CONFLICT_def

definition full_key :: "string \<Rightarrow> string" where
  "full_key k = CSI_XATTR_PREFIX @ k"

lemma full_key_inj [simp]: "full_key k = full_key k' \<longleftrightarrow> k = k'"
  by (simp add: full_key_def)

section \<open>Attribute operations\<close>

text \<open>The exit status of \<open>setfattr\<close> is not looked at: only a program that cannot be started is
  an error.\<close>

definition set_csi_attr :: "'w env \<Rightarrow> string \<Rightarrow> string \<Rightarrow> string \<Rightarrow> ('w, string + unit) io" where
  "set_csi_attr E path k value = do {
     r \<leftarrow> run_cmd E ''setfattr'' [''-n'', full_key k, ''-v'', value, ''--'', path];
     State_Monad.return (case r of Inl e \<Rightarrow> Inl ''failed to execute setfattr'' | Inr output \<Rightarrow> Inr ())
   }"

definition get_csi_attr :: "'w env \<Rightarrow> string \<Rightarrow> string \<Rightarrow> ('w, string + string option) io" where
  "get_csi_attr E path k = do {
     r \<leftarrow> run_cmd E ''getfattr'' [''-n'', full_key k, ''--only-values'', ''--'', path];
     State_Monad.return
       (case r of
          Inl e \<Rightarrow> Inl ''failed to execute getfattr''
        | Inr output \<Rightarrow> Inr (if success output then Some (trim (stdout output)) else None))
   }"

definition remove_csi_attr :: "'w env \<Rightarrow> string \<Rightarrow> string \<Rightarrow> ('w, string + unit) io" where
  "remove_csi_attr E path k = do {
     _ \<leftarrow> run_cmd E ''setfattr'' [''-x'', full_key k, ''--'', path];
     State_Monad.return (Inr ())
   }"

text \<open>\<open>.ok().flatten()\<close> of a read attribute.\<close>

definition attr_value :: "'w env \<Rightarrow> string \<Rightarrow> string \<Rightarrow> ('w, string option) io" where
  "attr_value E path k = do {
     r \<leftarrow> get_csi_attr E path k;
     State_Monad.return (case r of Inl e \<Rightarrow> None | Inr v \<Rightarrow> v)
   }"

definition trim_quotes :: "string \<Rightarrow> string" where
  "trim_quotes s = rev (dropWhile (\<lambda>c. c = CHR 0x22) (rev (dropWhile (\<lambda>c. c = CHR 0x22) s)))"

definition attr_line :: "string hmap \<Rightarrow> string \<Rightarrow> string hmap" where
  "attr_line attrs line =
     (if starts_with line ''#'' then attrs
      else case split_once (CHR ''='') line of
             None \<Rightarrow> attrs
           | Some (key_part, val_part) \<Rightarrow>
               hm_insert (unwrap_or (strip_prefix (trim key_part) CSI_XATTR_PREFIX) (trim key_part))
                 (trim_quotes (trim val_part)) attrs)"

definition get_all_csi_attrs :: "'w env \<Rightarrow> string \<Rightarrow> ('w, string + string hmap) io" where
  "get_all_csi_attrs E path = do {
     r \<leftarrow> run_cmd E ''getfattr'' [''-d'', ''--'', path];
     State_Monad.return
       (case r of
          Inl e \<Rightarrow> Inl ''failed to execute getfattr''
        | Inr output \<Rightarrow>
            Inr (if \<not> success output then [] else foldl attr_line [] (lines (stdout output))))
   }"

definition parse_u64_attr :: "string option \<Rightarrow> u64" where
  "parse_u64_attr v = unwrap_or (Option.bind v parse_u64) 0"

definition parse_i64_attr :: "string option \<Rightarrow> i64" where
  "parse_i64_attr v = unwrap_or (Option.bind v parse_i64) 0"

section \<open>Epoch, clock, status and replica count\<close>

definition get_epoch :: "'w env \<Rightarrow> string \<Rightarrow> ('w, u64) io" where
  "get_epoch E path = do {
     v \<leftarrow> attr_value E path XATTR_EPOCH;
     State_Monad.return (unwrap_or (Option.bind v parse_u64) 0)
   }"

definition set_epoch :: "'w env \<Rightarrow> string \<Rightarrow> u64 \<Rightarrow> ('w, string + unit) io" where
  "set_epoch E path epoch = set_csi_attr E path XATTR_EPOCH (show_u64 epoch)"

definition increment_epoch :: "'w env \<Rightarrow> string \<Rightarrow> ('w, string + u64) io" where
  "increment_epoch E path = do {
     current \<leftarrow> get_epoch E path;
     let next_epoch = current + 1;
     and_then (set_epoch E path next_epoch) (\<lambda>_. State_Monad.return (Inr next_epoch))
   }"

definition get_vector_clock :: "'w env \<Rightarrow> string \<Rightarrow> ('w, clock) io" where
  "get_vector_clock E path = do {
     v \<leftarrow> attr_value E path XATTR_VECTOR_CLOCK;
     State_Monad.return (unwrap_or (map_option parse_vector_clock v) [])
   }"

definition set_vector_clock :: "'w env \<Rightarrow> string \<Rightarrow> clock \<Rightarrow> ('w, string + unit) io" where
  "set_vector_clock E path c = set_csi_attr E path XATTR_VECTOR_CLOCK (format_vector_clock c)"

definition get_volume_status :: "'w env \<Rightarrow> string \<Rightarrow> ('w, string) io" where
  "get_volume_status E path = do {
     v \<leftarrow> attr_value E path XATTR_VOLUME_STATUS;
     State_Monad.return (unwrap_or v VOLUME_STATUS_ACTIVE)
   }"

definition set_volume_status :: "'w env \<Rightarrow> string \<Rightarrow> string \<Rightarrow> ('w, string + unit) io" where
  "set_volume_status E path status = set_csi_attr E path XATTR_VOLUME_STATUS status"

definition get_replica_count :: "'w env \<Rightarrow> string \<Rightarrow> ('w, u32) io" where
  "get_replica_count E path = do {
     v \<leftarrow> attr_value E path XATTR_REPLICA_COUNT;
     State_Monad.return (unwrap_or (Option.bind v parse_u32) 0)
   }"

definition set_replica_count :: "'w env \<Rightarrow> string \<Rightarrow> u32 \<Rightarrow> ('w, string + unit) io" where
  "set_replica_count E path n = set_csi_attr E path XATTR_REPLICA_COUNT (show_u32 n)"

section \<open>Documented behaviour of the attribute programs\<close>

text \<open>\<open>setfattr -v\<close> takes a value literally unless it starts like an encoded or quoted one.\<close>

definition plain_value :: "string \<Rightarrow> bool" where
  "plain_value v \<longleftrightarrow> \<not> (\<exists>p \<in> {''0x'', ''0X'', ''0s'', ''0S''}. prefix p v)
     \<and> CHR 0x22 \<notin> set v \<and> CHR 0x5C \<notin> set v"

text \<open>\<open>view w path key\<close> is the value of an attribute and \<open>there w path\<close> says that the path
  exists. \<open>getfattr\<close> prints the value and fails when there is none; \<open>setfattr -n -v\<close> stores a
  plain value on an existing path and fails without effect on a missing one; \<open>setfattr -x\<close>
  removes an attribute.\<close>

definition xattr_tools_ok ::
  "'w env \<Rightarrow> ('w \<Rightarrow> string \<Rightarrow> string \<Rightarrow> string option) \<Rightarrow> ('w \<Rightarrow> string \<Rightarrow> bool) \<Rightarrow> bool" where
  "xattr_tools_ok E view there \<longleftrightarrow>
     (\<forall>w p k. \<exists>out. run_io (run_cmd E ''getfattr'' [''-n'', k, ''--only-values'', ''--'', p]) w = (Inr out, w)
        \<and> (case view w p k of None \<Rightarrow> \<not> success out | Some v \<Rightarrow> success out \<and> stdout out = v))
   \<and> (\<forall>w p k v. plain_value v \<longrightarrow>
        (\<exists>out w'. run_io (run_cmd E ''setfattr'' [''-n'', k, ''-v'', v, ''--'', p]) w = (Inr out, w')
          \<and> view w' = (if there w p then (view w)(p := (view w p)(k \<mapsto> v)) else view w)
          \<and> there w' = there w))
   \<and> (\<forall>w p k. \<exists>out w'. run_io (run_cmd E ''setfattr'' [''-x'', k, ''--'', p]) w = (Inr out, w')
          \<and> view w' = (view w)(p := (view w p)(k := None)) \<and> there w' = there w)"

lemma xattr_getD:
  "xattr_tools_ok E view there \<Longrightarrow>
     \<exists>out. run_io (run_cmd E ''getfattr'' [''-n'', k, ''--only-values'', ''--'', p]) w = (Inr out, w)
        \<and> (case view w p k of None \<Rightarrow> \<not> success out | Some v \<Rightarrow> success out \<and> stdout out = v)"
  by (simp add: xattr_tools_ok_def)

lemma xattr_setD:
  "xattr_tools_ok E view there \<Longrightarrow> plain_value v \<Longrightarrow>
     \<exists>out w'. run_io (run_cmd E ''setfattr'' [''-n'', k, ''-v'', v, ''--'', p]) w = (Inr out, w')
          \<and> view w' = (if there w p then (view w)(p := (view w p)(k \<mapsto> v)) else view w)
          \<and> there w' = there w"
  by (simp add: xattr_tools_ok_def)

lemma xattr_removeD:
  "xattr_tools_ok E view there \<Longrightarrow>
     \<exists>out w'. run_io (run_cmd E ''setfattr'' [''-x'', k, ''--'', p]) w = (Inr out, w')
          \<and> view w' = (view w)(p := (view w p)(k := None)) \<and> there w' = there w"
  by (simp add: xattr_tools_ok_def)

lemma get_csi_attr_run:
  assumes "xattr_tools_ok E view there"
  shows "run_io (get_csi_attr E p k) w = (Inr (map_option trim (view w p (full_key k))), w)"
proof -
  obtain out where "run_io (run_cmd E ''getfattr'' [''-n'', full_key k, ''--only-values'', ''--'', p]) w = (Inr out, w)"
    "case view w p (full_key k) of None \<Rightarrow> \<not> success out | Some v \<Rightarrow> success out \<and> stdout out = v"
    using xattr_getD [OF assms] by blast
  then show ?thesis by (auto simp: get_csi_attr_def split: option.splits)
qed

lemma attr_value_run:
  assumes "xattr_tools_ok E view there"
  shows "run_io (attr_value E p k) w = (map_option trim (view w p (full_key k)), w)"
  by (simp add: attr_value_def get_csi_attr_run [OF assms])

lemma set_csi_attr_run:
  assumes "xattr_tools_ok E view there" "plain_value v" "there w p"
  obtains w' where "run_io (set_csi_attr E p k v) w = (Inr (), w')"
    "view w' = (view w)(p := (view w p)(full_key k \<mapsto> v))" "there w' = there w"
proof -
  obtain out w' where
    "run_io (run_cmd E ''setfattr'' [''-n'', full_key k, ''-v'', v, ''--'', p]) w = (Inr out, w')"
    "view w' = (if there w p then (view w)(p := (view w p)(full_key k \<mapsto> v)) else view w)"
    "there w' = there w"
    using xattr_setD [OF assms(1,2)] by blast
  with assms(3) show ?thesis by (intro that [of w']) (simp_all add: set_csi_attr_def)
qed

lemma plain_value_digits: "plain_value (show_nat n)"
proof -
  have d: "\<forall>c \<in> set (show_nat n). is_digit c"
    using show_nat_digits [of n] by (simp add: list_all_iff)
  have "\<not> prefix [CHR ''0'', c] (show_nat n)" if "\<not> is_digit c" for c
    using d that by (metis in_set_conv_decomp append.left_neutral prefix_def set_mono_prefix
        list.set_intros(1) list.set_intros(2) subset_code(1))
  with d show ?thesis by (auto simp: plain_value_def is_digit_def)
qed


text \<open>The sample environment behaves as documented.\<close>

definition sample_view :: "sample \<Rightarrow> string \<Rightarrow> string \<Rightarrow> string option" where
  "sample_view w p k = map_of (s_attrs w) (p, k)"

definition sample_there :: "sample \<Rightarrow> string \<Rightarrow> bool" where
  "sample_there w p \<longleftrightarrow> p \<in> set (s_paths w)"

lemma map_of_filter_key: "map_of (filter (\<lambda>e. fst e \<noteq> a) m) x = (if x = a then None else map_of m x)"
  by (induction m) auto

lemma sample_xattr_ok: "xattr_tools_ok sample_env sample_view sample_there"
  unfolding xattr_tools_ok_def
  by (auto simp: sample_env_simps sample_view_def sample_there_def out_ok_def out_fail_def fun_eq_iff
      map_of_filter_key split: option.splits)

section \<open>Properties\<close>

text \<open>C30. Attributes behave as a store: after writing a plain value to an existing path, reading
  that attribute gives the value without surrounding white space, every other attribute of
  every path reads as before, and removing it makes it read as absent.\<close>

theorem attr_store:
  assumes "xattr_tools_ok E view there" "plain_value v" "there w p"
    and "run_io (set_csi_attr E p k v) w = (r, w1)"
    and "run_io (remove_csi_attr E p k) w1 = (r', w2)"
  shows "r = Inr () \<and> fst (run_io (get_csi_attr E p k) w1) = Inr (Some (trim v))
       \<and> ((q, l) \<noteq> (p, k) \<longrightarrow> fst (run_io (get_csi_attr E q l) w1) = fst (run_io (get_csi_attr E q l) w))
       \<and> fst (run_io (get_csi_attr E p k) w2) = Inr None"
proof -
  obtain w' where w': "run_io (set_csi_attr E p k v) w = (Inr (), w')"
    and v: "view w' = (view w)(p := (view w p)(full_key k \<mapsto> v))"
    using set_csi_attr_run [OF assms(1-3)] by metis
  obtain out w3 where "run_io (run_cmd E ''setfattr'' [''-x'', full_key k, ''--'', p]) w1 = (Inr out, w3)"
    and v3: "view w3 = (view w1)(p := (view w1 p)(full_key k := None))"
    using xattr_removeD [OF assms(1)] by blast
  with assms(5) have "w2 = w3" by (simp add: remove_csi_attr_def)
  with w' v v3 assms(4) show ?thesis
    by (simp add: get_csi_attr_run [OF assms(1)])
qed

theorem attr_store_witness:
  "\<exists>r w1. run_io (set_csi_attr sample_env ''/data/vol1'' ''zone'' ''dc1'') sample_start = (r, w1)
     \<and> fst (run_io (get_csi_attr sample_env ''/data/vol1'' ''zone'') w1) = Inr (Some ''dc1'')"
proof -
  have h: "plain_value ''dc1''" "sample_there sample_start ''/data/vol1''"
    by (simp_all add: plain_value_def sample_there_def sample_start_def)
  obtain r w1 r' w2 where run:
    "run_io (set_csi_attr sample_env ''/data/vol1'' ''zone'' ''dc1'') sample_start = (r, w1)"
    "run_io (remove_csi_attr sample_env ''/data/vol1'' ''zone'') w1 = (r', w2)"
    by (meson surj_pair)
  have "trim ''dc1'' = ''dc1''" by (simp add: trim_def is_ws_def)
  with attr_store [OF sample_xattr_ok h run] run(1) show ?thesis by simp
qed

text \<open>C23. Incrementing the epoch of an existing path returns the old epoch plus one (modulo
  \<open>2^64\<close>), the path's epoch then reads as that value, and every other attribute of every path,
  the epochs of other paths among them, reads as before.\<close>

theorem increment_epoch_correct:
  assumes "xattr_tools_ok E view there" "there w p"
  shows "\<exists>w'. run_io (increment_epoch E p) w = (Inr (fst (run_io (get_epoch E p) w) + 1), w')
     \<and> fst (run_io (get_epoch E p) w') = fst (run_io (get_epoch E p) w) + 1
     \<and> (\<forall>q k. (q, k) \<noteq> (p, ''epoch'') \<longrightarrow>
          fst (run_io (get_csi_attr E q k) w') = fst (run_io (get_csi_attr E q k) w))
     \<and> (\<forall>q. q \<noteq> p \<longrightarrow> fst (run_io (get_epoch E q) w') = fst (run_io (get_epoch E q) w))
     \<and> (\<forall>q. fst (run_io (get_vector_clock E q) w') = fst (run_io (get_vector_clock E q) w)
          \<and> fst (run_io (get_volume_status E q) w') = fst (run_io (get_volume_status E q) w)
          \<and> fst (run_io (get_replica_count E q) w') = fst (run_io (get_replica_count E q) w))"
proof -
  define c where "c = fst (run_io (get_epoch E p) w)"
  have gw: "run_io (get_epoch E p) w = (c, w)"
    by (simp add: c_def get_epoch_def attr_value_run [OF assms(1)])
  have "plain_value (show_u64 (c + 1))" by (simp add: show_u64_def plain_value_digits)
  from xattr_setD [OF assms(1) this, of "full_key XATTR_EPOCH" p w] assms(2)
  obtain out w' where run: "run_io (run_cmd E ''setfattr''
      [''-n'', full_key XATTR_EPOCH, ''-v'', show_u64 (c + 1), ''--'', p]) w = (Inr out, w')"
    and v: "view w' = (view w)(p := (view w p)(full_key XATTR_EPOCH \<mapsto> show_u64 (c + 1)))"
    by auto
  have "trim (show_u64 (c + 1)) = show_u64 (c + 1)" by (simp add: show_u64_def)
  then have new: "fst (run_io (get_epoch E p) w') = c + 1"
    by (simp add: get_epoch_def attr_value_run [OF assms(1)] v)
  have inc: "run_io (increment_epoch E p) w = (Inr (c + 1), w')"
    by (simp add: increment_epoch_def run_and_then set_epoch_def set_csi_attr_def gw run Let_def)
  have same: "map_option trim (view w' q (full_key k)) = map_option trim (view w q (full_key k))"
    if "(q, k) \<noteq> (p, XATTR_EPOCH)" for q k
    using that by (auto simp: v)
  have attrs: "fst (run_io (get_csi_attr E q k) w') = fst (run_io (get_csi_attr E q k) w)"
    if "(q, k) \<noteq> (p, ''epoch'')" for q k
    using same [of q k] that by (simp add: get_csi_attr_run [OF assms(1)] xattr_keys)
  have epochs: "fst (run_io (get_epoch E q) w') = fst (run_io (get_epoch E q) w)" if "q \<noteq> p" for q
    using that by (simp add: get_epoch_def attr_value_run [OF assms(1)] same)
  have "fst (run_io (get_vector_clock E q) w') = fst (run_io (get_vector_clock E q) w)
      \<and> fst (run_io (get_volume_status E q) w') = fst (run_io (get_volume_status E q) w)
      \<and> fst (run_io (get_replica_count E q) w') = fst (run_io (get_replica_count E q) w)" for q
    unfolding get_vector_clock_def get_volume_status_def get_replica_count_def
    by (simp add: attr_value_run [OF assms(1)] same xattr_keys)
  with inc new attrs epochs show ?thesis unfolding c_def by blast
qed

theorem increment_epoch_correct_witness:
  "\<exists>w'. run_io (increment_epoch sample_env ''/data/vol1'') sample_start
      = (Inr (fst (run_io (get_epoch sample_env ''/data/vol1'') sample_start) + 1), w')"
proof -
  have "sample_there sample_start ''/data/vol1''" by (simp add: sample_there_def sample_start_def)
  then show ?thesis using increment_epoch_correct [OF sample_xattr_ok] by blast
qed

end
