(* ===== verification/Gossip.thy ===== *)
theory Gossip
  imports Config Handshake Xattr_Ops "HOL-Library.Multiset"
begin

text \<open>
  The gossip service, \<open>crates/btrfs-exchange/src/gossip.rs\<close>: the peer table, the epochs of
  known volumes, the message handlers, one tick of each background loop, replica selection and
  the quorum lease. Handlers thread the service's shared maps explicitly; each map is changed
  only while its lock is held.
\<close>

section \<open>State\<close>

definition MAX_CONCURRENT_CONNECTIONS :: nat where "MAX_CONCURRENT_CONNECTIONS = 512"

record 'w gossip =
  peers :: "node_info hmap"
  on_node_failure :: "(string \<Rightarrow> ('w, unit) io) list"
  on_conflict :: "(conflict_info \<Rightarrow> ('w, unit) io) list"
  volume_epochs :: "epoch_info hmap"

datatype gossip_error = GTransport transport_error | GJson | GAddr string

definition new_gossip :: "'w gossip" where
  "new_gossip = \<lparr>peers = [], on_node_failure = [], on_conflict = [], volume_epochs = []\<rparr>"

definition gossip_transport :: "'w env \<Rightarrow> exchange_config \<Rightarrow> tcp_transport" where
  "gossip_transport E cfg = new_transport (cr E) (text_bytes (cfg_auth_key cfg))"

definition add_on_node_failure :: "(string \<Rightarrow> ('w, unit) io) \<Rightarrow> 'w gossip \<Rightarrow> 'w gossip" where
  "add_on_node_failure callback g = g\<lparr>on_node_failure := on_node_failure g @ [callback]\<rparr>"

definition on_conflict_detected :: "(conflict_info \<Rightarrow> ('w, unit) io) \<Rightarrow> 'w gossip \<Rightarrow> 'w gossip" where
  "on_conflict_detected callback g = g\<lparr>on_conflict := on_conflict g @ [callback]\<rparr>"

text \<open>\<open>for callback in callbacks.iter()\<close>.\<close>

fun fire :: "('a \<Rightarrow> ('w, unit) io) list \<Rightarrow> 'a \<Rightarrow> ('w, unit) io" where
  "fire [] x = State_Monad.return ()"
| "fire (callback # rest) x = do { _ \<leftarrow> callback x; fire rest x }"

section \<open>Free space and heartbeats\<close>

fun find_free_space :: "string list \<Rightarrow> u64 option" where
  "find_free_space [] = None"
| "find_free_space (line # rest) =
     (if contains_str line ''Free (estimated):'' \<or> contains_str line ''Free:'' then
        (let parts = split_whitespace line in
         case (if parts = [] then None else parse_u64 (last parts)) of
           Some val \<Rightarrow> Some val
         | None \<Rightarrow> find_free_space rest)
      else find_free_space rest)"

definition get_free_space :: "'w env \<Rightarrow> string \<Rightarrow> ('w, u64) io" where
  "get_free_space E path = do {
     r \<leftarrow> run_cmd E ''btrfs'' [''filesystem'', ''usage'', ''-b'', path];
     State_Monad.return
       (case r of Inl _ \<Rightarrow> 0 | Inr output \<Rightarrow> unwrap_or (find_free_space (lines (stdout output))) 0)
   }"

definition create_heartbeat_payload :: "'w env \<Rightarrow> exchange_config \<Rightarrow> ('w, heartbeat_payload) io" where
  "create_heartbeat_payload E cfg = do {
     free \<leftarrow> get_free_space E (data_dir (replication cfg));
     State_Monad.return
       \<lparr>hb_node_id = node_id cfg, hb_addr = addr_text (listen_addr cfg) (listen_port cfg),
        hb_zone = zone cfg, hb_role = ''replica'', hb_free_space = free\<rparr>
   }"

section \<open>Message handlers\<close>

definition node_of :: "heartbeat_payload \<Rightarrow> i64 \<Rightarrow> node_info" where
  "node_of hb now = \<lparr>ni_id = hb_node_id hb, ni_addr = hb_addr hb, ni_zone = hb_zone hb,
     ni_role = hb_role hb, ni_free_space = hb_free_space hb, ni_last_seen = now\<rparr>"

text \<open>\<open>conn.send_message(&Message::new(t, payload))\<close>, which stamps the message with the clock.\<close>

definition reply :: "'w env \<Rightarrow> connection \<Rightarrow> message_type \<Rightarrow> byte list \<Rightarrow> ('w, transport_error + unit) io" where
  "reply E conn t p = do { now \<leftarrow> now_ms E; send_message E conn (new_message t p now) }"

definition gossip_result :: "transport_error + unit \<Rightarrow> gossip_error + unit" where
  "gossip_result r = (case r of Inl e \<Rightarrow> Inl (GTransport e) | Inr _ \<Rightarrow> Inr ())"

definition handle_heartbeat ::
  "'w env \<Rightarrow> connection \<Rightarrow> byte list \<Rightarrow> 'w gossip \<Rightarrow> ('w, (gossip_error + unit) \<times> 'w gossip) io" where
  "handle_heartbeat E conn body g =
     (case heartbeat_from (js E) body of
        None \<Rightarrow> State_Monad.return (Inl GJson, g)
      | Some hb \<Rightarrow> do {
          now \<leftarrow> now_ms E;
          let g' = g\<lparr>peers := hm_insert (hb_node_id hb) (node_of hb now) (peers g)\<rparr>;
          r \<leftarrow> reply E conn HeartbeatAck [];
          State_Monad.return (gossip_result r, g')
        })"

definition handle_node_join ::
  "'w env \<Rightarrow> connection \<Rightarrow> byte list \<Rightarrow> 'w gossip \<Rightarrow> ('w, (gossip_error + unit) \<times> 'w gossip) io" where
  "handle_node_join E conn body g =
     (case heartbeat_from (js E) body of
        None \<Rightarrow> State_Monad.return (Inl GJson, g)
      | Some hb \<Rightarrow> do {
          now \<leftarrow> now_ms E;
          let g' = g\<lparr>peers := hm_insert (hb_node_id hb) (node_of hb now) (peers g)\<rparr>;
          r \<leftarrow> reply E conn NodeList (nodes_to (js E) (map snd (peers g')));
          State_Monad.return (gossip_result r, g')
        })"

definition handle_node_leave ::
  "'w env \<Rightarrow> byte list \<Rightarrow> 'w gossip \<Rightarrow> ('w, (gossip_error + unit) \<times> 'w gossip) io" where
  "handle_node_leave E body g =
     (case heartbeat_from (js E) body of
        None \<Rightarrow> State_Monad.return (Inl GJson, g)
      | Some hb \<Rightarrow> do {
          let g' = g\<lparr>peers := hm_remove (hb_node_id hb) (peers g)\<rparr>;
          _ \<leftarrow> fire (on_node_failure g') (hb_node_id hb);
          State_Monad.return (Inr (), g')
        })"

text \<open>The vote on a lease request, from this node's epoch table.\<close>

definition vote_response :: "exchange_config \<Rightarrow> epoch_info hmap \<Rightarrow> quorum_vote_request \<Rightarrow> quorum_vote_response" where
  "vote_response cfg epochs req =
     (let (peer_epoch, peer_vc, conflict) =
        (case hm_get epochs (qr_volume_id req) of
           Some info \<Rightarrow>
             (ep_epoch info, ep_vector_clock info,
              has_conflict (hm_collect (ep_vector_clock info)) (hm_collect (qr_vector_clock req)))
         | None \<Rightarrow> (0, [], False)) in
      \<lparr>qv_volume_id = qr_volume_id req, qv_peer_epoch = peer_epoch, qv_peer_vector_clock = peer_vc,
       qv_vote_granted = (\<not> conflict \<or> peer_epoch = 0), qv_peer_node = node_id cfg,
       qv_conflict = conflict\<rparr>)"

definition handle_quorum_vote ::
  "'w env \<Rightarrow> exchange_config \<Rightarrow> connection \<Rightarrow> byte list \<Rightarrow> 'w gossip \<Rightarrow> ('w, (gossip_error + unit) \<times> 'w gossip) io" where
  "handle_quorum_vote E cfg conn body g =
     (case vote_req_from (js E) body of
        None \<Rightarrow> State_Monad.return (Inl GJson, g)
      | Some req \<Rightarrow> do {
          r \<leftarrow> reply E conn QuorumVoteResponse
                 (vote_resp_to (js E) (vote_response cfg (volume_epochs g) req));
          State_Monad.return (gossip_result r, g)
        })"

text \<open>\<open>get_mut\<close> of a map: change the value of an existing key.\<close>

definition hm_modify :: "string \<Rightarrow> ('v \<Rightarrow> 'v) \<Rightarrow> 'v hmap \<Rightarrow> 'v hmap" where
  "hm_modify k f m = (case hm_get m k of None \<Rightarrow> m | Some v \<Rightarrow> hm_insert k (f v) m)"

definition handle_conflict ::
  "'w env \<Rightarrow> byte list \<Rightarrow> 'w gossip \<Rightarrow> ('w, (gossip_error + unit) \<times> 'w gossip) io" where
  "handle_conflict E body g =
     (case conflict_from (js E) body of
        None \<Rightarrow> State_Monad.return (Inl GJson, g)
      | Some ci \<Rightarrow> do {
          let g' = g\<lparr>volume_epochs :=
                 hm_modify (ci_volume_id ci) (\<lambda>info. info\<lparr>ep_status := ''conflict''\<rparr>) (volume_epochs g)\<rparr>;
          _ \<leftarrow> fire (on_conflict g') ci;
          State_Monad.return (Inr (), g')
        })"

definition handle_delete_volume ::
  "'w env \<Rightarrow> exchange_config \<Rightarrow> connection \<Rightarrow> byte list \<Rightarrow> 'w gossip \<Rightarrow> ('w, (gossip_error + unit) \<times> 'w gossip) io" where
  "handle_delete_volume E cfg conn body g =
     (case delete_from (js E) body of
        None \<Rightarrow> State_Monad.return (Inl GJson, g)
      | Some vol \<Rightarrow> do {
          let g' = g\<lparr>volume_epochs := hm_remove vol (volume_epochs g)\<rparr>;
          _ \<leftarrow> remove_dir_all E (snapshot_dir (replication cfg) @ ''/'' @ vol);
          _ \<leftarrow> reply E conn DeleteVolumeAck [];
          State_Monad.return (Inr (), g')
        })"

definition handle_volume_unpublish ::
  "'w env \<Rightarrow> connection \<Rightarrow> byte list \<Rightarrow> 'w gossip \<Rightarrow> ('w, (gossip_error + unit) \<times> 'w gossip) io" where
  "handle_volume_unpublish E conn body g =
     (case unpublish_from (js E) body of
        None \<Rightarrow> State_Monad.return (Inl GJson, g)
      | Some req \<Rightarrow> do {
          _ \<leftarrow> reply E conn VolumeUnpublishAck [];
          State_Monad.return (Inr (), g)
        })"

text \<open>\<open>handle_gossip_message\<close> after the message has been received.\<close>

definition dispatch ::
  "'w env \<Rightarrow> exchange_config \<Rightarrow> connection \<Rightarrow> message \<Rightarrow> 'w gossip \<Rightarrow> ('w, (gossip_error + unit) \<times> 'w gossip) io" where
  "dispatch E cfg conn msg g =
     (case msg_type msg of
        Heartbeat \<Rightarrow> handle_heartbeat E conn (payload msg) g
      | NodeJoin \<Rightarrow> handle_node_join E conn (payload msg) g
      | NodeLeave \<Rightarrow> handle_node_leave E (payload msg) g
      | HeartbeatAck \<Rightarrow> State_Monad.return (Inr (), g)
      | QuorumVote \<Rightarrow> handle_quorum_vote E cfg conn (payload msg) g
      | QuorumVoteResponse \<Rightarrow> State_Monad.return (Inr (), g)
      | ConflictDetected \<Rightarrow> handle_conflict E (payload msg) g
      | DeleteVolume \<Rightarrow> handle_delete_volume E cfg conn (payload msg) g
      | VolumeUnpublish \<Rightarrow> handle_volume_unpublish E conn (payload msg) g
      | _ \<Rightarrow> State_Monad.return (Inr (), g))"

definition handle_gossip_message ::
  "'w env \<Rightarrow> exchange_config \<Rightarrow> connection \<Rightarrow> 'w gossip \<Rightarrow> ('w, (gossip_error + unit) \<times> 'w gossip) io" where
  "handle_gossip_message E cfg conn g = do {
     (r, conn) \<leftarrow> recv_message E conn;
     case r of
       Inl e \<Rightarrow> State_Monad.return (Inl (GTransport e), g)
     | Inr msg \<Rightarrow> dispatch E cfg conn msg g
   }"

section \<open>Starting and joining\<close>

text \<open>\<open>start\<close> up to the point where the listener reports that it is bound; the listener handle
  is what the accept loop then uses.\<close>

definition bind_listener :: "'w env \<Rightarrow> exchange_config \<Rightarrow> ('w, gossip_error + nat) io" where
  "bind_listener E cfg =
     (let addr = addr_text (listen_addr cfg) (listen_port cfg) in
      if \<not> valid_addr E addr then State_Monad.return (Inl (GAddr addr))
      else do {
        r \<leftarrow> tcp_listen E addr;
        State_Monad.return (case r of Inl e \<Rightarrow> Inl (GTransport (Io e)) | Inr l \<Rightarrow> Inr l)
      })"

text \<open>One round of the accept loop; a failed accept waits 100 ms, an error of the handler is
  only logged.\<close>

definition listener_round :: "'w env \<Rightarrow> exchange_config \<Rightarrow> nat \<Rightarrow> 'w gossip \<Rightarrow> ('w, 'w gossip) io" where
  "listener_round E cfg listener g = do {
     r \<leftarrow> accept E (gossip_transport E cfg) listener;
     case r of
       Inl e \<Rightarrow> do { _ \<leftarrow> sleep_ms E 100; State_Monad.return g }
     | Inr conn \<Rightarrow> do {
         (_, g') \<leftarrow> handle_gossip_message E cfg conn g;
         State_Monad.return g'
       }
   }"

definition add_nodes :: "node_info list \<Rightarrow> node_info hmap \<Rightarrow> node_info hmap" where
  "add_nodes nodes m = foldl (\<lambda>m node. hm_insert (ni_id node) node m) m nodes"

fun join_seeds ::
  "'w env \<Rightarrow> exchange_config \<Rightarrow> string list \<Rightarrow> 'w gossip \<Rightarrow> ('w, (gossip_error + unit) \<times> 'w gossip) io" where
  "join_seeds E cfg [] g = State_Monad.return (Inr (), g)"
| "join_seeds E cfg (seed # seeds) g =
     (if \<not> valid_addr E seed then State_Monad.return (Inl (GAddr seed), g)
      else do {
        r \<leftarrow> connect E (gossip_transport E cfg) seed;
        case r of
          Inl e \<Rightarrow> join_seeds E cfg seeds g
        | Inr conn \<Rightarrow> do {
            hb \<leftarrow> create_heartbeat_payload E cfg;
            sent \<leftarrow> reply E conn NodeJoin (heartbeat_to (js E) hb);
            case sent of
              Inl e \<Rightarrow> State_Monad.return (Inl (GTransport e), g)
            | Inr _ \<Rightarrow> do {
                (response, conn) \<leftarrow> recv_message E conn;
                case response of
                  Inl e \<Rightarrow> State_Monad.return (Inl (GTransport e), g)
                | Inr m \<Rightarrow>
                    (if msg_type m = NodeList then
                       (case nodes_from (js E) (payload m) of
                          None \<Rightarrow> State_Monad.return (Inl GJson, g)
                        | Some nodes \<Rightarrow>
                            State_Monad.return (Inr (), g\<lparr>peers := add_nodes nodes (peers g)\<rparr>))
                     else join_seeds E cfg seeds g)
              }
          }
      })"

definition join_cluster ::
  "'w env \<Rightarrow> exchange_config \<Rightarrow> 'w gossip \<Rightarrow> ('w, (gossip_error + unit) \<times> 'w gossip) io" where
  "join_cluster E cfg g = join_seeds E cfg (seed_nodes cfg) g"

section \<open>Background loops and notifications\<close>

text \<open>Connect to a peer and send one message; failures are ignored. The result says whether the
  connection was made.\<close>

definition tell_peer ::
  "'w env \<Rightarrow> exchange_config \<Rightarrow> message_type \<Rightarrow> byte list \<Rightarrow> node_info \<Rightarrow> ('w, bool) io" where
  "tell_peer E cfg t p node =
     (if \<not> valid_addr E (ni_addr node) then State_Monad.return False
      else do {
        r \<leftarrow> connect E (gossip_transport E cfg) (ni_addr node);
        case r of
          Inl e \<Rightarrow> State_Monad.return False
        | Inr conn \<Rightarrow> do { _ \<leftarrow> reply E conn t p; State_Monad.return True }
      })"

text \<open>The loop over a copy of the peer table; \<open>skip\<close> says which entries are passed over. It
  counts the connections made.\<close>

fun tell_peers ::
  "'w env \<Rightarrow> exchange_config \<Rightarrow> (string \<Rightarrow> bool) \<Rightarrow> message_type \<Rightarrow> byte list \<Rightarrow> node_info hmap \<Rightarrow> ('w, nat) io" where
  "tell_peers E cfg skip t p [] = State_Monad.return 0"
| "tell_peers E cfg skip t p ((peer, node) # rest) =
     (if skip peer then tell_peers E cfg skip t p rest
      else do {
        sent \<leftarrow> tell_peer E cfg t p node;
        n \<leftarrow> tell_peers E cfg skip t p rest;
        State_Monad.return (if sent then Suc n else n)
      })"

text \<open>One tick of \<open>heartbeat_loop\<close>.\<close>

definition heartbeat_tick :: "'w env \<Rightarrow> exchange_config \<Rightarrow> 'w gossip \<Rightarrow> ('w, unit) io" where
  "heartbeat_tick E cfg g = do {
     hb \<leftarrow> create_heartbeat_payload E cfg;
     _ \<leftarrow> tell_peers E cfg (\<lambda>peer. peer = node_id cfg) Heartbeat (heartbeat_to (js E) hb) (peers g);
     State_Monad.return ()
   }"

definition leave_cluster :: "'w env \<Rightarrow> exchange_config \<Rightarrow> 'w gossip \<Rightarrow> ('w, unit) io" where
  "leave_cluster E cfg g = do {
     hb \<leftarrow> create_heartbeat_payload E cfg;
     _ \<leftarrow> tell_peers E cfg (\<lambda>_. False) NodeLeave (heartbeat_to (js E) hb) (peers g);
     State_Monad.return ()
   }"

definition notify_volume_unpublish :: "'w env \<Rightarrow> exchange_config \<Rightarrow> 'w gossip \<Rightarrow> string \<Rightarrow> string \<Rightarrow> ('w, unit) io" where
  "notify_volume_unpublish E cfg g volume node = do {
     _ \<leftarrow> tell_peers E cfg (\<lambda>peer. peer = node_id cfg) VolumeUnpublish
            (unpublish_to (js E) \<lparr>vu_volume_id = volume, vu_node_id = node\<rparr>) (peers g);
     State_Monad.return ()
   }"

definition notify_volume_delete :: "'w env \<Rightarrow> exchange_config \<Rightarrow> 'w gossip \<Rightarrow> string \<Rightarrow> ('w, nat) io" where
  "notify_volume_delete E cfg g volume =
     tell_peers E cfg (\<lambda>peer. peer = node_id cfg) DeleteVolume (delete_to (js E) volume) (peers g)"

text \<open>One tick of \<open>peer_cleanup_loop\<close>. The timeout is computed in \<open>u64\<close> and cast; the age is a
  wrapping \<open>i64\<close> difference, compared signed.\<close>

definition stale :: "exchange_config \<Rightarrow> i64 \<Rightarrow> node_info \<Rightarrow> bool" where
  "stale cfg now node \<longleftrightarrow> sint (node_timeout cfg * 1000) < sint (now - ni_last_seen node)"

fun drop_peers :: "string list \<Rightarrow> 'w gossip \<Rightarrow> ('w, 'w gossip) io" where
  "drop_peers [] g = State_Monad.return g"
| "drop_peers (peer # rest) g = do {
     let g' = g\<lparr>peers := hm_remove peer (peers g)\<rparr>;
     _ \<leftarrow> fire (on_node_failure g') peer;
     drop_peers rest g'
   }"

definition peer_cleanup_tick :: "'w env \<Rightarrow> exchange_config \<Rightarrow> 'w gossip \<Rightarrow> ('w, 'w gossip) io" where
  "peer_cleanup_tick E cfg g = do {
     now \<leftarrow> now_ms E;
     drop_peers (map fst (filter (\<lambda>(_, node). stale cfg now node) (peers g))) g
   }"

section \<open>Replica selection\<close>

definition eligible :: "exchange_config \<Rightarrow> string list \<Rightarrow> node_info \<Rightarrow> bool" where
  "eligible cfg exclude_nodes node \<longleftrightarrow> ni_id node \<noteq> node_id cfg \<and> ni_id node \<notin> set exclude_nodes"

text \<open>\<open>sort_by\<close> is stable; the comparison is descending in the free space.\<close>

definition select_replica_targets :: "exchange_config \<Rightarrow> 'w gossip \<Rightarrow> string list \<Rightarrow> nat \<Rightarrow> node_info list" where
  "select_replica_targets cfg g exclude_nodes n =
     take n (sort_key (\<lambda>node. - uint (ni_free_space node))
       (filter (eligible cfg exclude_nodes) (map snd (peers g))))"

definition best_in_zone :: "exchange_config \<Rightarrow> 'w gossip \<Rightarrow> string list \<Rightarrow> string \<Rightarrow> node_info option" where
  "best_in_zone cfg g exclude_nodes z =
     max_by_key ni_free_space
       (filter (\<lambda>node. ni_zone node = z \<and> eligible cfg exclude_nodes node) (map snd (peers g)))"

definition select_targets_by_zone :: "exchange_config \<Rightarrow> 'w gossip \<Rightarrow> string list \<Rightarrow> string list \<Rightarrow> node_info list" where
  "select_targets_by_zone cfg g zones exclude_nodes =
     List.map_filter (best_in_zone cfg g exclude_nodes) zones"

section \<open>Epochs\<close>

definition register_volume_epoch ::
  "string \<Rightarrow> u64 \<Rightarrow> clock_entries \<Rightarrow> string \<Rightarrow> 'w gossip \<Rightarrow> 'w gossip" where
  "register_volume_epoch volume epoch vector_clock status g =
     g\<lparr>volume_epochs := hm_insert volume
         \<lparr>ep_volume_id = volume, ep_epoch = epoch, ep_vector_clock = vector_clock,
          ep_status = status, ep_last_synced_from = None\<rparr> (volume_epochs g)\<rparr>"

definition update_volume_epoch :: "string \<Rightarrow> u64 \<Rightarrow> string \<Rightarrow> 'w gossip \<Rightarrow> 'w gossip" where
  "update_volume_epoch volume epoch last_synced_from g =
     g\<lparr>volume_epochs := hm_modify volume
         (\<lambda>info. info\<lparr>ep_epoch := epoch, ep_last_synced_from := Some last_synced_from,
                      ep_status := ''active''\<rparr>) (volume_epochs g)\<rparr>"

definition get_volume_epoch_info :: "'w gossip \<Rightarrow> string \<Rightarrow> epoch_info option" where
  "get_volume_epoch_info g volume = hm_get (volume_epochs g) volume"

section \<open>Well-formed peer tables\<close>

text \<open>Keys are distinct and every entry is stored under its own identifier; the same for the
  epoch table.\<close>

definition peers_ok :: "node_info hmap \<Rightarrow> bool" where
  "peers_ok m \<longleftrightarrow> hm_wf m \<and> list_all (\<lambda>(k, n). ni_id n = k) m"

definition epochs_ok :: "epoch_info hmap \<Rightarrow> bool" where
  "epochs_ok m \<longleftrightarrow> hm_wf m \<and> list_all (\<lambda>(k, i). ep_volume_id i = k) m"

definition gossip_ok :: "'w gossip \<Rightarrow> bool" where
  "gossip_ok g \<longleftrightarrow> peers_ok (peers g) \<and> epochs_ok (volume_epochs g)"

lemma list_all_update:
  "list_all P m \<Longrightarrow> P (k, v) \<Longrightarrow> list_all P (hm_insert k v m)"
  by (induction m) auto

lemma list_all_delete: "list_all P m \<Longrightarrow> list_all P (hm_remove k m)"
  by (induction m) auto

lemma peers_ok_insert: "peers_ok m \<Longrightarrow> ni_id n = k \<Longrightarrow> peers_ok (hm_insert k n m)"
  by (simp add: peers_ok_def list_all_update)

lemma peers_ok_remove: "peers_ok m \<Longrightarrow> peers_ok (hm_remove k m)"
  by (simp add: peers_ok_def list_all_delete)

lemma peers_ok_add_nodes: "peers_ok m \<Longrightarrow> peers_ok (add_nodes nodes m)"
  unfolding add_nodes_def by (induction nodes arbitrary: m) (auto simp: peers_ok_insert)

lemma epochs_ok_insert: "epochs_ok m \<Longrightarrow> ep_volume_id i = k \<Longrightarrow> epochs_ok (hm_insert k i m)"
  by (simp add: epochs_ok_def list_all_update)

lemma epochs_ok_remove: "epochs_ok m \<Longrightarrow> epochs_ok (hm_remove k m)"
  by (simp add: epochs_ok_def list_all_delete)

lemma epochs_ok_modify:
  assumes "epochs_ok m" "\<And>i. ep_volume_id (f i) = ep_volume_id i"
  shows "epochs_ok (hm_modify k f m)"
proof (cases "hm_get m k")
  case None
  with assms show ?thesis by (simp add: hm_modify_def)
next
  case (Some i)
  then have "(k, i) \<in> set m" by (rule map_of_SomeD)
  then have "ep_volume_id i = k" using assms(1) by (auto simp: epochs_ok_def list_all_iff)
  with Some assms show ?thesis by (simp add: hm_modify_def epochs_ok_insert)
qed

lemma dispatch_ok:
  assumes "gossip_ok g" "run_io (dispatch E cfg conn msg g) w = ((r, g'), w')"
  shows "gossip_ok g'"
  using assms
  by (cases "msg_type msg")
    (auto simp: dispatch_def handle_heartbeat_def handle_node_join_def handle_node_leave_def
      handle_quorum_vote_def handle_conflict_def handle_delete_volume_def handle_volume_unpublish_def
      gossip_ok_def Let_def node_of_def peers_ok_insert peers_ok_remove epochs_ok_modify epochs_ok_remove
      split: option.splits prod.splits)

lemma handle_ok:
  assumes "gossip_ok g" "run_io (handle_gossip_message E cfg conn g) w = ((r, g'), w')"
  shows "gossip_ok g'"
  using assms by (auto simp: handle_gossip_message_def dest: dispatch_ok split: prod.splits sum.splits)

lemma join_seeds_ok:
  "run_io (join_seeds E cfg seeds g) w = ((r, g'), w') \<Longrightarrow> gossip_ok g \<Longrightarrow> gossip_ok g'"
proof (induction E cfg seeds g arbitrary: w rule: join_seeds.induct)
  case (1 E cfg g)
  then show ?case by simp
next
  case (2 E cfg seed seeds g)
  from "2.prems" show ?case
    by (auto simp: gossip_ok_def peers_ok_add_nodes dest!: "2.IH" [rotated -2]
        split: if_splits prod.splits sum.splits option.splits)
qed

lemma drop_peers_run:
  "run_io (drop_peers ids g) w =
     (g\<lparr>peers := foldl (\<lambda>m k. hm_remove k m) (peers g) ids\<rparr>,
      foldl (\<lambda>w k. snd (run_io (fire (on_node_failure g) k) w)) w ids)"
  by (induction ids arbitrary: g w) (simp_all add: Let_def split: prod.splits)

lemma peer_cleanup_run:
  assumes "run_io (now_ms E) w = (now, w1)" "hm_wf (peers g)"
  shows "run_io (peer_cleanup_tick E cfg g) w =
     (g\<lparr>peers := filter (\<lambda>(_, n). \<not> stale cfg now n) (peers g)\<rparr>,
      foldl (\<lambda>w k. snd (run_io (fire (on_node_failure g) k) w)) w1
        (map fst (filter (\<lambda>(_, n). stale cfg now n) (peers g))))"
proof -
  have del: "foldl (\<lambda>m k. hm_remove k m) m ids = filter (\<lambda>(k, _). k \<notin> set ids) m" for ids and m :: "node_info hmap"
  proof (induction ids arbitrary: m)
    case Nil
    then show ?case by (simp add: split_def)
  next
    case (Cons i ids)
    have "hm_remove i m = filter (\<lambda>(k, _). k \<noteq> i) m"
      by (induction m) auto
    with Cons show ?case by (simp add: split_def conj_commute)
  qed
  have "filter (\<lambda>(k, _). k \<notin> set (map fst (filter (\<lambda>(_, n). stale cfg now n) (peers g)))) (peers g)
      = filter (\<lambda>(_, n). \<not> stale cfg now n) (peers g)"
  proof (rule filter_cong [OF refl])
    fix p assume p: "p \<in> set (peers g)"
    obtain k n where kn: "p = (k, n)" by (metis surj_pair)
    have "k \<in> set (map fst (filter (\<lambda>(_, n). stale cfg now n) (peers g))) \<longleftrightarrow> stale cfg now n"
    proof
      assume "k \<in> set (map fst (filter (\<lambda>(_, n). stale cfg now n) (peers g)))"
      then obtain n' where n': "(k, n') \<in> set (peers g)" "stale cfg now n'" by auto
      then have "n' = n" using p kn eq_key_imp_eq_value [OF assms(2)] by blast
      with n' show "stale cfg now n" by simp
    next
      assume "stale cfg now n"
      with p kn have "(k, n) \<in> set (filter (\<lambda>(_, n). stale cfg now n) (peers g))" by simp
      then show "k \<in> set (map fst (filter (\<lambda>(_, n). stale cfg now n) (peers g)))"
        unfolding set_map by (rule image_eqI [rotated]) simp
    qed
    then show "(case p of (k, _) \<Rightarrow> k \<notin> set (map fst (filter (\<lambda>(_, n). stale cfg now n) (peers g))))
        = (case p of (_, n) \<Rightarrow> \<not> stale cfg now n)"
      by (simp only: kn prod.case)
  qed
  then show ?thesis by (simp add: peer_cleanup_tick_def assms(1) drop_peers_run del)
qed

text \<open>With times after 1970 and a timeout that fits, staleness is the plain comparison.\<close>

lemma stale_iff:
  assumes "0 \<le> sint now" "0 \<le> sint (ni_last_seen n)" "unat (node_timeout cfg) * 1000 < 2 ^ 63"
  shows "stale cfg now n \<longleftrightarrow> int (unat (node_timeout cfg)) * 1000 < sint now - sint (ni_last_seen n)"
proof -
  have age: "sint (now - ni_last_seen n) = sint now - sint (ni_last_seen n)"
    using assms(1,2) by (rule sint_diff_nonneg)
  have "unat (node_timeout cfg * 1000) = unat (node_timeout cfg) * 1000"
    using assms(3) by (simp add: unat_word_ariths)
  then have u: "uint (node_timeout cfg * 1000) = int (unat (node_timeout cfg)) * 1000"
    by (metis of_nat_mult of_nat_numeral uint_nat)
  have "signed_take_bit 63 (int (unat (node_timeout cfg)) * 1000) = int (unat (node_timeout cfg)) * 1000"
  proof -
    define m where "m = unat (node_timeout cfg)"
    have "int m * 1000 < 2 ^ 63" using assms(3) [folded m_def] by simp
    then show ?thesis unfolding m_def [symmetric] by (intro signed_take_bit_int_eq_self) simp_all
  qed
  then have "sint (node_timeout cfg * 1000) = int (unat (node_timeout cfg)) * 1000"
    unfolding sint_uint u by simp
  then show ?thesis by (simp add: stale_def age)
qed

section \<open>The service as a state machine\<close>

text \<open>Everything that changes the shared maps: a handled message, joining, a cleanup tick, and
  the calls of the controller.\<close>

inductive gossip_step :: "'w gossip \<Rightarrow> 'w gossip \<Rightarrow> bool" where
  message: "run_io (handle_gossip_message E cfg conn g) w = ((r, g'), w') \<Longrightarrow> gossip_step g g'"
| join: "run_io (join_cluster E cfg g) w = ((r, g'), w') \<Longrightarrow> gossip_step g g'"
| cleanup: "run_io (peer_cleanup_tick E cfg g) w = (g', w') \<Longrightarrow> gossip_step g g'"
| register: "gossip_step g (register_volume_epoch volume epoch vc status g)"
| update: "gossip_step g (update_volume_epoch volume epoch from g)"
| on_failure: "gossip_step g (add_on_node_failure f g)"
| on_conflict: "gossip_step g (on_conflict_detected h g)"

lemma gossip_step_ok: "gossip_step g g' \<Longrightarrow> gossip_ok g \<Longrightarrow> gossip_ok g'"
proof (induction rule: gossip_step.induct)
  case (message E cfg conn g w r g' w')
  then show ?case by (blast intro: handle_ok)
next
  case (join E cfg g w r g' w')
  then show ?case unfolding join_cluster_def by (blast intro: join_seeds_ok)
next
  case (cleanup E cfg g w g' w')
  obtain now w1 where "run_io (now_ms E) w = (now, w1)" by (metis surj_pair)
  moreover have "hm_wf (peers g)" using cleanup.prems by (simp add: gossip_ok_def peers_ok_def)
  ultimately have "g' = g\<lparr>peers := filter (\<lambda>(_, n). \<not> stale cfg now n) (peers g)\<rparr>"
    using cleanup.hyps peer_cleanup_run by (metis fst_conv)
  then show ?case using cleanup.prems
    by (auto simp: gossip_ok_def peers_ok_def list_all_iff distinct_map_filter)
qed (auto simp: gossip_ok_def register_volume_epoch_def update_volume_epoch_def add_on_node_failure_def
    on_conflict_detected_def epochs_ok_insert epochs_ok_modify)

interpretation gossip_inv: invariant_of "\<lambda>g. g = new_gossip" gossip_step gossip_ok
proof unfold_locales
  show "gossip_ok g" if "g = new_gossip" for g :: "'w gossip"
    using that by (simp add: new_gossip_def gossip_ok_def peers_ok_def epochs_ok_def)
qed (rule gossip_step_ok)

text \<open>The accept loop and the handlers it spawns. The loop takes a permit, then awaits \<open>accept\<close> with its
  whole handshake, so that it serves one handshake at a time; the permit goes to the handler of the
  connection, or back when there is none, after which the loop pauses. A handler's task takes as long as
  it takes: meanwhile other handlers end, and the other parts of the service change the tables. Every
  step that performs input or output runs it in the world it then finds.\<close>

datatype loop_phase = Acquiring | Accepting | Pausing

record 'w listener =
  permits :: nat
  loop_at :: loop_phase
  handlers :: "connection multiset"
  tables :: "'w gossip"

definition new_listener :: "'w listener" where
  "new_listener = \<lparr>permits = MAX_CONCURRENT_CONNECTIONS, loop_at = Acquiring, handlers = {#}, tables = new_gossip\<rparr>"

inductive listener_step :: "'w env \<Rightarrow> exchange_config \<Rightarrow> nat \<Rightarrow> 'w listener \<Rightarrow> 'w listener \<Rightarrow> bool" for E cfg lst where
  acquire: "loop_at l = Acquiring \<Longrightarrow> 0 < permits l \<Longrightarrow>
     listener_step E cfg lst l (l\<lparr>permits := permits l - 1, loop_at := Accepting\<rparr>)"
| accepted: "loop_at l = Accepting \<Longrightarrow> run_io (accept E (gossip_transport E cfg) lst) w = (Inr conn, w') \<Longrightarrow>
     listener_step E cfg lst l (l\<lparr>loop_at := Acquiring, handlers := handlers l + {#conn#}\<rparr>)"
| refused: "loop_at l = Accepting \<Longrightarrow> run_io (accept E (gossip_transport E cfg) lst) w = (Inl e, w') \<Longrightarrow>
     listener_step E cfg lst l (l\<lparr>loop_at := Pausing, permits := permits l + 1\<rparr>)"
| paused: "loop_at l = Pausing \<Longrightarrow> run_io (sleep_ms E 100) w = ((), w') \<Longrightarrow>
     listener_step E cfg lst l (l\<lparr>loop_at := Acquiring\<rparr>)"
| handled: "conn \<in># handlers l \<Longrightarrow> run_io (handle_gossip_message E cfg conn (tables l)) w = ((r, g'), w') \<Longrightarrow>
     listener_step E cfg lst l (l\<lparr>handlers := handlers l - {#conn#}, permits := permits l + 1, tables := g'\<rparr>)"
| elsewhere: "gossip_step (tables l) g' \<Longrightarrow> listener_step E cfg lst l (l\<lparr>tables := g'\<rparr>)"

lemma accept_cipher:
  "run_io (accept E T l) w = (Inr conn, w') \<Longrightarrow> cipher conn = Some (new_cipher (cr E) (auth_key T))"
  by (auto simp: accept_def split: prod.splits sum.splits if_splits)

definition listener_ok :: "'w env \<Rightarrow> exchange_config \<Rightarrow> nat \<Rightarrow> 'w listener \<Rightarrow> bool" where
  "listener_ok E cfg lst l \<longleftrightarrow>
     permits l + size (handlers l) + (if loop_at l = Accepting then 1 else 0) = MAX_CONCURRENT_CONNECTIONS
   \<and> (\<forall>conn \<in># handlers l. \<exists>w w'. run_io (accept E (gossip_transport E cfg) lst) w = (Inr conn, w'))
   \<and> gossip_ok (tables l)"

lemma listener_step_ok: "listener_step E cfg lst l l' \<Longrightarrow> listener_ok E cfg lst l \<Longrightarrow> listener_ok E cfg lst l'"
proof (induction rule: listener_step.induct)
  case (handled conn l w r g' w')
  obtain M where "handlers l = add_mset conn M" using multi_member_split [OF handled.hyps(1)] by blast
  moreover have "gossip_ok g'" using handled by (blast intro: handle_ok dest: listener_ok_def [THEN iffD1])
  ultimately show ?case using handled.prems by (simp add: listener_ok_def)
qed (auto simp: listener_ok_def intro: gossip_step_ok)

lemma new_listener_ok: "listener_ok E cfg lst new_listener"
  by (simp add: listener_ok_def new_listener_def new_gossip_def gossip_ok_def peers_ok_def epochs_ok_def)

interpretation listener_inv: invariant_of "\<lambda>l. l = new_listener" "listener_step E cfg lst" "listener_ok E cfg lst"
  for E :: "'w env" and cfg lst
  by unfold_locales (auto intro: new_listener_ok listener_step_ok)

text \<open>Undisturbed, the loop and the handler together do one \<open>listener_round\<close>.\<close>

lemma listener_runs_round:
  assumes "loop_at l = Acquiring" "0 < permits l" "run_io (listener_round E cfg lst (tables l)) w = (g', w')"
  shows "rtranclp (listener_step E cfg lst) l (l\<lparr>tables := g'\<rparr>)"
proof -
  let ?S = "listener_step E cfg lst" and ?l1 = "l\<lparr>permits := permits l - 1, loop_at := Accepting\<rparr>"
  have acq: "?S l ?l1" by (rule acquire [OF assms(1,2)])
  obtain r w1 where r: "run_io (accept E (gossip_transport E cfg) lst) w = (r, w1)" by (meson surj_pair)
  show ?thesis
  proof (cases r)
    case (Inl e)
    let ?l2 = "?l1\<lparr>loop_at := Pausing, permits := permits ?l1 + 1\<rparr>"
    have "?S ?l1 ?l2" using r Inl by (intro refused) simp_all
    moreover obtain w2 where "run_io (sleep_ms E 100) w1 = ((), w2)" by (metis old.unit.exhaust surj_pair)
    then have "?S ?l2 (?l2\<lparr>loop_at := Acquiring\<rparr>)" by (intro paused) simp_all
    moreover have "g' = tables l" using assms(3) r Inl by (simp add: listener_round_def split: prod.splits)
    then have "?l2\<lparr>loop_at := Acquiring\<rparr> = l\<lparr>tables := g'\<rparr>" using assms(1,2) by simp
    ultimately show ?thesis using acq by (metis converse_rtranclp_into_rtranclp rtranclp.rtrancl_refl)
  next
    case (Inr conn)
    let ?l2 = "?l1\<lparr>loop_at := Acquiring, handlers := handlers ?l1 + {#conn#}\<rparr>"
    have "?S ?l1 ?l2" using r Inr by (intro accepted) simp_all
    moreover obtain x where "run_io (handle_gossip_message E cfg conn (tables ?l2)) w1 = ((x, g'), w')"
      using assms(3) r Inr by (auto simp: listener_round_def split: prod.splits)
    then have "?S ?l2 (?l2\<lparr>handlers := handlers ?l2 - {#conn#}, permits := permits ?l2 + 1, tables := g'\<rparr>)"
      by (intro handled) simp_all
    moreover have "?l2\<lparr>handlers := handlers ?l2 - {#conn#}, permits := permits ?l2 + 1, tables := g'\<rparr> = l\<lparr>tables := g'\<rparr>"
      using assms(1,2) by simp
    ultimately show ?thesis using acq by (metis converse_rtranclp_into_rtranclp rtranclp.rtrancl_refl)
  qed
qed

section \<open>Replica selection\<close>

text \<open>What a client of replica selection relies on: on a well-formed table the picked members
  are eligible, pairwise distinct, as many as asked for if there are that many, in descending
  order of space, and no better candidate is passed over.\<close>

locale replica_picker =
  fixes ok_table :: "'s \<Rightarrow> bool" and members :: "'s \<Rightarrow> 'n set" and name :: "'n \<Rightarrow> string"
    and space :: "'n \<Rightarrow> int" and self :: string
    and pick :: "'s \<Rightarrow> string list \<Rightarrow> nat \<Rightarrow> 'n list"
  assumes pick_sound: "x \<in> set (pick s ex n) \<Longrightarrow> x \<in> members s \<and> name x \<noteq> self \<and> name x \<notin> set ex"
    and pick_distinct: "ok_table s \<Longrightarrow> distinct (map name (pick s ex n))"
    and pick_length: "ok_table s \<Longrightarrow>
      length (pick s ex n) = min n (card {x \<in> members s. name x \<noteq> self \<and> name x \<notin> set ex})"
    and pick_sorted: "sorted (map (\<lambda>x. - space x) (pick s ex n))"
    and pick_best: "x \<in> set (pick s ex n) \<Longrightarrow> y \<in> members s \<Longrightarrow> name y \<noteq> self \<Longrightarrow> name y \<notin> set ex
      \<Longrightarrow> y \<notin> set (pick s ex n) \<Longrightarrow> space y \<le> space x"
begin

lemma pick_avoids: "f \<in> set ex \<Longrightarrow> f \<notin> name ` set (pick s ex n)"
  using pick_sound by blast

lemma pick_everyone:
  assumes "ok_table s" "finite (members s)" "inj_on name (members s)"
    and "card {x \<in> members s. name x \<noteq> self \<and> name x \<notin> set ex} \<le> n"
  shows "set (pick s ex n) = {x \<in> members s. name x \<noteq> self \<and> name x \<notin> set ex}" (is "_ = ?C")
proof (rule card_subset_eq)
  show "finite ?C" using assms(2) by simp
  show "set (pick s ex n) \<subseteq> ?C" using pick_sound by blast
  have "distinct (pick s ex n)" using pick_distinct [OF assms(1)] by (simp add: distinct_map)
  then show "card (set (pick s ex n)) = card ?C"
    using pick_length [OF assms(1), of ex n] assms(4) by (simp add: distinct_card)
qed

end

lemma take_sort_key_best:
  assumes "x \<in> set (take n (sort_key f xs))" "y \<in> set xs" "y \<notin> set (take n (sort_key f xs))"
  shows "f x \<le> f y"
proof -
  have "y \<in> set (drop n (sort_key f xs))"
    using assms(2,3) by (metis Un_iff append_take_drop_id set_append set_sort)
  moreover have "sorted (map f (take n (sort_key f xs)) @ map f (drop n (sort_key f xs)))"
    by (metis append_take_drop_id map_append sorted_sort_key)
  ultimately show ?thesis using assms(1) by (auto simp: sorted_append)
qed

lemma eligible_list:
  assumes "peers_ok m"
  shows "distinct (map ni_id (filter (eligible cfg ex) (map snd m)))"
proof -
  have "map ni_id (map snd m) = map fst m"
    using assms by (auto simp: peers_ok_def list_all_iff)
  then have "distinct (map ni_id (map snd m))" using assms by (simp only: peers_ok_def)
  then show ?thesis by (rule distinct_map_filter)
qed

interpretation picker: replica_picker "\<lambda>g. peers_ok (peers g)" "\<lambda>g. snd ` set (peers g)" ni_id
    "\<lambda>n. uint (ni_free_space n)" "node_id cfg" "select_replica_targets cfg"
  for cfg :: exchange_config
proof unfold_locales
  let ?key = "\<lambda>node. - uint (ni_free_space node)"
  fix g :: "'w gossip" and ex n x y
  let ?cand = "filter (eligible cfg ex) (map snd (peers g))"
  have cand: "set ?cand = {x \<in> snd ` set (peers g). ni_id x \<noteq> node_id cfg \<and> ni_id x \<notin> set ex}"
    by (auto simp: eligible_def)
  have picked: "set (select_replica_targets cfg g ex n) \<subseteq> set ?cand"
    unfolding select_replica_targets_def by (metis set_sort set_take_subset)
  then show "x \<in> snd ` set (peers g) \<and> ni_id x \<noteq> node_id cfg \<and> ni_id x \<notin> set ex"
    if "x \<in> set (select_replica_targets cfg g ex n)"
    using that cand by blast
  show "distinct (map ni_id (select_replica_targets cfg g ex n))" if "peers_ok (peers g)"
  proof -
    have "mset (map ni_id (sort_key ?key ?cand)) = mset (map ni_id ?cand)" by simp
    then have "distinct (map ni_id (sort_key ?key ?cand))"
      using eligible_list [OF that] by (metis mset_eq_imp_distinct_iff)
    then show ?thesis unfolding select_replica_targets_def take_map [symmetric] by (rule distinct_take)
  qed
  show "length (select_replica_targets cfg g ex n)
      = min n (card {x \<in> snd ` set (peers g). ni_id x \<noteq> node_id cfg \<and> ni_id x \<notin> set ex})" if "peers_ok (peers g)"
  proof -
    have "distinct ?cand" using eligible_list [OF that] distinct_map by blast
    then have "card (set ?cand) = length ?cand" by (rule distinct_card)
    then show ?thesis unfolding cand [symmetric]
      by (simp only: select_replica_targets_def length_take length_sort min.commute)
  qed
  show "sorted (map (\<lambda>x. - uint (ni_free_space x)) (select_replica_targets cfg g ex n))"
    unfolding select_replica_targets_def by (metis sorted_sort_key sorted_wrt_take take_map)
  show "uint (ni_free_space y) \<le> uint (ni_free_space x)"
    if "x \<in> set (select_replica_targets cfg g ex n)" "y \<in> snd ` set (peers g)" "ni_id y \<noteq> node_id cfg"
      "ni_id y \<notin> set ex" "y \<notin> set (select_replica_targets cfg g ex n)"
    using take_sort_key_best [of x n ?key ?cand y] that cand
    unfolding select_replica_targets_def by auto
qed

text \<open>A small cluster for the witnesses.\<close>

definition sample_node :: "string \<Rightarrow> node_info" where
  "sample_node n = \<lparr>ni_id = n, ni_addr = n @ '':1'', ni_zone = ''z'', ni_role = ''replica'',
     ni_free_space = 0, ni_last_seen = 0\<rparr>"

definition sample_config :: "string \<Rightarrow> exchange_config" where
  "sample_config n = \<lparr>node_id = n, listen_addr = n, listen_port = 1, replication_port = 2,
     zone = ''z'', cfg_auth_key = ''secret'', seed_nodes = [], gossip_interval = 10,
     heartbeat_interval = 30, node_timeout = 90, replication = default_replication_config,
     maintenance = default_maintenance_config\<rparr>"

definition sample_gossip :: "string list \<Rightarrow> sample gossip" where
  "sample_gossip ns = new_gossip\<lparr>peers := map (\<lambda>n. (n, sample_node n)) ns\<rparr>"

section \<open>Properties\<close>

text \<open>C26. The shared tables stay well formed: in every state the service can reach from its
  start by handling messages, joining, cleaning up and registering volumes, peer identifiers and
  volume identifiers are distinct keys and every entry carries the identifier it is stored
  under.\<close>

theorem gossip_tables_well_formed:
  assumes "rtranclp gossip_step new_gossip g"
  shows "hm_wf (peers g) \<and> (\<forall>k n. hm_get (peers g) k = Some n \<longrightarrow> ni_id n = k)
       \<and> hm_wf (volume_epochs g) \<and> (\<forall>k i. hm_get (volume_epochs g) k = Some i \<longrightarrow> ep_volume_id i = k)"
proof -
  have "gossip_ok g" using gossip_inv.reachable_inv [OF refl assms] .
  then show ?thesis
    by (auto simp: gossip_ok_def peers_ok_def epochs_ok_def list_all_iff dest!: map_of_SomeD)
qed

theorem gossip_tables_well_formed_witness:
  "hm_wf (volume_epochs (register_volume_epoch ''v'' 1 [] ''active'' (new_gossip :: sample gossip)))"
  using gossip_tables_well_formed [OF r_into_rtranclp [where r = gossip_step, OF gossip_step.register]]
  by blast

text \<open>C28. The accept loop lets in authenticated connections only, and at most 512 at once. In every state
  that the loop, its handlers and the rest of the service can reach, the free permits, the connections
  being handled and the one in its handshake are together 512; each connection that is handled was
  returned by \<open>accept\<close> and encrypts with the cluster's key, the configured one if it has 32 bytes; and the
  tables are well formed. A loop that is waiting for a permit, with one free, can do one whole round as
  \<open>listener_round\<close> describes it, after which the permit is free again. The loop awaits the handshake
  itself, so nothing is said of how long it waits for a slow peer.\<close>

theorem listener_bounded_and_authenticated:
  assumes "rtranclp (listener_step E cfg lst) new_listener l"
  shows "permits l + size (handlers l) + (if loop_at l = Accepting then 1 else 0) = 512
     \<and> (\<forall>conn. conn \<in># handlers l \<longrightarrow>
          (\<exists>w w' c. run_io (accept E (gossip_transport E cfg) lst) w = (Inr conn, w')
             \<and> cipher conn = Some c \<and> (length (cfg_auth_key cfg) = 32 \<longrightarrow> cipher_key c = text_bytes (cfg_auth_key cfg))))
     \<and> gossip_ok (tables l)
     \<and> (\<forall>w g' w'. loop_at l = Acquiring \<and> 0 < permits l \<and> run_io (listener_round E cfg lst (tables l)) w = (g', w') \<longrightarrow>
          rtranclp (listener_step E cfg lst) l (l\<lparr>tables := g'\<rparr>))"
proof -
  have ok: "listener_ok E cfg lst l" using listener_inv.reachable_inv [OF refl assms] .
  have "\<exists>w w' c. run_io (accept E (gossip_transport E cfg) lst) w = (Inr conn, w')
      \<and> cipher conn = Some c \<and> (length (cfg_auth_key cfg) = 32 \<longrightarrow> cipher_key c = text_bytes (cfg_auth_key cfg))"
    if conn: "conn \<in># handlers l" for conn
  proof -
    obtain w w' where acc: "run_io (accept E (gossip_transport E cfg) lst) w = (Inr conn, w')"
      using ok conn by (auto simp: listener_ok_def)
    moreover have "length (cfg_auth_key cfg) = 32 \<Longrightarrow>
        cipher_key (new_cipher (cr E) (auth_key (gossip_transport E cfg))) = text_bytes (cfg_auth_key cfg)"
      by (simp add: new_cipher_def gossip_transport_def new_transport_def raw_key_def text_bytes_def)
    ultimately show ?thesis using accept_cipher [OF acc] by blast
  qed
  with ok listener_runs_round show ?thesis
    by (auto simp: listener_ok_def MAX_CONCURRENT_CONNECTIONS_def)
qed

text \<open>A listener that has accepted a connection of a peer with its key.\<close>

theorem listener_bounded_and_authenticated_witness:
  "\<exists>l. rtranclp (listener_step (meeting_env True) (sample_config ''a'') 0) new_listener l
     \<and> permits l = 511 \<and> size (handlers l) = 1 \<and> permits l + size (handlers l) = 512"
proof -
  let ?E = "meeting_env True" and ?cfg = "sample_config ''a''" and ?now = "1700000000000 :: i64"
  let ?S = "listener_step ?E ?cfg 0" and ?k = "text_bytes (cfg_auth_key ?cfg)"
  let ?hello = "encode (hello (cr ?E) ?k ?now ?now)"
  let ?v = "sample_start\<lparr>s_reads := [ReadOk ?hello]\<rparr>"
  have "run_io (tcp_accept ?E 0) ?v = (Inr 0, ?v)" "delivers ?E 0 ?v [?hello] (?v\<lparr>s_reads := []\<rparr>)"
    "\<forall>x. \<bar>sint (fst (run_io (now_ms ?E) x)) - sint ?now\<bar> < 31000" "digest_sizes_ok (cr ?E)" "concat [?hello] = ?hello"
    using sample_crypto_laws(2) by (simp_all add: meeting_env_simps sample_env_simps frame.enc_not_Nil)
  from accept_honest [OF this(4,1,5,2,3) meeting_log]
  obtain conn v' where acc: "run_io (accept ?E (gossip_transport ?E ?cfg) 0) ?v = (Inr conn, v')"
    by (auto simp: gossip_transport_def)
  let ?l1 = "(new_listener :: sample listener)\<lparr>permits := 511, loop_at := Accepting\<rparr>"
  let ?l2 = "?l1\<lparr>loop_at := Acquiring, handlers := handlers ?l1 + {#conn#}\<rparr>"
  have "?S new_listener ?l1"
    using listener_step.acquire [of new_listener ?E ?cfg 0] by (simp add: new_listener_def MAX_CONCURRENT_CONNECTIONS_def)
  moreover have "?S ?l1 ?l2" by (rule listener_step.accepted [OF _ acc]) simp
  ultimately have l2: "rtranclp ?S new_listener ?l2" by (meson r_into_rtranclp rtranclp_trans)
  moreover have "permits ?l2 = 511" "size (handlers ?l2) = 1" "loop_at ?l2 = Acquiring"
    by (simp_all add: new_listener_def)
  moreover from this have "permits ?l2 + size (handlers ?l2) = 512"
    using listener_bounded_and_authenticated [OF l2] by simp
  ultimately show ?thesis by blast
qed

text \<open>C25. A cleanup tick removes exactly the peers not heard of for longer than the timeout: with
  clock values after 1970 and a timeout that fits in 63 bits, the peers that stay are those
  whose last message is at most \<open>node_timeout\<close> seconds old, unchanged and in order; every failure
  callback is run for each removed peer, in order; nothing else changes.\<close>

theorem peer_cleanup_exact:
  assumes "hm_wf (peers g)" and "run_io (now_ms E) w = (now, w1)" and "0 \<le> sint now"
    and "unat (node_timeout cfg) * 1000 < 2 ^ 63"
    and "\<forall>(k, n) \<in> set (peers g). 0 \<le> sint (ni_last_seen n)"
  shows "run_io (peer_cleanup_tick E cfg g) w =
     (g\<lparr>peers := filter (\<lambda>(_, n). sint now - sint (ni_last_seen n) \<le> int (unat (node_timeout cfg)) * 1000) (peers g)\<rparr>,
      foldl (\<lambda>w k. snd (run_io (fire (on_node_failure g) k) w)) w1
        (map fst (filter (\<lambda>(_, n). int (unat (node_timeout cfg)) * 1000 < sint now - sint (ni_last_seen n)) (peers g))))"
proof -
  have "stale cfg now n \<longleftrightarrow> int (unat (node_timeout cfg)) * 1000 < sint now - sint (ni_last_seen n)"
    if "(k, n) \<in> set (peers g)" for k n
    using assms(5) that by (intro stale_iff assms(3,4)) auto
  then have "filter (\<lambda>(_, n). stale cfg now n) (peers g)
      = filter (\<lambda>(_, n). int (unat (node_timeout cfg)) * 1000 < sint now - sint (ni_last_seen n)) (peers g)"
    and "filter (\<lambda>(_, n). \<not> stale cfg now n) (peers g)
      = filter (\<lambda>(_, n). sint now - sint (ni_last_seen n) \<le> int (unat (node_timeout cfg)) * 1000) (peers g)"
    by (intro filter_cong refl; force simp only: not_less split: prod.splits)+
  with peer_cleanup_run [OF assms(2,1)] show ?thesis by (simp only:)
qed

theorem peer_cleanup_exact_witness:
  "fst (run_io (peer_cleanup_tick sample_env (sample_config ''a'')
        (new_gossip\<lparr>peers := [(''b'', sample_node ''b''), (''c'', (sample_node ''c'')\<lparr>ni_last_seen := 1699999990000\<rparr>)]\<rparr>))
        sample_start)
     = new_gossip\<lparr>peers := [(''c'', (sample_node ''c'')\<lparr>ni_last_seen := 1699999990000\<rparr>)]\<rparr>"
  (is "fst (run_io (peer_cleanup_tick _ ?cfg ?g) _) = _")
proof -
  have "run_io (now_ms sample_env) sample_start = (1700000000000, sample_start)"
    by (simp add: sample_env_simps sample_start_def)
  moreover have "hm_wf (peers ?g)" "unat (node_timeout ?cfg) * 1000 < 2 ^ 63"
    "\<forall>(k, n) \<in> set (peers ?g). 0 \<le> sint (ni_last_seen n)"
    by (simp_all add: sample_config_def sample_node_def)
  ultimately show ?thesis
    using peer_cleanup_exact [of ?g sample_env sample_start 1700000000000 sample_start ?cfg]
    by (simp add: sample_config_def sample_node_def)
qed

text \<open>C24. Replica selection is sound and greedy: every selected node is a known peer, is not this
  node and is not excluded; on a well-formed table the selected nodes are distinct, as many as
  asked for or all candidates if there are fewer, ordered by descending free space, and no
  candidate with more free space than a selected one is left out.\<close>

theorem select_replica_targets_spec:
  assumes "peers_ok (peers g)"
  shows "(\<forall>x \<in> set (select_replica_targets cfg g ex n).
            x \<in> snd ` set (peers g) \<and> ni_id x \<noteq> node_id cfg \<and> ni_id x \<notin> set ex
            \<and> (\<forall>y \<in> snd ` set (peers g). ni_id y \<noteq> node_id cfg \<and> ni_id y \<notin> set ex
                  \<and> ni_free_space x < ni_free_space y \<longrightarrow> y \<in> set (select_replica_targets cfg g ex n)))
       \<and> distinct (map ni_id (select_replica_targets cfg g ex n))
       \<and> length (select_replica_targets cfg g ex n)
           = min n (card {x \<in> snd ` set (peers g). ni_id x \<noteq> node_id cfg \<and> ni_id x \<notin> set ex})
       \<and> sorted (map (\<lambda>x. - uint (ni_free_space x)) (select_replica_targets cfg g ex n))"
  using picker.pick_sound picker.pick_best [of _ cfg g ex n] picker.pick_distinct [OF assms]
    picker.pick_length [OF assms] picker.pick_sorted
  by (metis (no_types, lifting) leD word_less_def)

theorem select_replica_targets_spec_witness:
  "distinct (map ni_id (select_replica_targets (sample_config ''a'') (sample_gossip [''a'', ''b'', ''c'']) [''b''] 5))"
  using select_replica_targets_spec [of "sample_gossip [''a'', ''b'', ''c'']" "sample_config ''a''" "[''b'']" 5]
  by (simp add: peers_ok_def sample_gossip_def sample_node_def)

text \<open>The estimate that \<open>btrfs filesystem usage\<close> prints is not read: a line of the form
  \<open>Free (estimated): N (min: M)\<close> is recognised, but its last word is \<open>M)\<close>, which is not a
  number, so the line is passed over; when no other line matches, the node advertises 0 bytes of
  free space.\<close>

theorem free_space_estimate_ignored:
  "find_free_space ((''    Free (estimated):  '' @ show_u64 a @ '' (min: '' @ show_u64 b @ '')'') # rest)
     = find_free_space rest"
proof -
  have ws: "is_ws (CHR '' '')" by (simp add: is_ws_def)
  have d: "\<not> is_ws c" if "c \<in> set (show_u64 b @ '')'')" for c
    using that show_nat_digits [of "unat b"] by (auto simp: show_u64_def list_all_iff is_digit_def is_ws_def)
  have eq: "''    Free (estimated):  '' @ show_u64 a @ '' (min: '' @ show_u64 b @ '')''
      = (''    Free (estimated):  '' @ show_u64 a @ '' (min:'') @ CHR '' '' # (show_u64 b @ '')'')"
    by simp
  have "split_whitespace (''    Free (estimated):  '' @ show_u64 a @ '' (min: '' @ show_u64 b @ '')'')
      = split_whitespace (''    Free (estimated):  '' @ show_u64 a @ '' (min:'') @ [show_u64 b @ '')'']"
    unfolding eq by (rule last_word [OF _ d ws]) simp_all
  moreover have "parse_u64 (show_u64 b @ '')'') = None"
    by (rule parse_u64_non_digit [of "CHR '')''"]) (simp_all add: is_digit_def)
  ultimately show ?thesis by (simp add: Let_def)
qed

end
