(* ===== verification/Quorum.thy ===== *)
theory Quorum
  imports Gossip
begin

text \<open>
  The quorum lease of \<open>crates/btrfs-exchange/src/gossip.rs\<close>: polling the peers for their vote on
  a volume's epoch and clock, and counting the answers. The theorems say exactly when a lease is
  granted, when two granted leases share a voter, and when they need not.
\<close>

section \<open>The operation\<close>

record lease =
  ql_granted :: bool
  ql_votes_received :: u32
  ql_votes_needed :: u32
  ql_total_nodes :: u32
  ql_conflict :: bool
  ql_conflict_info :: "conflict_info option"

record tally =
  votes_granted :: u32
  conflict :: bool
  conflict_found :: "conflict_info option"

text \<open>One vote exchange with a peer: \<open>None\<close> when the address is invalid, the connection, a
  message or the decoding fails, or the answer has another type.\<close>

definition ask_peer ::
  "'w env \<Rightarrow> exchange_config \<Rightarrow> byte list \<Rightarrow> node_info \<Rightarrow> ('w, quorum_vote_response option) io" where
  "ask_peer E cfg body node =
     (if \<not> valid_addr E (ni_addr node) then State_Monad.return None
      else do {
        c \<leftarrow> connect E (gossip_transport E cfg) (ni_addr node);
        case c of
          Inl e \<Rightarrow> State_Monad.return None
        | Inr conn \<Rightarrow> do {
            sent \<leftarrow> reply E conn QuorumVote body;
            case sent of
              Inl e \<Rightarrow> State_Monad.return None
            | Inr _ \<Rightarrow> do {
                (response, _) \<leftarrow> recv_message E conn;
                State_Monad.return
                  (case response of
                     Inl e \<Rightarrow> None
                   | Inr m \<Rightarrow>
                       (if msg_type m = QuorumVoteResponse then vote_resp_from (js E) (payload m) else None))
              }
          }
      })"

text \<open>The effect of one answer on the tally.\<close>

definition count_vote ::
  "exchange_config \<Rightarrow> string \<Rightarrow> u64 \<Rightarrow> clock_entries \<Rightarrow> tally \<Rightarrow> quorum_vote_response \<Rightarrow> tally" where
  "count_vote cfg volume epoch vector_clock t vote =
     (if qv_conflict vote then
        t\<lparr>conflict := True,
          conflict_found := Some \<lparr>ci_volume_id = volume, ci_node_a = node_id cfg,
            ci_node_b = qv_peer_node vote, ci_epoch_a = epoch, ci_epoch_b = qv_peer_epoch vote,
            ci_vector_clock_a = vector_clock, ci_vector_clock_b = qv_peer_vector_clock vote\<rparr>\<rparr>
      else if qv_vote_granted vote then t\<lparr>votes_granted := votes_granted t + 1\<rparr>
      else t)"

fun poll ::
  "'w env \<Rightarrow> exchange_config \<Rightarrow> string \<Rightarrow> u64 \<Rightarrow> clock_entries \<Rightarrow> byte list \<Rightarrow> node_info hmap \<Rightarrow> tally \<Rightarrow> ('w, tally) io" where
  "poll E cfg volume epoch vector_clock body [] t = State_Monad.return t"
| "poll E cfg volume epoch vector_clock body ((peer, node) # rest) t =
     (if peer = node_id cfg then poll E cfg volume epoch vector_clock body rest t
      else do {
        answer \<leftarrow> ask_peer E cfg body node;
        poll E cfg volume epoch vector_clock body rest
          (case answer of None \<Rightarrow> t | Some vote \<Rightarrow> count_vote cfg volume epoch vector_clock t vote)
      })"

definition vote_request :: "exchange_config \<Rightarrow> string \<Rightarrow> u64 \<Rightarrow> clock_entries \<Rightarrow> quorum_vote_request" where
  "vote_request cfg volume epoch vector_clock =
     \<lparr>qr_volume_id = volume, qr_epoch = epoch, qr_vector_clock = vector_clock,
      qr_requester_node = node_id cfg\<rparr>"

definition required_votes :: "nat \<Rightarrow> nat" where
  "required_votes total_peers = total_peers div 2 + 1"

definition request_quorum_lease ::
  "'w env \<Rightarrow> exchange_config \<Rightarrow> 'w gossip \<Rightarrow> string \<Rightarrow> u64 \<Rightarrow> clock_entries \<Rightarrow> ('w, gossip_error + lease) io" where
  "request_quorum_lease E cfg g volume epoch vector_clock =
     (let total_peers = length (peers g) in
      if total_peers = 0 then
        State_Monad.return (Inr \<lparr>ql_granted = True, ql_votes_received = 1, ql_votes_needed = 1,
          ql_total_nodes = 1, ql_conflict = False, ql_conflict_info = None\<rparr>)
      else do {
        let required = required_votes total_peers;
        let body = vote_req_to (js E) (vote_request cfg volume epoch vector_clock);
        t \<leftarrow> poll E cfg volume epoch vector_clock body (peers g)
               \<lparr>votes_granted = 1, conflict = False, conflict_found = None\<rparr>;
        if conflict t then do {
          _ \<leftarrow> (case conflict_found t of
                  Some ci \<Rightarrow> fire (on_conflict g) ci
                | None \<Rightarrow> State_Monad.return ());
          State_Monad.return (Inr \<lparr>ql_granted = False, ql_votes_received = votes_granted t,
            ql_votes_needed = word_of_nat required, ql_total_nodes = word_of_nat (total_peers + 1),
            ql_conflict = True, ql_conflict_info = conflict_found t\<rparr>)
        }
        else
          State_Monad.return (Inr \<lparr>ql_granted = (word_of_nat required \<le> votes_granted t),
            ql_votes_received = votes_granted t, ql_votes_needed = word_of_nat required,
            ql_total_nodes = word_of_nat (total_peers + 1), ql_conflict = False,
            ql_conflict_info = None\<rparr>)
      })"

section \<open>The answers of a poll\<close>

text \<open>A reference for the loop: the answers in the order they arrive, each with its peer.\<close>

fun poll_answers ::
  "'w env \<Rightarrow> exchange_config \<Rightarrow> byte list \<Rightarrow> node_info hmap \<Rightarrow> ('w, (string \<times> quorum_vote_response) list) io" where
  "poll_answers E cfg body [] = State_Monad.return []"
| "poll_answers E cfg body ((peer, node) # rest) =
     (if peer = node_id cfg then poll_answers E cfg body rest
      else do {
        answer \<leftarrow> ask_peer E cfg body node;
        as \<leftarrow> poll_answers E cfg body rest;
        State_Monad.return (case answer of None \<Rightarrow> as | Some vote \<Rightarrow> (peer, vote) # as)
      })"

definition lease_answers ::
  "'w env \<Rightarrow> exchange_config \<Rightarrow> 'w gossip \<Rightarrow> string \<Rightarrow> u64 \<Rightarrow> clock_entries \<Rightarrow> ('w, (string \<times> quorum_vote_response) list) io" where
  "lease_answers E cfg g volume epoch vector_clock =
     poll_answers E cfg (vote_req_to (js E) (vote_request cfg volume epoch vector_clock)) (peers g)"

definition grants :: "string \<times> quorum_vote_response \<Rightarrow> bool" where
  "grants a \<longleftrightarrow> qv_vote_granted (snd a) \<and> \<not> qv_conflict (snd a)"

text \<open>Those whose vote counts for a lease: the requester and the peers that granted.\<close>

definition voters :: "exchange_config \<Rightarrow> (string \<times> quorum_vote_response) list \<Rightarrow> string set" where
  "voters cfg as = insert (node_id cfg) (fst ` set (filter grants as))"

lemma poll_via_answers:
  "run_io (poll_answers E cfg body ps) w = (as, w') \<Longrightarrow>
     run_io (poll E cfg volume epoch vc body ps t) w
       = (foldl (count_vote cfg volume epoch vc) t (map snd as), w')"
proof (induction ps arbitrary: w w' t as)
  case Nil
  then show ?case by simp
next
  case (Cons p ps)
  obtain peer node where p: "p = (peer, node)" by (metis surj_pair)
  show ?case
  proof (cases "peer = node_id cfg")
    case True
    with Cons p show ?thesis by simp
  next
    case False
    obtain a w1 where ask: "run_io (ask_peer E cfg body node) w = (a, w1)" by (metis surj_pair)
    obtain as' w2 where rest: "run_io (poll_answers E cfg body ps) w1 = (as', w2)" by (metis surj_pair)
    from Cons.IH [OF rest] Cons.prems False show ?thesis
      by (cases a) (auto simp: p ask rest)
  qed
qed

lemma answers_keys:
  "run_io (poll_answers E cfg body ps) w = (as, w') \<Longrightarrow>
     set (map fst as) \<subseteq> set (map fst ps) - {node_id cfg} \<and> length as \<le> length ps
     \<and> (hm_wf ps \<longrightarrow> distinct (map fst as))"
proof (induction ps arbitrary: w w' as)
  case Nil
  then show ?case by simp
next
  case (Cons p ps)
  obtain peer node where p: "p = (peer, node)" by (metis surj_pair)
  show ?case
  proof (cases "peer = node_id cfg")
    case True
    then have "run_io (poll_answers E cfg body ps) w = (as, w')" using Cons.prems p by simp
    from Cons.IH [OF this] True show ?thesis unfolding p by auto
  next
    case False
    obtain a w1 where ask: "run_io (ask_peer E cfg body node) w = (a, w1)" by (metis surj_pair)
    obtain as' w2 where rest: "run_io (poll_answers E cfg body ps) w1 = (as', w2)" by (metis surj_pair)
    have as: "as = (case a of None \<Rightarrow> as' | Some v \<Rightarrow> (peer, v) # as')"
      using Cons.prems False by (simp add: p ask rest split: option.splits)
    from Cons.IH [OF rest] False show ?thesis
      unfolding as p by (cases a) auto
  qed
qed

lemma tally_conflict:
  "conflict (foldl (count_vote cfg volume epoch vc) t vs) \<longleftrightarrow> conflict t \<or> (\<exists>v \<in> set vs. qv_conflict v)"
  by (induction vs arbitrary: t) (auto simp: count_vote_def)

lemma tally_votes:
  "votes_granted (foldl (count_vote cfg volume epoch vc) t vs)
     = votes_granted t + word_of_nat (length (filter (\<lambda>v. qv_vote_granted v \<and> \<not> qv_conflict v) vs))"
  by (induction vs arbitrary: t) (auto simp: count_vote_def)

lemma unat_u32_of_nat: "n < 2 ^ 32 \<Longrightarrow> unat (word_of_nat n :: u32) = n"
  by (simp add: unat_of_nat)

lemma unat_votes:
  assumes "n < 2 ^ 32 - 1"
  shows "unat (1 + word_of_nat n :: u32) = 1 + n"
proof -
  have "unat (word_of_nat (1 + n) :: u32) = 1 + n" using assms by (intro unat_u32_of_nat) simp
  then show ?thesis by simp
qed

text \<open>The outcome of a lease request with at least one known peer.\<close>

lemma lease_outcome:
  assumes answers: "run_io (lease_answers E cfg g volume epoch vc) w = (as, w1)"
    and some: "peers g \<noteq> []" and few: "length (peers g) < 2 ^ 32 - 1"
  shows "\<exists>r w2. run_io (request_quorum_lease E cfg g volume epoch vc) w = (Inr r, w2)
     \<and> ql_granted r = ((\<forall>a \<in> set as. \<not> qv_conflict (snd a))
                       \<and> required_votes (length (peers g)) \<le> 1 + length (filter grants as))
     \<and> ql_conflict r = (\<exists>a \<in> set as. qv_conflict (snd a))
     \<and> unat (ql_votes_received r) = 1 + length (filter grants as)
     \<and> unat (ql_votes_needed r) = required_votes (length (peers g))
     \<and> unat (ql_total_nodes r) = length (peers g) + 1"
proof -
  define t where "t = foldl (count_vote cfg volume epoch vc)
      \<lparr>votes_granted = 1, conflict = False, conflict_found = None\<rparr> (map snd as)"
  have poll: "run_io (poll E cfg volume epoch vc (vote_req_to (js E) (vote_request cfg volume epoch vc))
      (peers g) \<lparr>votes_granted = 1, conflict = False, conflict_found = None\<rparr>) w = (t, w1)"
    unfolding t_def using answers by (intro poll_via_answers) (simp add: lease_answers_def)
  have conf: "conflict t \<longleftrightarrow> (\<exists>a \<in> set as. qv_conflict (snd a))"
    by (simp add: t_def tally_conflict)
  have "length as \<le> length (peers g)"
    using answers_keys [OF answers [unfolded lease_answers_def]] by blast
  then have "length (filter grants as) < 2 ^ 32 - 1"
    using le_less_trans [OF le_trans [OF length_filter_le] few] by blast
  moreover have "votes_granted t = 1 + word_of_nat (length (filter grants as))"
    by (simp add: t_def tally_votes grants_def [abs_def] filter_map o_def)
  ultimately have votes: "unat (votes_granted t) = 1 + length (filter grants as)"
    using unat_votes by simp
  have need: "unat (word_of_nat (required_votes (length (peers g))) :: u32) = required_votes (length (peers g))"
    using few by (intro unat_u32_of_nat) (simp add: required_votes_def)
  have total: "unat (word_of_nat (length (peers g) + 1) :: u32) = length (peers g) + 1"
    using few by (intro unat_u32_of_nat) simp
  show ?thesis
  proof (cases "conflict t")
    case True
    obtain u w2 where "run_io (case conflict_found t of Some ci \<Rightarrow> fire (on_conflict g) ci
        | None \<Rightarrow> State_Monad.return ()) w1 = (u, w2)" by (metis surj_pair)
    with True show ?thesis using some poll conf votes need total
      by (auto simp: request_quorum_lease_def Let_def)
  next
    case False
    with some poll conf votes need total show ?thesis
      by (auto simp: request_quorum_lease_def Let_def word_le_nat_alt)
  qed
qed

text \<open>The size of the set of voters of a poll.\<close>

lemma voters_of_poll:
  assumes answers: "run_io (lease_answers E cfg g volume epoch vc) w = (as, w1)"
    and "hm_wf (peers g)" and keys: "set (map fst (peers g)) \<subseteq> N" and "node_id cfg \<in> N"
  shows "voters cfg as \<subseteq> N \<and> card (voters cfg as) = 1 + length (filter grants as)"
proof -
  have "distinct (map fst as)" and in_keys: "set (map fst as) \<subseteq> set (map fst (peers g)) - {node_id cfg}"
    using answers_keys [OF answers [unfolded lease_answers_def]] assms(2) by blast+
  then have "card (fst ` set (filter grants as)) = length (filter grants as)"
    by (metis card_image distinct_card distinct_filter distinct_map inj_on_subset filter_is_subset)
  moreover have "node_id cfg \<notin> fst ` set (filter grants as)" using in_keys by auto
  ultimately show ?thesis using in_keys keys assms(4) by (auto simp: voters_def)
qed

section \<open>A sample cluster\<close>

text \<open>An environment in which only the node at \<open>b:1\<close> answers, with one vote; used by
  the witnesses below.\<close>

definition granting_vote :: quorum_vote_response where
  "granting_vote = \<lparr>qv_volume_id = ''vol'', qv_peer_epoch = 0, qv_peer_vector_clock = [],
     qv_vote_granted = True, qv_peer_node = ''b'', qv_conflict = False\<rparr>"

definition cluster_env :: "quorum_vote_response \<Rightarrow> sample env" where
  "cluster_env v = sample_env\<lparr>
     tcp_connect := (\<lambda>a. State_Monad.return (if a = ''b:1'' then Inr 0 else Inl ''refused'')),
     js := sample_json\<lparr>vote_resp_from := (\<lambda>_. Some v)\<rparr>\<rparr>"

definition cluster_world :: sample where
  "cluster_world = sample_start\<lparr>s_reads :=
     [ReadOk (encode (new_message AuthOk [] 0)),
      ReadOk (encode (new_message QuorumVoteResponse (replicate 40 0) 0))]\<rparr>"

definition stale_epochs :: "epoch_info hmap" where
  "stale_epochs = [(''vol'', \<lparr>ep_volume_id = ''vol'', ep_epoch = 3, ep_vector_clock = [(''b'', 3)],
     ep_status = ''active'', ep_last_synced_from = None\<rparr>)]"

lemma cluster_env_simps:
  "now_ms (cluster_env v) = State (\<lambda>w. (s_clock w, w))"
  "random_bytes (cluster_env v) n = State_Monad.return (replicate n 0)"
  "valid_addr (cluster_env v) a \<longleftrightarrow> a \<noteq> []"
  "tcp_connect (cluster_env v) a = State_Monad.return (if a = ''b:1'' then Inr 0 else Inl ''refused'')"
  "tcp_write (cluster_env v) s bs = State (\<lambda>w. (Inr (), w\<lparr>s_written := s_written w @ bs\<rparr>))"
  "tcp_read (cluster_env v) s = State (\<lambda>w. case s_reads w of
         [] \<Rightarrow> (ReadOk [], w) | r # rs \<Rightarrow> (r, w\<lparr>s_reads := rs\<rparr>))"
  "cr (cluster_env v) = sample_crypto" "vote_resp_from (js (cluster_env v)) b = Some v"
  by (simp_all add: cluster_env_def sample_env_simps)

lemma cluster_recv:
  assumes "length (payload m) \<le> 40" "s_reads w = ReadOk (encode m) # rest" "read_buf conn = []"
  shows "run_io (recv_message (cluster_env v) conn) w
           = ((open_payload sample_crypto (cipher conn) m, conn), w\<lparr>s_reads := rest\<rparr>)"
proof -
  have "sendable m" using assms(1) by (simp add: sendable_def MAX_PAYLOAD_SIZE_def)
  then show ?thesis
    using assms recv_one_frame [of m conn "cluster_env v" w "w\<lparr>s_reads := rest\<rparr>"]
    by (simp add: cluster_env_simps)
qed

lemma cluster_send:
  "\<exists>x. run_io (send_message (cluster_env v) conn m) w = (Inr (), w\<lparr>s_written := x\<rparr>)"
  by (cases "cipher conn")
    (auto simp: send_message_def wire_payload_def encrypt_def cluster_env_simps)

lemma cluster_connect:
  assumes "s_reads w = ReadOk (encode (new_message AuthOk [] 0)) # rest"
  shows "\<exists>x. run_io (connect (cluster_env v) T ''b:1'') w
           = (Inr \<lparr>sock = 0, read_buf = [], cipher = Some (new_cipher sample_crypto (auth_key T))\<rparr>,
              w\<lparr>s_written := x, s_reads := rest\<rparr>)"
proof -
  let ?auth = "new_message Auth (serialize_auth_payload (s_clock w) (compute_hmac sample_crypto (auth T) (s_clock w))) (s_clock w)"
  obtain x where send: "run_io (send_message (cluster_env v) (new_connection 0) ?auth) w = (Inr (), w\<lparr>s_written := x\<rparr>)"
    using cluster_send by blast
  have reads: "s_reads (w\<lparr>s_written := x\<rparr>) = ReadOk (encode (new_message AuthOk [] 0)) # rest"
    using assms by simp
  have "run_io (recv_message (cluster_env v) (new_connection 0)) (w\<lparr>s_written := x\<rparr>)
      = ((Inr (new_message AuthOk [] 0), new_connection 0), w\<lparr>s_written := x, s_reads := rest\<rparr>)"
    using cluster_recv [OF _ reads, of "new_connection 0"]
    by (simp add: new_connection_def new_message_def open_payload_def)
  with send show ?thesis
    by (auto simp: connect_def generate_token_def cluster_env_simps new_message_def new_connection_def Let_def)
qed

lemma cluster_answers:
  assumes "n \<noteq> ''b''" "x \<noteq> ''b''" "x \<noteq> n"
  shows "fst (run_io (lease_answers (cluster_env v) (sample_config n) (sample_gossip [''b'', x]) ''vol'' e k) cluster_world)
     = [(''b'', v)]"
proof -
  let ?T = "gossip_transport (cluster_env v) (sample_config n)"
  let ?conn = "\<lparr>sock = 0, read_buf = [], cipher = Some (new_cipher sample_crypto (auth_key ?T))\<rparr>"
  let ?vote = "new_message QuorumVoteResponse (replicate 40 0) 0"
  let ?body = "vote_req_to (js (cluster_env v)) (vote_request (sample_config n) ''vol'' e k)"
  obtain w1 where c: "run_io (connect (cluster_env v) ?T ''b:1'') cluster_world = (Inr ?conn, w1)"
    and r1: "s_reads w1 = [ReadOk (encode ?vote)]"
    using cluster_connect [of cluster_world "[ReadOk (encode ?vote)]" v ?T] by (auto simp: cluster_world_def)
  obtain w2 where s: "run_io (send_message (cluster_env v) ?conn (new_message QuorumVote ?body (s_clock w1))) w1 = (Inr (), w2)"
    and r2: "s_reads w2 = [ReadOk (encode ?vote)]"
    using cluster_send [of v ?conn _ w1] r1 by (metis sample.ext_inject sample.surjective sample.update_convs(2))
  have "open_payload sample_crypto (cipher ?conn) ?vote = Inr (?vote\<lparr>payload := []\<rparr>)"
    by (simp add: open_payload_def decrypt_def new_cipher_def sample_crypto_def sample_open_def new_message_def)
  with cluster_recv [OF _ r2, of ?conn]
  have "run_io (recv_message (cluster_env v) ?conn) w2 = ((Inr (?vote\<lparr>payload := []\<rparr>), ?conn), w2\<lparr>s_reads := []\<rparr>)"
    by (simp add: new_message_def)
  moreover have "x @ '':1'' \<noteq> ''b:1''" using assms(2) by (cases x) auto
  ultimately show ?thesis using c s assms
    by (simp add: lease_answers_def sample_gossip_def new_gossip_def ask_peer_def sample_node_def
        sample_config_def cluster_env_simps reply_def new_message_def connect_def [of _ _ "x @ '':1''"])
qed

lemma quorum_arith:
  fixes n a b :: nat
  assumes "0 < n" "a = n \<or> a = n - 1" "b = n \<or> b = n - 1" "odd n \<or> a = n \<or> b = n"
  shows "n < (a div 2 + 1) + (b div 2 + 1)"
  using assms by presburger

lemma overlap:
  assumes "finite N" "A \<subseteq> N" "B \<subseteq> N" "card N < card A + card B"
  shows "A \<inter> B \<noteq> {}"
proof
  assume "A \<inter> B = {}"
  then have "card A + card B = card (A \<union> B)"
    using assms by (simp add: card_Un_disjoint finite_subset)
  also have "\<dots> \<le> card N" using assms by (intro card_mono) auto
  finally show False using assms(4) by simp
qed

text \<open>In the sample cluster a node other than \<open>b\<close> gets a lease with the vote of \<open>b\<close>.\<close>

lemma cluster_lease:
  assumes "n \<noteq> ''b''" "x \<noteq> ''b''" "x \<noteq> n"
  shows "\<exists>u r y. run_io (lease_answers (cluster_env granting_vote) (sample_config n) (sample_gossip [''b'', x]) ''vol'' 1 []) cluster_world
        = ([(''b'', granting_vote)], u)
     \<and> run_io (request_quorum_lease (cluster_env granting_vote) (sample_config n) (sample_gossip [''b'', x]) ''vol'' 1 []) cluster_world = (Inr r, y)
     \<and> ql_granted r"
proof -
  let ?g = "sample_gossip [''b'', x]"
  obtain u where as: "run_io (lease_answers (cluster_env granting_vote) (sample_config n) ?g ''vol'' 1 []) cluster_world
      = ([(''b'', granting_vote)], u)"
    using cluster_answers [OF assms] by (metis prod.collapse)
  have "peers ?g \<noteq> []" "length (peers ?g) < 2 ^ 32 - 1" "required_votes (length (peers ?g)) = 2"
    by (simp_all add: sample_gossip_def required_votes_def)
  with lease_outcome [OF as] as show ?thesis by (auto simp: grants_def granting_vote_def)
qed

text \<open>A granted lease has the votes of a quorum of the nodes the requester lists.\<close>

lemma lease_quorum:
  assumes "finite N" "card N < 2 ^ 32 - 1" "node_id cfg \<in> N" "hm_wf (peers g)"
    and keys: "set (map fst (peers g)) = N \<or> set (map fst (peers g)) = N - {node_id cfg}"
    and answers: "run_io (lease_answers E cfg g volume epoch vc) w = (as, w1)"
    and run: "run_io (request_quorum_lease E cfg g volume epoch vc) w = (Inr r, w2)" "ql_granted r"
  shows "voters cfg as \<subseteq> N \<and> card (set (map fst (peers g))) div 2 + 1 \<le> card (voters cfg as)"
proof -
  have sub: "set (map fst (peers g)) \<subseteq> N" using keys by auto
  have votes: "voters cfg as \<subseteq> N \<and> card (voters cfg as) = 1 + length (filter grants as)"
    using voters_of_poll [OF answers assms(4) sub assms(3)] .
  have len: "card (set (map fst (peers g))) = length (peers g)"
    using assms(4) distinct_card [of "map fst (peers g)"] by simp
  show ?thesis
  proof (cases "peers g = []")
    case True
    with votes show ?thesis by simp
  next
    case False
    have "length (peers g) < 2 ^ 32 - 1"
      using card_mono [OF assms(1) sub] assms(2) len by linarith
    from lease_outcome [OF answers False this] run
    have "required_votes (length (peers g)) \<le> 1 + length (filter grants as)" by auto
    with votes len show ?thesis by (simp add: required_votes_def)
  qed
qed

section \<open>Properties\<close>

text \<open>A vote is exact: a node reports a conflict exactly when it knows the volume and its own
  clock and the requester's are concurrent (each has a greater component); it grants unless
  there is a conflict on a volume whose local epoch is not zero; an unknown volume is granted.\<close>

theorem vote_response_exact:
  "qv_conflict (vote_response cfg epochs req) =
     (\<exists>info. hm_get epochs (qr_volume_id req) = Some info
        \<and> (\<exists>k. component (hm_collect (qr_vector_clock req)) k < component (hm_collect (ep_vector_clock info)) k)
        \<and> (\<exists>k. component (hm_collect (ep_vector_clock info)) k < component (hm_collect (qr_vector_clock req)) k))
   \<and> (qv_vote_granted (vote_response cfg epochs req) = False) =
       (qv_conflict (vote_response cfg epochs req) \<and> qv_peer_epoch (vote_response cfg epochs req) \<noteq> 0)
   \<and> qv_peer_epoch (vote_response cfg epochs req)
       = (case hm_get epochs (qr_volume_id req) of None \<Rightarrow> 0 | Some info \<Rightarrow> ep_epoch info)"
  by (cases "hm_get epochs (qr_volume_id req)") (auto simp: vote_response_def has_conflict_iff)

text \<open>C1. The lease decision is exactly the count of the answers: with at least one known peer
  (and fewer than \<open>2^32 - 1\<close>), the request always returns a result; it is granted if and only if
  no answer reports a conflict and the requester's own vote plus the granting answers reach
  half of the known peers plus one; the reported numbers are the real ones.\<close>

theorem lease_decision_exact:
  assumes "run_io (lease_answers E cfg g volume epoch vc) w = (as, w1)"
    and "peers g \<noteq> []" and "length (peers g) < 2 ^ 32 - 1"
  shows "\<exists>r w2. run_io (request_quorum_lease E cfg g volume epoch vc) w = (Inr r, w2)
     \<and> ql_granted r = ((\<forall>a \<in> set as. \<not> qv_conflict (snd a))
                       \<and> length (peers g) div 2 + 1 \<le> 1 + length (filter grants as))
     \<and> ql_conflict r = (\<exists>a \<in> set as. qv_conflict (snd a))
     \<and> unat (ql_votes_received r) = 1 + length (filter grants as)
     \<and> unat (ql_votes_needed r) = length (peers g) div 2 + 1
     \<and> unat (ql_total_nodes r) = length (peers g) + 1"
  using lease_outcome [OF assms] unfolding required_votes_def by blast

theorem lease_decision_exact_witness:
  "\<exists>r w2. run_io (request_quorum_lease (cluster_env granting_vote) (sample_config ''a'') (sample_gossip [''b'', ''c'']) ''vol'' 1 []) cluster_world
       = (Inr r, w2) \<and> ql_granted r \<and> unat (ql_votes_received r) = 2 \<and> unat (ql_total_nodes r) = 3"
proof -
  let ?g = "sample_gossip [''b'', ''c'']"
  obtain w1 where "run_io (lease_answers (cluster_env granting_vote) (sample_config ''a'') ?g ''vol'' 1 []) cluster_world
      = ([(''b'', granting_vote)], w1)"
    using cluster_lease [of "''a''" "''c''"] by auto
  moreover have "peers ?g \<noteq> []" "length (peers ?g) = 2" by (simp_all add: sample_gossip_def)
  ultimately show ?thesis
    using lease_decision_exact [of "cluster_env granting_vote" "sample_config ''a''" ?g "''vol''" 1 "[]" cluster_world
        "[(''b'', granting_vote)]" w1]
    by (auto simp: grants_def granting_vote_def)
qed

text \<open>C19. Two granted leases share a voter whenever the cluster has an odd number of nodes, or
  one of the two requesters also lists itself among its peers: for any two members whose peer
  tables list the other members, if both requests are granted, some node (a requester or a peer
  that granted) is counted in both.\<close>

theorem granted_leases_share_a_voter:
  assumes "finite N" and "card N < 2 ^ 32 - 1"
    and "node_id c1 \<in> N" and "hm_wf (peers g1)"
    and "set (map fst (peers g1)) = N \<or> set (map fst (peers g1)) = N - {node_id c1}"
    and "node_id c2 \<in> N" and "hm_wf (peers g2)"
    and "set (map fst (peers g2)) = N \<or> set (map fst (peers g2)) = N - {node_id c2}"
    and "odd (card N) \<or> set (map fst (peers g1)) = N \<or> set (map fst (peers g2)) = N"
    and "run_io (lease_answers E1 c1 g1 v1 e1 k1) w1 = (as1, u1)"
    and "run_io (request_quorum_lease E1 c1 g1 v1 e1 k1) w1 = (Inr r1, x1)" and "ql_granted r1"
    and "run_io (lease_answers E2 c2 g2 v2 e2 k2) w2 = (as2, u2)"
    and "run_io (request_quorum_lease E2 c2 g2 v2 e2 k2) w2 = (Inr r2, x2)" and "ql_granted r2"
  shows "voters c1 as1 \<inter> voters c2 as2 \<noteq> {}"
proof -
  have q1: "voters c1 as1 \<subseteq> N" "card (set (map fst (peers g1))) div 2 + 1 \<le> card (voters c1 as1)"
    using lease_quorum [OF assms(1-5) assms(10-12)] by blast+
  have q2: "voters c2 as2 \<subseteq> N" "card (set (map fst (peers g2))) div 2 + 1 \<le> card (voters c2 as2)"
    using lease_quorum [OF assms(1,2,6-8) assms(13-15)] by blast+
  have "card (N - {node_id c1}) = card N - 1" "card (N - {node_id c2}) = card N - 1"
    using assms(1,3,6) by simp_all
  moreover have "0 < card N" using assms(1,3) by (auto simp: card_gt_0_iff)
  ultimately have "card N < (card (set (map fst (peers g1))) div 2 + 1) + (card (set (map fst (peers g2))) div 2 + 1)"
    using assms(5,8,9) by (intro quorum_arith) auto
  with q1 q2 show ?thesis by (intro overlap [OF assms(1)]) auto
qed

theorem granted_leases_share_a_voter_witness:
  "voters (sample_config ''a'') [(''b'', granting_vote)] \<inter> voters (sample_config ''c'') [(''b'', granting_vote)] \<noteq> {}"
proof -
  let ?N = "{''a'', ''b'', ''c''}"
  let ?c1 = "sample_config ''a''" and ?g1 = "sample_gossip [''b'', ''c'']"
  let ?c2 = "sample_config ''c''" and ?g2 = "sample_gossip [''b'', ''a'']"
  obtain u1 r1 x1 where 1: "run_io (lease_answers (cluster_env granting_vote) ?c1 ?g1 ''vol'' 1 []) cluster_world = ([(''b'', granting_vote)], u1)"
    "run_io (request_quorum_lease (cluster_env granting_vote) ?c1 ?g1 ''vol'' 1 []) cluster_world = (Inr r1, x1)" "ql_granted r1"
    using cluster_lease [of "''a''" "''c''"] by auto
  obtain u2 r2 x2 where 2: "run_io (lease_answers (cluster_env granting_vote) ?c2 ?g2 ''vol'' 1 []) cluster_world = ([(''b'', granting_vote)], u2)"
    "run_io (request_quorum_lease (cluster_env granting_vote) ?c2 ?g2 ''vol'' 1 []) cluster_world = (Inr r2, x2)" "ql_granted r2"
    using cluster_lease [of "''c''" "''a''"] by auto
  have N: "finite ?N" "card ?N < 2 ^ 32 - 1" "odd (card ?N)" by simp_all
  have m1: "node_id ?c1 \<in> ?N" "hm_wf (peers ?g1)" "set (map fst (peers ?g1)) = ?N - {node_id ?c1}"
    and m2: "node_id ?c2 \<in> ?N" "hm_wf (peers ?g2)" "set (map fst (peers ?g2)) = ?N - {node_id ?c2}"
    by (auto simp: sample_gossip_def sample_config_def)
  show ?thesis
    by (rule granted_leases_share_a_voter [OF N(1,2) m1(1,2) disjI2 [OF m1(3)] m2(1,2) disjI2 [OF m2(3)]
          disjI1 [OF N(3)] 1 2])
qed

text \<open>A peer that knows the volume at a concurrent clock stops the lease: when one of the
  answers is such a peer's vote, the request returns a refusal that reports the conflict.\<close>

theorem concurrent_peer_blocks_lease:
  assumes "run_io (lease_answers E cfg g volume epoch vc) w = (as, w1)"
    and "length (peers g) < 2 ^ 32 - 1"
    and "(p, vote_response peer_cfg epochs (vote_request cfg volume epoch vc)) \<in> set as"
    and "hm_get epochs volume = Some info"
    and "component (hm_collect vc) i < component (hm_collect (ep_vector_clock info)) i"
    and "component (hm_collect (ep_vector_clock info)) j < component (hm_collect vc) j"
  shows "\<exists>r w2. run_io (request_quorum_lease E cfg g volume epoch vc) w = (Inr r, w2)
     \<and> \<not> ql_granted r \<and> ql_conflict r"
proof -
  have "qv_conflict (vote_response peer_cfg epochs (vote_request cfg volume epoch vc))"
    using assms(4-6) by (auto simp: vote_response_def vote_request_def has_conflict_iff)
  moreover have "peers g \<noteq> []" using assms(1,3) by (auto simp: lease_answers_def)
  ultimately show ?thesis using lease_outcome [OF assms(1) _ assms(2)] assms(3) by fastforce
qed

theorem concurrent_peer_blocks_lease_witness:
  "\<exists>v r w2. run_io (request_quorum_lease (cluster_env v) (sample_config ''a'') (sample_gossip [''b'', ''c'']) ''vol'' 2 [(''a'', 2)])
      cluster_world = (Inr r, w2) \<and> \<not> ql_granted r \<and> ql_conflict r"
proof -
  let ?c = "sample_config ''a''" and ?g = "sample_gossip [''b'', ''c'']"
  define v where "v = vote_response (sample_config ''b'') stale_epochs (vote_request ?c ''vol'' 2 [(''a'', 2)])"
  obtain u where as: "run_io (lease_answers (cluster_env v) ?c ?g ''vol'' 2 [(''a'', 2)]) cluster_world = ([(''b'', v)], u)"
    using cluster_answers [of "''a''" "''c''" v 2 "[(''a'', 2)]"] that
    by (cases "run_io (lease_answers (cluster_env v) ?c ?g ''vol'' 2 [(''a'', 2)]) cluster_world") auto
  have "length (peers ?g) < 2 ^ 32 - 1" by (simp add: sample_gossip_def)
  moreover have "(''b'', vote_response (sample_config ''b'') stale_epochs (vote_request ?c ''vol'' 2 [(''a'', 2)])) \<in> set [(''b'', v)]"
    by (simp add: v_def)
  moreover have "hm_get stale_epochs ''vol'' = Some (the (hm_get stale_epochs ''vol''))"
    "component (hm_collect [(''a'', 2)]) ''b'' < component (hm_collect (ep_vector_clock (the (hm_get stale_epochs ''vol'')))) ''b''"
    "component (hm_collect (ep_vector_clock (the (hm_get stale_epochs ''vol'')))) ''a'' < component (hm_collect [(''a'', 2)]) ''a''"
    by (simp_all add: stale_epochs_def component_def hm_collect_def)
  ultimately show ?thesis using concurrent_peer_blocks_lease [OF as] by blast
qed

text \<open>A half of an even cluster that answers and grants is enough.\<close>

lemma half_is_granted:
  assumes "finite N" "card N = 2 * card H" "card N < 2 ^ 32 - 1" "H \<subseteq> N" "node_id cfg \<in> H"
    and "hm_wf (peers g)" "set (map fst (peers g)) = N - {node_id cfg}"
    and answers: "run_io (lease_answers E cfg g volume epoch vc) w = (as, w1)"
    and "fst ` set as = H - {node_id cfg}" "\<forall>a \<in> set as. grants a \<and> \<not> qv_conflict (snd a)"
  shows "\<exists>r w2. run_io (request_quorum_lease E cfg g volume epoch vc) w = (Inr r, w2)
     \<and> ql_granted r \<and> voters cfg as = H"
proof -
  have "finite H" using assms(1,4) finite_subset by blast
  have "distinct (map fst as)"
    using answers_keys [OF answers [unfolded lease_answers_def]] assms(6) by blast
  then have "length as = card (fst ` set as)" using distinct_card [of "map fst as"] by simp
  then have as: "length as = card H - 1" using assms(5,9) \<open>finite H\<close> by simp
  have "length (peers g) = card (set (map fst (peers g)))"
    using assms(6) distinct_card [of "map fst (peers g)"] by simp
  then have ps: "length (peers g) = card N - 1" using assms(1,4,5,7) by auto
  have pos: "0 < card H" using assms(5) \<open>finite H\<close> by (auto simp: card_gt_0_iff)
  have all: "filter grants as = as" using assms(10) by (simp add: filter_id_conv)
  have "peers g \<noteq> []" "length (peers g) < 2 ^ 32 - 1" using ps pos assms(2,3) by auto
  from lease_outcome [OF answers this] obtain r w2 where
    "run_io (request_quorum_lease E cfg g volume epoch vc) w = (Inr r, w2)"
    "ql_granted r \<longleftrightarrow> required_votes (length (peers g)) \<le> 1 + length as"
    using assms(10) all by auto
  moreover have "required_votes (length (peers g)) \<le> 1 + length as"
    using as ps pos assms(2) by (simp add: required_votes_def)
  moreover have "voters cfg as = H" using assms(5,9) all by (auto simp: voters_def)
  ultimately show ?thesis by auto
qed

text \<open>A node that knows the volume at the requester's clock, or not at all, grants its vote.\<close>

lemma in_sync_votes:
  assumes "\<And>i. hm_get epochs volume = Some i \<Longrightarrow> ep_vector_clock i = vc"
  shows "grants (p, vote_response peer_cfg epochs (vote_request cfg volume epoch vc))
     \<and> \<not> qv_conflict (vote_response peer_cfg epochs (vote_request cfg volume epoch vc))"
  using assms by (cases "hm_get epochs volume")
    (auto simp: grants_def vote_response_def vote_request_def has_conflict_iff)

text \<open>C21. Split brain: when the number of nodes is even, both halves of a partition are granted a lease on
  the same volume. Let \<open>N\<close> be split into two halves of the same size that do not hear each other, and
  let every node know the volume at the clock of the requesters, or not at all. If in each half a
  node asks and the others of its half answer as \<open>vote_response\<close> does, then both requests are
  granted, and the two sets of voters are the two halves.\<close>

theorem both_halves_are_granted:
  assumes "finite N" and "card N < 2 ^ 32 - 1" and "N = H1 \<union> H2" and "H1 \<inter> H2 = {}" and "card H1 = card H2"
    and "\<forall>p i. hm_get (epochs p) volume = Some i \<longrightarrow> ep_vector_clock i = vc"
    and "node_id c1 \<in> H1" and "hm_wf (peers g1)" and "set (map fst (peers g1)) = N - {node_id c1}"
    and "run_io (lease_answers E1 c1 g1 volume epoch1 vc) w1 = (as1, u1)" and "fst ` set as1 = H1 - {node_id c1}"
    and "\<forall>(p, v) \<in> set as1. v = vote_response (conf p) (epochs p) (vote_request c1 volume epoch1 vc)"
    and "node_id c2 \<in> H2" and "hm_wf (peers g2)" and "set (map fst (peers g2)) = N - {node_id c2}"
    and "run_io (lease_answers E2 c2 g2 volume epoch2 vc) w2 = (as2, u2)" and "fst ` set as2 = H2 - {node_id c2}"
    and "\<forall>(p, v) \<in> set as2. v = vote_response (conf p) (epochs p) (vote_request c2 volume epoch2 vc)"
  shows "\<exists>r1 x1 r2 x2.
       run_io (request_quorum_lease E1 c1 g1 volume epoch1 vc) w1 = (Inr r1, x1) \<and> ql_granted r1
     \<and> run_io (request_quorum_lease E2 c2 g2 volume epoch2 vc) w2 = (Inr r2, x2) \<and> ql_granted r2
     \<and> voters c1 as1 = H1 \<and> voters c2 as2 = H2 \<and> voters c1 as1 \<inter> voters c2 as2 = {}"
proof -
  have "finite H1" "finite H2" using assms(1,3) by auto
  then have N: "card N = 2 * card H1" "card N = 2 * card H2" "H1 \<subseteq> N" "H2 \<subseteq> N"
    using assms(3,4,5) by (simp_all add: card_Un_disjoint)
  have 1: "\<forall>a \<in> set as1. grants a \<and> \<not> qv_conflict (snd a)"
    using assms(6,12) in_sync_votes [of "epochs _" volume vc _ "conf _" c1 epoch1] by fastforce
  have 2: "\<forall>a \<in> set as2. grants a \<and> \<not> qv_conflict (snd a)"
    using assms(6,18) in_sync_votes [of "epochs _" volume vc _ "conf _" c2 epoch2] by fastforce
  from half_is_granted [OF assms(1) N(1) assms(2) N(3) assms(7-11) 1]
    half_is_granted [OF assms(1) N(2) assms(2) N(4) assms(13-17) 2] assms(4)
  show ?thesis by blast
qed

theorem both_halves_are_granted_witness:
  "\<exists>r1 x1 r2 x2.
     run_io (request_quorum_lease sample_env (sample_config ''a'') (sample_gossip [''c'']) ''vol'' 1 []) sample_start
       = (Inr r1, x1) \<and> ql_granted r1
   \<and> run_io (request_quorum_lease sample_env (sample_config ''c'') (sample_gossip [''a'']) ''vol'' 1 []) sample_start
       = (Inr r2, x2) \<and> ql_granted r2"
proof -
  have alone: "run_io (lease_answers sample_env (sample_config n) (sample_gossip [m]) ''vol'' 1 []) sample_start
      = ([], sample_start)" if "n \<noteq> m" for n m
    using that by (simp add: lease_answers_def sample_gossip_def new_gossip_def sample_config_def sample_node_def
        ask_peer_def connect_def sample_env_simps)
  have facts: "node_id (sample_config n) = n" "peers (sample_gossip [m]) = [(m, sample_node m)]" for n m
    by (simp_all add: sample_gossip_def sample_config_def)
  let ?N = "{''a'', ''c''}" and ?a = "sample_config ''a''" and ?c = "sample_config ''c''"
  have N: "finite ?N" "card ?N < 2 ^ 32 - 1" "?N = {''a''} \<union> {''c''}" "{''a''} \<inter> {''c''} = ({} :: string set)"
    "card {''a''} = card {''c''}" by auto
  have known: "\<forall>p i. hm_get ((\<lambda>_. []) p) ''vol'' = Some i \<longrightarrow> ep_vector_clock i = []" by simp
  have a: "node_id ?a \<in> {''a''}" "hm_wf (peers (sample_gossip [''c'']))"
      "set (map fst (peers (sample_gossip [''c'']))) = ?N - {node_id ?a}" "fst ` set [] = {''a''} - {node_id ?a}"
    and c: "node_id ?c \<in> {''c''}" "hm_wf (peers (sample_gossip [''a'']))"
      "set (map fst (peers (sample_gossip [''a'']))) = ?N - {node_id ?c}" "fst ` set [] = {''c''} - {node_id ?c}"
    by (auto simp: facts)
  have "''a'' \<noteq> ''c''" "''c'' \<noteq> ''a''" by simp_all
  note runs = this [THEN alone]
  have none: "\<forall>(p, v) \<in> set []. v = vote_response (sample_config p) [] q" for q by simp
  note both = both_halves_are_granted [where epochs = "\<lambda>_. []" and conf = sample_config,
      OF N known a(1-3) runs(1) a(4) none c(1-3) runs(2) c(4) none]
  then show ?thesis by (elim exE conjE) (intro exI conjI; assumption)
qed

end
