(* ===== verification/Replicator.thy ===== *)
theory Replicator
  imports Quorum Snapshot
begin

text \<open>
  The replicator, \<open>crates/btrfs-exchange/src/replicator.rs\<close>: the replication state of every
  volume, which volumes are due, the choice of targets, sending a snapshot with retries, and
  pulling a volume from a peer. Loops over a stream take fuel; running out of it is the result
  \<open>None\<close>, and the theorems give enough.
\<close>

section \<open>State\<close>

definition MAX_RETRIES :: u32 where "MAX_RETRIES = 5"
definition BASE_BACKOFF_MS :: u64 where "BASE_BACKOFF_MS = 1000"
definition MAX_BACKOFF_MS :: u64 where "MAX_BACKOFF_MS = 60000"

datatype replication_status = Idle | Syncing | Error string | Completed | Retrying

record replication_state =
  rs_volume_id :: string
  last_snapshot :: "string option"
  last_sync :: "i64 option"
  status :: replication_status
  target_nodes :: "string list"
  retry_count :: u32
  last_error :: "string option"
  failed_nodes :: "string list"

type_synonym states = "replication_state hmap"

definition fresh_state :: "string \<Rightarrow> string list \<Rightarrow> replication_state" where
  "fresh_state volume targets = \<lparr>rs_volume_id = volume, last_snapshot = None, last_sync = None,
     status = Idle, target_nodes = targets, retry_count = 0, last_error = None, failed_nodes = []\<rparr>"

section \<open>Scheduling\<close>

text \<open>Times are \<open>i64\<close> milliseconds with wrapping differences and signed comparisons; the interval
  is computed in \<open>u64\<close> and cast.\<close>

definition due :: "exchange_config \<Rightarrow> i64 \<Rightarrow> replication_state \<Rightarrow> bool" where
  "due cfg now s =
     (let interval = default_interval (replication cfg) * 1000 in
      case status s of
        Syncing \<Rightarrow> False
      | Retrying \<Rightarrow> True
      | Idle \<Rightarrow> (case last_sync s of None \<Rightarrow> True | Some t \<Rightarrow> sint interval < sint (now - t))
      | Completed \<Rightarrow> (case last_sync s of None \<Rightarrow> True | Some t \<Rightarrow> sint interval < sint (now - t))
      | Error _ \<Rightarrow> (case last_sync s of None \<Rightarrow> True | Some t \<Rightarrow> sint (interval * 5) < sint (now - t)))"

definition get_volumes_for_replication :: "'w env \<Rightarrow> exchange_config \<Rightarrow> states \<Rightarrow> ('w, string list) io" where
  "get_volumes_for_replication E cfg ss = do {
     now \<leftarrow> now_ms E;
     State_Monad.return (map fst (filter (\<lambda>(_, s). due cfg now s) ss))
   }"

definition backoff_ms :: "u32 \<Rightarrow> u64" where
  "backoff_ms e = min (BASE_BACKOFF_MS * 2 ^ unat e) MAX_BACKOFF_MS"

definition should_retry :: "'w env \<Rightarrow> states \<Rightarrow> string \<Rightarrow> ('w, bool) io" where
  "should_retry E ss vol =
     (case hm_get ss vol of
        None \<Rightarrow> State_Monad.return True
      | Some s \<Rightarrow>
          (if status s = Retrying then do {
             now \<leftarrow> now_ms E;
             State_Monad.return
               (sint (backoff_ms (retry_count s - 1)) \<le> sint (now - unwrap_or (last_sync s) 0))
           }
           else State_Monad.return True))"

text \<open>One tick of \<open>replication_loop\<close>: the volumes whose replication is started, in order.\<close>

fun select_started :: "'w env \<Rightarrow> states \<Rightarrow> string list \<Rightarrow> ('w, string list) io" where
  "select_started E ss [] = State_Monad.return []"
| "select_started E ss (vol # vols) = do {
     go \<leftarrow> should_retry E ss vol;
     rest \<leftarrow> select_started E ss vols;
     State_Monad.return (if go then vol # rest else rest)
   }"

definition replication_tick :: "'w env \<Rightarrow> exchange_config \<Rightarrow> states \<Rightarrow> ('w, string list) io" where
  "replication_tick E cfg ss = do {
     vols \<leftarrow> get_volumes_for_replication E cfg ss;
     select_started E ss vols
   }"

section \<open>Choosing targets\<close>

definition exclusions :: "replication_state option \<Rightarrow> string list" where
  "exclusions s =
     (case s of
        None \<Rightarrow> []
      | Some s \<Rightarrow> foldl (\<lambda>ex node. if node \<in> set ex then ex else ex @ [node]) (target_nodes s) (failed_nodes s))"

definition select_replication_targets ::
  "'w env \<Rightarrow> exchange_config \<Rightarrow> 'w gossip \<Rightarrow> states \<Rightarrow> string \<Rightarrow> ('w, node_info list) io" where
  "select_replication_targets E cfg g ss vol = do {
     n \<leftarrow> get_replica_count E (data_dir (replication cfg) @ ''/'' @ vol);
     State_Monad.return
       (if n = 0 then [] else select_replica_targets cfg g (exclusions (hm_get ss vol)) (unat n))
   }"

section \<open>Sending a snapshot\<close>

text \<open>Actions that may run out of fuel.\<close>

definition opt_bind :: "('w, 'a option) io \<Rightarrow> ('a \<Rightarrow> ('w, 'b option) io) \<Rightarrow> ('w, 'b option) io" where
  "opt_bind m f = State_Monad.bind m
     (\<lambda>r. case r of None \<Rightarrow> State_Monad.return None | Some x \<Rightarrow> f x)"

definition lift_some :: "('w, 'a) io \<Rightarrow> ('w, 'a option) io" where
  "lift_some m = State_Monad.bind m (\<lambda>x. State_Monad.return (Some x))"

definition try_opt :: "('w, ('e + 'a) option) io \<Rightarrow> ('a \<Rightarrow> ('w, ('e + 'b) option) io) \<Rightarrow> ('w, ('e + 'b) option) io" where
  "try_opt m f = opt_bind m
     (\<lambda>r. case r of Inl e \<Rightarrow> State_Monad.return (Some (Inl e)) | Inr x \<Rightarrow> f x)"

text \<open>\<open>conn.send_message(...).await?\<close> and the wait for an acknowledgment, with errors as text.\<close>

definition send_or_err :: "'w env \<Rightarrow> connection \<Rightarrow> message_type \<Rightarrow> byte list \<Rightarrow> ('w, string + unit) io" where
  "send_or_err E conn t p = do {
     r \<leftarrow> reply E conn t p;
     State_Monad.return (case r of Inl e \<Rightarrow> Inl (transport_error_text e) | Inr _ \<Rightarrow> Inr ())
   }"

definition connect_or_err :: "'w env \<Rightarrow> exchange_config \<Rightarrow> string \<Rightarrow> ('w, string + connection) io" where
  "connect_or_err E cfg addr = do {
     r \<leftarrow> connect E (gossip_transport E cfg) addr;
     State_Monad.return (case r of Inl e \<Rightarrow> Inl (transport_error_text e) | Inr c \<Rightarrow> Inr c)
   }"

definition await_start_ack :: "'w env \<Rightarrow> connection \<Rightarrow> ('w, string + connection) io" where
  "await_start_ack E conn = do {
     (r, conn) \<leftarrow> recv_message E conn;
     State_Monad.return
       (case r of
          Inl e \<Rightarrow> Inl (transport_error_text e)
        | Inr ack \<Rightarrow> (if msg_type ack = SendStart then Inr conn else Inl ''Unexpected response''))
   }"

text \<open>Copy the standard output of \<open>btrfs send\<close> to the connection; the hashed bytes are returned.\<close>

fun send_chunks :: "nat \<Rightarrow> 'w env \<Rightarrow> connection \<Rightarrow> nat \<Rightarrow> byte list \<Rightarrow> ('w, (string + byte list) option) io" where
  "send_chunks 0 E conn child hashed = State_Monad.return None"
| "send_chunks (Suc fuel) E conn child hashed = do {
     r \<leftarrow> child_read E child;
     case r of
       Inl e \<Rightarrow> State_Monad.return (Some (Inl e))
     | Inr chunk \<Rightarrow>
         (if chunk = [] then State_Monad.return (Some (Inr hashed))
          else do {
            s \<leftarrow> send_or_err E conn SendData chunk;
            case s of
              Inl e \<Rightarrow> State_Monad.return (Some (Inl e))
            | Inr _ \<Rightarrow> send_chunks fuel E conn child (hashed @ chunk)
          })
   }"

definition send_args :: "snapshot \<Rightarrow> snapshot option \<Rightarrow> string list" where
  "send_args snap previous =
     [''send''] @ (case previous of None \<Rightarrow> [] | Some p \<Rightarrow> [''-p'', sn_path p]) @ [sn_path snap]"

definition start_request :: "snapshot \<Rightarrow> snapshot option \<Rightarrow> send_start_request" where
  "start_request snap previous =
     \<lparr>ss_volume_id = sn_name snap, ss_snapshot_name = sn_path snap,
      ss_is_incremental = (previous \<noteq> None), ss_parent_snapshot = map_option sn_path previous\<rparr>"

definition finish_send :: "'w env \<Rightarrow> connection \<Rightarrow> nat \<Rightarrow> snapshot \<Rightarrow> byte list \<Rightarrow> ('w, string + unit) io" where
  "finish_send E conn child snap hashed =
     and_then (child_wait E child)
       (\<lambda>good. if \<not> good then do {
                err \<leftarrow> child_stderr E child;
                State_Monad.return (Inl (''btrfs send failed: '' @ err))
              }
              else send_or_err E conn SendComplete
                (complete_to (js E) \<lparr>sc_volume_id = sn_name snap, sc_success = True, sc_error = None,
                   sc_checksum = Some (blake3_hex (cr E) hashed)\<rparr>))"

definition send_to_target ::
  "nat \<Rightarrow> 'w env \<Rightarrow> exchange_config \<Rightarrow> snapshot \<Rightarrow> snapshot option \<Rightarrow> node_info \<Rightarrow> ('w, (string + unit) option) io" where
  "send_to_target fuel E cfg snap previous target =
     (if \<not> valid_addr E (ni_addr target) then State_Monad.return (Some (Inl ''Invalid target address''))
      else
        try_opt (lift_some (connect_or_err E cfg (ni_addr target)))
          (\<lambda>conn. try_opt (lift_some (send_or_err E conn SendStart (start_to (js E) (start_request snap previous))))
             (\<lambda>_. try_opt (lift_some (await_start_ack E conn))
                (\<lambda>conn. try_opt (lift_some (context_err ''Failed to spawn btrfs send''
                                  (spawn E ''btrfs'' (send_args snap previous))))
                   (\<lambda>child. try_opt (send_chunks fuel E conn child [])
                      (\<lambda>hashed. lift_some (finish_send E conn child snap hashed)))))))"

text \<open>\<open>send_with_retry\<close>: the attempts \<open>a, a + 1, \<dots>\<close>, \<open>n\<close> of them, with a pause after each failed
  one but the last.\<close>

fun send_attempts ::
  "nat \<Rightarrow> 'w env \<Rightarrow> exchange_config \<Rightarrow> snapshot \<Rightarrow> snapshot option \<Rightarrow> node_info \<Rightarrow> u32 \<Rightarrow> nat \<Rightarrow> string
     \<Rightarrow> ('w, (string + unit) option) io" where
  "send_attempts fuel E cfg snap previous target a 0 last_err =
     State_Monad.return (Some (Inl (''Failed after 5 retries: '' @ last_err)))"
| "send_attempts fuel E cfg snap previous target a (Suc n) last_err =
     opt_bind (send_to_target fuel E cfg snap previous target)
       (\<lambda>r. case r of
              Inr _ \<Rightarrow> State_Monad.return (Some (Inr ()))
            | Inl e \<Rightarrow> do {
                _ \<leftarrow> (if a < MAX_RETRIES then sleep_ms E (backoff_ms a) else State_Monad.return ());
                send_attempts fuel E cfg snap previous target (a + 1) n e
              })"

definition send_with_retry ::
  "nat \<Rightarrow> 'w env \<Rightarrow> exchange_config \<Rightarrow> snapshot \<Rightarrow> snapshot option \<Rightarrow> node_info \<Rightarrow> ('w, (string + unit) option) io" where
  "send_with_retry fuel E cfg snap previous target =
     send_attempts fuel E cfg snap previous target 0 (unat MAX_RETRIES + 1) []"

section \<open>Replicating a volume\<close>

text \<open>The loop over the targets: how many succeeded and which nodes failed.\<close>

fun send_all ::
  "nat \<Rightarrow> 'w env \<Rightarrow> exchange_config \<Rightarrow> snapshot \<Rightarrow> snapshot option \<Rightarrow> node_info list \<Rightarrow> u32 \<times> string list
     \<Rightarrow> ('w, (u32 \<times> string list) option) io" where
  "send_all fuel E cfg snap previous [] acc = State_Monad.return (Some acc)"
| "send_all fuel E cfg snap previous (target # rest) (good, bad) =
     opt_bind (send_with_retry fuel E cfg snap previous target)
       (\<lambda>r. send_all fuel E cfg snap previous rest
          (case r of Inr _ \<Rightarrow> (good + 1, bad) | Inl _ \<Rightarrow> (good, bad @ [ni_id target])))"

definition begin_sync :: "string \<Rightarrow> states \<Rightarrow> states" where
  "begin_sync vol ss =
     hm_insert vol ((unwrap_or (hm_get ss vol) (fresh_state vol []))\<lparr>status := Syncing\<rparr>) ss"

definition no_targets :: "string \<Rightarrow> states \<Rightarrow> states" where
  "no_targets vol ss =
     hm_modify vol (\<lambda>s. s\<lparr>status := Error ''No targets available'',
       last_error := Some ''No replication targets available''\<rparr>) ss"

text \<open>The result of a round of sends for one volume: \<open>n\<close> targets, \<open>good\<close> of them reached.\<close>

definition record_outcome :: "string \<Rightarrow> i64 \<Rightarrow> nat \<Rightarrow> u32 \<Rightarrow> string list \<Rightarrow> replication_state \<Rightarrow> replication_state" where
  "record_outcome snap_name now n good bad s =
     (let s = s\<lparr>last_snapshot := Some snap_name, last_sync := Some now,
                failed_nodes := foldl (\<lambda>fs node. if node \<in> set fs then fs else fs @ [node]) (failed_nodes s) bad\<rparr> in
      if good = word_of_nat n then s\<lparr>status := Completed, retry_count := 0, last_error := None\<rparr>
      else if 0 < good then
        s\<lparr>status := Completed,
          last_error := Some (''Partial success: '' @ show_u32 good @ ''/'' @ show_nat n @ '' targets'')\<rparr>
      else
        (let s = s\<lparr>retry_count := retry_count s + 1\<rparr> in
         s\<lparr>status := (if MAX_RETRIES \<le> retry_count s then Error ''Max retries exceeded'' else Retrying),
           last_error := Some (''All '' @ show_nat n @ '' targets failed (attempt '' @
             show_u32 (retry_count s) @ ''/'' @ show_u32 MAX_RETRIES @ '')'')\<rparr>))"

definition replicate_volume ::
  "nat \<Rightarrow> 'w env \<Rightarrow> exchange_config \<Rightarrow> 'w gossip \<Rightarrow> states \<Rightarrow> string \<Rightarrow> ('w, ((string + unit) \<times> states) option) io" where
  "replicate_volume fuel E cfg g ss vol = do {
     let ss = begin_sync vol ss;
     made \<leftarrow> context_err ''Failed to create snapshot'' (create_for_replication E (snapshot_dir (replication cfg)) vol);
     case made of
       Inl e \<Rightarrow> State_Monad.return (Some (Inl e, ss))
     | Inr (snap, previous) \<Rightarrow> do {
         targets \<leftarrow> select_replication_targets E cfg g ss vol;
         if targets = [] then State_Monad.return (Some (Inr (), no_targets vol ss))
         else
           opt_bind (send_all fuel E cfg snap previous targets (0, []))
             (\<lambda>(good, bad). do {
                now \<leftarrow> now_ms E;
                State_Monad.return (Some (Inr (),
                  hm_modify vol (record_outcome (sn_name snap) now (length targets) good bad) ss))
              })
       }
   }"

section \<open>Registration\<close>

definition register_volume :: "string \<Rightarrow> string list \<Rightarrow> states \<Rightarrow> states" where
  "register_volume vol targets ss = hm_insert vol (fresh_state vol targets) ss"

definition clear_failed_nodes :: "string \<Rightarrow> string \<Rightarrow> states \<Rightarrow> states" where
  "clear_failed_nodes vol node ss =
     hm_modify vol (\<lambda>s.
       let s = s\<lparr>failed_nodes := filter (\<lambda>n. n \<noteq> node) (failed_nodes s)\<rparr> in
       if status s = Error ''Max retries exceeded'' then s\<lparr>status := Idle, retry_count := 0\<rparr> else s) ss"

definition get_volumes_for_node :: "string \<Rightarrow> states \<Rightarrow> string list" where
  "get_volumes_for_node node ss = map fst (filter (\<lambda>(_, s). node \<in> set (target_nodes s)) ss)"

definition unregister_volume :: "string \<Rightarrow> states \<Rightarrow> states" where
  "unregister_volume vol ss = hm_remove vol ss"

definition get_status :: "string \<Rightarrow> states \<Rightarrow> replication_state option" where
  "get_status vol ss = hm_get ss vol"

section \<open>Pulling a volume\<close>

text \<open>Copy the data messages to the standard input of \<open>btrfs receive\<close> until the sender is
  complete; other messages are skipped.\<close>

fun pull_chunks :: "nat \<Rightarrow> 'w env \<Rightarrow> connection \<Rightarrow> nat \<Rightarrow> ('w, (string + unit) option) io" where
  "pull_chunks 0 E conn child = State_Monad.return None"
| "pull_chunks (Suc fuel) E conn child = do {
     (r, conn) \<leftarrow> recv_message E conn;
     case r of
       Inl e \<Rightarrow> State_Monad.return (Some (Inl (''Connection error during sync: '' @ transport_error_text e)))
     | Inr m \<Rightarrow>
         (if msg_type m = SendData then do {
            s \<leftarrow> child_write_all E child (payload m);
            case s of
              Inl e \<Rightarrow> State_Monad.return (Some (Inl e))
            | Inr _ \<Rightarrow> pull_chunks fuel E conn child
          }
          else if msg_type m = SendComplete then lift_some (child_close E child)
          else pull_chunks fuel E conn child)
   }"

definition sync_volume_from ::
  "nat \<Rightarrow> 'w env \<Rightarrow> exchange_config \<Rightarrow> string \<Rightarrow> string \<Rightarrow> ('w, (string + unit) option) io" where
  "sync_volume_from fuel E cfg vol peer =
     (if \<not> valid_addr E peer then State_Monad.return (Some (Inl ''Invalid peer address''))
      else
        try_opt (lift_some (connect_or_err E cfg peer))
          (\<lambda>conn. try_opt (lift_some (send_or_err E conn SendStart
                (start_to (js E) \<lparr>ss_volume_id = vol, ss_snapshot_name = vol,
                   ss_is_incremental = False, ss_parent_snapshot = None\<rparr>)))
             (\<lambda>_. try_opt (lift_some (await_start_ack E conn))
                (\<lambda>conn. try_opt (lift_some (create_dir_all E (snapshot_dir (replication cfg))))
                   (\<lambda>_. try_opt (lift_some (context_err ''Failed to spawn btrfs receive''
                          (spawn E ''btrfs'' [''receive'', snapshot_dir (replication cfg) @ ''/'' @ vol])))
                      (\<lambda>child. try_opt (pull_chunks fuel E conn child)
                         (\<lambda>_. try_opt (lift_some (child_wait E child))
                            (\<lambda>good. if good then State_Monad.return (Some (Inr ()))
                                  else do {
                                    err \<leftarrow> child_stderr E child;
                                    State_Monad.return (Some (Inl (''btrfs receive failed: '' @ err)))
                                  }))))))))"

section \<open>Running optional actions\<close>

lemma run_opt_bind [io_simps]:
  "run_io (opt_bind m f) w =
     (case run_io m w of (None, w') \<Rightarrow> (None, w') | (Some x, w') \<Rightarrow> run_io (f x) w')"
  by (simp add: opt_bind_def split: prod.splits option.splits)

lemma run_lift_some [io_simps]:
  "run_io (lift_some m) w = (case run_io m w of (x, w') \<Rightarrow> (Some x, w'))"
  by (simp add: lift_some_def split: prod.splits)

lemma run_try_opt [io_simps]:
  "run_io (try_opt m f) w =
     (case run_io m w of
        (None, w') \<Rightarrow> (None, w')
      | (Some (Inl e), w') \<Rightarrow> (Some (Inl e), w')
      | (Some (Inr x), w') \<Rightarrow> run_io (f x) w')"
  by (simp add: try_opt_def run_opt_bind split: prod.splits option.splits sum.splits)

lemma hm_get_modify: "hm_get (hm_modify k f m) x = (if x = k then map_option f (hm_get m k) else hm_get m x)"
  by (simp add: hm_modify_def split: option.splits)

lemma set_push_new:
  "set (foldl (\<lambda>fs node. if node \<in> set fs then fs else fs @ [node]) xs ys) = set xs \<union> set ys"
proof (induction ys arbitrary: xs)
  case Nil
  then show ?case by simp
next
  case (Cons y ys)
  then show ?case by (cases "y \<in> set xs") auto
qed

lemma set_exclusions: "set (exclusions (Some s)) = set (target_nodes s) \<union> set (failed_nodes s)"
  by (simp add: exclusions_def set_push_new)

section \<open>The replication states as a state machine\<close>

text \<open>Every atomic change of the shared map: the phases of \<open>replicate_volume\<close>, each under the
  lock, and the registrations.\<close>

inductive repl_step :: "states \<Rightarrow> states \<Rightarrow> bool" where
  begin_sync: "repl_step ss (begin_sync vol ss)"
| no_targets: "repl_step ss (no_targets vol ss)"
| outcome: "repl_step ss (hm_modify vol (record_outcome snap now n good bad) ss)"
| register: "repl_step ss (register_volume vol targets ss)"
| clear: "repl_step ss (clear_failed_nodes vol node ss)"
| unregister: "repl_step ss (unregister_volume vol ss)"

definition state_ok :: "nat \<Rightarrow> string \<Rightarrow> replication_state \<Rightarrow> bool" where
  "state_ok n k s \<longleftrightarrow> rs_volume_id s = k \<and> unat (retry_count s) \<le> n
     \<and> (status s = Retrying \<longrightarrow> 1 \<le> unat (retry_count s) \<and> unat (retry_count s) < 5)"

text \<open>The invariant after \<open>n\<close> steps, as long as no counter can have wrapped.\<close>

definition repl_ok :: "nat \<times> states \<Rightarrow> bool" where
  "repl_ok p \<longleftrightarrow> (fst p < 2 ^ 32 \<longrightarrow> (\<forall>k s. hm_get (snd p) k = Some s \<longrightarrow> state_ok (fst p) k s))"

definition counted_step :: "nat \<times> states \<Rightarrow> nat \<times> states \<Rightarrow> bool" where
  "counted_step p q \<longleftrightarrow> fst q = Suc (fst p) \<and> repl_step (snd p) (snd q)"

lemma record_outcome_fields:
  "rs_volume_id (record_outcome snap now n good bad s) = rs_volume_id s"
  "failed_nodes (record_outcome snap now n good bad s)
     = foldl (\<lambda>fs node. if node \<in> set fs then fs else fs @ [node]) (failed_nodes s) bad"
  "last_snapshot (record_outcome snap now n good bad s) = Some snap"
  "last_sync (record_outcome snap now n good bad s) = Some now"
  "target_nodes (record_outcome snap now n good bad s) = target_nodes s"
  by (simp_all add: record_outcome_def Let_def)

lemma record_outcome_status:
  "status (record_outcome snap now n good bad s) =
     (if good = word_of_nat n \<or> 0 < good then Completed
      else if MAX_RETRIES \<le> retry_count s + 1 then Error ''Max retries exceeded'' else Retrying)"
  "retry_count (record_outcome snap now n good bad s) =
     (if good = word_of_nat n then 0 else if 0 < good then retry_count s else retry_count s + 1)"
  "last_error (record_outcome snap now n good bad s) = None \<longleftrightarrow> good = word_of_nat n"
  by (auto simp: record_outcome_def Let_def)

lemma state_ok_outcome:
  assumes "state_ok n k s" "Suc n < 2 ^ 32"
  shows "state_ok (Suc n) k (record_outcome snap now m good bad s)"
proof -
  have "unat (retry_count s + 1) = Suc (unat (retry_count s))"
    using assms by (simp add: state_ok_def unat_word_ariths)
  then show ?thesis
    using assms
    by (auto simp: state_ok_def record_outcome_fields record_outcome_status MAX_RETRIES_def word_le_nat_alt not_le)
qed

lemma repl_step_ok:
  assumes "repl_step ss ss'" "Suc n < 2 ^ 32" "\<And>k s. hm_get ss k = Some s \<Longrightarrow> state_ok n k s"
  shows "hm_get ss' k = Some s \<Longrightarrow> state_ok (Suc n) k s"
  using assms(1,3)
proof (induction rule: repl_step.induct)
  case (begin_sync ss vol)
  then show ?case
    by (cases "hm_get ss vol") (force simp: begin_sync_def fresh_state_def state_ok_def split: if_splits)+
next
  case (no_targets ss vol)
  then show ?case by (force simp: no_targets_def hm_get_modify state_ok_def split: if_splits)
next
  case (outcome ss vol snap now m good bad)
  then show ?case
    using state_ok_outcome [OF _ assms(2)] by (fastforce simp: hm_get_modify state_ok_def split: if_splits)
next
  case (register ss vol targets)
  then show ?case by (force simp: register_volume_def fresh_state_def state_ok_def split: if_splits)
next
  case (clear ss vol node)
  then show ?case
    by (force simp: clear_failed_nodes_def hm_get_modify state_ok_def Let_def split: if_splits)
next
  case (unregister ss vol)
  then show ?case by (force simp: unregister_volume_def state_ok_def split: if_splits)
qed

interpretation repl_inv: invariant_of "\<lambda>p. p = (0, [])" counted_step repl_ok
proof unfold_locales
  fix p q
  show "p = (0, []) \<Longrightarrow> repl_ok p" by (simp add: repl_ok_def)
  assume ok: "repl_ok p" and step: "counted_step p q"
  have "state_ok (fst q) k s" if "fst q < 2 ^ 32" "hm_get (snd q) k = Some s" for k s
  proof -
    have "state_ok (fst p) k' s'" if "hm_get (snd p) k' = Some s'" for k' s'
      using ok that \<open>fst q < 2 ^ 32\<close> step by (simp add: repl_ok_def counted_step_def)
    then show ?thesis
      using repl_step_ok [of "snd p" "snd q" "fst p" k s] step that by (simp add: counted_step_def)
  qed
  then show "repl_ok q" by (simp add: repl_ok_def)
qed

lemma counted_steps: "(repl_step ^^ n) [] ss \<Longrightarrow> rtranclp counted_step (0, []) (n, ss)"
proof (induction n arbitrary: ss)
  case 0
  then show ?case by simp
next
  case (Suc n)
  then obtain ss1 where "(repl_step ^^ n) [] ss1" "repl_step ss1 ss" by auto
  then have "rtranclp counted_step (0, []) (n, ss1)" using Suc.IH by blast
  moreover have "counted_step (n, ss1) (Suc n, ss)"
    using \<open>repl_step ss1 ss\<close> by (simp add: counted_step_def)
  ultimately show ?case by (rule rtranclp.rtrancl_into_rtrancl)
qed

text \<open>A run of \<open>replicate_volume\<close> is a sequence of such steps.\<close>

lemma replicate_volume_steps:
  assumes "run_io (replicate_volume fuel E cfg g ss vol) w = (Some (r, ss'), w')"
  shows "rtranclp repl_step ss ss'"
proof -
  have b: "repl_step ss (begin_sync vol ss)" by (rule repl_step.begin_sync)
  from assms consider "ss' = begin_sync vol ss" | "ss' = no_targets vol (begin_sync vol ss)"
    | snap now n good bad where "ss' = hm_modify vol (record_outcome snap now n good bad) (begin_sync vol ss)"
    by (auto simp: replicate_volume_def Let_def run_opt_bind split: prod.splits sum.splits if_splits option.splits)
  then show ?thesis
    by cases (use b repl_step.no_targets repl_step.outcome in \<open>meson r_into_rtranclp rtranclp.rtrancl_into_rtrancl\<close>)+
qed

section \<open>Sending\<close>

text \<open>The world before the \<open>k\<close>-th attempt, when all earlier ones failed.\<close>

fun before_attempt ::
  "nat \<Rightarrow> 'w env \<Rightarrow> exchange_config \<Rightarrow> snapshot \<Rightarrow> snapshot option \<Rightarrow> node_info \<Rightarrow> u32 \<Rightarrow> 'w \<Rightarrow> nat \<Rightarrow> 'w" where
  "before_attempt fuel E cfg snap previous target a w 0 = w"
| "before_attempt fuel E cfg snap previous target a w (Suc k) =
     before_attempt fuel E cfg snap previous target (a + 1)
       (snd (run_io (if a < MAX_RETRIES then sleep_ms E (backoff_ms a) else State_Monad.return ())
              (snd (run_io (send_to_target fuel E cfg snap previous target) w)))) k"

lemma send_attempts_result:
  assumes "\<And>k. k < n \<Longrightarrow> fst (run_io (send_to_target fuel E cfg snap previous target)
              (before_attempt fuel E cfg snap previous target a w k)) \<noteq> None"
  shows "(\<exists>e. fst (run_io (send_attempts fuel E cfg snap previous target a n last_err) w) =
     (if \<exists>k < n. fst (run_io (send_to_target fuel E cfg snap previous target)
                      (before_attempt fuel E cfg snap previous target a w k)) = Some (Inr ())
      then Some (Inr ()) else Some (Inl (''Failed after 5 retries: '' @ e))))"
  using assms
proof (induction n arbitrary: a w last_err)
  case 0
  then show ?case by simp
next
  case (Suc n)
  let ?send = "send_to_target fuel E cfg snap previous target"
  let ?before = "before_attempt fuel E cfg snap previous target"
  obtain r w1 where send: "run_io ?send w = (r, w1)" by (metis surj_pair)
  with Suc.prems [of 0] obtain x where r: "r = Some x" by auto
  obtain u w2 where pause: "run_io (if a < MAX_RETRIES then sleep_ms E (backoff_ms a) else State_Monad.return ()) w1 = (u, w2)"
    by (metis surj_pair)
  have shift: "?before a w (Suc k) = ?before (a + 1) w2 k" for k
    by (simp only: before_attempt.simps send pause snd_conv)
  have split: "(\<exists>k < Suc n. P k) \<longleftrightarrow> P 0 \<or> (\<exists>k < n. P (Suc k))" for P :: "nat \<Rightarrow> bool"
    by (metis Ex_less_Suc2)
  show ?case
  proof (cases x)
    case (Inr y)
    then have "fst (run_io ?send (?before a w 0)) = Some (Inr ())" using send r by simp
    then have "\<exists>k < Suc n. fst (run_io ?send (?before a w k)) = Some (Inr ())" by blast
    then show ?thesis using send r Inr by (simp add: run_opt_bind)
  next
    case (Inl e)
    have "\<exists>e'. fst (run_io (send_attempts fuel E cfg snap previous target (a + 1) n e) w2) =
       (if \<exists>k < n. fst (run_io ?send (?before (a + 1) w2 k)) = Some (Inr ())
        then Some (Inr ()) else Some (Inl (''Failed after 5 retries: '' @ e')))"
      by (rule Suc.IH) (use Suc.prems shift in \<open>metis Suc_less_eq\<close>)
    moreover have "run_io (send_attempts fuel E cfg snap previous target a (Suc n) last_err) w
        = run_io (send_attempts fuel E cfg snap previous target (a + 1) n e) w2"
      using send r Inl pause by (simp add: run_opt_bind split: if_splits)
    moreover have "fst (run_io ?send (?before a w 0)) \<noteq> Some (Inr ())" using send r Inl by simp
    ultimately show ?thesis unfolding split shift by simp
  qed
qed

text \<open>\<open>streams E conn child w cs w'\<close>: the child prints the chunks \<open>cs\<close> and ends, and each chunk is
  sent without error.\<close>

fun streams :: "'w env \<Rightarrow> connection \<Rightarrow> nat \<Rightarrow> 'w \<Rightarrow> byte list list \<Rightarrow> 'w \<Rightarrow> bool" where
  "streams E conn child w [] w' \<longleftrightarrow> run_io (child_read E child) w = (Inr [], w')"
| "streams E conn child w (c # cs) w' \<longleftrightarrow>
     c \<noteq> [] \<and> fst (run_io (child_read E child) w) = Inr c
     \<and> fst (run_io (send_or_err E conn SendData c) (snd (run_io (child_read E child) w))) = Inr ()
     \<and> streams E conn child
         (snd (run_io (send_or_err E conn SendData c) (snd (run_io (child_read E child) w)))) cs w'"

lemma send_chunks_streams:
  "streams E conn child w cs w' \<Longrightarrow> length cs < fuel \<Longrightarrow>
     run_io (send_chunks fuel E conn child hashed) w = (Some (Inr (hashed @ concat cs)), w')"
proof (induction cs arbitrary: w fuel hashed)
  case Nil
  then obtain f where "fuel = Suc f" by (cases fuel) auto
  with Nil show ?case by simp
next
  case (Cons c cs)
  then obtain f where f: "fuel = Suc f" by (cases fuel) auto
  with Cons.prems Cons.IH [of _ f "hashed @ c"] show ?case
    by (auto split: prod.splits)
qed

text \<open>\<open>sends \<dots> w os w'\<close>: sending to the targets one after the other, from world \<open>w\<close> to \<open>w'\<close>, succeeds
  for those marked \<open>True\<close> in \<open>os\<close> and fails for the others.\<close>

fun sends ::
  "nat \<Rightarrow> 'w env \<Rightarrow> exchange_config \<Rightarrow> snapshot \<Rightarrow> snapshot option \<Rightarrow> 'w \<Rightarrow> (node_info \<times> bool) list \<Rightarrow> 'w \<Rightarrow> bool" where
  "sends fuel E cfg snap previous w [] w' \<longleftrightarrow> w' = w"
| "sends fuel E cfg snap previous w ((target, reached) # os) w' \<longleftrightarrow>
     (\<exists>r w1. run_io (send_with_retry fuel E cfg snap previous target) w = (Some r, w1)
        \<and> (reached \<longleftrightarrow> r = Inr ()) \<and> sends fuel E cfg snap previous w1 os w')"

lemma send_all_sends:
  "sends fuel E cfg snap previous w os w' \<Longrightarrow>
     run_io (send_all fuel E cfg snap previous (map fst os) (good, bad)) w
       = (Some (good + word_of_nat (length (filter snd os)), bad @ map (ni_id \<circ> fst) (filter (Not \<circ> snd) os)), w')"
proof (induction os arbitrary: good bad w)
  case Nil
  then show ?case by simp
next
  case (Cons x os)
  obtain target reached where x: "x = (target, reached)" by (rule prod.exhaust)
  with Cons.prems obtain r w1 where send: "run_io (send_with_retry fuel E cfg snap previous target) w = (Some r, w1)"
    and reached: "reached \<longleftrightarrow> r = Inr ()" and rest: "sends fuel E cfg snap previous w1 os w'" by auto
  show ?case
  proof (cases r)
    case (Inl e)
    with send reached Cons.IH [OF rest, of good "bad @ [ni_id target]"] show ?thesis
      by (simp add: x run_opt_bind)
  next
    case (Inr u)
    with send reached Cons.IH [OF rest, of "good + 1" bad] show ?thesis
      by (simp add: x run_opt_bind add.assoc)
  qed
qed

text \<open>Adding the nodes that are not there yet.\<close>

lemma push_new_props:
  "prefix xs (foldl (\<lambda>fs node. if node \<in> set fs then fs else fs @ [node]) xs ys)"
  "distinct xs \<Longrightarrow> distinct (foldl (\<lambda>fs node. if node \<in> set fs then fs else fs @ [node]) xs ys)"
proof (induction ys arbitrary: xs)
  case (Cons y ys)
  { case 1 show ?case using Cons(1) [of "xs @ [y]"] Cons(1) [of xs] by (auto dest: append_prefixD) }
  { case 2 then show ?case using Cons(2) [of "xs @ [y]"] Cons(2) [of xs] by simp }
qed auto

section \<open>Properties\<close>

text \<open>C33. The outcome of a replication round is recorded as it happened. When the snapshot is made and
  sending to the chosen targets, one after the other, reaches those marked in \<open>os\<close>, the round returns and
  the volume's state has the name of the snapshot and the time after the last send, and lists as failed
  the nodes it listed before followed by the targets that were not reached. If all targets were reached
  the volume is \<open>Completed\<close>, without error and with its failures forgotten; if some were, it is
  \<open>Completed\<close> with a partial success; if none was, the failure is counted and the volume is \<open>Retrying\<close>,
  or in \<open>Error\<close> from the fifth failed round on. The states of other volumes are unchanged.\<close>

theorem replication_outcome_recorded:
  assumes "run_io (create_for_replication E (snapshot_dir (replication cfg)) vol) w = (Inr (snap, prev), w1)"
    and "run_io (select_replication_targets E cfg g (begin_sync vol ss) vol) w1 = (map fst os, w2)"
    and "os \<noteq> []" and "length os < 2 ^ 32"
    and "sends fuel E cfg snap prev w2 os w3"
    and "s0 = (case hm_get ss vol of Some s \<Rightarrow> s | None \<Rightarrow> fresh_state vol [])"
  shows "\<exists>ss' s. run_io (replicate_volume fuel E cfg g ss vol) w = (Some (Inr (), ss'), snd (run_io (now_ms E) w3))
     \<and> hm_get ss' vol = Some s \<and> (\<forall>k. k \<noteq> vol \<longrightarrow> hm_get ss' k = hm_get ss k)
     \<and> last_snapshot s = Some (sn_name snap) \<and> last_sync s = Some (fst (run_io (now_ms E) w3))
     \<and> set (failed_nodes s) = set (failed_nodes s0) \<union> {ni_id target | target. (target, False) \<in> set os}
     \<and> prefix (failed_nodes s0) (failed_nodes s)
     \<and> (status s, retry_count s, last_error s) =
         (if \<forall>(target, reached) \<in> set os. reached then (Completed, 0, None)
          else if \<exists>(target, reached) \<in> set os. reached
            then (Completed, retry_count s0, Some (''Partial success: '' @ show_nat (length (filter snd os)) @ ''/'' @
                    show_nat (length os) @ '' targets''))
          else (if 5 \<le> retry_count s0 + 1 then Error ''Max retries exceeded'' else Retrying, retry_count s0 + 1,
                Some (''All '' @ show_nat (length os) @ '' targets failed (attempt '' @
                  show_u32 (retry_count s0 + 1) @ ''/5)'')))"
proof -
  let ?good = "word_of_nat (length (filter snd os)) :: u32" and ?bad = "map (ni_id \<circ> fst) (filter (Not \<circ> snd) os)"
  obtain now w4 where now: "run_io (now_ms E) w3 = (now, w4)" by (metis surj_pair)
  let ?upd = "record_outcome (sn_name snap) now (length os) ?good ?bad"
  let ?s = "?upd (s0\<lparr>status := Syncing\<rparr>)"
  have s0: "unwrap_or (hm_get ss vol) (fresh_state vol []) = s0" using assms(6) by (cases "hm_get ss vol") auto
  have run: "run_io (replicate_volume fuel E cfg g ss vol) w = (Some (Inr (), hm_modify vol ?upd (begin_sync vol ss)), w4)"
    using assms(1-3) send_all_sends [OF assms(5), of 0 "[]"] now
    by (simp add: replicate_volume_def context_err_def run_opt_bind Let_def)
  have get: "hm_get (hm_modify vol ?upd (begin_sync vol ss)) k = (if k = vol then Some ?s else hm_get ss k)" for k
    by (simp add: hm_get_modify begin_sync_def s0)
  have "length (filter snd os) < 2 ^ 32" using le_less_trans [OF length_filter_le assms(4)] .
  then have cnt: "unat ?good = length (filter snd os)" "unat (word_of_nat (length os) :: u32) = length os"
    using assms(4) by (simp_all add: unat_u32_of_nat)
  have "?good = word_of_nat (length os) \<longleftrightarrow> length (filter snd os) = length os"
    using cnt by metis
  also have "\<dots> \<longleftrightarrow> (\<forall>(target, reached) \<in> set os. reached)"
    using filter_id_conv [of snd os] by (metis (mono_tags, lifting) case_prod_beta filter_True length_filter_less nat_neq_iff)
  finally have all: "?good = word_of_nat (length os) \<longleftrightarrow> (\<forall>(target, reached) \<in> set os. reached)" .
  have some: "0 < ?good \<longleftrightarrow> (\<exists>(target, reached) \<in> set os. reached)"
    unfolding word_less_nat_alt cnt(1) unat_0 length_greater_0_conv by (simp add: filter_empty_conv case_prod_beta)
  have shown: "show_u32 ?good = show_nat (length (filter snd os))" "show_u32 MAX_RETRIES = ''5''"
    unfolding show_u32_def cnt(1) by (simp_all add: MAX_RETRIES_def show_nat.simps digit_char_def char_of_def bit_0)
  have "(status ?s, retry_count ?s, last_error ?s) =
         (if \<forall>(target, reached) \<in> set os. reached then (Completed, 0, None)
          else if \<exists>(target, reached) \<in> set os. reached
            then (Completed, retry_count s0, Some (''Partial success: '' @ show_nat (length (filter snd os)) @ ''/'' @
                    show_nat (length os) @ '' targets''))
          else (if 5 \<le> retry_count s0 + 1 then Error ''Max retries exceeded'' else Retrying, retry_count s0 + 1,
                Some (''All '' @ show_nat (length os) @ '' targets failed (attempt '' @
                  show_u32 (retry_count s0 + 1) @ ''/5)'')))"
    unfolding all [symmetric] some [symmetric]
    by (simp add: record_outcome_def Let_def shown MAX_RETRIES_def [symmetric])
  moreover have "set (failed_nodes ?s) = set (failed_nodes s0) \<union> {ni_id target | target. (target, False) \<in> set os}"
    by (auto simp: record_outcome_fields set_push_new image_iff) force
  moreover have "prefix (failed_nodes s0) (failed_nodes ?s)"
    by (simp add: record_outcome_fields push_new_props)
  ultimately show ?thesis
    using run get now
    by (intro exI [of _ "hm_modify vol ?upd (begin_sync vol ss)"] exI [of _ ?s]) (simp add: record_outcome_fields)
qed

text \<open>C36. Retrying is bounded: in every state reachable by fewer than \<open>2^32\<close> changes, each entry is
  stored under its own volume identifier, and a volume in \<open>Retrying\<close> has between one and four
  failed rounds behind it, so its next round is at least one and at most eight seconds away.\<close>

theorem retrying_is_bounded:
  assumes "(repl_step ^^ n) [] ss" and "n < 2 ^ 32" and "hm_get ss vol = Some s"
  shows "rs_volume_id s = vol
     \<and> (status s = Retrying \<longrightarrow> 1 \<le> unat (retry_count s) \<and> unat (retry_count s) \<le> 4
          \<and> 1000 \<le> unat (backoff_ms (retry_count s - 1)) \<and> unat (backoff_ms (retry_count s - 1)) \<le> 8000)"
proof -
  have "repl_ok (n, ss)" by (rule repl_inv.reachable_inv [OF refl counted_steps [OF assms(1)]])
  with assms(2,3) have ok: "state_ok n vol s" by (simp add: repl_ok_def)
  have "1000 \<le> unat (backoff_ms (retry_count s - 1)) \<and> unat (backoff_ms (retry_count s - 1)) \<le> 8000"
    if "1 \<le> unat (retry_count s)" "unat (retry_count s) < 5"
  proof -
    have "unat (retry_count s - 1) = unat (retry_count s) - 1"
      using that(1) by (simp add: unat_sub word_le_nat_alt)
    moreover have "m - 1 = 0 \<or> m - 1 = 1 \<or> m - 1 = 2 \<or> m - 1 = 3" if "1 \<le> m" "m < 5" for m :: nat
      using that by arith
    ultimately have "unat (retry_count s - 1) = 0 \<or> unat (retry_count s - 1) = 1
      \<or> unat (retry_count s - 1) = 2 \<or> unat (retry_count s - 1) = 3" using that by metis
    then show ?thesis
      by (elim disjE) (simp_all add: backoff_ms_def BASE_BACKOFF_MS_def MAX_BACKOFF_MS_def min_def)
  qed
  with ok show ?thesis by (auto simp: state_ok_def)
qed

theorem retrying_is_bounded_witness:
  "rs_volume_id (record_outcome ''s'' 0 1 0 [''b''] (fresh_state ''v'' [])) = ''v''
   \<and> unat (retry_count (record_outcome ''s'' 0 1 0 [''b''] (fresh_state ''v'' []))) \<le> 4"
proof -
  let ?s = "record_outcome ''s'' 0 1 0 [''b''] (fresh_state ''v'' [])"
  let ?ss = "hm_modify ''v'' (record_outcome ''s'' 0 1 0 [''b'']) (register_volume ''v'' [] [])"
  have "(repl_step ^^ 2) [] ?ss"
    unfolding numeral_2_eq_2 relpowp.simps by (blast intro: repl_step.intros)
  moreover have "hm_get ?ss ''v'' = Some ?s" by (simp add: hm_get_modify register_volume_def)
  moreover have "status ?s = Retrying"
    by (simp add: record_outcome_status fresh_state_def MAX_RETRIES_def word_le_nat_alt)
  ultimately show ?thesis using retrying_is_bounded [of 2 ?ss "''v''" ?s] by simp
qed

text \<open>C38. Retrying a send is exact: if every attempt ends, the send succeeds if and only if one of
  at most six attempts does, and it always returns; the pauses between attempts are 1, 2, 4, 8
  and 16 seconds.\<close>

theorem send_with_retry_exact:
  assumes "\<forall>k \<le> 5. fst (run_io (send_to_target fuel E cfg snap prev target)
              (before_attempt fuel E cfg snap prev target 0 w k)) \<noteq> None"
  shows "(fst (run_io (send_with_retry fuel E cfg snap prev target) w) = Some (Inr ()) \<longleftrightarrow>
            (\<exists>k \<le> 5. fst (run_io (send_to_target fuel E cfg snap prev target)
                        (before_attempt fuel E cfg snap prev target 0 w k)) = Some (Inr ())))
       \<and> fst (run_io (send_with_retry fuel E cfg snap prev target) w) \<noteq> None
       \<and> map backoff_ms [0, 1, 2, 3, 4] = [1000, 2000, 4000, 8000, 16000]"
proof -
  have six: "k < 6 \<longleftrightarrow> k \<le> 5" for k :: nat by auto
  have "unat MAX_RETRIES + 1 = 6" by (simp add: MAX_RETRIES_def)
  with send_attempts_result [of 6 fuel E cfg snap prev target 0 w "[]"] assms
  have "\<exists>e. fst (run_io (send_with_retry fuel E cfg snap prev target) w) =
     (if \<exists>k \<le> 5. fst (run_io (send_to_target fuel E cfg snap prev target)
                      (before_attempt fuel E cfg snap prev target 0 w k)) = Some (Inr ())
      then Some (Inr ()) else Some (Inl (''Failed after 5 retries: '' @ e)))"
    unfolding six send_with_retry_def by simp
  then show ?thesis
    by (auto simp: backoff_ms_def BASE_BACKOFF_MS_def MAX_BACKOFF_MS_def min_def split: if_splits)
qed

text \<open>C39. Targets are legitimate: every chosen target is a known peer other than this node that is
  neither among the volume's recorded targets nor among its failed nodes, and there are at most
  as many as the volume's replica count.\<close>

theorem replication_targets_sound:
  assumes "run_io (select_replication_targets E cfg g ss vol) w = (ts, w')" and "hm_get ss vol = Some s"
  shows "(\<forall>t \<in> set ts. t \<in> snd ` set (peers g) \<and> ni_id t \<noteq> node_id cfg
            \<and> ni_id t \<notin> set (failed_nodes s) \<and> ni_id t \<notin> set (target_nodes s))
       \<and> length ts \<le> unat (fst (run_io (get_replica_count E (data_dir (replication cfg) @ ''/'' @ vol)) w))"
proof -
  obtain n w1 where n: "run_io (get_replica_count E (data_dir (replication cfg) @ ''/'' @ vol)) w = (n, w1)"
    by (metis surj_pair)
  with assms have ts: "ts = (if n = 0 then [] else select_replica_targets cfg g (exclusions (Some s)) (unat n))"
    by (auto simp: select_replication_targets_def)
  have "t \<in> snd ` set (peers g) \<and> ni_id t \<noteq> node_id cfg \<and> ni_id t \<notin> set (exclusions (Some s))"
    if "t \<in> set ts" for t
    using that ts picker.pick_sound [of t cfg g "exclusions (Some s)" "unat n"] by (simp split: if_splits)
  moreover have "length ts \<le> unat n" using ts by (simp add: select_replica_targets_def)
  ultimately show ?thesis using n by (auto simp: set_exclusions)
qed

text \<open>A volume whose snapshot cannot be made is never replicated again: the round reports the
  error and leaves the volume \<open>Syncing\<close>, and a volume in that status is not due at any time.\<close>

theorem failed_snapshot_leaves_syncing:
  assumes "run_io (create_for_replication E (snapshot_dir (replication cfg)) vol) w = (Inl e, w1)"
  shows "\<exists>ss' s. run_io (replicate_volume fuel E cfg g ss vol) w = (Some (Inl ''Failed to create snapshot'', ss'), w1)
     \<and> hm_get ss' vol = Some s \<and> status s = Syncing \<and> (\<forall>now. \<not> due cfg now s)"
  using assms
  by (intro exI [of _ "begin_sync vol ss"] exI [of _ "(unwrap_or (hm_get ss vol) (fresh_state vol []))\<lparr>status := Syncing\<rparr>"])
    (simp add: replicate_volume_def context_err_def begin_sync_def due_def Let_def)

text \<open>C37. The checksum covers the whole stream: when the peer accepts the start, \<open>btrfs send\<close> prints
  the chunks \<open>cs\<close> and ends successfully, and every chunk is sent, then with fuel for one more
  step than there are chunks the send returns, and its last message carries the hash of exactly
  the concatenation of the chunks.\<close>

theorem sent_checksum_covers_stream:
  assumes "valid_addr E (ni_addr target)"
    and "run_io (connect_or_err E cfg (ni_addr target)) w = (Inr conn0, w1)"
    and "run_io (send_or_err E conn0 SendStart (start_to (js E) (start_request snap prev))) w1 = (Inr (), w2)"
    and "run_io (await_start_ack E conn0) w2 = (Inr conn, w3)"
    and "run_io (spawn E ''btrfs'' (send_args snap prev)) w3 = (Inr child, w4)"
    and "streams E conn child w4 cs w5" and "length cs < fuel"
    and "run_io (child_wait E child) w5 = (Inr True, w6)"
  shows "run_io (send_to_target fuel E cfg snap prev target) w =
     (case run_io (send_or_err E conn SendComplete
            (complete_to (js E) \<lparr>sc_volume_id = sn_name snap, sc_success = True, sc_error = None,
               sc_checksum = Some (blake3_hex (cr E) (concat cs))\<rparr>)) w6 of
        (r, w7) \<Rightarrow> (Some r, w7))"
  using assms send_chunks_streams [OF assms(6,7), of "[]"]
  by (simp add: send_to_target_def run_try_opt run_lift_some context_err_def finish_send_def run_and_then)

section \<open>Witnesses\<close>

lemma quiet_fields:
  "run_cmd (quiet_env out) p args = State_Monad.return (Inr (out_ok out))"
  "now_ms (quiet_env out) = State (\<lambda>w. (s_clock w, w))"
  "tcp_connect (quiet_env out) a = State_Monad.return (Inl ''refused'')"
  "valid_addr (quiet_env out) a \<longleftrightarrow> a \<noteq> []"
  by (simp_all add: quiet_env_def sample_env_simps)

lemma quiet_send_fails:
  "run_io (send_to_target fuel (quiet_env out) cfg snap prev (sample_node n)) w = (Some (Inl ''IO error: refused''), w)"
  by (simp add: send_to_target_def quiet_fields sample_node_def run_try_opt run_lift_some connect_or_err_def
      connect_def)

lemma quiet_create:
  "\<exists>snap. run_io (create_for_replication (quiet_env ''1'') base vol) w = (Inr (snap, None), w)"
  by (simp add: create_for_replication_def create_snapshot_def context_err_def snapshot_info_def
      list_snapshots_def quiet_env_simps lines_def split_on_def strip_cr_def Let_def
      parse_snapshot_line_def split_whitespace_def is_ws_def)

lemma quiet_count:
  "run_io (get_replica_count (quiet_env ''1'') path) w = (1, w)"
  by (simp add: get_replica_count_def attr_value_def get_csi_attr_def quiet_fields out_ok_def trim_def is_ws_def
      parse_u32_def parse_bounded_def strip_plus_def parse_digits_def is_digit_def digits_value_def digit_val_def trim_start_def)

lemma quiet_select:
  "run_io (select_replication_targets (quiet_env ''1'') (sample_config ''a'') (sample_gossip [''b'']) ss vol) w
     = (if ''b'' \<in> set (exclusions (hm_get ss vol)) then [] else [sample_node ''b''], w)"
  by (simp add: select_replication_targets_def quiet_count select_replica_targets_def sample_gossip_def
      eligible_def sample_node_def sample_config_def)

lemma quiet_retry_fails:
  "\<exists>e w'. run_io (send_with_retry fuel (quiet_env out) cfg snap prev (sample_node n)) w = (Some (Inl e), w')"
proof -
  obtain r w' where run: "run_io (send_with_retry fuel (quiet_env out) cfg snap prev (sample_node n)) w = (r, w')"
    by (metis surj_pair)
  have "\<exists>e. fst (run_io (send_attempts fuel (quiet_env out) cfg snap prev (sample_node n) 0 (unat MAX_RETRIES + 1) []) w)
      = Some (Inl (''Failed after 5 retries: '' @ e))"
    using send_attempts_result [of "unat MAX_RETRIES + 1" fuel "quiet_env out" cfg snap prev "sample_node n" 0 w "[]"]
    by (simp add: quiet_send_fails)
  with run show ?thesis unfolding send_with_retry_def by auto
qed

theorem replication_outcome_recorded_witness:
  "\<exists>ss' s w'. run_io (replicate_volume 1 (quiet_env ''1'') (sample_config ''a'') (sample_gossip [''b'']) [] ''vol'') sample_start
       = (Some (Inr (), ss'), w')
     \<and> hm_get ss' ''vol'' = Some s \<and> set (failed_nodes s) = {''b''} \<and> status s = Retrying"
proof -
  let ?E = "quiet_env ''1''" and ?c = "sample_config ''a''" and ?g = "sample_gossip [''b'']"
  let ?os = "[(sample_node ''b'', False)]"
  obtain snap where mk: "run_io (create_for_replication ?E (snapshot_dir (replication ?c)) ''vol'') sample_start
      = (Inr (snap, None), sample_start)"
    using quiet_create by blast
  have sel: "run_io (select_replication_targets ?E ?c ?g (begin_sync ''vol'' []) ''vol'') sample_start = (map fst ?os, sample_start)"
    by (simp add: quiet_select begin_sync_def exclusions_def fresh_state_def)
  obtain e w3 where "run_io (send_with_retry 1 ?E ?c snap None (sample_node ''b'')) sample_start = (Some (Inl e), w3)"
    using quiet_retry_fails by blast
  then have "sends 1 ?E ?c snap None sample_start ?os w3" by simp
  from replication_outcome_recorded [OF mk sel _ _ this refl] show ?thesis
    by (auto simp: fresh_state_def word_le_nat_alt sample_node_def)
qed

theorem send_with_retry_exact_witness:
  "fst (run_io (send_with_retry 1 (quiet_env []) (sample_config ''a'')
      \<lparr>sn_id = 1, sn_name = ''s'', sn_path = ''/s'', sn_subvolume_id = 0, sn_created_at = 0, sn_size = 0\<rparr> None
      (sample_node ''b'')) sample_start) \<noteq> None"
  using send_with_retry_exact [of 1 "quiet_env []" "sample_config ''a''"
      "\<lparr>sn_id = 1, sn_name = ''s'', sn_path = ''/s'', sn_subvolume_id = 0, sn_created_at = 0, sn_size = 0\<rparr>" None
      "sample_node ''b''" sample_start]
  by (simp add: quiet_send_fails)

theorem replication_targets_sound_witness:
  "sample_node ''b'' \<in> snd ` set (peers (sample_gossip [''b''])) \<and> ni_id (sample_node ''b'') \<noteq> node_id (sample_config ''a'')"
proof -
  have "run_io (select_replication_targets (quiet_env ''1'') (sample_config ''a'') (sample_gossip [''b''])
      (register_volume ''vol'' [] []) ''vol'') sample_start = ([sample_node ''b''], sample_start)"
    by (simp add: quiet_select register_volume_def exclusions_def fresh_state_def)
  from replication_targets_sound [OF this, of "fresh_state ''vol'' []"] show ?thesis
    by (simp add: register_volume_def)
qed

theorem failed_snapshot_leaves_syncing_witness:
  "\<exists>ss' s w1. run_io (replicate_volume 1 sample_env (sample_config ''a'') (sample_gossip [''b'']) [] ''vol'') sample_start
       = (Some (Inl ''Failed to create snapshot'', ss'), w1)
     \<and> hm_get ss' ''vol'' = Some s \<and> status s = Syncing \<and> (\<forall>now. \<not> due (sample_config ''a'') now s)"
proof -
  have "snapshot_dir (replication (sample_config ''a'')) = ''/mnt/snapshots''" "s_paths sample_start = [''/data/vol1'']"
    by (simp_all add: sample_config_def default_replication_config_def sample_start_def)
  then have "run_io (create_for_replication sample_env (snapshot_dir (replication (sample_config ''a''))) ''vol'') sample_start
      = (Inl ''Failed to create snapshot'', sample_start)"
    by (simp add: create_for_replication_def create_snapshot_def context_err_def run_and_then run_btrfs_run
        sample_env_simps out_fail_def Let_def)
  from failed_snapshot_leaves_syncing [OF this] show ?thesis by blast
qed

theorem sent_checksum_covers_stream_witness:
  "\<exists>r w7. run_io (send_to_target 2 (cluster_env granting_vote) (sample_config ''a'')
      \<lparr>sn_id = 1, sn_name = ''s'', sn_path = ''/s'', sn_subvolume_id = 0, sn_created_at = 0, sn_size = 0\<rparr> None (sample_node ''b''))
      (sample_start\<lparr>s_reads := [ReadOk (encode (new_message AuthOk [] 0)), ReadOk (encode (new_message SendStart (replicate 40 0) 0))],
         s_child_out := [[1, 2]]\<rparr>) = (Some r, w7)"
proof -
  let ?E = "cluster_env granting_vote" and ?c = "sample_config ''a''"
  let ?T = "gossip_transport ?E ?c"
  let ?snap = "\<lparr>sn_id = 1, sn_name = ''s'', sn_path = ''/s'', sn_subvolume_id = 0, sn_created_at = 0, sn_size = 0\<rparr>"
  let ?conn = "\<lparr>sock = 0, read_buf = [], cipher = Some (new_cipher sample_crypto (auth_key ?T))\<rparr>"
  let ?ack = "new_message SendStart (replicate 40 0) 0"
  let ?w = "sample_start\<lparr>s_reads := [ReadOk (encode (new_message AuthOk [] 0)), ReadOk (encode ?ack)], s_child_out := [[1, 2]]\<rparr>"
  have keep: "\<exists>x. run_io (send_or_err ?E cn t p) v = (Inr (), v\<lparr>s_written := x\<rparr>)" for cn t p v
    using cluster_send [of granting_vote cn "new_message t p (s_clock v)" v] by (auto simp: send_or_err_def reply_def cluster_env_simps)
  obtain x1 where c: "run_io (connect_or_err ?E ?c (ni_addr (sample_node ''b''))) ?w
      = (Inr ?conn, ?w\<lparr>s_written := x1, s_reads := [ReadOk (encode ?ack)]\<rparr>)"
    using cluster_connect [of ?w "[ReadOk (encode ?ack)]" granting_vote ?T]
    by (auto simp: connect_or_err_def sample_node_def)
  obtain x2 where s: "run_io (send_or_err ?E ?conn SendStart (start_to (js ?E) (start_request ?snap None)))
      (?w\<lparr>s_written := x1, s_reads := [ReadOk (encode ?ack)]\<rparr>)
      = (Inr (), ?w\<lparr>s_reads := [ReadOk (encode ?ack)], s_written := x2\<rparr>)"
    using keep [of ?conn SendStart "start_to (js ?E) (start_request ?snap None)" "?w\<lparr>s_written := x1, s_reads := [ReadOk (encode ?ack)]\<rparr>"]
    by auto
  have "open_payload sample_crypto (cipher ?conn) ?ack = Inr (?ack\<lparr>payload := []\<rparr>)"
    by (simp add: open_payload_def decrypt_def new_cipher_def sample_crypto_def sample_open_def new_message_def)
  then have a: "run_io (await_start_ack ?E ?conn) (?w\<lparr>s_reads := [ReadOk (encode ?ack)], s_written := x2\<rparr>)
      = (Inr ?conn, ?w\<lparr>s_reads := [], s_written := x2\<rparr>)"
    using cluster_recv [of ?ack "?w\<lparr>s_reads := [ReadOk (encode ?ack)], s_written := x2\<rparr>" "[]" ?conn granting_vote]
    by (simp add: await_start_ack_def new_message_def)
  have sp: "run_io (spawn ?E ''btrfs'' (send_args ?snap None)) (?w\<lparr>s_reads := [], s_written := x2\<rparr>)
      = (Inr 0, ?w\<lparr>s_reads := [], s_written := x2\<rparr>)"
    by (simp add: cluster_env_def sample_env_simps)
  obtain x3 where x3: "run_io (send_or_err ?E ?conn SendData [1, 2]) (?w\<lparr>s_reads := [], s_written := x2, s_child_out := []\<rparr>)
      = (Inr (), ?w\<lparr>s_reads := [], s_child_out := [], s_written := x3\<rparr>)"
    using keep [of ?conn SendData "[1, 2]" "?w\<lparr>s_reads := [], s_written := x2, s_child_out := []\<rparr>"] by auto
  have st: "streams ?E ?conn 0 (?w\<lparr>s_reads := [], s_written := x2\<rparr>) [[1, 2]] (?w\<lparr>s_reads := [], s_child_out := [], s_written := x3\<rparr>)"
    using x3 by (simp add: cluster_env_def sample_env_simps)
  have wt: "run_io (child_wait ?E 0) (?w\<lparr>s_reads := [], s_child_out := [], s_written := x3\<rparr>)
      = (Inr True, ?w\<lparr>s_reads := [], s_child_out := [], s_written := x3\<rparr>)"
    by (simp add: cluster_env_def sample_env_simps sample_start_def)
  have v: "valid_addr ?E (ni_addr (sample_node ''b''))" by (simp add: cluster_env_simps sample_node_def)
  show ?thesis
    using sent_checksum_covers_stream [OF v c s a sp st _ wt, of 2] by (auto split: prod.splits)
qed

end
