(* ===== verification/Receiver.thy ===== *)
theory Receiver
  imports Replicator
begin

text \<open>
  The receiving side of a replication, \<open>crates/btrfs-exchange/src/receiver.rs\<close>: a connection that
  announces a volume is answered by starting \<open>btrfs receive\<close>, its data is passed on to that
  process within a size limit, and its checksum is verified and reported.
\<close>

section \<open>Operations\<close>

definition RECEIVE_BUFFER_LIMIT :: u64 where "RECEIVE_BUFFER_LIMIT = 512 * 1024 * 1024"

text \<open>Errors as text, but for the message of a sender that gave up, which is kept as bytes.\<close>

datatype receive_error = Failure string | RemoteError "byte list"

text \<open>Give up on the child: drop the writer, kill, and wait where the source waits.\<close>

definition abandon :: "'w env \<Rightarrow> nat \<Rightarrow> bool \<Rightarrow> ('w, unit) io" where
  "abandon E child waits = do {
     _ \<leftarrow> child_drop E child;
     _ \<leftarrow> child_kill E child;
     if waits then do { _ \<leftarrow> child_wait E child; State_Monad.return () } else State_Monad.return ()
   }"

definition abandon_with ::
  "'w env \<Rightarrow> nat \<Rightarrow> bool \<Rightarrow> receive_error \<Rightarrow> ('w, (receive_error + 'a) option) io" where
  "abandon_with E child waits e = do { _ \<leftarrow> abandon E child waits; State_Monad.return (Some (Inl e)) }"

text \<open>The receive loop; it returns the sender's checksum and the bytes that were hashed.\<close>

fun receive_loop ::
  "nat \<Rightarrow> 'w env \<Rightarrow> connection \<Rightarrow> nat \<Rightarrow> u64 \<Rightarrow> byte list
     \<Rightarrow> ('w, (receive_error + connection \<times> string option \<times> byte list) option) io" where
  "receive_loop 0 E conn child total_bytes hashed = State_Monad.return None"
| "receive_loop (Suc fuel) E conn child total_bytes hashed = do {
     (r, conn) \<leftarrow> recv_message E conn;
     case r of
       Inl e \<Rightarrow> abandon_with E child False (Failure (transport_error_text e))
     | Inr msg \<Rightarrow>
         (if msg_type msg = SendData then
            (let total = total_bytes + word_of_nat (length (payload msg)) in
             if RECEIVE_BUFFER_LIMIT < total then
               abandon_with E child True (Failure (''Receive buffer limit exceeded ('' @ show_u64 total @
                 '' > '' @ show_u64 RECEIVE_BUFFER_LIMIT @ '')''))
             else do {
               s \<leftarrow> child_write E child (payload msg);
               case s of
                 WriteOk \<Rightarrow> receive_loop fuel E conn child total (hashed @ payload msg)
               | WriteErr e \<Rightarrow> abandon_with E child True (Failure (''Write to btrfs receive pipe failed: '' @ e))
               | WriteTimeout \<Rightarrow> abandon_with E child True (Failure ''Write to btrfs receive pipe timed out'')
             })
          else if msg_type msg = SendComplete then
            State_Monad.return (Some (Inr
              (conn, Option.bind (complete_from (js E) (payload msg)) sc_checksum, hashed)))
          else if msg_type msg = SendError then abandon_with E child False (RemoteError (payload msg))
          else receive_loop fuel E conn child total_bytes hashed)
   }"

text \<open>After the loop: close the pipe, wait for \<open>btrfs receive\<close>, and verify the checksum.\<close>

definition completion :: "crypto \<Rightarrow> string \<Rightarrow> string option \<Rightarrow> byte list \<Rightarrow> send_complete_response" where
  "completion C volume sender_checksum hashed =
     (let receiver_checksum = blake3_hex C hashed;
          checksum_ok = (case sender_checksum of Some expected \<Rightarrow> expected = receiver_checksum | None \<Rightarrow> True) in
      \<lparr>sc_volume_id = volume, sc_success = checksum_ok,
       sc_error = (if \<not> checksum_ok then Some ''Checksum mismatch'' else None),
       sc_checksum = Some receiver_checksum\<rparr>)"

definition finish_receive ::
  "'w env \<Rightarrow> nat \<Rightarrow> string \<Rightarrow> string option \<Rightarrow> byte list \<Rightarrow> ('w, receive_error + send_complete_response) io" where
  "finish_receive E child volume sender_checksum hashed = do {
     _ \<leftarrow> child_drop E child;
     r \<leftarrow> child_wait E child;
     case r of
       Inl e \<Rightarrow> State_Monad.return (Inl (Failure e))
     | Inr status_ok \<Rightarrow>
         (if status_ok then State_Monad.return (Inr (completion (cr E) volume sender_checksum hashed))
          else do {
            err \<leftarrow> child_stderr E child;
            State_Monad.return (Inl (Failure (''btrfs receive failed: '' @ err)))
          })
   }"

definition text_failure :: "('w, string + 'a) io \<Rightarrow> ('w, (receive_error + 'a) option) io" where
  "text_failure m = do {
     r \<leftarrow> m;
     State_Monad.return (Some (case r of Inl e \<Rightarrow> Inl (Failure e) | Inr x \<Rightarrow> Inr x))
   }"

definition await_send_start :: "'w env \<Rightarrow> connection \<Rightarrow> ('w, string + connection \<times> send_start_request) io" where
  "await_send_start E conn = do {
     (r, conn) \<leftarrow> recv_message E conn;
     State_Monad.return
       (case r of
          Inl e \<Rightarrow> Inl (transport_error_text e)
        | Inr m \<Rightarrow>
            (if msg_type m \<noteq> SendStart then Inl ''Expected SendStart''
             else (case start_from (js E) (payload m) of
                     None \<Rightarrow> Inl ''invalid SendStart payload''
                   | Some req \<Rightarrow> Inr (conn, req))))
   }"

text \<open>\<open>handle_connection\<close> up to the completion message, and with it.\<close>

definition receive_volume_stream ::
  "nat \<Rightarrow> 'w env \<Rightarrow> exchange_config \<Rightarrow> connection
     \<Rightarrow> ('w, (receive_error + connection \<times> send_complete_response) option) io" where
  "receive_volume_stream fuel E cfg conn =
     try_opt (text_failure (peer_addr E (sock conn)))
       (\<lambda>_. try_opt (text_failure (await_send_start E conn))
          (\<lambda>(conn, req). try_opt (text_failure (context_err ''Failed to spawn btrfs receive''
                (spawn E ''btrfs'' [''receive'', snapshot_dir (replication cfg) @ ''/'' @ ss_volume_id req])))
             (\<lambda>child. try_opt (text_failure (send_or_err E conn SendStart []))
                (\<lambda>_. try_opt (receive_loop fuel E conn child 0 [])
                   (\<lambda>(conn, sender_checksum, hashed).
                      try_opt (lift_some (finish_receive E child (ss_volume_id req) sender_checksum hashed))
                        (\<lambda>c. State_Monad.return (Some (Inr (conn, c)))))))))"

definition handle_connection ::
  "nat \<Rightarrow> 'w env \<Rightarrow> exchange_config \<Rightarrow> connection \<Rightarrow> ('w, (receive_error + unit) option) io" where
  "handle_connection fuel E cfg conn =
     try_opt (receive_volume_stream fuel E cfg conn)
       (\<lambda>(conn, c). text_failure (send_or_err E conn SendComplete (complete_to (js E) c)))"

text \<open>\<open>start\<close> up to the bound listener, and one round of its accept loop.\<close>

definition bind_receiver :: "'w env \<Rightarrow> exchange_config \<Rightarrow> ('w, string + nat) io" where
  "bind_receiver E cfg =
     (let addr = addr_text (listen_addr cfg) (replication_port cfg) in
      if \<not> valid_addr E addr then State_Monad.return (Inl ''Invalid listen address'')
      else do {
        r \<leftarrow> tcp_listen E addr;
        State_Monad.return (case r of Inl e \<Rightarrow> Inl (transport_error_text (Io e)) | Inr l \<Rightarrow> Inr l)
      })"

definition receiver_round :: "nat \<Rightarrow> 'w env \<Rightarrow> exchange_config \<Rightarrow> nat \<Rightarrow> ('w, unit option) io" where
  "receiver_round fuel E cfg listener = do {
     r \<leftarrow> accept E (gossip_transport E cfg) listener;
     case r of
       Inl e \<Rightarrow> do { _ \<leftarrow> sleep_ms E 1000; State_Monad.return (Some ()) }
     | Inr conn \<Rightarrow> opt_bind (handle_connection fuel E cfg conn) (\<lambda>_. State_Monad.return (Some ()))
   }"

section \<open>Bounds on received payloads\<close>

lemma aead_shrinksD:
  "aead_shrinks C \<Longrightarrow> aes_open C k n c = Some p \<Longrightarrow> length p \<le> length c"
  "aead_shrinks C \<Longrightarrow> xchacha_open C k n c = Some p \<Longrightarrow> length p \<le> length c"
  by (auto simp: aead_shrinks_def)

lemma open_payload_length:
  assumes "aead_shrinks C" "open_payload C c wire = Inr m"
  shows "length (payload m) \<le> length (payload wire)"
proof (cases c)
  case None
  with assms(2) show ?thesis by (simp add: open_payload_def)
next
  case (Some k)
  with assms(2) obtain p where p: "decrypt C k (payload wire) = Some p" "m = wire\<lparr>payload := p\<rparr>"
    by (auto simp: open_payload_def split: option.splits)
  then have "length p \<le> length (drop (nonce_len k) (payload wire))"
    by (cases k) (auto simp: decrypt_def Let_def split: if_splits dest!: aead_shrinksD [OF assms(1)])
  with p(2) show ?thesis by simp
qed

lemma recv_message_length:
  assumes "aead_shrinks (cr E)"
  shows "run_io (recv_message E conn) w = ((Inr m, conn'), w') \<Longrightarrow> length (payload m) \<le> MAX_PAYLOAD_SIZE"
proof (induction "20 + MAX_PAYLOAD_SIZE - length (read_buf conn)" arbitrary: conn w rule: less_induct)
  case less
  obtain d b where d: "decode (read_buf conn) = (d, b)" by (metis surj_pair)
  consider (err) e where "d = Inl e" | (ready) wire where "d = Inr (Some wire)" | (wait) "d = Inr None"
    by (metis sum.exhaust option.exhaust)
  then show ?case
  proof cases
    case err
    with less.prems d show ?thesis by (subst (asm) recv_message.simps) simp
  next
    case ready
    with less.prems d have "open_payload (cr E) (cipher conn) wire = Inr m"
      by (subst (asm) recv_message.simps) simp
    then have "length (payload m) \<le> length (payload wire)" by (rule open_payload_length [OF assms])
    also have "\<dots> \<le> MAX_PAYLOAD_SIZE"
      using frame.dec_sound [OF d [unfolded ready]] by (simp add: sendable_def)
    finally show ?thesis .
  next
    case wait
    have b: "b = read_buf conn" "length (read_buf conn) < 20 + MAX_PAYLOAD_SIZE"
      using frame.dec_waits [OF d [unfolded wait]] by simp_all
    obtain r w1 where r: "run_io (tcp_read E (sock conn)) w = (r, w1)" by (metis surj_pair)
    with less.prems d wait obtain bs where bs: "r = ReadOk bs" "bs \<noteq> []"
      by (subst (asm) recv_message.simps) (auto split: read_result.splits if_splits)
    with less.prems d wait r
    have "run_io (recv_message E (conn\<lparr>read_buf := b @ bs\<rparr>)) w1 = ((Inr m, conn'), w')"
      by (subst (asm) recv_message.simps) simp
    moreover have "20 + MAX_PAYLOAD_SIZE - length (read_buf (conn\<lparr>read_buf := b @ bs\<rparr>))
        < 20 + MAX_PAYLOAD_SIZE - length (read_buf conn)"
      using b bs(2) by (intro diff_less_mono2) (auto simp: less_le_trans)
    ultimately show ?thesis using less.hyps by blast
  qed
qed

section \<open>What the writer is given\<close>

text \<open>Documented behaviour of a child's input: \<open>given w\<close> are the bytes handed to the writer and
  \<open>killed w\<close> says whether the child was killed. A successful write appends, a kill marks the
  child, and reading from a socket touches neither.\<close>

definition child_laws :: "'w env \<Rightarrow> nat \<Rightarrow> ('w \<Rightarrow> byte list) \<Rightarrow> ('w \<Rightarrow> bool) \<Rightarrow> bool" where
  "child_laws E child given killed \<longleftrightarrow>
     (\<forall>bs w w'. run_io (child_write E child bs) w = (WriteOk, w') \<longrightarrow> given w' = given w @ bs)
   \<and> (\<forall>s w. given (snd (run_io (tcp_read E s) w)) = given w)
   \<and> (\<forall>w. killed (snd (run_io (child_kill E child) w)))
   \<and> (\<forall>w. killed w \<longrightarrow> killed (snd (run_io (child_wait E child) w)))"

lemma recv_message_given:
  "child_laws E child given killed \<Longrightarrow> given (snd (run_io (recv_message E conn) w)) = given w"
  by (rule recv_message_keeps) (simp add: child_laws_def)

lemma abandon_kills:
  assumes "child_laws E child given killed" "run_io (abandon_with E child waits e) w = (r, w')"
  shows "killed w' \<and> r = Some (Inl e)"
  using assms unfolding child_laws_def abandon_with_def abandon_def
  by (cases waits) (auto split: prod.splits, (metis snd_conv)+)

lemma unat_total:
  assumes "unat t \<le> 512 * 1024 * 1024" "n \<le> MAX_PAYLOAD_SIZE"
  shows "unat (t + word_of_nat n :: u64) = unat t + n"
proof -
  have n: "unat (word_of_nat n :: u64) = n"
    using assms(2) by (simp add: unat_of_nat MAX_PAYLOAD_SIZE_def)
  show ?thesis
    using assms n by (simp add: unat_word_ariths MAX_PAYLOAD_SIZE_def)
qed

lemma limit_unat: "unat RECEIVE_BUFFER_LIMIT = 512 * 1024 * 1024"
  by (simp add: RECEIVE_BUFFER_LIMIT_def)

text \<open>One data message: either the child is killed, or its payload was handed over and the loop goes on.\<close>

lemma receive_data:
  assumes laws: "child_laws E child given killed" and "length (payload msg) \<le> MAX_PAYLOAD_SIZE"
    and rcv: "run_io (recv_message E conn) w = ((Inr msg, conn1), w1)" and gv: "given w1 = given w"
    and data: "msg_type msg = SendData"
    and tot: "unat tot = length hashed" "length hashed \<le> 512 * 1024 * 1024"
    and run: "run_io (receive_loop (Suc fuel) E conn child tot hashed) w = (Some r, w')"
  shows "(\<exists>e. r = Inl e \<and> killed w')
     \<or> (\<exists>t w2. run_io (receive_loop fuel E conn1 child t (hashed @ payload msg)) w2 = (Some r, w')
          \<and> unat t = length (hashed @ payload msg) \<and> length (hashed @ payload msg) \<le> 512 * 1024 * 1024
          \<and> given w2 = given w @ payload msg)"
proof (cases "RECEIVE_BUFFER_LIMIT < tot + word_of_nat (length (payload msg))")
  case True
  with run rcv data show ?thesis by (auto simp: Let_def dest!: abandon_kills [OF laws])
next
  case within: False
  let ?t = "tot + word_of_nat (length (payload msg))"
  have t: "unat ?t = length (hashed @ payload msg)"
    using unat_total [OF _ assms(2), of tot] tot by simp
  have bound: "length (hashed @ payload msg) \<le> 512 * 1024 * 1024"
    using within t limit_unat by (simp add: word_less_nat_alt not_less)
  obtain s w2 where wr: "run_io (child_write E child (payload msg)) w1 = (s, w2)" by (metis surj_pair)
  show ?thesis
  proof (cases "s = WriteOk")
    case True
    then have "given w2 = given w @ payload msg" using laws wr gv unfolding child_laws_def by metis
    moreover have "run_io (receive_loop fuel E conn1 child ?t (hashed @ payload msg)) w2 = (Some r, w')"
      using run rcv data within wr True by (simp add: Let_def)
    ultimately show ?thesis using t bound by blast
  next
    case False
    then show ?thesis using run rcv data within wr
      by (cases s) (auto simp: Let_def dest!: abandon_kills [OF laws])
  qed
qed

lemma receive_loop_outcome:
  assumes laws: "child_laws E child given killed" and shrink: "aead_shrinks (cr E)"
  shows "run_io (receive_loop fuel E conn child tot hashed) w = (Some r, w') \<Longrightarrow>
     unat tot = length hashed \<Longrightarrow> length hashed \<le> 512 * 1024 * 1024 \<Longrightarrow>
     (case r of
        Inl e \<Rightarrow> killed w'
      | Inr (conn', cs, data) \<Rightarrow>
          (\<exists>more_data. data = hashed @ more_data \<and> given w' = given w @ more_data)
          \<and> length data \<le> 512 * 1024 * 1024)"
proof (induction fuel arbitrary: conn tot hashed w)
  case 0
  then show ?case by simp
next
  case (Suc fuel)
  obtain m conn1 w1 where rcv: "run_io (recv_message E conn) w = ((m, conn1), w1)" by (metis surj_pair)
  have gv: "given w1 = given w" using recv_message_given [OF laws, of conn w] rcv by simp
  show ?case
  proof (cases m)
    case (Inl e)
    with Suc.prems(1) rcv show ?thesis
      by (auto dest!: abandon_kills [OF laws] split: sum.splits)
  next
    case (Inr msg)
    have len: "length (payload msg) \<le> MAX_PAYLOAD_SIZE"
      using recv_message_length [OF shrink] rcv Inr by blast
    show ?thesis
    proof (cases "msg_type msg = SendData")
      case False
      show ?thesis
      proof (cases "msg_type msg = SendComplete \<or> msg_type msg = SendError")
        case True
        with Suc.prems rcv Inr gv show ?thesis
          by (auto dest!: abandon_kills [OF laws] split: sum.splits)
      next
        case other: False
        with False Suc.prems(1) rcv Inr
        have "run_io (receive_loop fuel E conn1 child tot hashed) w1 = (Some r, w')" by auto
        from Suc.IH [OF this Suc.prems(2,3)] show ?thesis unfolding gv .
      qed
    next
      case True
      from receive_data [OF laws len rcv [unfolded Inr] gv True Suc.prems(2,3,1)] show ?thesis
      proof (elim disjE exE conjE)
        fix t w2
        assume "run_io (receive_loop fuel E conn1 child t (hashed @ payload msg)) w2 = (Some r, w')"
          "unat t = length (hashed @ payload msg)" "length (hashed @ payload msg) \<le> 512 * 1024 * 1024"
          "given w2 = given w @ payload msg"
        from Suc.IH [OF this(1-3)] this(4) show ?thesis by (auto split: sum.splits)
      qed simp
    qed
  qed
qed

section \<open>A scripted sender\<close>

text \<open>\<open>feeds E child conn w ms conn' w'\<close>: the connection delivers the messages \<open>ms\<close>, and the child
  accepts the payload of each data message before the next one is received.\<close>

fun feeds :: "'w env \<Rightarrow> nat \<Rightarrow> connection \<Rightarrow> 'w \<Rightarrow> message list \<Rightarrow> connection \<Rightarrow> 'w \<Rightarrow> bool" where
  "feeds E child conn w [] conn' w' \<longleftrightarrow> conn' = conn \<and> w' = w"
| "feeds E child conn w (m # ms) conn' w' \<longleftrightarrow>
     (\<exists>conn1 w1 w2. run_io (recv_message E conn) w = ((Inr m, conn1), w1)
        \<and> (if msg_type m = SendData then run_io (child_write E child (payload m)) w1 = (WriteOk, w2) else w2 = w1)
        \<and> feeds E child conn1 w2 ms conn' w')"

definition data_payloads :: "message list \<Rightarrow> byte list" where
  "data_payloads ms = concat (map payload (filter (\<lambda>m. msg_type m = SendData) ms))"

lemma data_payloads_simps [simp]:
  "data_payloads [] = []"
  "data_payloads (m # ms) = (if msg_type m = SendData then payload m @ data_payloads ms else data_payloads ms)"
  by (simp_all add: data_payloads_def)

lemma receive_loop_fed:
  assumes "feeds E child conn w ms conn1 w1" "list_all (\<lambda>m. msg_type m \<noteq> SendComplete \<and> msg_type m \<noteq> SendError) ms"
    and "run_io (recv_message E conn1) w1 = ((Inr fin, conn2), w2)" "msg_type fin = SendComplete"
    and "unat tot = length hashed" "length hashed + length (data_payloads ms) \<le> 512 * 1024 * 1024"
    and "length ms < fuel"
  shows "run_io (receive_loop fuel E conn child tot hashed) w =
     (Some (Inr (conn2, Option.bind (complete_from (js E) (payload fin)) sc_checksum, hashed @ data_payloads ms)), w2)"
  using assms
proof (induction ms arbitrary: conn w tot hashed fuel)
  case Nil
  then obtain f where "fuel = Suc f" by (cases fuel) auto
  with Nil show ?case by simp
next
  case (Cons m ms)
  then obtain f where f: "fuel = Suc f" by (cases fuel) auto
  from Cons.prems(1) obtain c v v' where rcv: "run_io (recv_message E conn) w = ((Inr m, c), v)"
    and wr: "if msg_type m = SendData then run_io (child_write E child (payload m)) v = (WriteOk, v') else v' = v"
    and rest: "feeds E child c v' ms conn1 w1" by auto
  show ?case
  proof (cases "msg_type m = SendData")
    case True
    let ?t = "tot + word_of_nat (length (payload m))"
    have le: "length hashed + length (payload m) \<le> 512 * 1024 * 1024" using Cons.prems(6) True by simp
    have "unat (word_of_nat (length (payload m)) :: u64) = length (payload m)"
      using le by (simp add: unat_of_nat)
    then have t: "unat ?t = length (hashed @ payload m)"
      using le Cons.prems(5) by (simp add: unat_word_ariths)
    then have "\<not> RECEIVE_BUFFER_LIMIT < ?t" using le limit_unat by (simp add: word_less_nat_alt)
    moreover have "run_io (receive_loop f E c child ?t (hashed @ payload m)) v' =
        (Some (Inr (conn2, Option.bind (complete_from (js E) (payload fin)) sc_checksum, (hashed @ payload m) @ data_payloads ms)), w2)"
      using Cons.prems t True f by (intro Cons.IH [OF rest]) auto
    ultimately show ?thesis using f rcv wr True by (simp add: Let_def)
  next
    case False
    have "run_io (receive_loop f E c child tot hashed) v' =
        (Some (Inr (conn2, Option.bind (complete_from (js E) (payload fin)) sc_checksum, hashed @ data_payloads ms)), w2)"
      using Cons.prems False f by (intro Cons.IH [OF rest]) auto
    with Cons.prems(2) False f rcv wr show ?thesis by simp
  qed
qed

text \<open>Documented behaviour of the buffered writer: \<open>delivered\<close> are the bytes the process gets and \<open>held\<close>
  those in the buffer of 8192 bytes. A successful write puts its bytes behind the held ones and
  passes on a part from the front, and nothing as long as the buffer is not full; dropping the
  writer passes nothing on. Reading from a socket touches neither.\<close>

definition buffered_writer :: "'w env \<Rightarrow> nat \<Rightarrow> ('w \<Rightarrow> byte list) \<Rightarrow> ('w \<Rightarrow> byte list) \<Rightarrow> bool" where
  "buffered_writer E child delivered held \<longleftrightarrow>
     (\<forall>bs w w'. run_io (child_write E child bs) w = (WriteOk, w') \<longrightarrow>
        delivered w' @ held w' = delivered w @ held w @ bs
        \<and> (length (held w) + length bs < 8192 \<longrightarrow> delivered w' = delivered w))
   \<and> (\<forall>w. delivered (snd (run_io (child_drop E child) w)) = delivered w)
   \<and> (\<forall>s w. delivered (snd (run_io (tcp_read E s) w)) = delivered w \<and> held (snd (run_io (tcp_read E s) w)) = held w)"

lemma buffered_writerD:
  assumes "buffered_writer E child delivered held"
  shows "run_io (child_write E child bs) w = (WriteOk, w') \<Longrightarrow> delivered w' @ held w' = delivered w @ held w @ bs"
    and "run_io (child_write E child bs) w = (WriteOk, w') \<Longrightarrow> length (held w) + length bs < 8192 \<Longrightarrow>
           delivered w' = delivered w"
    and "delivered (snd (run_io (recv_message E conn) w)) = delivered w"
    and "held (snd (run_io (recv_message E conn) w)) = held w"
    and "delivered (snd (run_io (child_drop E child) w)) = delivered w"
  using assms by (auto simp: buffered_writer_def intro: recv_message_keeps)

lemma fed_writer:
  assumes "buffered_writer E child delivered held"
  shows "feeds E child conn w ms conn1 w1 \<Longrightarrow>
     delivered w1 @ held w1 = delivered w @ held w @ data_payloads ms
     \<and> (length (held w) + length (data_payloads ms) < 8192 \<longrightarrow> delivered w1 = delivered w)"
proof (induction ms arbitrary: conn w)
  case Nil
  then show ?case by simp
next
  case (Cons m ms)
  from Cons.prems obtain c v v' where rcv: "run_io (recv_message E conn) w = ((Inr m, c), v)"
    and wr: "if msg_type m = SendData then run_io (child_write E child (payload m)) v = (WriteOk, v') else v' = v"
    and rest: "feeds E child c v' ms conn1 w1" by auto
  have v: "delivered v = delivered w" "held v = held w"
    using buffered_writerD(3,4) [OF assms, of conn w] rcv by simp_all
  let ?bs = "if msg_type m = SendData then payload m else []"
  have step: "delivered v' @ held v' = delivered w @ held w @ ?bs"
    using wr v buffered_writerD(1) [OF assms] by (auto split: if_splits)
  have small: "delivered v' = delivered w" if "length (held w) + length ?bs < 8192"
    using wr v that buffered_writerD(2) [OF assms] by (auto split: if_splits)
  from Cons.IH [OF rest] step have "delivered w1 @ held w1 = delivered w @ held w @ data_payloads (m # ms)"
    by (auto simp flip: append_assoc)
  moreover have "delivered w1 = delivered w" if "length (held w) + length (data_payloads (m # ms)) < 8192"
  proof -
    have "delivered v' = delivered w" using that by (intro small) (auto split: if_splits)
    moreover from this step have "held v' = held w @ ?bs" by simp
    ultimately show ?thesis using Cons.IH [OF rest] that by (auto split: if_splits)
  qed
  ultimately show ?case by blast
qed

text \<open>A receiving environment for the witnesses: the peer announces a volume, sends one data
  message and completes with a checksum.\<close>

definition receiver_env :: "sample env" where
  "receiver_env = sample_env\<lparr>js := sample_json\<lparr>
     start_from := (\<lambda>b. Some \<lparr>ss_volume_id = ''vol'', ss_snapshot_name = ''s'', ss_is_incremental = False, ss_parent_snapshot = None\<rparr>),
     complete_from := (\<lambda>b. Some \<lparr>sc_volume_id = ''vol'', sc_success = True, sc_error = None,
       sc_checksum = Some (blake3_hex sample_crypto [7])\<rparr>)\<rparr>\<rparr>"

lemma receiver_env_simps:
  "tcp_read receiver_env s = State (\<lambda>w. case s_reads w of
         [] \<Rightarrow> (ReadOk [], w) | r # rs \<Rightarrow> (r, w\<lparr>s_reads := rs\<rparr>))"
  "child_write receiver_env c bs = State (\<lambda>w. (WriteOk, w\<lparr>s_buffer := s_buffer w @ bs\<rparr>))"
  "child_drop receiver_env c = State (\<lambda>w. ((), w\<lparr>s_buffer := []\<rparr>))"
  "child_kill receiver_env c = State (\<lambda>w. ((), w\<lparr>s_killed := True\<rparr>))"
  "child_wait receiver_env c = State (\<lambda>w. (Inr (\<not> s_killed w), w))"
  "spawn receiver_env p args = State_Monad.return (Inr 0)"
  "peer_addr receiver_env x = State_Monad.return (Inr ''peer'')"
  "now_ms receiver_env = State (\<lambda>w. (s_clock w, w))"
  "tcp_write receiver_env s bs = State (\<lambda>w. (Inr (), w\<lparr>s_written := s_written w @ bs\<rparr>))"
  "cr receiver_env = sample_crypto"
  "start_from (js receiver_env) b = Some \<lparr>ss_volume_id = ''vol'', ss_snapshot_name = ''s'', ss_is_incremental = False, ss_parent_snapshot = None\<rparr>"
  "complete_from (js receiver_env) b = Some \<lparr>sc_volume_id = ''vol'', sc_success = True, sc_error = None,
       sc_checksum = Some (blake3_hex sample_crypto [7])\<rparr>"
  by (simp_all add: receiver_env_def sample_env_simps)

definition data_msg :: message where "data_msg = new_message SendData [7] 0"
definition fin_msg :: message where "fin_msg = new_message SendComplete [] 0"

lemma receiver_recv:
  assumes "length (payload m) \<le> 40" "s_reads w = ReadOk (encode m) # rest"
  shows "run_io (recv_message receiver_env (new_connection 0)) w = ((Inr m, new_connection 0), w\<lparr>s_reads := rest\<rparr>)"
proof -
  have "sendable m" using assms(1) by (simp add: sendable_def MAX_PAYLOAD_SIZE_def)
  then show ?thesis
    using assms recv_one_frame [of m "new_connection 0" receiver_env w "w\<lparr>s_reads := rest\<rparr>"]
    by (simp add: receiver_env_simps new_connection_def open_payload_def)
qed

lemma receiver_feeds:
  assumes "s_reads w = [ReadOk (encode data_msg), ReadOk (encode fin_msg)]"
  shows "feeds receiver_env 0 (new_connection 0) w [data_msg] (new_connection 0)
           (w\<lparr>s_reads := [ReadOk (encode fin_msg)], s_buffer := s_buffer w @ [7]\<rparr>)"
    and "run_io (recv_message receiver_env (new_connection 0))
           (w\<lparr>s_reads := [ReadOk (encode fin_msg)], s_buffer := s_buffer w @ [7]\<rparr>)
         = ((Inr fin_msg, new_connection 0), w\<lparr>s_reads := [], s_buffer := s_buffer w @ [7]\<rparr>)"
  using assms receiver_recv [of data_msg w "[ReadOk (encode fin_msg)]"]
    receiver_recv [of fin_msg "w\<lparr>s_reads := [ReadOk (encode fin_msg)], s_buffer := s_buffer w @ [7]\<rparr>" "[]"]
  by (simp_all add: data_msg_def fin_msg_def new_message_def receiver_env_simps)

text \<open>The remaining facts about the scripted sender.\<close>

lemma receiver_script:
  "list_all (\<lambda>m. msg_type m \<noteq> SendComplete \<and> msg_type m \<noteq> SendError) [data_msg]"
  "msg_type fin_msg = SendComplete" "data_payloads [data_msg] = [7]"
  "complete_from (js receiver_env) (payload fin_msg) = Some \<lparr>sc_volume_id = ''vol'', sc_success = True,
     sc_error = None, sc_checksum = Some (blake3_hex sample_crypto [7])\<rparr>"
  by (simp_all add: data_msg_def fin_msg_def new_message_def receiver_env_simps)

lemma receiver_child:
  "run_io (child_drop receiver_env 0) w = ((), w\<lparr>s_buffer := []\<rparr>)"
  "\<not> s_killed w \<Longrightarrow> run_io (child_wait receiver_env 0) w = (Inr True, w)"
  by (simp_all add: receiver_env_simps)

section \<open>Properties\<close>

text \<open>C35. What is received is accounted for: whenever the receive loop ends, either it failed and
  the child process was killed, or the bytes handed to the child's writer are exactly the bytes
  covered by the checksum, at most 512 MiB of them.\<close>

theorem received_data_accounted:
  assumes "child_laws E child given killed" and "aead_shrinks (cr E)"
    and "run_io (receive_loop fuel E conn child 0 []) w = (Some r, w')"
  shows "case r of
           Inl e \<Rightarrow> killed w'
         | Inr (conn', cs, data) \<Rightarrow> given w' = given w @ data \<and> length data \<le> 512 * 1024 * 1024"
  using receive_loop_outcome [OF assms] by (auto split: sum.splits)

theorem received_data_accounted_witness:
  "\<exists>conn cs data w'. run_io (receive_loop 2 receiver_env (new_connection 0) 0 0 [])
      (sample_start\<lparr>s_reads := [ReadOk (encode data_msg), ReadOk (encode fin_msg)]\<rparr>)
      = (Some (Inr (conn, cs, data)), w') \<and> s_buffer w' = data"
proof -
  let ?w = "sample_start\<lparr>s_reads := [ReadOk (encode data_msg), ReadOk (encode fin_msg)]\<rparr>"
  have laws: "child_laws receiver_env 0 s_buffer s_killed"
    by (auto simp: child_laws_def receiver_env_simps split: list.splits)
  have "s_reads ?w = [ReadOk (encode data_msg), ReadOk (encode fin_msg)]" by simp
  note fed = receiver_feeds [OF this]
  have "\<exists>cs data w'. run_io (receive_loop 2 receiver_env (new_connection 0) 0 0 []) ?w = (Some (Inr (new_connection 0, cs, data)), w')"
    by (subst receive_loop_fed [OF fed(1) _ fed(2)]) (simp_all add: data_msg_def fin_msg_def new_message_def)
  then obtain cs data w' where run: "run_io (receive_loop 2 receiver_env (new_connection 0) 0 0 []) ?w
      = (Some (Inr (new_connection 0, cs, data)), w')" by blast
  with received_data_accounted [OF laws _ run] show ?thesis
    using sample_crypto_laws(3) by (auto simp: receiver_env_simps sample_start_def)
qed

text \<open>C34. The checksum decides, if there is one: when a peer announces a volume, sends data messages
  and completes, and \<open>btrfs receive\<close> succeeds, then within the size limit, and with fuel for one step
  more than there are messages, the receiver returns a completion for that volume that carries the
  hash of exactly the received data. It reports success if and only if the peer's completion carried
  that hash, or no checksum at all (or could not be read); otherwise its error is a checksum
  mismatch.\<close>

theorem checksum_decides_completion:
  assumes "run_io (peer_addr E (sock conn)) w = (Inr p, w1)"
    and "run_io (await_send_start E conn) w1 = (Inr (conn1, req), w2)"
    and "run_io (spawn E ''btrfs'' [''receive'', snapshot_dir (replication cfg) @ ''/'' @ ss_volume_id req]) w2 = (Inr child, w3)"
    and "run_io (send_or_err E conn1 SendStart []) w3 = (Inr (), w4)"
    and "feeds E child conn1 w4 ms conn2 w5"
    and "list_all (\<lambda>m. msg_type m \<noteq> SendComplete \<and> msg_type m \<noteq> SendError) ms"
    and "run_io (recv_message E conn2) w5 = ((Inr fin, conn3), w6)" and "msg_type fin = SendComplete"
    and "length (data_payloads ms) \<le> 512 * 1024 * 1024" and "length ms < fuel"
    and "run_io (child_drop E child) w6 = (u, w7)" and "run_io (child_wait E child) w7 = (Inr True, w8)"
  shows "\<exists>c. run_io (receive_volume_stream fuel E cfg conn) w = (Some (Inr (conn3, c)), w8)
     \<and> sc_volume_id c = ss_volume_id req
     \<and> sc_checksum c = Some (blake3_hex (cr E) (data_payloads ms))
     \<and> (sc_success c \<longleftrightarrow>
          (case complete_from (js E) (payload fin) of
             None \<Rightarrow> True
           | Some resp \<Rightarrow> sc_checksum resp \<in> {None, Some (blake3_hex (cr E) (data_payloads ms))}))
     \<and> sc_error c = (if sc_success c then None else Some ''Checksum mismatch'')"
proof -
  let ?cs = "Option.bind (complete_from (js E) (payload fin)) sc_checksum"
  have "run_io (receive_loop fuel E conn1 child 0 []) w4 = (Some (Inr (conn3, ?cs, data_payloads ms)), w6)"
    using receive_loop_fed [OF assms(5-8), of 0 "[]" fuel] assms(9,10) by simp
  moreover have "run_io (finish_receive E child (ss_volume_id req) ?cs (data_payloads ms)) w6
      = (Inr (completion (cr E) (ss_volume_id req) ?cs (data_payloads ms)), w8)"
    using assms(11,12) by (simp add: finish_receive_def)
  ultimately have "run_io (receive_volume_stream fuel E cfg conn) w
      = (Some (Inr (conn3, completion (cr E) (ss_volume_id req) ?cs (data_payloads ms))), w8)"
    using assms(1-4) by (simp add: receive_volume_stream_def run_try_opt run_lift_some text_failure_def context_err_def)
  then show ?thesis
    by (intro exI conjI) (auto simp: completion_def Let_def split: option.splits)
qed

theorem checksum_decides_completion_witness:
  "\<exists>c conn w'. run_io (receive_volume_stream 2 receiver_env (sample_config ''a'') (new_connection 0))
      (sample_start\<lparr>s_reads := [ReadOk (encode (new_message SendStart [] 0)), ReadOk (encode data_msg), ReadOk (encode fin_msg)]\<rparr>)
      = (Some (Inr (conn, c)), w') \<and> sc_success c"
proof -
  let ?w = "sample_start\<lparr>s_reads := [ReadOk (encode (new_message SendStart [] 0)), ReadOk (encode data_msg), ReadOk (encode fin_msg)]\<rparr>"
  let ?rs = "[ReadOk (encode data_msg), ReadOk (encode fin_msg)]"
  let ?req = "\<lparr>ss_volume_id = ''vol'', ss_snapshot_name = ''s'', ss_is_incremental = False, ss_parent_snapshot = None\<rparr>"
  have p: "run_io (peer_addr receiver_env (sock (new_connection 0))) ?w = (Inr ''peer'', ?w)"
    by (simp add: receiver_env_simps)
  have a: "run_io (await_send_start receiver_env (new_connection 0)) ?w = (Inr (new_connection 0, ?req), ?w\<lparr>s_reads := ?rs\<rparr>)"
    using receiver_recv [of "new_message SendStart [] 0" ?w ?rs]
    by (simp add: await_send_start_def receiver_env_simps new_message_def)
  have s: "run_io (spawn receiver_env ''btrfs'' [''receive'', snapshot_dir (replication (sample_config ''a'')) @ ''/'' @ ss_volume_id ?req])
      (?w\<lparr>s_reads := ?rs\<rparr>) = (Inr 0, ?w\<lparr>s_reads := ?rs\<rparr>)"
    by (simp add: receiver_env_simps)
  obtain x where k: "run_io (send_or_err receiver_env (new_connection 0) SendStart []) (?w\<lparr>s_reads := ?rs\<rparr>)
      = (Inr (), ?w\<lparr>s_reads := ?rs, s_written := x\<rparr>)"
    by (simp add: send_or_err_def reply_def send_message_def wire_payload_def new_connection_def receiver_env_simps)
  have "s_reads (?w\<lparr>s_reads := ?rs, s_written := x\<rparr>) = ?rs" by simp
  note fed = receiver_feeds [OF this]
  have "\<not> s_killed (?w\<lparr>s_reads := [], s_written := x, s_buffer := []\<rparr>)" by (simp add: sample_start_def)
  then have wt: "run_io (child_wait receiver_env 0) (?w\<lparr>s_reads := [], s_written := x, s_buffer := []\<rparr>)
      = (Inr True, ?w\<lparr>s_reads := [], s_written := x, s_buffer := []\<rparr>)"
    by (rule receiver_child(2))
  have dr: "run_io (child_drop receiver_env 0) (?w\<lparr>s_reads := ?rs, s_written := x, s_reads := [], s_buffer := s_buffer (?w\<lparr>s_reads := ?rs, s_written := x\<rparr>) @ [7]\<rparr>)
      = ((), ?w\<lparr>s_reads := [], s_written := x, s_buffer := []\<rparr>)"
    by (simp add: receiver_child(1))
  have "\<exists>c. run_io (receive_volume_stream 2 receiver_env (sample_config ''a'') (new_connection 0)) ?w
        = (Some (Inr (new_connection 0, c)), ?w\<lparr>s_reads := [], s_written := x, s_buffer := []\<rparr>)
      \<and> sc_volume_id c = ss_volume_id ?req
      \<and> sc_checksum c = Some (blake3_hex (cr receiver_env) (data_payloads [data_msg]))
      \<and> (sc_success c \<longleftrightarrow>
           (case complete_from (js receiver_env) (payload fin_msg) of
              None \<Rightarrow> True
            | Some resp \<Rightarrow> sc_checksum resp \<in> {None, Some (blake3_hex (cr receiver_env) (data_payloads [data_msg]))}))
      \<and> sc_error c = (if sc_success c then None else Some ''Checksum mismatch'')"
    by (rule checksum_decides_completion [OF p a s k fed(1) receiver_script(1) fed(2) receiver_script(2) _ _ dr wt])
      (simp_all add: data_msg_def new_message_def)
  then show ?thesis unfolding receiver_script(3,4) receiver_env_simps(10) by auto
qed

text \<open>C40. The end of a stream is lost: the writer of \<open>btrfs receive\<close> is dropped and not flushed, so the
  bytes its buffer still holds when the stream ends never reach the process, and of a stream shorter
  than the buffer of 8192 bytes nothing does. The receiver does not notice: its verdict is that of
  the exit status and of the checksum over the bytes it received, whatever was delivered.\<close>

theorem unflushed_tail_is_lost:
  assumes "buffered_writer E child delivered held" and "held w = []"
    and "feeds E child conn w ms conn1 w1"
    and "list_all (\<lambda>m. msg_type m \<noteq> SendComplete \<and> msg_type m \<noteq> SendError) ms"
    and "run_io (recv_message E conn1) w1 = ((Inr fin, conn2), w2)" and "msg_type fin = SendComplete"
    and "length (data_payloads ms) \<le> 512 * 1024 * 1024" and "length ms < fuel"
    and "run_io (child_drop E child) w2 = (u, w3)" and "run_io (child_wait E child) w3 = (Inr status_ok, w4)"
  shows "\<exists>cs. run_io (receive_loop fuel E conn child 0 []) w = (Some (Inr (conn2, cs, data_payloads ms)), w2)
     \<and> delivered w3 @ held w2 = delivered w @ data_payloads ms
     \<and> (length (data_payloads ms) < 8192 \<longrightarrow> delivered w3 = delivered w)
     \<and> (case run_io (finish_receive E child vol cs (data_payloads ms)) w2 of
           (Inl e, w5) \<Rightarrow> \<not> status_ok
         | (Inr c, w5) \<Rightarrow> status_ok \<and> w5 = w4
             \<and> sc_success c = (cs \<in> {None, Some (blake3_hex (cr E) (data_payloads ms))}))"
proof -
  let ?cs = "Option.bind (complete_from (js E) (payload fin)) sc_checksum"
  have loop: "run_io (receive_loop fuel E conn child 0 []) w = (Some (Inr (conn2, ?cs, data_payloads ms)), w2)"
    using receive_loop_fed [OF assms(3-6), of 0 "[]" fuel] assms(7,8) by simp
  have verdict: "case run_io (finish_receive E child vol ?cs (data_payloads ms)) w2 of
           (Inl e, w5) \<Rightarrow> \<not> status_ok
         | (Inr c, w5) \<Rightarrow> status_ok \<and> w5 = w4
             \<and> sc_success c = (?cs \<in> {None, Some (blake3_hex (cr E) (data_payloads ms))})"
    using assms(9,10)
    by (auto simp: finish_receive_def completion_def Let_def split: prod.splits sum.splits option.splits)
  have "delivered w2 = delivered w1" "held w2 = held w1" "delivered w3 = delivered w2"
    using buffered_writerD(3,4) [OF assms(1), of conn1 w1] buffered_writerD(5) [OF assms(1), of w2] assms(5,9)
    by simp_all
  with fed_writer [OF assms(1,3)] assms(2) loop verdict show ?thesis by auto
qed

theorem unflushed_tail_is_lost_witness:
  "\<exists>cs w2 w3. run_io (receive_loop 2 receiver_env (new_connection 0) 0 0 [])
        (sample_start\<lparr>s_reads := [ReadOk (encode data_msg), ReadOk (encode fin_msg)]\<rparr>)
        = (Some (Inr (new_connection 0, cs, [7])), w2)
     \<and> run_io (child_drop receiver_env 0) w2 = ((), w3) \<and> s_pipe w3 @ s_buffer w2 = [7] \<and> s_pipe w3 = []"
proof -
  let ?w = "sample_start\<lparr>s_reads := [ReadOk (encode data_msg), ReadOk (encode fin_msg)]\<rparr>"
  have laws: "buffered_writer receiver_env 0 s_pipe s_buffer"
    by (auto simp: buffered_writer_def receiver_env_simps split: list.splits)
  have "s_reads ?w = [ReadOk (encode data_msg), ReadOk (encode fin_msg)]" by simp
  note fed = receiver_feeds [OF this]
  have e: "s_buffer ?w = []" "s_pipe ?w = []" by (simp_all add: sample_start_def)
  let ?v = "?w\<lparr>s_reads := [], s_buffer := []\<rparr>"
  have "\<not> s_killed ?v" by (simp add: sample_start_def)
  then have wt: "run_io (child_wait receiver_env 0) ?v = (Inr True, ?v)" by (rule receiver_child(2))
  have dr: "run_io (child_drop receiver_env 0) (?w\<lparr>s_reads := [], s_buffer := s_buffer ?w @ [7]\<rparr>) = ((), ?v)"
    by (simp add: receiver_child(1))
  have "length (data_payloads [data_msg]) \<le> 512 * 1024 * 1024" "length [data_msg] < 2" "length (data_payloads [data_msg]) < 8192"
    by (simp_all add: data_msg_def new_message_def)
  then obtain cs where "run_io (receive_loop 2 receiver_env (new_connection 0) 0 0 []) ?w
        = (Some (Inr (new_connection 0, cs, [7])), ?w\<lparr>s_reads := [], s_buffer := s_buffer ?w @ [7]\<rparr>)"
      and "s_pipe ?v @ s_buffer (?w\<lparr>s_reads := [], s_buffer := s_buffer ?w @ [7]\<rparr>) = s_pipe ?w @ [7]"
      and "s_pipe ?v = s_pipe ?w"
    using unflushed_tail_is_lost [OF laws e(1) fed(1) receiver_script(1) fed(2) receiver_script(2) _ _ dr wt, of 2 "''vol''"]
    unfolding receiver_script(3) by blast
  then show ?thesis using dr unfolding e(2) append_Nil by blast
qed

end
