(* ===== verification/Csi_Controller.thy ===== *)
theory Csi_Controller
  imports Receiver
begin

text \<open>
  The CSI controller service, \<open>crates/btrfs-csi/src/csi_controller.rs\<close>: creating, deleting,
  publishing, listing and expanding volumes, and snapshots of them. Volumes are subvolumes of the
  data directory, found again by their attributes. The gossip tables and the replication states
  that the controller shares with the background services are threaded explicitly.

  A response carries the fields the handler fills in; all others have their default. The text of
  an error that a library reports is left out of the message it is quoted in.
\<close>

section \<open>Requests, responses and errors\<close>

datatype rpc_status =
    InvalidArgument string
  | NotFound string
  | FailedPrecondition string
  | Internal string
  | Panicked

datatype access_type = Mount string "string hmap" | Block

datatype access_mode =
    UnknownMode | SingleNodeWriter | SingleNodeOnlyReader
  | MultiNodeReaderOnly | MultiNodeSingleWriter | MultiNodeMultiWriter

record volume_capability =
  cap_access_type :: "access_type option option"
  cap_access_mode :: "access_mode option"

record csi_volume =
  v_volume_id :: string
  v_capacity_bytes :: i64
  v_capability :: "volume_capability option"

record csi_snapshot =
  cs_snapshot_id :: string
  cs_source_volume_id :: string
  cs_creation_time :: i64
  cs_size_bytes :: i64

record create_volume_request =
  cv_name :: string
  cv_required_bytes :: "i64 option"
  cv_capability :: "volume_capability option"
  cv_parameters :: "string hmap"

section \<open>State and helpers\<close>

record controller =
  ct_node_id :: string
  ct_zone :: string
  ct_data_dir :: string
  ct_config :: exchange_config
  ct_profiles :: "volume_profile hmap"

text \<open>What the controller shares with the gossip service and the replicator.\<close>

record 'w shared =
  sh_gossip :: "'w gossip"
  sh_states :: states

definition name_char :: "char \<Rightarrow> bool" where
  "name_char c \<longleftrightarrow> is_ascii_alphanumeric c \<or> c = CHR ''-'' \<or> c = CHR ''_'' \<or> c = CHR ''.''"

definition validate_volume_name :: "string \<Rightarrow> rpc_status + unit" where
  "validate_volume_name name =
     (if name = [] then Inl (InvalidArgument ''volume name must not be empty'')
      else if CHR 0x00 \<in> set name then
        Inl (InvalidArgument ''volume name must not contain null bytes'')
      else if contains_str name ''..'' \<or> CHR ''/'' \<in> set name \<or> CHR 0x5C \<in> set name then
        Inl (InvalidArgument (''volume name must not contain path separators or '' @
          [CHR 0x27] @ ''..'' @ [CHR 0x27] @ '': '' @ name))
      else if 255 < length name then
        Inl (InvalidArgument ''volume name too long (max 255 chars)'')
      else if \<not> list_all name_char name then
        Inl (InvalidArgument ''volume name must only contain [a-zA-Z0-9._-]'')
      else Inr ())"

definition subvol_path :: "controller \<Rightarrow> string \<Rightarrow> string" where
  "subvol_path ct name = ct_data_dir ct @ ''/'' @ name"

text \<open>The last fallback makes the error branch of \<open>get_profile\<close> unreachable.\<close>

definition get_profile :: "controller \<Rightarrow> string \<Rightarrow> volume_profile" where
  "get_profile ct profile_type =
     (case hm_get (ct_profiles ct) profile_type of
        Some p \<Rightarrow> p
      | None \<Rightarrow> (case hm_get (ct_profiles ct) ''default'' of Some p \<Rightarrow> p | None \<Rightarrow> default_profile))"

definition volume_xattr :: "'w env \<Rightarrow> controller \<Rightarrow> string \<Rightarrow> string \<Rightarrow> ('w, string option) io" where
  "volume_xattr E ct name k = attr_value E (subvol_path ct name) k"

text \<open>A failure is only logged.\<close>

definition set_vol_xattr :: "'w env \<Rightarrow> controller \<Rightarrow> string \<Rightarrow> string \<Rightarrow> string \<Rightarrow> ('w, unit) io" where
  "set_vol_xattr E ct name k v = do {
     _ \<leftarrow> set_csi_attr E (subvol_path ct name) k v;
     State_Monad.return ()
   }"

text \<open>The nodes listed in the value of the \<open>published\<close> attribute.\<close>

definition published_list :: "string option \<Rightarrow> string list" where
  "published_list v =
     (case v of
        None \<Rightarrow> []
      | Some t \<Rightarrow> (if t = [] then [] else map trim (split_on (CHR '','') t)))"

definition get_published_nodes :: "'w env \<Rightarrow> controller \<Rightarrow> string \<Rightarrow> ('w, string list) io" where
  "get_published_nodes E ct name = do {
     v \<leftarrow> volume_xattr E ct name ''published'';
     State_Monad.return (published_list v)
   }"

definition add_published_node :: "'w env \<Rightarrow> controller \<Rightarrow> string \<Rightarrow> string \<Rightarrow> ('w, unit) io" where
  "add_published_node E ct name node = do {
     nodes \<leftarrow> get_published_nodes E ct name;
     if node \<notin> set nodes then set_vol_xattr E ct name ''published'' (join '','' (nodes @ [node]))
     else State_Monad.return ()
   }"

definition remove_published_node :: "'w env \<Rightarrow> controller \<Rightarrow> string \<Rightarrow> string \<Rightarrow> ('w, unit) io" where
  "remove_published_node E ct name node = do {
     nodes \<leftarrow> get_published_nodes E ct name;
     let remaining = filter (\<lambda>n. n \<noteq> node) nodes;
     if remaining = [] then do {
       _ \<leftarrow> remove_csi_attr E (subvol_path ct name) ''published'';
       State_Monad.return ()
     }
     else set_vol_xattr E ct name ''published'' (join '','' remaining)
   }"

definition volume_id :: "'w env \<Rightarrow> ('w, string) io" where
  "volume_id E = do { u \<leftarrow> new_uuid E; State_Monad.return (''vol-'' @ u) }"

definition snapshot_id :: "'w env \<Rightarrow> ('w, string) io" where
  "snapshot_id E = do { u \<leftarrow> new_uuid E; State_Monad.return (''snap-'' @ u) }"

text \<open>Whether \<open>btrfs subvolume show\<close> succeeds on a path.\<close>

definition subvol_exists :: "'w env \<Rightarrow> string \<Rightarrow> ('w, bool) io" where
  "subvol_exists E path = do {
     r \<leftarrow> run_cmd E ''btrfs'' [''subvolume'', ''show'', path];
     State_Monad.return (case r of Inl _ \<Rightarrow> False | Inr output \<Rightarrow> success output)
   }"

text \<open>\<open>let _ = Command::new(...).output().await\<close>.\<close>

definition run_ignored :: "'w env \<Rightarrow> string \<Rightarrow> string list \<Rightarrow> ('w, unit) io" where
  "run_ignored E prog args = do { _ \<leftarrow> run_cmd E prog args; State_Monad.return () }"

text \<open>The scan of the data directory for the first entry whose attribute has the wanted value; it
  is repeated in every handler that takes an identifier.\<close>

fun find_entry :: "'w env \<Rightarrow> string \<Rightarrow> string \<Rightarrow> string \<Rightarrow> string list \<Rightarrow> ('w, string option) io" where
  "find_entry E dir k wanted [] = State_Monad.return None"
| "find_entry E dir k wanted (name # rest) = do {
     v \<leftarrow> attr_value E (path_join dir name) k;
     if v = Some wanted then State_Monad.return (Some name)
     else find_entry E dir k wanted rest
   }"

definition find_by_attr :: "'w env \<Rightarrow> string \<Rightarrow> string \<Rightarrow> string \<Rightarrow> ('w, string option) io" where
  "find_by_attr E dir k wanted = do {
     names \<leftarrow> read_dir E dir;
     case names of
       None \<Rightarrow> State_Monad.return None
     | Some ns \<Rightarrow> find_entry E dir k wanted ns
   }"

text \<open>The last word of the first line that names the subvolume identifier.\<close>

fun find_subvolume_id :: "string list \<Rightarrow> u64 option" where
  "find_subvolume_id [] = None"
| "find_subvolume_id (line # rest) =
     (if contains_str line ''Subvolume ID:'' \<or> contains_str line ''subvolume id:'' then
        (let parts = split_whitespace line in
         if parts = [] then find_subvolume_id rest else parse_u64 (last parts))
      else find_subvolume_id rest)"

definition get_subvolume_id :: "'w env \<Rightarrow> string \<Rightarrow> ('w, u64 option) io" where
  "get_subvolume_id E path = do {
     r \<leftarrow> run_cmd E ''btrfs'' [''subvolume'', ''show'', path];
     State_Monad.return
       (case r of
          Inl _ \<Rightarrow> None
        | Inr output \<Rightarrow> (if \<not> success output then None else find_subvolume_id (lines (stdout output))))
   }"

definition parse_btrfs_free_space :: "string \<Rightarrow> u64" where
  "parse_btrfs_free_space output = unwrap_or (find_free_space (lines output)) 0"

section \<open>Creating and deleting volumes\<close>

definition DEFAULT_CAPACITY :: u64 where "DEFAULT_CAPACITY = 1024 * 1024 * 1024"

definition requested_capacity :: "create_volume_request \<Rightarrow> u64" where
  "requested_capacity req = unwrap_or (cv_required_bytes req) DEFAULT_CAPACITY"

definition volume_response :: "create_volume_request \<Rightarrow> string \<Rightarrow> csi_volume" where
  "volume_response req vid =
     \<lparr>v_volume_id = vid, v_capacity_bytes = requested_capacity req, v_capability = cv_capability req\<rparr>"

text \<open>The existing volume is found or the subvolume is made: \<open>Inr (Some vid)\<close> ends the request with
  an existing volume, \<open>Inr None\<close> goes on to set the new one up.\<close>

definition ensure_subvolume :: "'w env \<Rightarrow> controller \<Rightarrow> string \<Rightarrow> ('w, rpc_status + string option) io" where
  "ensure_subvolume E ct name = do {
     found \<leftarrow> subvol_exists E (subvol_path ct name);
     if found then do {
       vid \<leftarrow> volume_xattr E ct name ''volume_id'';
       State_Monad.return (Inr vid)
     }
     else do {
       r \<leftarrow> run_cmd E ''btrfs'' [''subvolume'', ''create'', subvol_path ct name];
       case r of
         Inl _ \<Rightarrow> State_Monad.return (Inl (Internal ''Failed to execute btrfs''))
       | Inr output \<Rightarrow>
           (if success output then State_Monad.return (Inr None)
            else do {
              vid \<leftarrow> volume_xattr E ct name ''volume_id'';
              if vid \<noteq> None then do {
                vid' \<leftarrow> volume_xattr E ct name ''volume_id'';
                State_Monad.return (if vid' = None then Inl Panicked else Inr vid')
              }
              else State_Monad.return (Inl (Internal (''Failed to create subvolume: '' @ stderr output)))
            })
     }
   }"

definition apply_profile :: "'w env \<Rightarrow> controller \<Rightarrow> string \<Rightarrow> volume_profile \<Rightarrow> u64 \<Rightarrow> ('w, unit) io" where
  "apply_profile E ct path p capacity = do {
     _ \<leftarrow> (if vp_nocow p then run_ignored E ''chattr'' [''+C'', path] else State_Monad.return ());
     _ \<leftarrow> (if vp_compression p \<noteq> ''none'' then
            run_ignored E ''btrfs'' [''property'', ''set'', ''-ts'', path, ''compression='' @ vp_compression p]
          else State_Monad.return ());
     _ \<leftarrow> run_ignored E ''btrfs'' [''quota'', ''enable'', ''--simple'', ct_data_dir ct];
     i \<leftarrow> get_subvolume_id E path;
     if i \<noteq> None then run_ignored E ''btrfs'' [''qgroup'', ''limit'', show_u64 capacity, path]
     else State_Monad.return ()
   }"

definition initial_clock :: "controller \<Rightarrow> clock" where
  "initial_clock ct = [(ct_node_id ct, 1)]"

definition wanted_replicas :: "controller \<Rightarrow> create_volume_request \<Rightarrow> u32" where
  "wanted_replicas ct req =
     unwrap_or (Option.bind (hm_get (cv_parameters req) ''replica_count'') parse_u32)
       (default_replica_count (replication (ct_config ct)))"

definition profile_type :: "create_volume_request \<Rightarrow> string" where
  "profile_type req = unwrap_or (hm_get (cv_parameters req) ''volume_type'') ''default''"

definition write_metadata :: "'w env \<Rightarrow> controller \<Rightarrow> create_volume_request \<Rightarrow> string \<Rightarrow> i64 \<Rightarrow> ('w, unit) io" where
  "write_metadata E ct req vid now = do {
     _ \<leftarrow> set_vol_xattr E ct (cv_name req) ''volume_id'' vid;
     _ \<leftarrow> set_vol_xattr E ct (cv_name req) ''size'' (show_u64 (requested_capacity req));
     _ \<leftarrow> set_vol_xattr E ct (cv_name req) ''zone'' (ct_zone ct);
     _ \<leftarrow> set_vol_xattr E ct (cv_name req) ''profile'' (profile_type req);
     _ \<leftarrow> set_vol_xattr E ct (cv_name req) ''created_at'' (show_i64 now);
     _ \<leftarrow> set_replica_count E (subvol_path ct (cv_name req)) (wanted_replicas ct req);
     _ \<leftarrow> set_epoch E (subvol_path ct (cv_name req)) 1;
     _ \<leftarrow> set_vector_clock E (subvol_path ct (cv_name req)) (initial_clock ct);
     _ \<leftarrow> set_volume_status E (subvol_path ct (cv_name req)) VOLUME_STATUS_ACTIVE;
     State_Monad.return ()
   }"

definition create_volume ::
  "'w env \<Rightarrow> controller \<Rightarrow> create_volume_request \<Rightarrow> 'w shared \<Rightarrow> ('w, (rpc_status + csi_volume) \<times> 'w shared) io" where
  "create_volume E ct req sh =
     (case validate_volume_name (cv_name req) of
        Inl e \<Rightarrow> State_Monad.return (Inl e, sh)
      | Inr _ \<Rightarrow> do {
          r \<leftarrow> ensure_subvolume E ct (cv_name req);
          case r of
            Inl e \<Rightarrow> State_Monad.return (Inl e, sh)
          | Inr (Some vid) \<Rightarrow> State_Monad.return (Inr (volume_response req vid), sh)
          | Inr None \<Rightarrow> do {
              _ \<leftarrow> apply_profile E ct (subvol_path ct (cv_name req)) (get_profile ct (profile_type req))
                     (requested_capacity req);
              vid \<leftarrow> volume_id E;
              now \<leftarrow> now_ms E;
              _ \<leftarrow> write_metadata E ct req vid now;
              State_Monad.return (Inr (volume_response req vid),
                sh\<lparr>sh_gossip := register_volume_epoch vid 1 (initial_clock ct) VOLUME_STATUS_ACTIVE
                                 (sh_gossip sh)\<rparr>)
            }
        })"

definition delete_volume ::
  "'w env \<Rightarrow> controller \<Rightarrow> string \<Rightarrow> 'w shared \<Rightarrow> ('w, (rpc_status + unit) \<times> 'w shared) io" where
  "delete_volume E ct vid sh = do {
     found \<leftarrow> find_by_attr E (ct_data_dir ct) ''volume_id'' vid;
     case found of
       None \<Rightarrow> State_Monad.return (Inr (), sh)
     | Some name \<Rightarrow> do {
         published \<leftarrow> get_published_nodes E ct name;
         if published \<noteq> [] then
           State_Monad.return (Inl (FailedPrecondition (''Volume '' @ vid @
             '' is still published on nodes: '' @ join '', '' published)), sh)
         else do {
           _ \<leftarrow> notify_volume_delete E (ct_config ct) (sh_gossip sh) vid;
           let sh = sh\<lparr>sh_states := unregister_volume vid (sh_states sh)\<rparr>;
           _ \<leftarrow> remove_dir_all E (snapshot_dir (replication (ct_config ct)) @ ''/'' @ vid);
           _ \<leftarrow> run_ignored E ''btrfs'' [''subvolume'', ''delete'', subvol_path ct name];
           State_Monad.return (Inr (), sh)
         }
       }
   }"

section \<open>Publishing volumes\<close>

text \<open>\<open>str::replace\<close> with an empty text, on the characters of the identifier that are neither
  alphanumeric nor \<open>-\<close> or \<open>_\<close>. A character is its UTF-8 encoding: a byte followed by the
  continuation bytes behind it.\<close>

definition is_continuation :: "char \<Rightarrow> bool" where
  "is_continuation c \<longleftrightarrow> 128 \<le> (of_char c :: nat) \<and> (of_char c :: nat) < 192"

function utf8_chars :: "string \<Rightarrow> string list" where
  "utf8_chars [] = []"
| "utf8_chars (c # s) = (c # takeWhile is_continuation s) # utf8_chars (dropWhile is_continuation s)"
  by pat_completeness auto
termination
  by (relation "measure length") (simp_all add: le_imp_less_Suc length_dropWhile_le)

definition is_alphanumeric :: "'w env \<Rightarrow> string \<Rightarrow> bool" where
  "is_alphanumeric E c \<longleftrightarrow>
     (case c of
        [b] \<Rightarrow> (if (of_char b :: nat) < 128 then is_ascii_alphanumeric b else unicode_alnum E c)
      | _ \<Rightarrow> unicode_alnum E c)"

definition local_name :: "'w env \<Rightarrow> string \<Rightarrow> string" where
  "local_name E vid = concat (filter (\<lambda>c. is_alphanumeric E c \<or> c = ''-'' \<or> c = ''_'') (utf8_chars vid))"

fun copy_attrs :: "'w env \<Rightarrow> string \<Rightarrow> string \<Rightarrow> string list \<Rightarrow> ('w, unit) io" where
  "copy_attrs E from_path to_path [] = State_Monad.return ()"
| "copy_attrs E from_path to_path (k # ks) = do {
     v \<leftarrow> attr_value E from_path k;
     _ \<leftarrow> (case v of
            None \<Rightarrow> State_Monad.return (Inr ())
          | Some x \<Rightarrow> set_csi_attr E to_path k x);
     copy_attrs E from_path to_path ks
   }"

definition copied_attrs :: "string list" where
  "copied_attrs = [''volume_id'', ''size'', ''zone'', ''profile'', ''created_at'', ''replica_count'']"

text \<open>The last part of a promotion: a new epoch, this node's component of the clock, the status,
  and the entry in the epoch table.\<close>

definition take_over :: "'w env \<Rightarrow> controller \<Rightarrow> string \<Rightarrow> string \<Rightarrow> 'w shared \<Rightarrow> ('w, 'w shared) io" where
  "take_over E ct vid dest sh = do {
     r \<leftarrow> increment_epoch E dest;
     let epoch = (case r of Inl _ \<Rightarrow> 1 | Inr e \<Rightarrow> e);
     c \<leftarrow> get_vector_clock E dest;
     let clock = bump_clock (ct_node_id ct) c;
     _ \<leftarrow> set_vector_clock E dest clock;
     _ \<leftarrow> set_volume_status E dest VOLUME_STATUS_ACTIVE;
     State_Monad.return
       (sh\<lparr>sh_gossip := register_volume_epoch vid epoch clock VOLUME_STATUS_ACTIVE (sh_gossip sh)\<rparr>)
   }"

text \<open>A writable snapshot of a replica; \<open>what\<close> distinguishes the two messages.\<close>

definition writable_snapshot :: "'w env \<Rightarrow> string \<Rightarrow> string \<Rightarrow> string \<Rightarrow> ('w, rpc_status + unit) io" where
  "writable_snapshot E what snap_dir dest = do {
     r \<leftarrow> run_cmd E ''btrfs'' [''subvolume'', ''snapshot'', snap_dir, dest];
     State_Monad.return
       (case r of
          Inl _ \<Rightarrow> Inl (Internal (''Failed to promote '' @ what))
        | Inr output \<Rightarrow>
            (if success output then Inr ()
             else Inl (Internal (''Failed to create writable snapshot from '' @ what @ '': '' @ stderr output))))
   }"

text \<open>Promote a replica that was received earlier.\<close>

definition promote_replica ::
  "'w env \<Rightarrow> controller \<Rightarrow> string \<Rightarrow> string \<Rightarrow> 'w shared \<Rightarrow> ('w, (rpc_status + string \<times> string) \<times> 'w shared) io" where
  "promote_replica E ct vid snap_dir sh =
     (let name = local_name E vid; dest = subvol_path ct name in do {
        r \<leftarrow> writable_snapshot E ''replica'' snap_dir dest;
        case r of
          Inl e \<Rightarrow> State_Monad.return (Inl e, sh)
        | Inr _ \<Rightarrow> do {
            old \<leftarrow> attr_value E snap_dir ''volume_id'';
            _ \<leftarrow> (if old \<noteq> None then set_csi_attr E dest ''volume_id'' vid
                  else State_Monad.return (Inr ()));
            _ \<leftarrow> copy_attrs E snap_dir dest copied_attrs;
            sh' \<leftarrow> take_over E ct vid dest sh;
            State_Monad.return (Inr (name, dest), sh')
          }
      })"

text \<open>Promote a replica that was just pulled.\<close>

definition promote_synced ::
  "'w env \<Rightarrow> controller \<Rightarrow> string \<Rightarrow> string \<Rightarrow> 'w shared \<Rightarrow> ('w, (rpc_status + string \<times> string) \<times> 'w shared) io" where
  "promote_synced E ct vid snap_dir sh =
     (let name = local_name E vid; dest = subvol_path ct name in do {
        r \<leftarrow> writable_snapshot E ''synced replica'' snap_dir dest;
        case r of
          Inl e \<Rightarrow> State_Monad.return (Inl e, sh)
        | Inr _ \<Rightarrow> do {
            _ \<leftarrow> set_csi_attr E dest ''volume_id'' vid;
            sh' \<leftarrow> take_over E ct vid dest sh;
            State_Monad.return (Inr (name, dest), sh')
          }
      })"

text \<open>No local data: pull the volume from the first peer that is not this node. The answer to the
  lease request is not used.\<close>

definition fetch_volume ::
  "nat \<Rightarrow> 'w env \<Rightarrow> controller \<Rightarrow> string \<Rightarrow> string \<Rightarrow> 'w shared
     \<Rightarrow> ('w, ((rpc_status + string \<times> string) \<times> 'w shared) option) io" where
  "fetch_volume fuel E ct vid snap_dir sh = do {
     _ \<leftarrow> request_quorum_lease E (ct_config ct) (sh_gossip sh) vid 0 [];
     case find (\<lambda>p. ni_id p \<noteq> ct_node_id ct) (map snd (peers (sh_gossip sh))) of
       None \<Rightarrow> State_Monad.return (Some (Inl (NotFound (''Volume '' @ vid @
                 '' not found locally and no peer has it'')), sh))
     | Some source \<Rightarrow>
         opt_bind (sync_volume_from fuel E (ct_config ct) vid (ni_addr source))
           (\<lambda>r. case r of
                  Inl e \<Rightarrow> State_Monad.return (Some (Inl (Internal (''Failed to sync volume: '' @ e)), sh))
                | Inr _ \<Rightarrow> do {
                    there \<leftarrow> path_exists E snap_dir;
                    if there then lift_some (promote_synced E ct vid snap_dir sh)
                    else State_Monad.return (Some (Inl (Internal (''Volume '' @ vid @ '' sync from '' @
                           ni_id source @ '' completed but replica not found'')), sh))
                  })
   }"

text \<open>Where the volume is, after making it local when it is not: its name and its path.\<close>

definition locate_volume ::
  "nat \<Rightarrow> 'w env \<Rightarrow> controller \<Rightarrow> string \<Rightarrow> 'w shared
     \<Rightarrow> ('w, ((rpc_status + string \<times> string) \<times> 'w shared) option) io" where
  "locate_volume fuel E ct vid sh = do {
     found \<leftarrow> find_by_attr E (ct_data_dir ct) ''volume_id'' vid;
     case found of
       Some name \<Rightarrow> State_Monad.return (Some (Inr (name, path_join (ct_data_dir ct) name), sh))
     | None \<Rightarrow> do {
         let snap_dir = snapshot_dir (replication (ct_config ct)) @ ''/'' @ vid;
         there \<leftarrow> path_exists E snap_dir;
         if there then lift_some (promote_replica E ct vid snap_dir sh)
         else fetch_volume fuel E ct vid snap_dir sh
       }
   }"

text \<open>What the answer to the lease request means: an error, or whether the volume is read-only.\<close>

definition apply_lease :: "'w env \<Rightarrow> string \<Rightarrow> string \<Rightarrow> lease \<Rightarrow> ('w, rpc_status + bool) io" where
  "apply_lease E vid path q =
     (if ql_conflict q then do {
        _ \<leftarrow> set_volume_status E path VOLUME_STATUS_CONFLICT;
        State_Monad.return (Inl (FailedPrecondition (''Volume '' @ vid @
          '' is in CONFLICT state after quorum check ('' @ show_u32 (ql_votes_received q) @ '' '' @
          show_u32 (ql_votes_needed q) @ '')'')))
      }
      else if \<not> ql_granted q then do {
        _ \<leftarrow> set_volume_status E path VOLUME_STATUS_READONLY;
        State_Monad.return (Inr True)
      }
      else do {
        _ \<leftarrow> set_volume_status E path VOLUME_STATUS_ACTIVE;
        State_Monad.return (Inr False)
      })"

definition publish_located ::
  "'w env \<Rightarrow> controller \<Rightarrow> string \<Rightarrow> string \<Rightarrow> string \<Rightarrow> string \<Rightarrow> 'w gossip \<Rightarrow> ('w, rpc_status + string) io" where
  "publish_located E ct vid node name path g = do {
     epoch \<leftarrow> get_epoch E path;
     clock \<leftarrow> get_vector_clock E path;
     st \<leftarrow> get_volume_status E path;
     if st = VOLUME_STATUS_CONFLICT then
       State_Monad.return (Inl (FailedPrecondition (''Volume '' @ vid @
         '' is in CONFLICT state. Manual resolution required via btrfs send/receive.'')))
     else do {
       r \<leftarrow> request_quorum_lease E (ct_config ct) g vid epoch clock;
       case r of
         Inl _ \<Rightarrow> State_Monad.return (Inl (Internal ''Quorum check failed''))
       | Inr q \<Rightarrow>
           and_then (apply_lease E vid path q)
             (\<lambda>readonly. do {
                _ \<leftarrow> add_published_node E ct name node;
                State_Monad.return (Inr (unwrap_or (context_to (js E)
                  \<lparr>pc_path = subvol_path ct name, pc_node_id = ct_node_id ct, pc_readonly = readonly\<rparr>) []))
              })
     }
   }"

definition controller_publish_volume ::
  "nat \<Rightarrow> 'w env \<Rightarrow> controller \<Rightarrow> string \<Rightarrow> string \<Rightarrow> 'w shared
     \<Rightarrow> ('w, ((rpc_status + string) \<times> 'w shared) option) io" where
  "controller_publish_volume fuel E ct vid node sh =
     opt_bind (locate_volume fuel E ct vid sh)
       (\<lambda>(r, sh'). case r of
          Inl e \<Rightarrow> State_Monad.return (Some (Inl e, sh'))
        | Inr (name, path) \<Rightarrow> do {
            a \<leftarrow> publish_located E ct vid node name path (sh_gossip sh');
            State_Monad.return (Some (a, sh'))
          })"

text \<open>The final synchronisation's result is not used, only its effect on the replication states.\<close>

definition controller_unpublish_volume ::
  "nat \<Rightarrow> 'w env \<Rightarrow> controller \<Rightarrow> string \<Rightarrow> string \<Rightarrow> 'w shared \<Rightarrow> ('w, 'w shared option) io" where
  "controller_unpublish_volume fuel E ct vid node sh = do {
     found \<leftarrow> find_by_attr E (ct_data_dir ct) ''volume_id'' vid;
     opt_bind
       (case found of
          None \<Rightarrow> State_Monad.return (Some sh)
        | Some name \<Rightarrow> do {
            let path = path_join (ct_data_dir ct) name;
            n \<leftarrow> get_replica_count E path;
            opt_bind
              (if 0 < n then
                 opt_bind (replicate_volume fuel E (ct_config ct) (sh_gossip sh) (sh_states sh) vid)
                   (\<lambda>(_, ss). State_Monad.return (Some (sh\<lparr>sh_states := ss\<rparr>)))
               else State_Monad.return (Some sh))
              (\<lambda>sh'. do {
                 _ \<leftarrow> remove_published_node E ct name node;
                 _ \<leftarrow> set_volume_status E path VOLUME_STATUS_ACTIVE;
                 State_Monad.return (Some sh')
               })
          })
       (\<lambda>sh'. do {
          _ \<leftarrow> notify_volume_unpublish E (ct_config ct) (sh_gossip sh') vid node;
          State_Monad.return (Some sh')
        })
   }"

section \<open>Listing\<close>

text \<open>The paging both list operations use. Positions are \<open>usize\<close>, the size of a page is an \<open>i32\<close>
  cast to it, and the sum wraps.\<close>

definition page_size :: "u32 \<Rightarrow> u64" where
  "page_size max_entries = word_of_int (sint max_entries)"

definition paginate :: "'a list \<Rightarrow> u32 \<Rightarrow> string \<Rightarrow> 'a list \<times> string" where
  "paginate entries max_entries starting_token =
     (let start = unwrap_or (parse_u64 starting_token) 0; m = page_size max_entries in
      if 0 < m \<and> unat (start + m) < length entries
      then (take (unat m) (drop (unat start) entries), show_u64 (start + m))
      else (if 0 < start then drop (unat start) entries else entries, []))"

definition attr_u64 :: "'w env \<Rightarrow> string \<Rightarrow> string \<Rightarrow> ('w, u64) io" where
  "attr_u64 E path k = do {
     v \<leftarrow> attr_value E path k;
     State_Monad.return (unwrap_or (Option.bind v parse_u64) 0)
   }"

definition attr_i64 :: "'w env \<Rightarrow> string \<Rightarrow> string \<Rightarrow> ('w, i64) io" where
  "attr_i64 E path k = do {
     v \<leftarrow> attr_value E path k;
     State_Monad.return (unwrap_or (Option.bind v parse_i64) 0)
   }"

fun volume_entries :: "'w env \<Rightarrow> string \<Rightarrow> string list \<Rightarrow> ('w, csi_volume list) io" where
  "volume_entries E dir [] = State_Monad.return []"
| "volume_entries E dir (name # rest) = do {
     v \<leftarrow> attr_value E (path_join dir name) ''volume_id'';
     case v of
       None \<Rightarrow> volume_entries E dir rest
     | Some vid \<Rightarrow> do {
         size \<leftarrow> attr_u64 E (path_join dir name) ''size'';
         vs \<leftarrow> volume_entries E dir rest;
         State_Monad.return (\<lparr>v_volume_id = vid, v_capacity_bytes = size, v_capability = None\<rparr> # vs)
       }
   }"

definition list_volumes ::
  "'w env \<Rightarrow> controller \<Rightarrow> u32 \<Rightarrow> string \<Rightarrow> ('w, csi_volume list \<times> string) io" where
  "list_volumes E ct max_entries starting_token = do {
     names \<leftarrow> read_dir E (ct_data_dir ct);
     entries \<leftarrow> (case names of
                   None \<Rightarrow> State_Monad.return []
                 | Some ns \<Rightarrow> volume_entries E (ct_data_dir ct) ns);
     State_Monad.return (paginate entries max_entries starting_token)
   }"

fun snapshot_entries :: "'w env \<Rightarrow> string \<Rightarrow> string \<Rightarrow> string list \<Rightarrow> ('w, csi_snapshot list) io" where
  "snapshot_entries E dir source [] = State_Monad.return []"
| "snapshot_entries E dir source (name # rest) = do {
     let path = path_join dir name;
     v \<leftarrow> attr_value E path ''snapshot_id'';
     case v of
       None \<Rightarrow> snapshot_entries E dir source rest
     | Some sid \<Rightarrow> do {
         src \<leftarrow> attr_value E path ''source_volume_id'';
         size \<leftarrow> attr_u64 E path ''size'';
         ctime \<leftarrow> attr_i64 E path ''creation_time'';
         ss \<leftarrow> snapshot_entries E dir source rest;
         State_Monad.return
           (if source \<noteq> [] \<and> unwrap_or src [] \<noteq> source then ss
            else \<lparr>cs_snapshot_id = sid, cs_source_volume_id = unwrap_or src [],
                  cs_creation_time = ctime, cs_size_bytes = size\<rparr> # ss)
       }
   }"

definition csi_list_snapshots ::
  "'w env \<Rightarrow> controller \<Rightarrow> u32 \<Rightarrow> string \<Rightarrow> string \<Rightarrow> ('w, csi_snapshot list \<times> string) io" where
  "csi_list_snapshots E ct max_entries starting_token source = do {
     names \<leftarrow> read_dir E (ct_data_dir ct);
     entries \<leftarrow> (case names of
                   None \<Rightarrow> State_Monad.return []
                 | Some ns \<Rightarrow> snapshot_entries E (ct_data_dir ct) source ns);
     State_Monad.return (paginate entries max_entries starting_token)
   }"

section \<open>Capacity, validation and expansion\<close>

text \<open>A topology requirement is the list of the segment maps it requires.\<close>

definition zone_matches :: "controller \<Rightarrow> string hmap list \<Rightarrow> bool" where
  "zone_matches ct requisite = list_ex (\<lambda>t. hm_get t ''topology.btrfs-csi/zone'' = Some (ct_zone ct)) requisite"

definition get_capacity :: "'w env \<Rightarrow> controller \<Rightarrow> string hmap list option \<Rightarrow> ('w, rpc_status + i64) io" where
  "get_capacity E ct topology =
     (if (case topology of None \<Rightarrow> False | Some requisite \<Rightarrow> \<not> zone_matches ct requisite \<and> requisite \<noteq> [])
      then State_Monad.return (Inr 0)
      else do {
        r \<leftarrow> run_cmd E ''btrfs'' [''filesystem'', ''usage'', ''-b'', ct_data_dir ct];
        State_Monad.return
          (case r of
             Inl _ \<Rightarrow> Inl (Internal ''Failed to get usage'')
           | Inr output \<Rightarrow> Inr (parse_btrfs_free_space (stdout output)))
      })"

definition volume_not_found :: "string \<Rightarrow> rpc_status" where
  "volume_not_found vid = NotFound (''Volume '' @ vid @ '' not found'')"

definition validate_volume_capabilities ::
  "'w env \<Rightarrow> controller \<Rightarrow> string \<Rightarrow> volume_capability list \<Rightarrow> ('w, rpc_status + volume_capability list) io" where
  "validate_volume_capabilities E ct vid caps = do {
     found \<leftarrow> find_by_attr E (ct_data_dir ct) ''volume_id'' vid;
     State_Monad.return (if found = None then Inl (volume_not_found vid) else Inr caps)
   }"

definition controller_expand_volume ::
  "'w env \<Rightarrow> controller \<Rightarrow> string \<Rightarrow> i64 option \<Rightarrow> ('w, i64 \<times> bool) io" where
  "controller_expand_volume E ct vid required = do {
     let new_capacity = unwrap_or required 0;
     found \<leftarrow> find_by_attr E (ct_data_dir ct) ''volume_id'' vid;
     _ \<leftarrow> (case found of
            None \<Rightarrow> State_Monad.return ()
          | Some name \<Rightarrow> do {
              r \<leftarrow> run_cmd E ''btrfs'' [''filesystem'', ''resize'', ''max'', path_join (ct_data_dir ct) name];
              case r of
                Inl _ \<Rightarrow> State_Monad.return ()
              | Inr output \<Rightarrow>
                  (if success output then set_vol_xattr E ct name ''size'' (show_i64 new_capacity)
                   else State_Monad.return ())
            });
     State_Monad.return (new_capacity, True)
   }"

definition controller_get_volume :: "'w env \<Rightarrow> controller \<Rightarrow> string \<Rightarrow> ('w, rpc_status + csi_volume) io" where
  "controller_get_volume E ct vid = do {
     found \<leftarrow> find_by_attr E (ct_data_dir ct) ''volume_id'' vid;
     case found of
       None \<Rightarrow> State_Monad.return (Inl (volume_not_found vid))
     | Some name \<Rightarrow> do {
         size \<leftarrow> attr_u64 E (path_join (ct_data_dir ct) name) ''size'';
         State_Monad.return (Inr \<lparr>v_volume_id = vid, v_capacity_bytes = size, v_capability = None\<rparr>)
       }
   }"

text \<open>No capability of the controller is announced.\<close>

definition controller_get_capabilities :: "nat list" where
  "controller_get_capabilities = []"

section \<open>Snapshots of volumes\<close>

definition existing_snapshot ::
  "'w env \<Rightarrow> controller \<Rightarrow> string \<Rightarrow> string \<Rightarrow> ('w, csi_snapshot) io" where
  "existing_snapshot E ct name sid = do {
     source \<leftarrow> volume_xattr E ct name ''source_volume_id'';
     ctime \<leftarrow> attr_i64 E (subvol_path ct name) ''creation_time'';
     size \<leftarrow> attr_u64 E (subvol_path ct name) ''size'';
     State_Monad.return \<lparr>cs_snapshot_id = sid, cs_source_volume_id = unwrap_or source [],
       cs_creation_time = ctime, cs_size_bytes = size\<rparr>
   }"

text \<open>\<open>Utc::now().timestamp()\<close>, in whole seconds.\<close>

definition timestamp :: "int \<Rightarrow> i64" where
  "timestamp t = word_of_int (t div 1000000000)"

definition new_csi_snapshot ::
  "'w env \<Rightarrow> controller \<Rightarrow> string \<Rightarrow> string \<Rightarrow> ('w, rpc_status + csi_snapshot) io" where
  "new_csi_snapshot E ct name source = do {
     found \<leftarrow> find_by_attr E (ct_data_dir ct) ''volume_id'' source;
     case found of
       None \<Rightarrow> State_Monad.return (Inl (NotFound (''Source volume '' @ source @ '' not found'')))
     | Some source_name \<Rightarrow> do {
         r \<leftarrow> run_cmd E ''btrfs'' [''subvolume'', ''snapshot'', ''-r'', subvol_path ct source_name, subvol_path ct name];
         case r of
           Inl _ \<Rightarrow> State_Monad.return (Inl (Internal ''Failed to create snapshot''))
         | Inr output \<Rightarrow>
             (if \<not> success output then
                State_Monad.return (Inl (Internal (''Failed to create snapshot: '' @ stderr output)))
              else do {
                sid \<leftarrow> snapshot_id E;
                t \<leftarrow> utc_now E;
                _ \<leftarrow> set_vol_xattr E ct name ''snapshot_id'' sid;
                _ \<leftarrow> set_vol_xattr E ct name ''source_volume_id'' source;
                _ \<leftarrow> set_vol_xattr E ct name ''snapshot_name'' name;
                _ \<leftarrow> set_vol_xattr E ct name ''size'' (show_u64 0);
                _ \<leftarrow> set_vol_xattr E ct name ''creation_time'' (show_i64 (timestamp t));
                State_Monad.return (Inr \<lparr>cs_snapshot_id = sid, cs_source_volume_id = source,
                  cs_creation_time = timestamp t, cs_size_bytes = 0\<rparr>)
              })
       }
   }"

definition csi_create_snapshot ::
  "'w env \<Rightarrow> controller \<Rightarrow> string \<Rightarrow> string \<Rightarrow> ('w, rpc_status + csi_snapshot) io" where
  "csi_create_snapshot E ct name source =
     (case validate_volume_name name of
        Inl e \<Rightarrow> State_Monad.return (Inl e)
      | Inr _ \<Rightarrow> do {
          there \<leftarrow> subvol_exists E (subvol_path ct name);
          sid \<leftarrow> (if there then volume_xattr E ct name ''snapshot_id'' else State_Monad.return None);
          case sid of
            Some i \<Rightarrow> do { s \<leftarrow> existing_snapshot E ct name i; State_Monad.return (Inr s) }
          | None \<Rightarrow> new_csi_snapshot E ct name source
        })"

definition csi_delete_snapshot :: "'w env \<Rightarrow> controller \<Rightarrow> string \<Rightarrow> ('w, unit) io" where
  "csi_delete_snapshot E ct sid = do {
     found \<leftarrow> find_by_attr E (ct_data_dir ct) ''snapshot_id'' sid;
     case found of
       None \<Rightarrow> State_Monad.return ()
     | Some name \<Rightarrow> run_ignored E ''btrfs'' [''subvolume'', ''delete'', subvol_path ct name]
   }"

end
