(* ===== verification/Controller_Props.thy ===== *)
theory Controller_Props
  imports Csi_Controller
begin

text \<open>
  Theorems about the CSI controller that concern one handler or helper: which names are accepted,
  that paging lists everything once, and that the \<open>published\<close> attribute is a set of nodes.
\<close>

section \<open>Volume names\<close>

lemma name_char_no_separator: "name_char c \<Longrightarrow> c \<noteq> CHR ''/'' \<and> c \<noteq> CHR 0x5C \<and> c \<noteq> CHR 0x00"
  by (auto simp: name_char_def is_ascii_alphanumeric_def is_digit_def)

lemma validate_volume_name_iff:
  "validate_volume_name name = Inr () \<longleftrightarrow>
     name \<noteq> [] \<and> length name \<le> 255 \<and> list_all name_char name \<and> \<not> contains_str name ''..''"
  using name_char_no_separator by (auto simp: validate_volume_name_def list_all_iff)

lemma split_on_snoc: "d \<notin> set t \<Longrightarrow> split_on d (s @ [d] @ t) = split_on d s @ [t]"
  unfolding split_on_def by (simp add: split_by_append_sep) (rule split_by_free, auto)

lemma name_char_iff:
  "name_char c \<longleftrightarrow> c \<in> {CHR ''a''..CHR ''z''} \<union> {CHR ''A''..CHR ''Z''} \<union> {CHR ''0''..CHR ''9''} \<union> {CHR ''-'', CHR ''_'', CHR ''.''}"
  by (auto simp: name_char_def is_ascii_alphanumeric_def is_digit_def less_eq_char_def)

text \<open>C12. A volume name is accepted exactly when it has 1 to 255 characters, all of them ASCII
  letters, digits, \<open>-\<close>, \<open>_\<close> or \<open>.\<close>, and no two consecutive dots; and then the path of the volume is
  the data directory with that name as one more component, which is not \<open>..\<close>: no accepted name
  leads out of the data directory.\<close>

theorem accepted_name_stays_inside:
  "(validate_volume_name name = Inr () \<longleftrightarrow>
      1 \<le> length name \<and> length name \<le> 255
      \<and> set name \<subseteq> {CHR ''a''..CHR ''z''} \<union> {CHR ''A''..CHR ''Z''} \<union> {CHR ''0''..CHR ''9''} \<union> {CHR ''-'', CHR ''_'', CHR ''.''}
      \<and> \<not> (\<exists>before after. name = before @ ''..'' @ after))
   \<and> (validate_volume_name name = Inr () \<longrightarrow>
        subvol_path ct name = ct_data_dir ct @ ''/'' @ name \<and> CHR ''/'' \<notin> set name \<and> name \<notin> {[], ''..''}
        \<and> split_on (CHR ''/'') (subvol_path ct name) = split_on (CHR ''/'') (ct_data_dir ct) @ [name])"
proof -
  have chars: "list_all name_char name \<longleftrightarrow> set name \<subseteq> {CHR ''a''..CHR ''z''} \<union> {CHR ''A''..CHR ''Z''}
      \<union> {CHR ''0''..CHR ''9''} \<union> {CHR ''-'', CHR ''_'', CHR ''.''}"
    unfolding list_all_iff name_char_iff by blast
  have "CHR ''/'' \<notin> set name" if "list_all name_char name"
    using that name_char_no_separator by (auto simp: list_all_iff)
  moreover have "contains_str name ''..'' \<longleftrightarrow> (\<exists>before after. name = before @ ''..'' @ after)"
    by (rule contains_str_iff)
  moreover have "name \<noteq> ''..''" if "\<not> (\<exists>before after. name = before @ ''..'' @ after)"
    using that by (metis append_Nil append_Nil2)
  ultimately show ?thesis
    using split_on_snoc [of "CHR ''/''" name "ct_data_dir ct"]
    unfolding validate_volume_name_iff chars [symmetric]
    by (auto simp: subvol_path_def Suc_le_eq)
qed

definition sample_controller :: controller where
  "sample_controller = \<lparr>ct_node_id = ''a'', ct_zone = ''z'', ct_data_dir = ''/data'',
     ct_config = sample_config ''a'', ct_profiles = []\<rparr>"

theorem accepted_name_stays_inside_witness:
  "split_on (CHR ''/'') (subvol_path sample_controller ''pvc-1'') = [[], ''data'', ''pvc-1'']"
proof -
  have "validate_volume_name ''pvc-1'' = Inr ()"
    by (simp add: validate_volume_name_def name_char_def is_ascii_alphanumeric_def is_digit_def)
  with accepted_name_stays_inside [of "''pvc-1''" sample_controller] show ?thesis
    by (simp add: sample_controller_def split_on_def)
qed

text \<open>A single dot is accepted, and denotes the data directory itself.\<close>

lemma dot_is_accepted: "validate_volume_name ''.'' = Inr ()"
  by (simp add: validate_volume_name_def name_char_def)

section \<open>Paging\<close>

text \<open>A client that follows the tokens until there is none.\<close>

fun all_pages :: "nat \<Rightarrow> 'a list \<Rightarrow> u32 \<Rightarrow> string \<Rightarrow> 'a list option" where
  "all_pages 0 xs m token = None"
| "all_pages (Suc fuel) xs m token =
     (let (page, next) = paginate xs m token in
      if next = [] then Some page else map_option (\<lambda>rest. page @ rest) (all_pages fuel xs m next))"

lemma page_size_pos:
  assumes "0 < sint m"
  shows "unat (page_size m) = nat (sint m) \<and> nat (sint m) < 2 ^ 31"
proof -
  have "sint m < 2 ^ 31" using sint_lt [of m] by simp
  with assms have "uint (page_size m) = sint m"
    unfolding page_size_def by (subst uint_word_of_int) simp
  with \<open>sint m < 2 ^ 31\<close> assms show ?thesis by (metis unat_eq_nat_uint nat_less_numeral_power_cancel_iff)
qed

lemma unat_u64_of_nat: "n < 2 ^ 64 \<Longrightarrow> unat (word_of_nat n :: u64) = n"
  by (simp add: unat_of_nat)

lemma parse_u64_Nil [simp]: "parse_u64 [] = None"
  by (simp add: parse_u64_def parse_bounded_def strip_plus_def parse_digits_def)

lemma show_u64_not_Nil [simp]: "show_u64 w \<noteq> []"
  by (simp add: show_u64_def)

lemma paginate_at:
  assumes "0 < sint m" "n < 2 ^ 62" "length xs < 2 ^ 62"
  shows "paginate xs m (show_u64 (word_of_nat n)) =
     (if n + nat (sint m) < length xs
      then (take (nat (sint m)) (drop n xs), show_u64 (word_of_nat (n + nat (sint m))))
      else (drop n xs, []))"
proof -
  note size = page_size_pos [OF assms(1)]
  have n: "unat (word_of_nat n :: u64) = n" using assms(2) by (simp add: unat_of_nat)
  have pos: "0 < page_size m" using size assms(1) by (simp add: word_less_nat_alt)
  have sum: "word_of_nat n + page_size m = (word_of_nat (n + nat (sint m)) :: u64)"
  proof -
    have "page_size m = word_of_nat (nat (sint m))"
      using size by (simp add: word_unat_eq_iff unat_of_nat)
    then show ?thesis by simp
  qed
  have "unat (word_of_nat (n + nat (sint m)) :: u64) = n + nat (sint m)"
    using assms(2) size by (intro unat_u64_of_nat) simp
  with n pos sum size show ?thesis
    by (auto simp: paginate_def Let_def word_less_nat_alt)
qed


lemma all_pages_from:
  assumes "0 < sint m" "length xs < 2 ^ 62"
  shows "n < 2 ^ 62 \<Longrightarrow> length xs - n < fuel \<Longrightarrow>
           all_pages fuel xs m (show_u64 (word_of_nat n)) = Some (drop n xs)"
proof (induction fuel arbitrary: n)
  case 0
  then show ?case by simp
next
  case (Suc fuel)
  show ?case
  proof (cases "n + nat (sint m) < length xs")
    case True
    with Suc.prems assms have "all_pages fuel xs m (show_u64 (word_of_nat (n + nat (sint m))))
        = Some (drop (n + nat (sint m)) xs)"
      by (intro Suc.IH) auto
    moreover have "take (nat (sint m)) (drop n xs) @ drop (n + nat (sint m)) xs = drop n xs"
      by (metis add.commute append_take_drop_id drop_drop)
    ultimately show ?thesis using True by (simp add: paginate_at [OF assms(1) Suc.prems(1) assms(2)])
  next
    case False
    then show ?thesis by (simp add: paginate_at [OF assms(1) Suc.prems(1) assms(2)])
  qed
qed

text \<open>C13. Listing in pages is the same as listing at once: a client that starts without a token and
  follows \<open>next_token\<close> with any positive page size gets, after finitely many requests, the
  concatenation of pages equal to the whole list, every entry once and in order. (Fuel one more
  than the number of entries is always enough.) A page size of 0 gives the whole list at once.\<close>

theorem paging_is_complete:
  assumes "0 \<le> sint m" "length xs < 2 ^ 62" "length xs < fuel"
  shows "all_pages fuel xs m [] = Some xs"
proof -
  obtain k where k: "fuel = Suc k" using assms(3) by (cases fuel) auto
  have first: "paginate xs m [] = paginate xs m (show_u64 (word_of_nat 0))"
    by (simp add: paginate_def)
  show ?thesis
  proof (cases "sint m = 0")
    case True
    then show ?thesis by (simp add: k paginate_def page_size_def)
  next
    case False
    with assms(1) have "0 < sint m" by simp
    from all_pages_from [OF this assms(2), of 0 fuel] assms(3) show ?thesis by (simp add: k first)
  qed
qed

theorem paging_is_complete_witness:
  "all_pages 4 [10, 20, 30 :: nat] 2 [] = Some [10, 20, 30]"
  using paging_is_complete [of 2 "[10, 20, 30 :: nat]" 4] by simp

section \<open>The set of nodes a volume is published on\<close>

text \<open>A set kept in some representation, with the node names it can hold.\<close>

locale node_set =
  fixes nodes :: "'v \<Rightarrow> string set" and ins :: "string \<Rightarrow> 'v \<Rightarrow> 'v" and del :: "string \<Rightarrow> 'v \<Rightarrow> 'v"
    and good :: "'v \<Rightarrow> bool" and nameable :: "string \<Rightarrow> bool"
  assumes nodes_ins: "good v \<Longrightarrow> nameable n \<Longrightarrow> nodes (ins n v) = insert n (nodes v)"
    and nodes_del: "good v \<Longrightarrow> nodes (del n v) = nodes v - {n}"
    and good_ins: "good v \<Longrightarrow> nameable n \<Longrightarrow> good (ins n v)"
    and good_del: "good v \<Longrightarrow> good (del n v)"
begin

text \<open>A sequence of changes, \<open>(True, n)\<close> to insert and \<open>(False, n)\<close> to delete.\<close>

lemma changes_refine:
  "good v \<Longrightarrow> (\<And>n. (True, n) \<in> set ops \<Longrightarrow> nameable n) \<Longrightarrow>
     good (foldl (\<lambda>v (add, n). if add then ins n v else del n v) v ops)
     \<and> nodes (foldl (\<lambda>v (add, n). if add then ins n v else del n v) v ops)
       = foldl (\<lambda>N (add, n). if add then insert n N else N - {n}) (nodes v) ops"
proof (induction ops arbitrary: v)
  case Nil
  then show ?case by simp
next
  case (Cons a ops)
  obtain add n where a: "a = (add, n)" by (metis surj_pair)
  show ?case
  proof (cases add)
    case True
    with Cons.prems a have "nameable n" by auto
    with True Cons a show ?thesis by (simp add: nodes_ins good_ins)
  next
    case False
    with Cons a show ?thesis by (simp add: nodes_del good_del)
  qed
qed

end

definition nameable :: "string \<Rightarrow> bool" where
  "nameable n \<longleftrightarrow> n \<noteq> [] \<and> hd n \<noteq> CHR ''0'' \<and>
     list_all (\<lambda>c. c \<noteq> CHR '','' \<and> \<not> is_ws c \<and> c \<noteq> CHR 0x22 \<and> c \<noteq> CHR 0x5C) n"

text \<open>The values of the attribute that the operations produce.\<close>

definition list_value :: "string list \<Rightarrow> string option" where
  "list_value ns = (if ns = [] then None else Some (join '','' ns))"

definition value_ok :: "string option \<Rightarrow> bool" where
  "value_ok v \<longleftrightarrow> (\<exists>ns. list_all nameable ns \<and> distinct ns \<and> v = list_value ns)"

definition published_add :: "string \<Rightarrow> string option \<Rightarrow> string option" where
  "published_add n v =
     (if n \<in> set (published_list v) then v else Some (join '','' (published_list v @ [n])))"

definition published_remove :: "string \<Rightarrow> string option \<Rightarrow> string option" where
  "published_remove n v = list_value (filter (\<lambda>m. m \<noteq> n) (published_list v))"

lemma nameable_trimmed: "nameable n \<Longrightarrow> trimmed n"
  by (rule no_ws_trimmed) (auto simp: nameable_def list_all_iff)

lemma published_list_value:
  assumes "list_all nameable ns"
  shows "published_list (list_value ns) = ns"
proof (cases "ns = []")
  case True
  then show ?thesis by (simp add: list_value_def published_list_def)
next
  case False
  have "split_on (CHR '','') (join '','' ns) = ns"
    using assms False by (intro split_on_join) (auto simp: nameable_def list_all_iff)
  moreover have "join '','' ns \<noteq> []"
    using assms False by (auto simp: join_eq_Nil nameable_def)
  moreover have "map trim ns = ns"
    using assms by (intro map_idI) (auto simp: list_all_iff nameable_trimmed)
  ultimately show ?thesis using False by (simp add: list_value_def published_list_def)
qed

lemma value_okE:
  assumes "value_ok v"
  obtains ns where "v = list_value ns" "published_list v = ns" "list_all nameable ns" "distinct ns"
  using assms that by (auto simp: value_ok_def published_list_value)

interpretation published: node_set "\<lambda>v. set (published_list v)" published_add published_remove value_ok nameable
proof
  fix v n
  assume "value_ok v" "nameable n"
  then obtain ns where ns: "v = list_value ns" "published_list v = ns" "list_all nameable ns" "distinct ns"
    by (elim value_okE)
  have "published_add n v = (if n \<in> set ns then v else list_value (ns @ [n]))"
    by (simp add: published_add_def ns(2) list_value_def)
  moreover have "value_ok (list_value (ns @ [n]))" if "n \<notin> set ns"
    unfolding value_ok_def using that ns \<open>nameable n\<close> by (intro exI [of _ "ns @ [n]"]) simp
  ultimately show "set (published_list (published_add n v)) = insert n (set (published_list v))"
    and "value_ok (published_add n v)"
    using ns \<open>nameable n\<close> \<open>value_ok v\<close> by (auto simp: published_list_value)
next
  fix v n
  assume "value_ok v"
  then obtain ns where ns: "v = list_value ns" "published_list v = ns" "list_all nameable ns" "distinct ns"
    by (elim value_okE)
  have keep: "list_all nameable (filter (\<lambda>m. m \<noteq> n) ns)" using ns by (auto simp: list_all_iff)
  have "published_remove n v = list_value (filter (\<lambda>m. m \<noteq> n) ns)"
    by (simp add: published_remove_def ns(2))
  with ns keep show "set (published_list (published_remove n v)) = set (published_list v) - {n}"
    and "value_ok (published_remove n v)"
    by (auto simp: published_list_value value_ok_def)
qed


text \<open>The operations on the attribute are the operations on its value.\<close>

lemma plain_join:
  assumes "list_all nameable ns"
  shows "plain_value (join '','' ns)"
proof (cases ns)
  case Nil
  then show ?thesis by (simp add: plain_value_def)
next
  case (Cons n ms)
  have "set (join '','' ns) \<subseteq> {CHR '',''} \<union> \<Union> (set ` set ns)" using set_join [of "'',''" ns] by simp
  moreover have "CHR 0x22 \<notin> set x \<and> CHR 0x5C \<notin> set x" if "x \<in> set ns" for x
    using assms that by (auto simp: list_all_iff nameable_def)
  moreover have "hd (join '','' ns) \<noteq> CHR ''0''" "join '','' ns \<noteq> []"
    using assms Cons by (cases ms; auto simp: nameable_def)+
  ultimately have quotes: "CHR 0x22 \<notin> set (join '','' ns)" "CHR 0x5C \<notin> set (join '','' ns)"
    and first: "hd (join '','' ns) \<noteq> CHR ''0''" "join '','' ns \<noteq> []"
    by blast+
  then obtain c t where "join '','' ns = c # t" "c \<noteq> CHR ''0''" by (metis list.exhaust_sel)
  with quotes show ?thesis unfolding plain_value_def by simp
qed

lemma trimmed_join:
  assumes "list_all nameable ns"
  shows "trim (join '','' ns) = join '','' ns"
proof (rule trim_trimmed, rule no_ws_trimmed)
  fix c assume "c \<in> set (join '','' ns)"
  then have "c = CHR '','' \<or> (\<exists>x \<in> set ns. c \<in> set x)" using set_join [of "'',''" ns] by auto
  moreover have "\<not> is_ws (CHR '','')" by (simp add: is_ws_def)
  moreover have "\<not> is_ws c" if "x \<in> set ns" "c \<in> set x" for x
    using that assms by (auto simp: list_all_iff nameable_def)
  ultimately show "\<not> is_ws c" by blast
qed

lemma value_ok_trim: "value_ok v \<Longrightarrow> map_option trim v = v"
  by (auto simp: value_ok_def list_value_def trimmed_join)

lemma get_published_run:
  assumes "xattr_tools_ok E view there"
  shows "run_io (get_published_nodes E ct name) w
       = (published_list (map_option trim (view w (subvol_path ct name) (full_key ''published''))), w)"
  by (simp add: get_published_nodes_def volume_xattr_def attr_value_run [OF assms])

text \<open>Storing a list of nodes.\<close>

lemma set_published_run:
  fixes name ct
  defines "p \<equiv> subvol_path ct name"
  assumes "xattr_tools_ok E view there" "there w p" "list_all nameable ms"
  shows "\<exists>w'. run_io (set_vol_xattr E ct name ''published'' (join '','' ms)) w = ((), w')
      \<and> view w' = (view w)(p := (view w p)(full_key ''published'' \<mapsto> join '','' ms)) \<and> there w' = there w"
proof -
  obtain w' where "run_io (set_csi_attr E p ''published'' (join '','' ms)) w = (Inr (), w')"
    "view w' = (view w)(p := (view w p)(full_key ''published'' \<mapsto> join '','' ms))" "there w' = there w"
    using set_csi_attr_run [OF assms(2) plain_join [OF assms(4)] assms(3)] by blast
  then show ?thesis by (intro exI [of _ w']) (simp add: set_vol_xattr_def flip: p_def)
qed

lemma published_change_run:
  fixes name ct
  defines "p \<equiv> subvol_path ct name"
  assumes "xattr_tools_ok E view there" "there w p" "value_ok (view w p (full_key ''published''))"
    and "add \<Longrightarrow> nameable n"
  obtains w' where
    "run_io (if add then add_published_node E ct name n else remove_published_node E ct name n) w = ((), w')"
    "view w' = (view w)(p := (view w p)(full_key ''published'' :=
        (if add then published_add n else published_remove n) (view w p (full_key ''published''))))"
    "there w' = there w"
proof -
  let ?v = "view w p (full_key ''published'')"
  obtain ns where ns: "?v = list_value ns" "published_list ?v = ns" "list_all nameable ns" "distinct ns"
    using assms(4) by (elim value_okE)
  have get: "run_io (get_published_nodes E ct name) w = (ns, w)"
    using ns(2) by (simp add: get_published_run [OF assms(2)] value_ok_trim assms(4) flip: p_def)
  note set = set_published_run [of E view there w ct name, folded p_def, OF assms(2,3)]
  show ?thesis
  proof (cases add)
    case True
    then have "list_all nameable (ns @ [n])" using ns assms(5) by simp
    then obtain w' where w': "run_io (set_vol_xattr E ct name ''published'' (join '','' (ns @ [n]))) w = ((), w')"
      "view w' = (view w)(p := (view w p)(full_key ''published'' \<mapsto> join '','' (ns @ [n])))" "there w' = there w"
      using set by blast
    show ?thesis
    proof (cases "n \<in> set ns")
      case True
      with \<open>add\<close> get ns(2) show ?thesis
        by (intro that [of w]) (simp_all add: add_published_node_def published_add_def)
    next
      case False
      with \<open>add\<close> get ns(2) w' show ?thesis
        by (intro that [of w']) (simp_all add: add_published_node_def published_add_def)
    qed
  next
    case False
    define ms where "ms = filter (\<lambda>m. m \<noteq> n) ns"
    have ms: "list_all nameable ms" using ns by (auto simp: ms_def list_all_iff)
    show ?thesis
    proof (cases "ms = []")
      case True
      obtain out w' where "run_io (run_cmd E ''setfattr'' [''-x'', full_key ''published'', ''--'', p]) w = (Inr out, w')"
        "view w' = (view w)(p := (view w p)(full_key ''published'' := None))" "there w' = there w"
        using xattr_removeD [OF assms(2)] by blast
      with True False get ns(2) show ?thesis
        by (intro that [of w']) (simp_all add: remove_published_node_def remove_csi_attr_def
            published_remove_def list_value_def ms_def Let_def flip: p_def)
    next
      case False2: False
      obtain w' where w': "run_io (set_vol_xattr E ct name ''published'' (join '','' ms)) w = ((), w')"
        "view w' = (view w)(p := (view w p)(full_key ''published'' \<mapsto> join '','' ms))" "there w' = there w"
        using set [OF ms] by blast
      with False False2 get ns(2) show ?thesis
        by (intro that [of w']) (simp_all add: remove_published_node_def published_remove_def
            list_value_def ms_def Let_def)
    qed
  qed
qed


text \<open>A sequence of publications and withdrawals on one volume, as the handlers perform them.\<close>

fun publish_ops :: "'w env \<Rightarrow> controller \<Rightarrow> string \<Rightarrow> (bool \<times> string) list \<Rightarrow> ('w, unit) io" where
  "publish_ops E ct name [] = State_Monad.return ()"
| "publish_ops E ct name ((add, n) # ops) = do {
     _ \<leftarrow> (if add then add_published_node E ct name n else remove_published_node E ct name n);
     publish_ops E ct name ops
   }"

lemma publish_ops_run:
  fixes name ct
  defines "p \<equiv> subvol_path ct name" and "k \<equiv> full_key ''published''"
  assumes "xattr_tools_ok E view there"
  shows "there w p \<Longrightarrow> value_ok (view w p k) \<Longrightarrow> (\<And>n. (True, n) \<in> set ops \<Longrightarrow> nameable n) \<Longrightarrow>
     view (snd (run_io (publish_ops E ct name ops) w)) p k
       = foldl (\<lambda>v (add, n). if add then published_add n v else published_remove n v) (view w p k) ops"
proof (induction ops arbitrary: w)
  case Nil
  then show ?case by simp
next
  case (Cons a ops)
  obtain add n where a: "a = (add, n)" by (metis surj_pair)
  with Cons.prems have "add \<Longrightarrow> nameable n" by simp
  then obtain w' where w': "run_io (if add then add_published_node E ct name n else remove_published_node E ct name n) w = ((), w')"
    "view w' = (view w)(p := (view w p)(k := (if add then published_add n else published_remove n) (view w p k)))"
    "there w' = there w"
    using published_change_run [OF assms(3), of w ct name add n] Cons.prems(1,2) unfolding p_def k_def by blast
  have "value_ok (view w' p k)"
    using w'(2) Cons.prems(2) \<open>add \<Longrightarrow> nameable n\<close> by (simp add: published.good_ins published.good_del)
  from Cons.IH [OF _ this] w' Cons.prems a show ?case by simp
qed

text \<open>C9. The comma-separated \<open>published\<close> attribute of a volume implements a set of nodes: after any
  sequence of publications and withdrawals on an existing volume that is published nowhere, the
  nodes the controller reads back are exactly those of the same sequence of insertions and
  deletions on an abstract set, each listed once. Node names are non-empty, do not start with
  \<open>0\<close> and contain no comma, white space, quote or backslash.\<close>

theorem published_refines_set:
  assumes "xattr_tools_ok E view there" "there w (subvol_path ct name)"
    and "view w (subvol_path ct name) (full_key ''published'') = None"
    and "\<And>n. (True, n) \<in> set ops \<Longrightarrow> nameable n"
    and "run_io (publish_ops E ct name ops) w = ((), w')"
  shows "set (fst (run_io (get_published_nodes E ct name) w'))
           = foldl (\<lambda>N (add, n). if add then insert n N else N - {n}) {} ops
       \<and> distinct (fst (run_io (get_published_nodes E ct name) w'))"
proof -
  have start: "value_ok None" "published_list None = []"
    by (auto simp: value_ok_def list_value_def published_list_def intro: exI [of _ "[]"])
  define v where "v = view w' (subvol_path ct name) (full_key ''published'')"
  have v: "v = foldl (\<lambda>v (add, n). if add then published_add n v else published_remove n v) None ops"
    using publish_ops_run [OF assms(1,2), of ops] assms(3-5) start by (simp add: v_def)
  then have ok: "value_ok v" and nodes: "set (published_list v)
      = foldl (\<lambda>N (add, n). if add then insert n N else N - {n}) {} ops"
    using published.changes_refine [OF start(1) assms(4)] start(2) by simp_all
  from ok have "distinct (published_list v)" by (elim value_okE) simp
  with ok nodes show ?thesis
    by (simp add: get_published_run [OF assms(1)] value_ok_trim flip: v_def)
qed

theorem published_refines_set_witness:
  "set (fst (run_io (get_published_nodes sample_env sample_controller ''vol1'')
       (snd (run_io (publish_ops sample_env sample_controller ''vol1''
          [(True, ''n1''), (True, ''n2''), (False, ''n1''), (True, ''n2'')]) sample_start)))) = {''n2''}"
proof -
  define ops where "ops = [(True, ''n1''), (True, ''n2''), (False, ''n1''), (True, ''n2'')]"
  have path: "subvol_path sample_controller ''vol1'' = ''/data/vol1''"
    by (simp add: subvol_path_def sample_controller_def)
  have h: "sample_there sample_start (subvol_path sample_controller ''vol1'')"
    "sample_view sample_start (subvol_path sample_controller ''vol1'') (full_key ''published'') = None"
    by (simp_all add: path sample_there_def sample_view_def sample_start_def full_key_def CSI_XATTR_PREFIX_def)
  have "nameable ''n1''" "nameable ''n2''" by (simp_all add: nameable_def is_ws_def)
  then have n: "\<And>n. (True, n) \<in> set ops \<Longrightarrow> nameable n" by (auto simp: ops_def)
  obtain w' where w': "run_io (publish_ops sample_env sample_controller ''vol1'' ops) sample_start = ((), w')"
    by (cases "run_io (publish_ops sample_env sample_controller ''vol1'' ops) sample_start") simp
  have "foldl (\<lambda>N (add, n). if add then insert n N else N - {n}) {} ops = {''n2''}"
    by (auto simp: ops_def)
  with published_refines_set [OF sample_xattr_ok h n w'] w' show ?thesis
    by (simp flip: ops_def)
qed

end
