(* ===== verification/Controller_Flow.thy ===== *)
theory Controller_Flow
  imports Controller_Props
begin

text \<open>
  Theorems about the CSI controller's main flows: looking a volume up, publishing it under a quorum
  lease, deleting it, taking a replica over, creating a volume, and snapshots of volumes.
\<close>

section \<open>Looking a volume up\<close>

lemma find_entry_run:
  assumes "xattr_tools_ok E view there"
  shows "run_io (find_entry E dir k wanted ns) w
       = (find (\<lambda>n. map_option trim (view w (path_join dir n) (full_key k)) = Some wanted) ns, w)"
  by (induction ns) (auto simp: attr_value_run [OF assms])

lemma find_by_attr_run:
  assumes "xattr_tools_ok E view there" "run_io (read_dir E dir) w = (Some ns, w)"
  shows "run_io (find_by_attr E dir k wanted) w
       = (find (\<lambda>n. map_option trim (view w (path_join dir n) (full_key k)) = Some wanted) ns, w)"
  by (simp add: find_by_attr_def assms(2) find_entry_run [OF assms(1)])

lemma get_volume_status_run:
  assumes "xattr_tools_ok E view there"
  shows "run_io (get_volume_status E p) w
       = (unwrap_or (map_option trim (view w p (full_key XATTR_VOLUME_STATUS))) VOLUME_STATUS_ACTIVE, w)"
  by (simp add: get_volume_status_def attr_value_run [OF assms])

lemma get_epoch_run:
  assumes "xattr_tools_ok E view there"
  shows "run_io (get_epoch E p) w
       = (unwrap_or (Option.bind (map_option trim (view w p (full_key XATTR_EPOCH))) parse_u64) 0, w)"
  by (simp add: get_epoch_def attr_value_run [OF assms])

lemma get_vector_clock_run:
  assumes "xattr_tools_ok E view there"
  shows "run_io (get_vector_clock E p) w
       = (unwrap_or (map_option parse_vector_clock (map_option trim (view w p (full_key XATTR_VECTOR_CLOCK)))) [], w)"
  by (simp add: get_vector_clock_def attr_value_run [OF assms])

text \<open>The three status values are stored as they are.\<close>

lemma plain_status:
  "s \<in> {VOLUME_STATUS_ACTIVE, VOLUME_STATUS_READONLY, VOLUME_STATUS_CONFLICT} \<Longrightarrow> plain_value s \<and> trim s = s"
proof -
  have "plain_value ''active'' \<and> plain_value ''readonly'' \<and> plain_value ''conflict''"
    by (simp add: plain_value_def)
  moreover have "trim ''active'' = ''active''" "trim ''readonly'' = ''readonly''" "trim ''conflict'' = ''conflict''"
    by (simp_all add: trim_def is_ws_def)
  moreover assume "s \<in> {VOLUME_STATUS_ACTIVE, VOLUME_STATUS_READONLY, VOLUME_STATUS_CONFLICT}"
  ultimately show ?thesis by (auto simp: status_values)
qed

lemma set_volume_status_run:
  assumes "xattr_tools_ok E view there" "there w p"
    and "s \<in> {VOLUME_STATUS_ACTIVE, VOLUME_STATUS_READONLY, VOLUME_STATUS_CONFLICT}"
  obtains w' where "run_io (set_volume_status E p s) w = (Inr (), w')"
    "view w' = (view w)(p := (view w p)(full_key XATTR_VOLUME_STATUS \<mapsto> s))" "there w' = there w"
    "fst (run_io (get_volume_status E p) w') = s"
proof -
  have s: "plain_value s" "trim s = s" using plain_status [OF assms(3)] by simp_all
  obtain w' where w': "run_io (set_csi_attr E p XATTR_VOLUME_STATUS s) w = (Inr (), w')"
    "view w' = (view w)(p := (view w p)(full_key XATTR_VOLUME_STATUS \<mapsto> s))" "there w' = there w"
    by (rule set_csi_attr_run [OF assms(1) s(1) assms(2)])
  with s show ?thesis
    by (intro that [of w']) (simp_all add: set_volume_status_def get_volume_status_run [OF assms(1)])
qed

section \<open>Publishing\<close>

definition published_on :: "('w \<Rightarrow> string \<Rightarrow> string \<Rightarrow> string option) \<Rightarrow> string \<Rightarrow> 'w \<Rightarrow> string set" where
  "published_on view p w = set (published_list (view w p (full_key ''published'')))"

definition context_of :: "'w env \<Rightarrow> controller \<Rightarrow> string \<Rightarrow> bool \<Rightarrow> string" where
  "context_of E ct name readonly = unwrap_or (context_to (js E)
     \<lparr>pc_path = subvol_path ct name, pc_node_id = ct_node_id ct, pc_readonly = readonly\<rparr>) []"

lemma publish_located_run:
  fixes E view there path w
  defines "st \<equiv> fst (run_io (get_volume_status E path) w)"
    and "e \<equiv> fst (run_io (get_epoch E path) w)" and "c \<equiv> fst (run_io (get_vector_clock E path) w)"
  assumes "xattr_tools_ok E view there"
  shows "run_io (publish_located E ct vid node name path g) w =
     (if st = VOLUME_STATUS_CONFLICT then
        (Inl (FailedPrecondition (''Volume '' @ vid @
           '' is in CONFLICT state. Manual resolution required via btrfs send/receive.'')), w)
      else case run_io (request_quorum_lease E (ct_config ct) g vid e c) w of
        (Inl _, w2) \<Rightarrow> (Inl (Internal ''Quorum check failed''), w2)
      | (Inr q, w2) \<Rightarrow>
         (case run_io (apply_lease E vid path q) w2 of
            (Inl x, w3) \<Rightarrow> (Inl x, w3)
          | (Inr readonly, w3) \<Rightarrow>
              (Inr (context_of E ct name readonly), snd (run_io (add_published_node E ct name node) w3))))"
  by (simp add: publish_located_def st_def e_def c_def get_volume_status_run [OF assms(4)] get_epoch_run [OF assms(4)]
      get_vector_clock_run [OF assms(4)] run_and_then context_of_def split: prod.splits sum.splits)

lemma apply_lease_run:
  assumes "xattr_tools_ok E view there" "there w p"
  obtains r w' where "run_io (apply_lease E vid p q) w = (r, w')"
    "view w' = (view w)(p := (view w p)(full_key XATTR_VOLUME_STATUS \<mapsto>
       (if ql_conflict q then VOLUME_STATUS_CONFLICT else if ql_granted q then VOLUME_STATUS_ACTIVE
        else VOLUME_STATUS_READONLY)))"
    "there w' = there w"
    "if ql_conflict q then \<exists>m. r = Inl (FailedPrecondition m) else r = Inr (\<not> ql_granted q)"
proof -
  define s where "s = (if ql_conflict q then VOLUME_STATUS_CONFLICT else if ql_granted q then VOLUME_STATUS_ACTIVE
      else VOLUME_STATUS_READONLY)"
  have "s \<in> {VOLUME_STATUS_ACTIVE, VOLUME_STATUS_READONLY, VOLUME_STATUS_CONFLICT}" by (simp add: s_def)
  then obtain w' where w': "run_io (set_volume_status E p s) w = (Inr (), w')"
    "view w' = (view w)(p := (view w p)(full_key XATTR_VOLUME_STATUS \<mapsto> s))" "there w' = there w"
    using set_volume_status_run [OF assms] by metis
  obtain r where "run_io (apply_lease E vid p q) w = (r, w')"
    "if ql_conflict q then \<exists>m. r = Inl (FailedPrecondition m) else r = Inr (\<not> ql_granted q)"
    using w'(1) by (cases "ql_conflict q"; cases "ql_granted q") (simp_all add: apply_lease_def s_def)
  with w' show ?thesis by (intro that [of r w']) (simp_all add: s_def)
qed


text \<open>The outcome of publishing under the lease \<open>q\<close>, from the world \<open>w2\<close> in which it was answered.\<close>

definition publish_settles ::
  "'w env \<Rightarrow> controller \<Rightarrow> ('w \<Rightarrow> string \<Rightarrow> string \<Rightarrow> string option) \<Rightarrow> string \<Rightarrow> string \<Rightarrow> string
     \<Rightarrow> lease \<Rightarrow> 'w \<Rightarrow> rpc_status + string \<Rightarrow> 'w \<Rightarrow> bool" where
  "publish_settles E ct view name path node q w2 r w' \<longleftrightarrow>
     (if ql_conflict q
      then (\<exists>m. r = Inl (FailedPrecondition m))
        \<and> fst (run_io (get_volume_status E path) w') = VOLUME_STATUS_CONFLICT
        \<and> published_on view path w' = published_on view path w2
      else r = Inr (context_of E ct name (\<not> ql_granted q))
        \<and> fst (run_io (get_volume_status E path) w')
            = (if ql_granted q then VOLUME_STATUS_ACTIVE else VOLUME_STATUS_READONLY)
        \<and> published_on view path w' = insert node (published_on view path w2))"

lemma publish_settled:
  assumes tools: "xattr_tools_ok E view there"
    and "fst (run_io (get_volume_status E path) w1) \<noteq> VOLUME_STATUS_CONFLICT"
    and lease: "run_io (request_quorum_lease E (ct_config ct) g vid
            (fst (run_io (get_epoch E path) w1)) (fst (run_io (get_vector_clock E path) w1))) w1 = (Inr q, w2)"
    and h: "path = subvol_path ct name" "there w2 path" "nameable node" "value_ok (view w2 path (full_key ''published''))"
    and pub: "run_io (publish_located E ct vid node name path g) w1 = (r, w')"
  shows "publish_settles E ct view name path node q w2 r w'"
proof -
  let ?k = "full_key ''published''" and ?s = "full_key XATTR_VOLUME_STATUS"
  have diff: "?k \<noteq> ?s" by (simp add: xattr_keys)
  note run = publish_located_run [OF tools]
  obtain x w3 where x: "run_io (apply_lease E vid path q) w2 = (x, w3)"
    "view w3 = (view w2)(path := (view w2 path)(?s \<mapsto>
       (if ql_conflict q then VOLUME_STATUS_CONFLICT else if ql_granted q then VOLUME_STATUS_ACTIVE
        else VOLUME_STATUS_READONLY)))"
    "there w3 = there w2"
    "if ql_conflict q then \<exists>m. x = Inl (FailedPrecondition m) else x = Inr (\<not> ql_granted q)"
    by (rule apply_lease_run [OF tools h(2)])
  show ?thesis
  proof (cases "ql_conflict q")
    case True
    with x(4) obtain m where m: "x = Inl (FailedPrecondition m)" by auto
    with x True pub assms(2) lease have "w' = w3" "r = Inl (FailedPrecondition m)" by (simp_all add: run)
    with x True plain_status diff show ?thesis
      by (auto simp: publish_settles_def get_volume_status_run [OF tools] published_on_def)
  next
    case no: False
    have v3: "view w3 path ?k = view w2 path ?k" using x(2) diff by simp
    obtain w4 where w4: "run_io (add_published_node E ct name node) w3 = ((), w4)"
      "view w4 = (view w3)(path := (view w3 path)(?k := published_add node (view w3 path ?k)))"
      using published_change_run [OF tools, of w3 ct name True node] x(3) h v3 by auto
    from x no pub assms(2) lease w4 have "w' = w4" "r = Inr (context_of E ct name (\<not> ql_granted q))"
      by (auto simp: run)
    with x no w4 v3 h diff plain_status show ?thesis
      by (auto simp: publish_settles_def get_volume_status_run [OF tools] published_on_def published.nodes_ins)
  qed
qed

text \<open>C7. What publishing does, on every branch. Locating the volume fails: that error is the
  answer. The volume's status is \<open>conflict\<close>: the request is refused before any peer is asked, and
  nothing changes. Otherwise a lease is requested with the epoch and clock read from the volume; on
  a conflict the request is refused and the volume is marked \<open>conflict\<close>, with the published nodes
  unchanged; without a quorum the volume is marked and handed out as read-only; with a quorum it is
  marked active and handed out writable; and in these two cases the node is added to the published
  ones. So a writable volume is handed out only under a granted lease.\<close>

theorem publish_outcome:
  assumes tools: "xattr_tools_ok E view there"
    and "run_io (locate_volume fuel E ct vid sh) w = (Some (located, sh'), w1)"
    and "run_io (controller_publish_volume fuel E ct vid node sh) w = (Some (r, sh2), w')"
  shows "sh2 = sh' \<and>
    (case located of
       Inl e \<Rightarrow> r = Inl e \<and> w' = w1
     | Inr (name, path) \<Rightarrow>
         (if fst (run_io (get_volume_status E path) w1) = VOLUME_STATUS_CONFLICT
          then (\<exists>m. r = Inl (FailedPrecondition m)) \<and> w' = w1
          else \<forall>q w2. run_io (request_quorum_lease E (ct_config ct) (sh_gossip sh') vid
                    (fst (run_io (get_epoch E path) w1)) (fst (run_io (get_vector_clock E path) w1))) w1 = (Inr q, w2)
               \<and> path = subvol_path ct name \<and> there w2 path \<and> nameable node
               \<and> value_ok (view w2 path (full_key ''published'')) \<longrightarrow>
             publish_settles E ct view name path node q w2 r w'))"
proof (cases located)
  case (Inl e)
  with assms(2,3) show ?thesis by (simp add: controller_publish_volume_def run_opt_bind)
next
  case (Inr np)
  obtain name path where np: "np = (name, path)" by (metis surj_pair)
  have pub: "run_io (publish_located E ct vid node name path (sh_gossip sh')) w1 = (r, w')" and sh: "sh2 = sh'"
    using assms(2,3) Inr np by (simp_all add: controller_publish_volume_def run_opt_bind split: prod.splits)
  show ?thesis
  proof (cases "fst (run_io (get_volume_status E path) w1) = VOLUME_STATUS_CONFLICT")
    case True
    then show ?thesis using pub sh by (auto simp: Inr np publish_located_run [OF tools])
  next
    case False
    show ?thesis
      unfolding Inr np sum.case prod.case if_not_P [OF False]
    proof (intro conjI allI impI)
      show "sh2 = sh'" by (rule sh)
    qed (elim conjE, rule publish_settled [OF tools False _ _ _ _ _ pub])
  qed
qed


definition sample_shared :: "sample shared" where
  "sample_shared = \<lparr>sh_gossip = new_gossip, sh_states = []\<rparr>"

lemma sample_paths:
  "subvol_path sample_controller ''vol1'' = ''/data/vol1''"
  "path_join (ct_data_dir sample_controller) ''vol1'' = ''/data/vol1''"
  "sample_there sample_start ''/data/vol1''"
  "run_io (read_dir sample_env (ct_data_dir sample_controller)) sample_start = (Some [''vol1''], sample_start)"
  by (simp_all add: subvol_path_def path_join_def sample_controller_def sample_there_def sample_start_def sample_env_simps)

lemma sample_attrs:
  "sample_view sample_start ''/data/vol1'' (full_key k) = (if k = ''volume_id'' then Some ''vol-1'' else None)"
  by (simp add: sample_view_def sample_start_def full_key_def CSI_XATTR_PREFIX_def)

lemma sample_found:
  "run_io (find_by_attr sample_env (ct_data_dir sample_controller) ''volume_id'' ''vol-1'') sample_start
     = (Some ''vol1'', sample_start)"
proof -
  have "trim ''vol-1'' = ''vol-1''" by (simp add: trim_def is_ws_def)
  then show ?thesis
    by (simp add: find_by_attr_run [OF sample_xattr_ok sample_paths(4)] sample_paths(2) sample_attrs)
qed

text \<open>On a node without peers the lease is granted and the sample volume is published writable.\<close>

theorem publish_outcome_witness:
  "\<exists>sh2 w'. run_io (controller_publish_volume 0 sample_env sample_controller ''vol-1'' ''n1'' sample_shared) sample_start
     = (Some (Inr (context_of sample_env sample_controller ''vol1'' False), sh2), w')
     \<and> published_on sample_view ''/data/vol1'' w' = {''n1''}"
proof -
  let ?run = "run_io (controller_publish_volume 0 sample_env sample_controller ''vol-1'' ''n1'' sample_shared) sample_start"
  have loc: "run_io (locate_volume 0 sample_env sample_controller ''vol-1'' sample_shared) sample_start
      = (Some (Inr (''vol1'', ''/data/vol1''), sample_shared), sample_start)"
    by (simp add: locate_volume_def sample_found sample_paths)
  obtain r w' where "run_io (publish_located sample_env sample_controller ''vol-1'' ''n1'' ''vol1''
      ''/data/vol1'' (sh_gossip sample_shared)) sample_start = (r, w')" by (rule prod.exhaust)
  with loc have run: "?run = (Some (r, sample_shared), w')"
    by (simp add: controller_publish_volume_def run_opt_bind)
  have g: "peers (sh_gossip sample_shared) = []" by (simp add: sample_shared_def new_gossip_def)
  have "nameable ''n1''" by (simp add: nameable_def is_ws_def)
  moreover have "value_ok None" by (auto simp: value_ok_def list_value_def intro: exI [of _ "[]"])
  ultimately show ?thesis
    using publish_outcome [OF sample_xattr_ok loc run] run g sample_paths
    by (auto simp: get_volume_status_run [OF sample_xattr_ok] sample_attrs status_values xattr_keys
        request_quorum_lease_def publish_settles_def published_on_def published_list_def)
qed

section \<open>Deleting\<close>




section \<open>Taking a replica over\<close>

text \<open>Node names a clock can carry in its textual form.\<close>

definition clock_name :: "string \<Rightarrow> bool" where
  "clock_name n \<longleftrightarrow> nameable n \<and> CHR '':'' \<notin> set n"

lemma clock_name_clean: "clock_name n \<Longrightarrow> clean_name n"
  by (auto simp: clock_name_def clean_name_def nameable_trimmed nameable_def list_all_iff)

lemma nameable_entry: "clock_name n \<Longrightarrow> nameable (format_entry (n, v))"
proof -
  have "list_all (\<lambda>c. c \<noteq> CHR '','' \<and> \<not> is_ws c \<and> c \<noteq> CHR 0x22 \<and> c \<noteq> CHR 0x5C) (show_u64 v)"
    using show_nat_digits [of "unat v"] by (auto simp: show_u64_def list_all_iff is_digit_def is_ws_def)
  moreover assume "clock_name n"
  ultimately show ?thesis
    by (cases n) (auto simp: clock_name_def nameable_def format_entry_def is_ws_def)
qed

lemma nameable_clock:
  assumes "list_all clock_name (map fst c)"
  shows "list_all nameable (sort (map format_entry c))"
proof -
  have "nameable x" if x: "x \<in> set (sort (map format_entry c))" for x
  proof -
    obtain e where "e \<in> set c" "x = format_entry e" using x by auto
    with assms nameable_entry [of "fst e" "snd e"] show ?thesis by (simp add: list_all_iff)
  qed
  then show ?thesis by (simp add: list_all_iff)
qed

lemma set_vector_clock_run:
  assumes "xattr_tools_ok E view there" "there w p" "hm_wf c" "list_all clock_name (map fst c)"
  obtains w' where "run_io (set_vector_clock E p c) w = (Inr (), w')"
    "view w' = (view w)(p := (view w p)(full_key XATTR_VECTOR_CLOCK \<mapsto> format_vector_clock c))"
    "there w' = there w" "hm_get (fst (run_io (get_vector_clock E p) w')) = hm_get c"
proof -
  note names = nameable_clock [OF assms(4)]
  have t: "plain_value (format_vector_clock c)" "trim (format_vector_clock c) = format_vector_clock c"
    unfolding format_vector_clock_def using plain_join [OF names] trimmed_join [OF names] by auto
  have "\<forall>n \<in> set (map fst c). clean_name n" using assms(4) by (auto simp: list_all_iff clock_name_clean)
  then have rt: "hm_get (parse_vector_clock (format_vector_clock c)) = hm_get c"
    by (rule clock_text_roundtrip [OF assms(3)])
  obtain w' where "run_io (set_csi_attr E p XATTR_VECTOR_CLOCK (format_vector_clock c)) w = (Inr (), w')"
    "view w' = (view w)(p := (view w p)(full_key XATTR_VECTOR_CLOCK \<mapsto> format_vector_clock c))" "there w' = there w"
    by (rule set_csi_attr_run [OF assms(1) t(1) assms(2)])
  with t rt show ?thesis
    by (intro that [of w']) (simp_all add: set_vector_clock_def get_vector_clock_run [OF assms(1)])
qed

lemma increment_epoch_run:
  assumes "xattr_tools_ok E view there" "there w p"
  obtains w' where "run_io (increment_epoch E p) w = (Inr (fst (run_io (get_epoch E p) w) + 1), w')"
    "view w' = (view w)(p := (view w p)(full_key XATTR_EPOCH \<mapsto> show_u64 (fst (run_io (get_epoch E p) w) + 1)))"
    "there w' = there w"
proof -
  obtain e where e: "run_io (get_epoch E p) w = (e, w)" by (simp add: get_epoch_run [OF assms(1)])
  have "plain_value (show_u64 (e + 1))" by (simp add: show_u64_def plain_value_digits)
  then obtain w' where "run_io (set_csi_attr E p XATTR_EPOCH (show_u64 (e + 1))) w = (Inr (), w')"
    "view w' = (view w)(p := (view w p)(full_key XATTR_EPOCH \<mapsto> show_u64 (e + 1)))" "there w' = there w"
    using set_csi_attr_run [OF assms(1) _ assms(2)] by blast
  with e show ?thesis
    by (intro that [of w']) (simp_all add: increment_epoch_def run_and_then set_epoch_def Let_def)
qed

lemma clock_names_bump:
  "list_all clock_name (map fst c) \<Longrightarrow> clock_name n \<Longrightarrow> list_all clock_name (map fst (bump_clock n c))"
proof -
  have "fst ` set (hm_insert n v c) = insert n (fst ` set c)" for v :: u64
    by (induction c) auto
  then show "list_all clock_name (map fst c) \<Longrightarrow> clock_name n \<Longrightarrow> ?thesis"
    by (auto simp: bump_clock_def list_all_iff)
qed

text \<open>C10. Taking a replica over is recorded and moves the volume's history strictly forward: the epoch
  of the promoted copy is the replica's plus one, this node's clock component is one more and every
  other component is the same, the status is active, the gossip table holds the same epoch and clock,
  and (unless the component wraps) the new clock is strictly above the replica's, so it is not in
  conflict with it.\<close>

theorem take_over_advances:
  fixes E dest w ct
  defines "e \<equiv> fst (run_io (get_epoch E dest) w)" and "c \<equiv> fst (run_io (get_vector_clock E dest) w)"
  assumes tools: "xattr_tools_ok E view there" and "there w dest"
    and "clock_name (ct_node_id ct)" "list_all clock_name (map fst c)"
    and "run_io (take_over E ct vid dest sh) w = (sh', w')"
  shows "fst (run_io (get_epoch E dest) w') = e + 1
    \<and> (\<forall>k. component (fst (run_io (get_vector_clock E dest) w')) k
           = (if k = ct_node_id ct then component c k + 1 else component c k))
    \<and> fst (run_io (get_volume_status E dest) w') = VOLUME_STATUS_ACTIVE
    \<and> map_option (\<lambda>i. (ep_epoch i, ep_vector_clock i, ep_status i)) (get_volume_epoch_info (sh_gossip sh') vid)
        = Some (e + 1, bump_clock (ct_node_id ct) c, VOLUME_STATUS_ACTIVE)
    \<and> (component c (ct_node_id ct) \<noteq> - 1 \<longrightarrow>
         vector_clock_le c (bump_clock (ct_node_id ct) c) \<and> \<not> vector_clock_le (bump_clock (ct_node_id ct) c) c
         \<and> \<not> has_conflict c (bump_clock (ct_node_id ct) c))"
proof -
  let ?c = "bump_clock (ct_node_id ct) c"
  have wf: "hm_wf c" by (cases "view w dest (full_key XATTR_VECTOR_CLOCK)")
      (simp_all add: c_def get_vector_clock_run [OF tools])
  obtain w1 where w1: "run_io (increment_epoch E dest) w = (Inr (e + 1), w1)"
    "view w1 = (view w)(dest := (view w dest)(full_key XATTR_EPOCH \<mapsto> show_u64 (e + 1)))" "there w1 = there w"
    unfolding e_def by (rule increment_epoch_run [OF tools assms(4)])
  have c1: "run_io (get_vector_clock E dest) w1 = (c, w1)"
    unfolding c_def by (simp add: get_vector_clock_run [OF tools] w1(2) xattr_keys)
  have t1: "there w1 dest" using w1(3) assms(4) by simp
  obtain w2 where w2: "run_io (set_vector_clock E dest ?c) w1 = (Inr (), w2)"
    "view w2 = (view w1)(dest := (view w1 dest)(full_key XATTR_VECTOR_CLOCK \<mapsto> format_vector_clock ?c))"
    "there w2 = there w1" "hm_get (fst (run_io (get_vector_clock E dest) w2)) = hm_get ?c"
    by (rule set_vector_clock_run [OF tools t1 bump_clock_wf [OF wf] clock_names_bump [OF assms(6,5)]])
  have t2: "there w2 dest" using w2(3) t1 by simp
  obtain w3 where w3: "run_io (set_volume_status E dest VOLUME_STATUS_ACTIVE) w2 = (Inr (), w3)"
    "view w3 = (view w2)(dest := (view w2 dest)(full_key XATTR_VOLUME_STATUS \<mapsto> VOLUME_STATUS_ACTIVE))"
    "fst (run_io (get_volume_status E dest) w3) = VOLUME_STATUS_ACTIVE"
    using set_volume_status_run [OF tools t2, of VOLUME_STATUS_ACTIVE] by (metis insertI1)
  from assms(7) w1 c1 w2 w3 have fin: "w' = w3"
    "sh' = sh\<lparr>sh_gossip := register_volume_epoch vid (e + 1) ?c VOLUME_STATUS_ACTIVE (sh_gossip sh)\<rparr>"
    by (auto simp: take_over_def Let_def)
  have "fst (run_io (get_vector_clock E dest) w3) = fst (run_io (get_vector_clock E dest) w2)"
    by (simp add: get_vector_clock_run [OF tools] w3(2) xattr_keys)
  with w2(4) have "component (fst (run_io (get_vector_clock E dest) w')) k = component ?c k" for k
    by (simp add: fin component_def)
  moreover have "trim (show_u64 (e + 1)) = show_u64 (e + 1)" by (simp add: show_u64_def)
  then have "fst (run_io (get_epoch E dest) w') = e + 1"
    by (simp add: fin get_epoch_run [OF tools] w3(2) w2(2) w1(2) xattr_keys)
  ultimately show ?thesis
    using w3(3) bump_clock_above [OF wf, of "ct_node_id ct"]
    by (auto simp: fin component_bump register_volume_epoch_def get_volume_epoch_info_def has_conflict_def)
qed


theorem take_over_advances_witness:
  "map_option ep_epoch (get_volume_epoch_info (sh_gossip (fst (run_io (take_over sample_env sample_controller
     ''vol-1'' ''/data/vol1'' sample_shared) sample_start))) ''vol-1'') = Some 1"
proof -
  obtain sh' w' where run: "run_io (take_over sample_env sample_controller ''vol-1'' ''/data/vol1'' sample_shared) sample_start
      = (sh', w')" by (rule prod.exhaust)
  have c: "fst (run_io (get_vector_clock sample_env ''/data/vol1'') sample_start) = []"
    "fst (run_io (get_epoch sample_env ''/data/vol1'') sample_start) = 0"
    by (simp_all add: get_vector_clock_run [OF sample_xattr_ok] get_epoch_run [OF sample_xattr_ok]
        sample_attrs xattr_keys)
  have "clock_name (ct_node_id sample_controller)"
    by (simp add: sample_controller_def clock_name_def nameable_def is_ws_def)
  with take_over_advances [OF sample_xattr_ok sample_paths(3) _ _ run] run show ?thesis
    by (auto simp: c)
qed

end
