(* ===== verification/Controller_Create.thy ===== *)
theory Controller_Create
  imports Controller_Flow
begin

text \<open>
  Theorems about the CSI controller's creation of volumes and of snapshots of volumes.
\<close>

section \<open>Creating\<close>

text \<open>Documented behaviour of the programs a creation uses: \<open>btrfs subvolume show\<close> tells whether a
  subvolume is there; \<open>btrfs subvolume create\<close> makes an empty one without attributes, or fails
  and changes nothing; setting properties and quotas, the clock and fresh identifiers do not touch
  attributes; an identifier is text of letters, digits and dashes.\<close>

definition same_attrs :: "('w \<Rightarrow> string \<Rightarrow> string \<Rightarrow> string option) \<Rightarrow> ('w \<Rightarrow> string \<Rightarrow> bool) \<Rightarrow> ('w, 'a) io \<Rightarrow> bool" where
  "same_attrs view there m \<longleftrightarrow> (\<forall>w. view (snd (run_io m w)) = view w \<and> there (snd (run_io m w)) = there w)"

definition uuid_char :: "char \<Rightarrow> bool" where
  "uuid_char c \<longleftrightarrow> is_ascii_alphanumeric c \<or> c = CHR ''-''"

definition volume_tools_ok ::
  "'w env \<Rightarrow> ('w \<Rightarrow> string \<Rightarrow> string \<Rightarrow> string option) \<Rightarrow> ('w \<Rightarrow> string \<Rightarrow> bool) \<Rightarrow> ('w \<Rightarrow> string \<Rightarrow> bool) \<Rightarrow> bool" where
  "volume_tools_ok E view there subvol \<longleftrightarrow>
     xattr_tools_ok E view there
   \<and> (\<forall>w p. \<exists>out. run_io (run_cmd E ''btrfs'' [''subvolume'', ''show'', p]) w = (Inr out, w) \<and> success out = subvol w p)
   \<and> (\<forall>w p. \<exists>out w'. run_io (run_cmd E ''btrfs'' [''subvolume'', ''create'', p]) w = (Inr out, w')
        \<and> view w' = (if success out then (view w)(p := (\<lambda>_. None)) else view w)
        \<and> there w' = (if success out then (there w)(p := True) else there w))
   \<and> (\<forall>args. same_attrs view there (run_cmd E ''chattr'' args))
   \<and> (\<forall>c args. c \<in> {''property'', ''quota'', ''qgroup''} \<longrightarrow> same_attrs view there (run_cmd E ''btrfs'' (c # args)))
   \<and> same_attrs view there (new_uuid E) \<and> same_attrs view there (now_ms E)
   \<and> (\<forall>w. list_all uuid_char (fst (run_io (new_uuid E) w)))"

lemma same_attrs_bind:
  "same_attrs view there m \<Longrightarrow> (\<And>x. same_attrs view there (f x)) \<Longrightarrow> same_attrs view there (State_Monad.bind m f)"
  by (simp add: same_attrs_def split: prod.splits) (metis snd_conv)

lemma same_attrs_return: "same_attrs view there (State_Monad.return x)"
  by (simp add: same_attrs_def)

lemma same_attrs_if:
  "same_attrs view there m \<Longrightarrow> same_attrs view there m' \<Longrightarrow> same_attrs view there (if b then m else m')"
  by simp

lemma volume_toolsD:
  assumes "volume_tools_ok E view there subvol"
  shows "xattr_tools_ok E view there" "run_io (subvol_exists E p) w = (subvol w p, w)"
    "same_attrs view there (run_cmd E ''chattr'' args)"
    "c \<in> {''property'', ''quota'', ''qgroup''} \<Longrightarrow> same_attrs view there (run_cmd E ''btrfs'' (c # args))"
    "same_attrs view there (get_subvolume_id E p)"
    "same_attrs view there (volume_id E)" "same_attrs view there (now_ms E)"
    "list_all uuid_char (fst (run_io (new_uuid E) w))"
proof -
  have show_run: "\<exists>out. run_io (run_cmd E ''btrfs'' [''subvolume'', ''show'', p]) w = (Inr out, w) \<and> success out = subvol w p" for w
    using assms by (simp add: volume_tools_ok_def)
  show "run_io (subvol_exists E p) w = (subvol w p, w)" using show_run [of w] by (auto simp: subvol_exists_def)
  have "snd (run_io (get_subvolume_id E p) w) = w" for w
    using show_run [of w] by (auto simp: get_subvolume_id_def)
  then show "same_attrs view there (get_subvolume_id E p)" by (simp add: same_attrs_def)
  show "same_attrs view there (volume_id E)"
    using assms unfolding volume_id_def volume_tools_ok_def by (intro same_attrs_bind same_attrs_return) simp
  show "c \<in> {''property'', ''quota'', ''qgroup''} \<Longrightarrow> same_attrs view there (run_cmd E ''btrfs'' (c # args))"
    using assms unfolding volume_tools_ok_def by blast
qed (use assms in \<open>simp_all add: volume_tools_ok_def\<close>)

lemma volume_create:
  "volume_tools_ok E view there subvol \<Longrightarrow>
     \<exists>out w'. run_io (run_cmd E ''btrfs'' [''subvolume'', ''create'', p]) w = (Inr out, w')
        \<and> view w' = (if success out then (view w)(p := (\<lambda>_. None)) else view w)
        \<and> there w' = (if success out then (there w)(p := True) else there w)"
  by (simp add: volume_tools_ok_def)

lemma apply_profile_same:
  assumes "volume_tools_ok E view there subvol"
  shows "same_attrs view there (apply_profile E ct path p capacity)"
  unfolding apply_profile_def run_ignored_def
  by (intro same_attrs_bind same_attrs_if same_attrs_return volume_toolsD [OF assms]) simp_all

text \<open>Writing several attributes of one path.\<close>

fun set_attrs :: "'w env \<Rightarrow> string \<Rightarrow> (string \<times> string) list \<Rightarrow> ('w, unit) io" where
  "set_attrs E p [] = State_Monad.return ()"
| "set_attrs E p ((k, v) # kvs) = do { _ \<leftarrow> set_csi_attr E p k v; set_attrs E p kvs }"

lemma set_attrs_run:
  assumes "xattr_tools_ok E view there"
  shows "there w p \<Longrightarrow> list_all (\<lambda>kv. plain_value (snd kv)) kvs \<Longrightarrow>
     view (snd (run_io (set_attrs E p kvs) w))
       = (view w)(p := foldl (\<lambda>m (k, v). m(full_key k \<mapsto> v)) (view w p) kvs)"
proof (induction kvs arbitrary: w)
  case Nil
  then show ?case by simp
next
  case (Cons kv kvs)
  obtain k v where kv: "kv = (k, v)" by (metis surj_pair)
  have "plain_value v" using Cons.prems(2) kv by simp
  then obtain w' where w': "run_io (set_csi_attr E p k v) w = (Inr (), w')"
    "view w' = (view w)(p := (view w p)(full_key k \<mapsto> v))" "there w' = there w"
    using set_csi_attr_run [OF assms _ Cons.prems(1)] by blast
  with Cons.IH [of w'] Cons.prems kv show ?case by (simp add: fun_upd_def fun_eq_iff)
qed

definition metadata :: "controller \<Rightarrow> create_volume_request \<Rightarrow> string \<Rightarrow> i64 \<Rightarrow> (string \<times> string) list" where
  "metadata ct req vid now =
     [(''volume_id'', vid), (''size'', show_u64 (requested_capacity req)), (''zone'', ct_zone ct),
      (''profile'', profile_type req), (''created_at'', show_i64 now),
      (XATTR_REPLICA_COUNT, show_u32 (wanted_replicas ct req)), (XATTR_EPOCH, show_u64 1),
      (XATTR_VECTOR_CLOCK, format_vector_clock (initial_clock ct)), (XATTR_VOLUME_STATUS, VOLUME_STATUS_ACTIVE)]"

lemma write_metadata_eq:
  "write_metadata E ct req vid now = set_attrs E (subvol_path ct (cv_name req)) (metadata ct req vid now)"
  by (simp add: write_metadata_def metadata_def set_vol_xattr_def set_replica_count_def set_epoch_def
      set_vector_clock_def set_volume_status_def)


lemma plain_text:
  assumes "list_all (\<lambda>c. c \<noteq> CHR 0x22 \<and> c \<noteq> CHR 0x5C) v" "v = [] \<or> hd v \<noteq> CHR ''0''"
  shows "plain_value v"
  using assms by (cases v) (auto simp: plain_value_def list_all_iff)

lemma vol_id_text:
  assumes "list_all uuid_char u"
  shows "plain_value (''vol-'' @ u)" "trim (''vol-'' @ u) = ''vol-'' @ u"
proof -
  have c: "c \<noteq> CHR 0x22 \<and> c \<noteq> CHR 0x5C \<and> \<not> is_ws c" if "uuid_char c" for c
    using that by (auto simp: uuid_char_def is_ascii_alphanumeric_def is_digit_def is_ws_def)
  have u: "c \<in> set u \<Longrightarrow> uuid_char c" for c using assms by (simp add: list_all_iff)
  show "plain_value (''vol-'' @ u)"
    using u c by (intro plain_text) (auto simp: list_all_iff)
  have "\<not> is_ws c" if "c \<in> set (''vol-'' @ u)" for c
    using that u c by (auto simp: is_ws_def)
  then have "trimmed (''vol-'' @ u)" by (intro no_ws_trimmed)
  then show "trim (''vol-'' @ u) = ''vol-'' @ u" by (rule trim_trimmed)
qed

lemma plain_show_i64: "plain_value (show_i64 x)"
proof (cases "sint x < 0")
  case True
  have "c \<noteq> CHR 0x22 \<and> c \<noteq> CHR 0x5C" if "c \<in> set (show_i64 x)" for c
    using that True show_nat_digits [of "nat (- sint x)"] by (auto simp: show_i64_def list_all_iff is_digit_def)
  with True show ?thesis by (intro plain_text) (auto simp: list_all_iff show_i64_def)
next
  case False
  then show ?thesis by (simp add: show_i64_def plain_value_digits)
qed

lemma metadata_plain:
  assumes "plain_value vid" "plain_value (ct_zone ct)" "plain_value (profile_type req)" "clock_name (ct_node_id ct)"
  shows "list_all (\<lambda>kv. plain_value (snd kv)) (metadata ct req vid now)"
proof -
  have "list_all nameable (sort (map format_entry (initial_clock ct)))"
    using assms(4) by (intro nameable_clock) (simp add: initial_clock_def)
  then have "plain_value (format_vector_clock (initial_clock ct))"
    unfolding format_vector_clock_def by (rule plain_join)
  moreover have "plain_value VOLUME_STATUS_ACTIVE" using plain_status by simp
  ultimately show ?thesis
    using assms by (simp add: metadata_def show_u64_def show_u32_def plain_value_digits plain_show_i64)
qed

text \<open>The world after a creation that made a new subvolume.\<close>

lemma create_volume_run:
  assumes tools: "volume_tools_ok E view there subvol"
    and "\<not> subvol w (subvol_path ct (cv_name req))"
    and "view w (subvol_path ct (cv_name req)) (full_key ''volume_id'') = None"
    and "plain_value (ct_zone ct)" "plain_value (profile_type req)" "clock_name (ct_node_id ct)"
    and "run_io (create_volume E ct req sh) w = ((Inr v, sh'), w')"
  obtains u x now where "list_all uuid_char u" "v = volume_response req (''vol-'' @ u)" "fst (run_io (now_ms E) x) = now"
    "view w' = (view w)(subvol_path ct (cv_name req) :=
       foldl (\<lambda>m (k, x). m(full_key k \<mapsto> x)) (\<lambda>_. None) (metadata ct req (''vol-'' @ u) now))"
    "sh' = sh\<lparr>sh_gossip := register_volume_epoch (''vol-'' @ u) 1 (initial_clock ct) VOLUME_STATUS_ACTIVE (sh_gossip sh)\<rparr>"
    "validate_volume_name (cv_name req) = Inr ()"
proof -
  let ?p = "subvol_path ct (cv_name req)"
  note xt = volume_toolsD(1) [OF tools]
  have valid: "validate_volume_name (cv_name req) = Inr ()"
    using assms(7) by (cases "validate_volume_name (cv_name req)") (simp_all add: create_volume_def)
  obtain out w1 where w1: "run_io (run_cmd E ''btrfs'' [''subvolume'', ''create'', ?p]) w = (Inr out, w1)"
    "view w1 = (if success out then (view w)(?p := (\<lambda>_. None)) else view w)"
    "there w1 = (if success out then (there w)(?p := True) else there w)"
    using volume_create [OF tools] by metis
  have ens: "run_io (ensure_subvolume E ct (cv_name req)) w =
      (if success out then Inr None else Inl (Internal (''Failed to create subvolume: '' @ stderr out)), w1)"
    using assms(2,3) w1 by (simp add: ensure_subvolume_def volume_toolsD(2) [OF tools] volume_xattr_def attr_value_run [OF xt])
  with assms(7) valid have made: "success out" by (cases "success out") (simp_all add: create_volume_def)
  obtain x w2 where w2: "run_io (apply_profile E ct ?p (get_profile ct (profile_type req)) (requested_capacity req)) w1 = (x, w2)"
    by (rule prod.exhaust)
  obtain u w3 where w3: "run_io (new_uuid E) w2 = (u, w3)" by (rule prod.exhaust)
  have id: "run_io (volume_id E) w2 = (''vol-'' @ u, w3)" using w3 by (simp add: volume_id_def)
  obtain now w4 where w4: "run_io (now_ms E) w3 = (now, w4)" by (rule prod.exhaust)
  have u: "list_all uuid_char u" using volume_toolsD(8) [OF tools, of w2] w3 by simp
  have same: "view w4 = view w1" "there w4 = there w1"
    using apply_profile_same [OF tools, of ct ?p "get_profile ct (profile_type req)" "requested_capacity req"]
      volume_toolsD(6,7) [OF tools] w2 id w4 unfolding same_attrs_def by (metis snd_conv)+
  have "there w4 ?p" using same w1(3) made by simp
  from set_attrs_run [OF xt this metadata_plain [OF vol_id_text(1) [OF u] assms(4-6)]]
  have "view (snd (run_io (write_metadata E ct req (''vol-'' @ u) now) w4)) = (view w)(?p :=
       foldl (\<lambda>m (k, x). m(full_key k \<mapsto> x)) (\<lambda>_. None) (metadata ct req (''vol-'' @ u) now))"
    using same w1(2) made by (simp add: write_metadata_eq)
  with assms(7) valid ens made w2 id w4 u show ?thesis
    by (intro that [of u w3 now]) (auto simp: create_volume_def split: prod.splits)
qed


lemma create_volume_metadata:
  fixes ct req
  defines "p \<equiv> subvol_path ct (cv_name req)"
  assumes tools: "volume_tools_ok E view there subvol"
    and "\<not> subvol w p" "view w p (full_key ''volume_id'') = None"
    and "plain_value (ct_zone ct)" "plain_value (profile_type req)" "clock_name (ct_node_id ct)"
    and "run_io (create_volume E ct req sh) w = ((Inr v, sh'), w')"
  obtains u now x where "list_all uuid_char u" "v = volume_response req (''vol-'' @ u)" "fst (run_io (now_ms E) x) = now"
    "\<And>k. view w' p (full_key k) = map_of (rev (metadata ct req (''vol-'' @ u) now)) k"
    "\<And>q. q \<noteq> p \<Longrightarrow> view w' q = view w q"
    "sh' = sh\<lparr>sh_gossip := register_volume_epoch (''vol-'' @ u) 1 (initial_clock ct) VOLUME_STATUS_ACTIVE (sh_gossip sh)\<rparr>"
    "validate_volume_name (cv_name req) = Inr ()"
proof -
  obtain u now x where made: "list_all uuid_char u" "v = volume_response req (''vol-'' @ u)" "fst (run_io (now_ms E) x) = now"
    "view w' = (view w)(p := foldl (\<lambda>m (k, x). m(full_key k \<mapsto> x)) (\<lambda>_. None) (metadata ct req (''vol-'' @ u) now))"
    "sh' = sh\<lparr>sh_gossip := register_volume_epoch (''vol-'' @ u) 1 (initial_clock ct) VOLUME_STATUS_ACTIVE (sh_gossip sh)\<rparr>"
    "validate_volume_name (cv_name req) = Inr ()"
    using create_volume_run [OF tools assms(3,4) [unfolded p_def] assms(5-8)] unfolding p_def by blast
  have "view w' p (full_key k) = map_of (rev (metadata ct req (''vol-'' @ u) now)) k" for k
    by (simp add: made(4) metadata_def xattr_keys)
  with made show ?thesis by (intro that [of u x now]) auto
qed

text \<open>C8. A successful creation of a new volume is completely recorded. The attributes of its
  subvolume are exactly its identifier, the requested capacity (or 1 GiB), the zone, the requested or
  default profile, the time of the creation, the requested or default replica count, epoch 1, the
  clock with the single component 1 of this node, and the status \<open>active\<close>; attributes of other
  paths are unchanged; the gossip table holds the volume with the same epoch, clock and status. A
  second request for the same name succeeds with the same identifier and changes nothing; its answer
  repeats the capacity of that second request.\<close>

theorem create_volume_recorded:
  fixes ct req
  defines "p \<equiv> subvol_path ct (cv_name req)"
    and "capacity \<equiv> \<lambda>req. case cv_required_bytes req of Some b \<Rightarrow> b | None \<Rightarrow> 1024 * 1024 * 1024"
    and "profile \<equiv> case hm_get (cv_parameters req) ''volume_type'' of Some t \<Rightarrow> t | None \<Rightarrow> ''default''"
    and "replicas \<equiv> case Option.bind (hm_get (cv_parameters req) ''replica_count'') parse_u32 of
           Some n \<Rightarrow> n | None \<Rightarrow> default_replica_count (replication (ct_config ct))"
  assumes tools: "volume_tools_ok E view there subvol"
    and "\<not> subvol w p" "view w p (full_key ''volume_id'') = None"
    and "plain_value (ct_zone ct)" "plain_value profile" "clock_name (ct_node_id ct)"
    and "run_io (create_volume E ct req sh) w = ((Inr v, sh'), w')"
  shows "(\<exists>x. \<forall>k. fst (run_io (attr_value E p k) w') = map_option trim (map_of
         [(''volume_id'', v_volume_id v), (''size'', show_u64 (capacity req)), (''zone'', ct_zone ct),
          (''profile'', profile), (''created_at'', show_i64 (fst (run_io (now_ms E) x))),
          (''replica_count'', show_u32 replicas), (''epoch'', ''1''), (''vector_clock'', ct_node_id ct @ '':1''),
          (''volume_status'', ''active'')] k))
    \<and> v_capacity_bytes v = capacity req \<and> v_capability v = cv_capability req
    \<and> fst (run_io (attr_value E p ''volume_id'') w') = Some (v_volume_id v)
    \<and> fst (run_io (attr_u64 E p ''size'') w') = capacity req
    \<and> fst (run_io (get_epoch E p) w') = 1
    \<and> hm_get (fst (run_io (get_vector_clock E p) w')) = [ct_node_id ct \<mapsto> 1]
    \<and> fst (run_io (get_volume_status E p) w') = ''active''
    \<and> fst (run_io (get_replica_count E p) w') = replicas
    \<and> (\<forall>q k. q \<noteq> p \<longrightarrow> fst (run_io (attr_value E q k) w') = fst (run_io (attr_value E q k) w))
    \<and> map_option (\<lambda>i. (ep_epoch i, ep_vector_clock i, ep_status i))
         (get_volume_epoch_info (sh_gossip sh') (v_volume_id v)) = Some (1, [(ct_node_id ct, 1)], ''active'')
    \<and> (\<forall>req2 sh2. cv_name req2 = cv_name req \<and> subvol w' p \<longrightarrow>
         run_io (create_volume E ct req2 sh2) w' =
           ((Inr \<lparr>v_volume_id = v_volume_id v, v_capacity_bytes = capacity req2, v_capability = cv_capability req2\<rparr>, sh2), w'))"
proof -
  note xt = volume_toolsD(1) [OF tools]
  have spelled: "requested_capacity r = capacity r" "profile_type req = profile" "wanted_replicas ct req = replicas" for r
    by (auto simp: requested_capacity_def DEFAULT_CAPACITY_def capacity_def profile_type_def profile_def
        wanted_replicas_def replicas_def split: option.splits)
  obtain u now x where made: "list_all uuid_char u" "v = volume_response req (''vol-'' @ u)" "fst (run_io (now_ms E) x) = now"
    and at: "\<And>k. view w' p (full_key k) = map_of (rev (metadata ct req (''vol-'' @ u) now)) k"
    and others: "\<And>q. q \<noteq> p \<Longrightarrow> view w' q = view w q"
    and sh': "sh' = sh\<lparr>sh_gossip := register_volume_epoch (''vol-'' @ u) 1 (initial_clock ct) VOLUME_STATUS_ACTIVE (sh_gossip sh)\<rparr>"
    and valid: "validate_volume_name (cv_name req) = Inr ()"
    using create_volume_metadata [OF tools assms(6,7) [unfolded p_def] assms(8,9) [folded spelled] assms(10,11)]
    unfolding p_def by blast
  have trims: "trim (''vol-'' @ u) = ''vol-'' @ u" "trim (show_u64 x) = show_u64 x" "trim (show_u32 y) = show_u32 y"
    "trim VOLUME_STATUS_ACTIVE = VOLUME_STATUS_ACTIVE" for x y
    using vol_id_text(2) [OF made(1)] plain_status by (simp_all add: show_u64_def show_u32_def)
  have node: "list_all clock_name (map fst (initial_clock ct))" "hm_wf (initial_clock ct)"
    using assms(10) by (simp_all add: initial_clock_def)
  have one: "show_u64 1 = ''1''" by (simp add: show_u64_def show_nat.simps digit_char_def char_of_def bit_0)
  have clock: "trim (format_vector_clock (initial_clock ct)) = format_vector_clock (initial_clock ct)"
    "hm_get (parse_vector_clock (format_vector_clock (initial_clock ct))) = hm_get (initial_clock ct)"
    "format_vector_clock (initial_clock ct) = ct_node_id ct @ '':1''"
    using trimmed_join [OF nameable_clock [OF node(1)]] clock_text_roundtrip [OF node(2)] node(1)
    by (auto simp: format_vector_clock_def list_all_iff clock_name_clean initial_clock_def format_entry_def one)
  note reads = attr_value_run [OF xt] get_epoch_run [OF xt] get_vector_clock_run [OF xt] get_volume_status_run [OF xt]
  have ids: "fst (run_io (attr_value E p ''volume_id'') w') = Some (v_volume_id v)"
    using trims(1) by (simp add: reads at metadata_def xattr_keys made(2) volume_response_def)
  have again: "run_io (create_volume E ct req2 sh2) w' = ((Inr (volume_response req2 (v_volume_id v)), sh2), w')"
    if "cv_name req2 = cv_name req" "subvol w' p" for req2 sh2
    using that ids valid by (auto simp: create_volume_def ensure_subvolume_def volume_toolsD(2) [OF tools]
        volume_xattr_def attr_value_run [OF xt] simp flip: p_def)
  have "fst (run_io (attr_value E p k) w') = map_option trim (map_of
         [(''volume_id'', v_volume_id v), (''size'', show_u64 (capacity req)), (''zone'', ct_zone ct),
          (''profile'', profile), (''created_at'', show_i64 (fst (run_io (now_ms E) x))),
          (''replica_count'', show_u32 replicas), (''epoch'', ''1''), (''vector_clock'', ct_node_id ct @ '':1''),
          (''volume_status'', ''active'')] k)" for k
    by (simp add: reads at metadata_def xattr_keys made(2,3) volume_response_def spelled clock(3) VOLUME_STATUS_ACTIVE_def one)
  moreover have "fst (run_io (attr_value E q k) w') = fst (run_io (attr_value E q k) w)" if "q \<noteq> p" for q k
    using others [OF that] by (simp add: reads)
  ultimately show ?thesis
    using ids again trims clock(1,2)
    by (intro conjI exI [of _ x] allI impI)
      (simp_all add: made(2) sh' volume_response_def reads attr_u64_def get_replica_count_def at metadata_def xattr_keys
        initial_clock_def register_volume_epoch_def get_volume_epoch_info_def spelled VOLUME_STATUS_ACTIVE_def fun_upd_def)
qed


lemma sample_volume_tools: "volume_tools_ok sample_env sample_view sample_there sample_there"
proof -
  have "list_all uuid_char ''uuid''" by (simp add: uuid_char_def is_ascii_alphanumeric_def is_digit_def)
  moreover have "map_of (filter (\<lambda>e. fst (fst e) \<noteq> p) xs) (q, k) = (if q = p then None else map_of xs (q, k))"
    for xs :: "((string \<times> string) \<times> string) list" and p q k
    by (induction xs) auto
  moreover have quiet: "snd (sample_cmd prog args w) = w"
    if "prog = ''chattr'' \<or> prog = ''btrfs'' \<and> hd args \<in> {''property'', ''quota'', ''qgroup''}" for prog args w
    using that by (cases "(prog, args, w)" rule: sample_cmd.cases) auto
  ultimately show ?thesis
    using sample_xattr_ok
    by (auto simp: volume_tools_ok_def same_attrs_def sample_env_simps sample_there_def out_ok_def out_fail_def
        sample_view_def fun_eq_iff quiet split: if_splits)
qed

definition sample_request :: create_volume_request where
  "sample_request = \<lparr>cv_name = ''pvc-1'', cv_required_bytes = Some 4096, cv_capability = None, cv_parameters = []\<rparr>"

lemma sample_create_runs:
  "\<exists>v sh' w'. run_io (create_volume sample_env sample_controller sample_request sample_shared) sample_start
     = ((Inr v, sh'), w')"
proof -
  have "validate_volume_name ''pvc-1'' = Inr ()"
    by (simp add: validate_volume_name_def name_char_def is_ascii_alphanumeric_def is_digit_def)
  moreover obtain w1 where "run_io (ensure_subvolume sample_env sample_controller ''pvc-1'') sample_start = (Inr None, w1)"
    by (simp add: ensure_subvolume_def volume_toolsD(2) [OF sample_volume_tools] sample_there_def sample_start_def
        subvol_path_def sample_controller_def sample_env_simps out_ok_def)
  ultimately show ?thesis by (simp add: create_volume_def sample_request_def split: prod.splits)
qed

theorem create_volume_recorded_witness:
  "\<exists>v sh' w'. run_io (create_volume sample_env sample_controller sample_request sample_shared) sample_start
       = ((Inr v, sh'), w')
     \<and> v_capacity_bytes v = 4096 \<and> fst (run_io (get_epoch sample_env ''/data/pvc-1'') w') = 1
     \<and> fst (run_io (attr_value sample_env ''/data/pvc-1'' ''volume_id'') w') = Some (v_volume_id v)"
proof -
  have p: "subvol_path sample_controller (cv_name sample_request) = ''/data/pvc-1''"
    by (simp add: subvol_path_def sample_controller_def sample_request_def)
  have h: "\<not> sample_there sample_start (subvol_path sample_controller (cv_name sample_request))"
    "sample_view sample_start (subvol_path sample_controller (cv_name sample_request)) (full_key ''volume_id'') = None"
    "plain_value (ct_zone sample_controller)"
    "plain_value (case hm_get (cv_parameters sample_request) ''volume_type'' of Some t \<Rightarrow> t | None \<Rightarrow> ''default'')"
    "clock_name (ct_node_id sample_controller)"
    unfolding p by (simp_all add: sample_there_def sample_view_def sample_start_def sample_controller_def
        sample_request_def plain_value_def clock_name_def nameable_def is_ws_def)
  obtain v sh' w' where run: "run_io (create_volume sample_env sample_controller sample_request sample_shared) sample_start
      = ((Inr v, sh'), w')" using sample_create_runs by blast
  have cap: "cv_required_bytes sample_request = Some 4096" by (simp add: sample_request_def)
  note made = create_volume_recorded [OF sample_volume_tools h run, unfolded p cap option.case]
  show ?thesis
    by (intro exI [of _ v] exI [of _ sh'] exI [of _ w'] conjI run) (use made in blast)+
qed

section \<open>Snapshots of volumes\<close>

text \<open>\<open>btrfs subvolume snapshot -r\<close> copies the source's attributes with its content, and reading the
  clock or making an identifier touches no attribute.\<close>

definition snapshot_tools_ok ::
  "'w env \<Rightarrow> ('w \<Rightarrow> string \<Rightarrow> string \<Rightarrow> string option) \<Rightarrow> ('w \<Rightarrow> string \<Rightarrow> bool) \<Rightarrow> bool" where
  "snapshot_tools_ok E view there \<longleftrightarrow>
     (\<forall>w s d out w'. run_io (run_cmd E ''btrfs'' [''subvolume'', ''snapshot'', ''-r'', s, d]) w = (Inr out, w')
        \<and> success out \<longrightarrow> view w' = (view w)(d := view w s))
   \<and> same_attrs view there (utc_now E)"

lemma path_join_subvol:
  "ct_data_dir ct \<noteq> [] \<Longrightarrow> last (ct_data_dir ct) \<noteq> CHR ''/'' \<Longrightarrow> path_join (ct_data_dir ct) n = subvol_path ct n"
  by (simp add: path_join_def subvol_path_def)

lemma set_attrs_keeps:
  assumes "xattr_tools_ok E view there"
  shows "list_all (\<lambda>kv. plain_value (snd kv) \<and> fst kv \<noteq> k) kvs \<Longrightarrow>
     view (snd (run_io (set_attrs E p kvs) w)) q (full_key k) = view w q (full_key k)"
proof (induction kvs arbitrary: w)
  case Nil
  then show ?case by simp
next
  case (Cons kv kvs)
  obtain k' v where kv: "kv = (k', v)" by (metis surj_pair)
  have "plain_value v" "k' \<noteq> k" using Cons.prems kv by simp_all
  obtain out w' where "run_io (run_cmd E ''setfattr'' [''-n'', full_key k', ''-v'', v, ''--'', p]) w = (Inr out, w')"
    and v: "view w' = (if there w p then (view w)(p := (view w p)(full_key k' \<mapsto> v)) else view w)"
    using xattr_setD [OF assms \<open>plain_value v\<close>] by blast
  then have "run_io (set_csi_attr E p k' v) w = (Inr (), w')" by (simp add: set_csi_attr_def)
  with Cons.IH [of w'] Cons.prems v \<open>k' \<noteq> k\<close> kv show ?case by simp
qed

lemma new_snapshot_attrs:
  "do { _ \<leftarrow> set_vol_xattr E ct name ''snapshot_id'' sid;
        _ \<leftarrow> set_vol_xattr E ct name ''source_volume_id'' source;
        _ \<leftarrow> set_vol_xattr E ct name ''snapshot_name'' name;
        _ \<leftarrow> set_vol_xattr E ct name ''size'' sz;
        _ \<leftarrow> set_vol_xattr E ct name ''creation_time'' t;
        State_Monad.return x }
   = do { _ \<leftarrow> set_attrs E (subvol_path ct name) [(''snapshot_id'', sid), (''source_volume_id'', source),
            (''snapshot_name'', name), (''size'', sz), (''creation_time'', t)];
          State_Monad.return x }"
  by (simp add: set_vol_xattr_def)

lemma snap_id_text:
  assumes "list_all uuid_char u"
  shows "plain_value (''snap-'' @ u)"
proof (rule plain_text)
  have "c \<noteq> CHR 0x22 \<and> c \<noteq> CHR 0x5C" if "uuid_char c" for c
    using that by (auto simp: uuid_char_def is_ascii_alphanumeric_def is_digit_def)
  then show "list_all (\<lambda>c. c \<noteq> CHR 0x22 \<and> c \<noteq> CHR 0x5C) (''snap-'' @ u)"
    using assms by (auto simp: list_all_iff)
qed simp

text \<open>C18. A snapshot of a volume keeps the volume's identifier: the attribute \<open>volume_id\<close> is copied with
  the content and is not among those the controller rewrites. So after a snapshot was created, every
  handler that looks the source up and meets the snapshot first in the directory takes the snapshot
  for the volume (deleting the volume then deletes the snapshot), and it is listed as a volume.\<close>

theorem snapshot_shadows_its_source:
  assumes tools: "volume_tools_ok E view there subvol" "snapshot_tools_ok E view there"
    and dir: "ct_data_dir ct \<noteq> []" "last (ct_data_dir ct) \<noteq> CHR ''/''"
    and "run_io (read_dir E (ct_data_dir ct)) w = (Some ns, w)"
    and "\<not> subvol w (subvol_path ct name)" "plain_value name" "plain_value source"
    and "run_io (csi_create_snapshot E ct name source) w = (Inr s, w')"
  shows "fst (run_io (attr_value E (subvol_path ct name) ''volume_id'') w') = Some source
    \<and> fst (run_io (find_entry E (ct_data_dir ct) ''volume_id'' source (name # ms)) w') = Some name
    \<and> source \<in> v_volume_id ` set (fst (run_io (volume_entries E (ct_data_dir ct) (name # ms)) w'))"
proof -
  note xt = volume_toolsD(1) [OF tools(1)] and join = path_join_subvol [OF dir]
  have new: "run_io (new_csi_snapshot E ct name source) w = (Inr s, w')"
    using assms(6,9) by (simp add: csi_create_snapshot_def volume_toolsD(2) [OF tools(1)] split: sum.splits)
  let ?P = "\<lambda>n. map_option trim (view w (subvol_path ct n) (full_key ''volume_id'')) = Some source"
  have found: "run_io (find_by_attr E (ct_data_dir ct) ''volume_id'' source) w = (find ?P ns, w)"
    by (simp add: find_by_attr_run [OF xt assms(5)] join)
  obtain n where n: "find ?P ns = Some n"
    using new found by (cases "find ?P ns") (simp_all add: new_csi_snapshot_def)
  then have src: "?P n" by (auto simp: find_Some_iff)
  obtain r w1 where r: "run_io (run_cmd E ''btrfs'' [''subvolume'', ''snapshot'', ''-r'', subvol_path ct n, subvol_path ct name]) w = (r, w1)"
    by (rule prod.exhaust)
  obtain out where out: "r = Inr out" "success out"
    using new found n r by (cases r) (auto simp: new_csi_snapshot_def split: if_splits)
  have v1: "view w1 = (view w)(subvol_path ct name := view w (subvol_path ct n))"
    using tools(2) r out unfolding snapshot_tools_ok_def by blast
  obtain u w2 where u: "run_io (new_uuid E) w1 = (u, w2)" by (rule prod.exhaust)
  obtain t w3 where t: "run_io (utc_now E) w2 = (t, w3)" by (rule prod.exhaust)
  have v3: "view w3 = view w1"
    using tools u t unfolding volume_tools_ok_def snapshot_tools_ok_def same_attrs_def by (metis snd_conv)
  have uu: "list_all uuid_char u" using volume_toolsD(8) [OF tools(1), of w1] u by simp
  have w': "w' = snd (run_io (set_attrs E (subvol_path ct name) [(''snapshot_id'', ''snap-'' @ u),
      (''source_volume_id'', source), (''snapshot_name'', name), (''size'', show_u64 0),
      (''creation_time'', show_i64 (timestamp t))]) w3)"
    using new found n r out u t by (simp add: new_csi_snapshot_def snapshot_id_def new_snapshot_attrs split: prod.splits)
  have "view w' (subvol_path ct name) (full_key ''volume_id'') = view w3 (subvol_path ct name) (full_key ''volume_id'')"
    unfolding w' using assms(7,8) snap_id_text [OF uu]
    by (intro set_attrs_keeps [OF xt]) (simp add: show_u64_def plain_value_digits plain_show_i64)
  then have id: "map_option trim (view w' (subvol_path ct name) (full_key ''volume_id'')) = Some source"
    using v3 v1 src by simp
  then show ?thesis
    by (auto simp: attr_value_run [OF xt] find_entry_run [OF xt] join attr_u64_def split: prod.splits)
qed


lemma sample_snapshot_tools: "snapshot_tools_ok sample_env sample_view sample_there"
proof -
  have "map_of (map (\<lambda>e. ((d, snd (fst e)), snd e)) (filter (\<lambda>e. fst (fst e) = s) xs)
          @ filter (\<lambda>e. fst (fst e) \<noteq> d) xs) (q, k)
      = (if q = d then map_of xs (s, k) else map_of xs (q, k))"
    for xs :: "((string \<times> string) \<times> string) list" and s d q k
  proof -
    have "map_of (map (\<lambda>e. ((d, snd (fst e)), snd e)) (filter (\<lambda>e. fst (fst e) = s) xs)) (q, k)
        = (if q = d then map_of xs (s, k) else None)"
      by (induction xs) auto
    moreover have "map_of (filter (\<lambda>e. fst (fst e) \<noteq> d) xs) (q, k) = (if q = d then None else map_of xs (q, k))"
      by (induction xs) auto
    ultimately show ?thesis by (cases "q = d") (auto simp: map_add_def split: option.splits)
  qed
  then show ?thesis
    by (auto simp: snapshot_tools_ok_def same_attrs_def sample_env_simps sample_view_def fun_eq_iff out_fail_def
        split: if_splits)
qed

theorem snapshot_shadows_its_source_witness:
  "\<exists>s w'. run_io (csi_create_snapshot sample_env sample_controller ''snap1'' ''vol-1'') sample_start = (Inr s, w')
     \<and> fst (run_io (attr_value sample_env ''/data/snap1'' ''volume_id'') w') = Some ''vol-1''"
proof -
  have p: "subvol_path sample_controller ''snap1'' = ''/data/snap1''"
    by (simp add: subvol_path_def sample_controller_def)
  have src: "''/data/vol1'' \<in> set (s_paths sample_start)" by (simp add: sample_start_def)
  have "validate_volume_name ''snap1'' = Inr ()"
    by (simp add: validate_volume_name_def name_char_def is_ascii_alphanumeric_def is_digit_def)
  moreover have no: "\<not> sample_there sample_start (subvol_path sample_controller ''snap1'')"
    unfolding p by (simp add: sample_there_def sample_start_def)
  ultimately have "\<exists>s w'. run_io (csi_create_snapshot sample_env sample_controller ''snap1'' ''vol-1'') sample_start = (Inr s, w')"
    by (simp add: csi_create_snapshot_def volume_toolsD(2) [OF sample_volume_tools] new_csi_snapshot_def
        sample_found sample_env_simps sample_paths(1) src out_ok_def snapshot_id_def split: prod.splits)
  then obtain s w' where run: "run_io (csi_create_snapshot sample_env sample_controller ''snap1'' ''vol-1'') sample_start = (Inr s, w')"
    by blast
  have h: "ct_data_dir sample_controller \<noteq> []" "last (ct_data_dir sample_controller) \<noteq> CHR ''/''"
    "plain_value ''snap1''" "plain_value ''vol-1''"
    by (simp_all add: sample_controller_def plain_value_def)
  show ?thesis
    using snapshot_shadows_its_source [OF sample_volume_tools sample_snapshot_tools h(1,2) sample_paths(4) no h(3,4) run, of "[]"]
      run unfolding p by blast
qed

end
