(* ===== verification/Csi_Node.thy ===== *)
theory Csi_Node
  imports Controller_Create
begin

text \<open>
  The CSI node service, \<open>crates/btrfs-csi/src/csi_node.rs\<close>: bind mounts of volumes at staging and
  target paths, statistics and expansion. Mounting, unmounting and the system calls are parameters.
\<close>

section \<open>The service\<close>

record csi_node =
  cn_node_id :: string
  cn_zone :: string
  cn_data_dir :: string
  cn_supports_idmapped :: bool

definition kernel_supports_idmapped :: "string \<Rightarrow> bool" where
  "kernel_supports_idmapped version_str =
     (case split_on (CHR ''.'') (trim version_str) of
        a # b # _ \<Rightarrow>
          (case (parse_u32 a, parse_u32 b) of
             (Some major, Some minor) \<Rightarrow> 5 < major \<or> major = 5 \<and> 12 \<le> minor
           | _ \<Rightarrow> False)
      | _ \<Rightarrow> False)"

definition check_idmapped_support :: "'w env \<Rightarrow> ('w, bool) io" where
  "check_idmapped_support E = do {
     r \<leftarrow> run_cmd E ''uname'' [''-r''];
     State_Monad.return (case r of Inl _ \<Rightarrow> False | Inr output \<Rightarrow> kernel_supports_idmapped (stdout output))
   }"

definition new_node :: "'w env \<Rightarrow> string \<Rightarrow> string \<Rightarrow> string \<Rightarrow> ('w, csi_node) io" where
  "new_node E node z dir = do {
     idmapped \<leftarrow> check_idmapped_support E;
     State_Monad.return \<lparr>cn_node_id = node, cn_zone = z, cn_data_dir = dir, cn_supports_idmapped = idmapped\<rparr>
   }"

text \<open>The requests, with the fields the proto file gives them that a node looks at or ignores.\<close>

record node_publish_request =
  np_volume_id :: string
  np_publish_context :: string
  np_target_path :: string
  np_readonly :: bool
  np_volume_context :: "string hmap"

definition extract_volume_path :: "string hmap \<Rightarrow> string \<Rightarrow> string" where
  "extract_volume_path ctx dir =
     (case hm_get ctx ''path'' of
        Some path \<Rightarrow> path
      | None \<Rightarrow> (case hm_get ctx ''volume_name'' of Some name \<Rightarrow> dir @ ''/'' @ name | None \<Rightarrow> []))"

definition missing_path :: rpc_status where
  "missing_path = InvalidArgument (''volume_context must contain '' @ [CHR 0x27] @ ''path'' @ [CHR 0x27] @
     '' or '' @ [CHR 0x27] @ ''volume_name'' @ [CHR 0x27] @ '' for staging'')"

text \<open>A command that must succeed, with the texts of its two errors.\<close>

definition must_run :: "'w env \<Rightarrow> string \<Rightarrow> string \<Rightarrow> string \<Rightarrow> string list \<Rightarrow> ('w, rpc_status + unit) io" where
  "must_run E cannot failed prog args = do {
     r \<leftarrow> run_cmd E prog args;
     State_Monad.return
       (case r of
          Inl _ \<Rightarrow> Inl (Internal cannot)
        | Inr output \<Rightarrow> (if success output then Inr () else Inl (Internal (failed @ stderr output))))
   }"

definition make_dir :: "'w env \<Rightarrow> string \<Rightarrow> string \<Rightarrow> ('w, rpc_status + unit) io" where
  "make_dir E what path = do {
     r \<leftarrow> create_dir_all E path;
     State_Monad.return (case r of Inl _ \<Rightarrow> Inl (Internal (''Failed to create '' @ what @ '' dir'')) | Inr _ \<Rightarrow> Inr ())
   }"

definition node_stage_volume :: "'w env \<Rightarrow> csi_node \<Rightarrow> string \<Rightarrow> string hmap \<Rightarrow> ('w, rpc_status + unit) io" where
  "node_stage_volume E n staging ctx =
     and_then (make_dir E ''staging'' staging)
       (\<lambda>_. let path = extract_volume_path ctx (cn_data_dir n) in
         if path = [] then State_Monad.return (Inl missing_path)
         else must_run E ''Failed to bind mount'' ''Bind mount failed: '' ''mount'' [''--bind'', path, staging])"

definition node_unstage_volume :: "'w env \<Rightarrow> string \<Rightarrow> ('w, unit) io" where
  "node_unstage_volume E staging = do {
     _ \<leftarrow> run_cmd E ''umount'' [staging];
     _ \<leftarrow> remove_dir_all E staging;
     State_Monad.return ()
   }"

definition MOUNT_ATTR_IDMAP :: u64 where "MOUNT_ATTR_IDMAP = 0x00100000"

text \<open>The system call is made with the attribute and no user namespace; the identifiers are unused.\<close>

definition apply_idmapped_mount :: "'w env \<Rightarrow> string \<Rightarrow> u32 \<Rightarrow> u32 \<Rightarrow> ('w, string + unit) io" where
  "apply_idmapped_mount E path uid gid =
     (if CHR 0x00 \<in> set path then State_Monad.return (Inl ''Invalid path'')
      else mount_setattr E path MOUNT_ATTR_IDMAP)"

definition id_of :: "string option \<Rightarrow> u32" where
  "id_of v = unwrap_or (Option.bind v parse_u32) 0"

definition wants_readonly :: "node_publish_request \<Rightarrow> bool" where
  "wants_readonly req =
     (case hm_get (np_volume_context req) ''readonly'' of None \<Rightarrow> False | Some v \<Rightarrow> v = ''true'' \<or> v = ''True'')"

definition mount_args :: "bool \<Rightarrow> string \<Rightarrow> string \<Rightarrow> string list" where
  "mount_args readonly path target =
     [''--bind''] @ (if readonly then [''-o'', ''bind,ro''] else []) @ [path, target]"

definition node_publish_volume :: "'w env \<Rightarrow> csi_node \<Rightarrow> node_publish_request \<Rightarrow> ('w, rpc_status + unit) io" where
  "node_publish_volume E n req =
     (let ctx = np_volume_context req;
          uid_map = hm_get ctx ''uid_map''; gid_map = hm_get ctx ''gid_map'';
          use_idmapped = (cn_supports_idmapped n \<and> (uid_map \<noteq> None \<or> gid_map \<noteq> None)) in
      and_then (make_dir E ''target'' (np_target_path req))
        (\<lambda>_. let path = extract_volume_path ctx (cn_data_dir n) in
          if path = [] then State_Monad.return (Inl missing_path)
          else and_then
            (must_run E ''Failed to execute mount'' ''Bind mount failed: '' ''mount''
               (mount_args (wants_readonly req) path (np_target_path req)))
            (\<lambda>_. do {
               _ \<leftarrow> (if use_idmapped
                      then apply_idmapped_mount E (np_target_path req) (id_of uid_map) (id_of gid_map)
                      else State_Monad.return (Inr ()));
               State_Monad.return (Inr ())
             })))"

definition node_unpublish_volume :: "'w env \<Rightarrow> string \<Rightarrow> ('w, unit) io" where
  "node_unpublish_volume E target = do {
     _ \<leftarrow> run_cmd E ''umount'' [target];
     _ \<leftarrow> remove_dir_all E target;
     State_Monad.return ()
   }"

definition usage_line :: "u64 \<times> u64 \<Rightarrow> string \<Rightarrow> u64 \<times> u64" where
  "usage_line acc line =
     (if contains_str line ''Device allocated:'' \<or> contains_str line ''Used:'' then
        (case split_whitespace line of
           _ # s # _ \<Rightarrow>
             (case parse_u64 s of
                Some val \<Rightarrow> (if contains_str line ''Device allocated'' then (val, snd acc) else (fst acc, val))
              | None \<Rightarrow> acc)
         | _ \<Rightarrow> acc)
      else acc)"

definition parse_btrfs_usage :: "string \<Rightarrow> u64 \<times> u64" where
  "parse_btrfs_usage output = foldl usage_line (0, 0) (lines output)"

fun find_inodes :: "string list \<Rightarrow> u64 \<times> u64" where
  "find_inodes [] = (0, 0)"
| "find_inodes (line # rest) =
     (case split_whitespace line of
        _ # b # c # _ # _ \<Rightarrow>
          (case (parse_u64 b, parse_u64 c) of
             (Some t, Some u) \<Rightarrow> (t, u)
           | _ \<Rightarrow> find_inodes rest)
      | _ \<Rightarrow> find_inodes rest)"

definition parse_inode_usage :: "string \<Rightarrow> u64 \<times> u64" where
  "parse_inode_usage output = find_inodes (drop 1 (lines output))"

record volume_stats =
  vs_available :: i64
  vs_total :: i64
  vs_used :: i64
  vs_inode_total :: u64
  vs_inode_used :: u64
  vs_inode_available :: u64

text \<open>\<open>saturating_sub\<close>; the byte counts are subtracted with wrap-around.\<close>

definition saturating_sub :: "u64 \<Rightarrow> u64 \<Rightarrow> u64" where
  "saturating_sub a b = (if b \<le> a then a - b else 0)"

definition node_get_volume_stats :: "'w env \<Rightarrow> csi_node \<Rightarrow> ('w, rpc_status + volume_stats) io" where
  "node_get_volume_stats E n = do {
     r \<leftarrow> run_cmd E ''btrfs'' [''filesystem'', ''usage'', ''-b'', cn_data_dir n];
     case r of
       Inl _ \<Rightarrow> State_Monad.return (Inl (Internal ''Failed to get stats''))
     | Inr output \<Rightarrow> do {
         let (size, used) = parse_btrfs_usage (stdout output);
         i \<leftarrow> run_cmd E ''df'' [''-i'', cn_data_dir n];
         let (total_inodes, used_inodes) =
           (case i of
              Inl _ \<Rightarrow> (0, 0)
            | Inr df \<Rightarrow> (if success df then parse_inode_usage (stdout df) else (0, 0)));
         State_Monad.return (Inr \<lparr>vs_available = size - used, vs_total = size, vs_used = used,
           vs_inode_total = total_inodes, vs_inode_used = used_inodes,
           vs_inode_available = saturating_sub total_inodes used_inodes\<rparr>)
       }
   }"

definition node_expand_volume :: "'w env \<Rightarrow> csi_node \<Rightarrow> i64 option \<Rightarrow> ('w, i64) io" where
  "node_expand_volume E n required = do {
     _ \<leftarrow> run_cmd E ''btrfs'' [''filesystem'', ''resize'', ''max'', cn_data_dir n];
     State_Monad.return (unwrap_or required 0)
   }"

datatype node_capability = StageUnstageVolume

definition node_get_capabilities :: "node_capability list" where
  "node_get_capabilities = [StageUnstageVolume]"

definition node_get_info :: "csi_node \<Rightarrow> string \<times> string hmap" where
  "node_get_info n = (cn_node_id n, hm_insert ''topology.btrfs-csi/zone'' (cn_zone n) [])"

text \<open>\<open>set_io_priority_idle\<close> on Linux: the idle class in the class bits of the priority.\<close>

definition IOPRIO_CLASS_IDLE :: u64 where "IOPRIO_CLASS_IDLE = 3"
definition IOPRIO_WHO_PROCESS :: u64 where "IOPRIO_WHO_PROCESS = 1"

definition node_set_io_priority_idle :: "'w env \<Rightarrow> ('w, string + unit) io" where
  "node_set_io_priority_idle E = do {
     r \<leftarrow> ioprio_set E IOPRIO_WHO_PROCESS (push_bit 13 IOPRIO_CLASS_IDLE);
     State_Monad.return (case r of Inl e \<Rightarrow> Inl (''ioprio_set failed: '' @ e) | Inr _ \<Rightarrow> Inr ())
   }"

section \<open>The mount table\<close>

text \<open>Documented behaviour of the programs that change mounts, \<open>mount(8)\<close> and \<open>umount(8)\<close>:
  \<open>mounts w t\<close> are the mounts at \<open>t\<close>, the last one first, each with its source and whether it is
  read-only. A bind mount that succeeds is put on top, read-only if it was made with the options
  \<open>bind,ro\<close>; an \<open>umount\<close> that succeeds takes the last one away; a program that fails or cannot be
  started changes nothing, and neither do directories and the attributes of a mount.\<close>

definition succeeded :: "string + cmd_output \<Rightarrow> bool" where
  "succeeded r = (case r of Inl _ \<Rightarrow> False | Inr out \<Rightarrow> success out)"

definition mounts_ok :: "'w env \<Rightarrow> ('w \<Rightarrow> string \<Rightarrow> (string \<times> bool) list) \<Rightarrow> bool" where
  "mounts_ok E mounts \<longleftrightarrow>
     (\<forall>s t w r w'. run_io (run_cmd E ''mount'' [''--bind'', s, t]) w = (r, w') \<longrightarrow>
        mounts w' = (if succeeded r then (mounts w)(t := (s, False) # mounts w t) else mounts w))
   \<and> (\<forall>s t w r w'. run_io (run_cmd E ''mount'' [''--bind'', ''-o'', ''bind,ro'', s, t]) w = (r, w') \<longrightarrow>
        mounts w' = (if succeeded r then (mounts w)(t := (s, True) # mounts w t) else mounts w))
   \<and> (\<forall>t w r w'. run_io (run_cmd E ''umount'' [t]) w = (r, w') \<longrightarrow>
        mounts w' = (if succeeded r then (mounts w)(t := tl (mounts w t)) else mounts w))
   \<and> (\<forall>d w. mounts (snd (run_io (create_dir_all E d) w)) = mounts w)
   \<and> (\<forall>d w. mounts (snd (run_io (remove_dir_all E d) w)) = mounts w)
   \<and> (\<forall>d a w. mounts (snd (run_io (mount_setattr E d a) w)) = mounts w)"

lemma mountsD:
  assumes "mounts_ok E mounts"
  shows "mounts (snd (run_io (create_dir_all E d) w)) = mounts w"
    and "mounts (snd (run_io (remove_dir_all E d) w)) = mounts w"
    and "mounts (snd (run_io (mount_setattr E d a) w)) = mounts w"
    and "run_io (run_cmd E ''umount'' [d]) w = (r, w') \<Longrightarrow>
           mounts w' = (if succeeded r then (mounts w)(d := tl (mounts w d)) else mounts w)"
    and "run_io (run_cmd E ''mount'' (mount_args ro s d)) w = (r, w') \<Longrightarrow>
           mounts w' = (if succeeded r then (mounts w)(d := (s, ro) # mounts w d) else mounts w)"
  using assms unfolding mounts_ok_def mount_args_def by (cases ro; simp; blast)+

lemma must_run_succeeds:
  "run_io (must_run E cannot failed prog args) w = (r, w') \<Longrightarrow>
     \<exists>c. run_io (run_cmd E prog args) w = (c, w') \<and> (r = Inr () \<longleftrightarrow> succeeded c)"
  by (auto simp: must_run_def succeeded_def split: prod.splits sum.splits if_splits)

lemma apply_idmapped_mounts:
  "mounts_ok E mounts \<Longrightarrow> mounts (snd (run_io (apply_idmapped_mount E d u g) w)) = mounts w"
  by (simp add: apply_idmapped_mount_def mountsD(3))

lemma make_dir_mounts:
  "mounts_ok E mounts \<Longrightarrow> run_io (make_dir E what d) w = (r, w') \<Longrightarrow> mounts w' = mounts w"
  using mountsD(1) [of E mounts d w] by (auto simp: make_dir_def split: prod.splits)

section \<open>Publishing on a node\<close>

lemma publish_mounts:
  assumes "mounts_ok E mounts" "run_io (node_publish_volume E n req) w = (r, w')"
  shows "mounts w' = (if r = Inr () then (mounts w)(np_target_path req :=
           (extract_volume_path (np_volume_context req) (cn_data_dir n), wants_readonly req) # mounts w (np_target_path req))
         else mounts w)"
    and "r = Inr () \<Longrightarrow> extract_volume_path (np_volume_context req) (cn_data_dir n) \<noteq> []"
proof -
  let ?t = "np_target_path req"
  let ?path = "extract_volume_path (np_volume_context req) (cn_data_dir n)"
  obtain d w1 where d: "run_io (make_dir E ''target'' ?t) w = (d, w1)" by (rule prod.exhaust)
  note w1 = make_dir_mounts [OF assms(1) d]
  obtain m w2 where m: "run_io (must_run E ''Failed to execute mount'' ''Bind mount failed: '' ''mount''
      (mount_args (wants_readonly req) ?path ?t)) w1 = (m, w2)" by (rule prod.exhaust)
  from must_run_succeeds [OF m] have w2: "mounts w2 =
      (if m = Inr () then (mounts w)(?t := (?path, wants_readonly req) # mounts w ?t) else mounts w)"
    using mountsD(5) [OF assms(1)] w1 by metis
  have "mounts w' = (if r = Inr () then (mounts w)(?t := (?path, wants_readonly req) # mounts w ?t) else mounts w)
      \<and> (r = Inr () \<longrightarrow> ?path \<noteq> [])"
    using assms(2) d m w1 w2 apply_idmapped_mounts [OF assms(1)]
    by (cases d; cases m) (auto simp: node_publish_volume_def Let_def run_and_then split: if_splits prod.splits, (metis snd_conv)+)
  then show "mounts w' = (if r = Inr () then (mounts w)(?t := (?path, wants_readonly req) # mounts w ?t) else mounts w)"
    and "r = Inr () \<Longrightarrow> ?path \<noteq> []" by auto
qed

text \<open>C15. Publishing on a node mounts what the volume context says. The request succeeds only if
  the context names a path (\<open>path\<close>, or \<open>volume_name\<close> below the data directory), and then this path is
  mounted on top of the target, read-only exactly when the context has \<open>readonly\<close> set to \<open>true\<close> or
  \<open>True\<close>; a request that fails leaves the mounts as they were. The publish context, which carries
  the controller's read-only decision, and the request's own \<open>readonly\<close> flag have no influence: a
  volume that the controller handed out read-only for lack of a quorum is mounted writable when its
  volume context has no such entry.\<close>

theorem node_publish_mounts_context:
  assumes "mounts_ok E mounts" "run_io (node_publish_volume E n req) w = (r, w')"
  shows "mounts w' =
      (if r = Inr () then
         (mounts w)(np_target_path req :=
           (case hm_get (np_volume_context req) ''path'' of
              Some path \<Rightarrow> path
            | None \<Rightarrow> cn_data_dir n @ ''/'' @ the (hm_get (np_volume_context req) ''volume_name''),
            hm_get (np_volume_context req) ''readonly'' \<in> {Some ''true'', Some ''True''})
           # mounts w (np_target_path req))
       else mounts w)
    \<and> (r = Inr () \<longrightarrow> hm_get (np_volume_context req) ''path'' \<notin> {None, Some []}
          \<or> hm_get (np_volume_context req) ''path'' = None \<and> hm_get (np_volume_context req) ''volume_name'' \<noteq> None)
    \<and> run_io (node_publish_volume E n (req\<lparr>np_publish_context := c, np_readonly := b\<rparr>)) w = (r, w')"
proof -
  let ?t = "np_target_path req" and ?ctx = "np_volume_context req"
  let ?path = "extract_volume_path ?ctx (cn_data_dir n)"
  have ro: "wants_readonly req \<longleftrightarrow> hm_get ?ctx ''readonly'' \<in> {Some ''true'', Some ''True''}"
    by (auto simp: wants_readonly_def split: option.splits)
  have path: "?path \<noteq> [] \<Longrightarrow> ?path = (case hm_get ?ctx ''path'' of Some path \<Rightarrow> path
        | None \<Rightarrow> cn_data_dir n @ ''/'' @ the (hm_get ?ctx ''volume_name''))"
    "?path \<noteq> [] \<Longrightarrow> hm_get ?ctx ''path'' \<notin> {None, Some []}
          \<or> hm_get ?ctx ''path'' = None \<and> hm_get ?ctx ''volume_name'' \<noteq> None"
    by (auto simp: extract_volume_path_def split: option.splits)
  have same: "node_publish_volume E n (req\<lparr>np_publish_context := c, np_readonly := b\<rparr>) = node_publish_volume E n req"
    by (simp add: node_publish_volume_def wants_readonly_def Let_def cong: if_cong)
  from publish_mounts [OF assms] path ro same assms(2) show ?thesis by auto
qed

text \<open>A world with a mount table, for the witnesses.\<close>

fun pop_mount :: "string \<Rightarrow> ((string \<times> string) \<times> string) list \<Rightarrow> ((string \<times> string) \<times> string) list" where
  "pop_mount t [] = []"
| "pop_mount t (m # ms) = (if fst (fst m) = t then ms else m # pop_mount t ms)"

fun mount_cmd :: "bool \<Rightarrow> string \<Rightarrow> string list \<Rightarrow> sample \<Rightarrow> (string + cmd_output) \<times> sample" where
  "mount_cmd busy prog [a, s, t] w = (Inr (out_ok []), w\<lparr>s_attrs := ((t, s), ''rw'') # s_attrs w\<rparr>)"
| "mount_cmd busy prog [a, b, c, s, t] w = (Inr (out_ok []), w\<lparr>s_attrs := ((t, s), ''ro'') # s_attrs w\<rparr>)"
| "mount_cmd busy prog [t] w =
     (if busy then (Inr out_fail, w) else (Inr (out_ok []), w\<lparr>s_attrs := pop_mount t (s_attrs w)\<rparr>))"
| "mount_cmd busy prog args w = (Inr out_fail, w)"

definition mount_env :: "bool \<Rightarrow> sample env" where
  "mount_env busy = sample_env\<lparr>run_cmd := (\<lambda>p args. State (mount_cmd busy p args))\<rparr>"

definition sample_mounts :: "sample \<Rightarrow> string \<Rightarrow> (string \<times> bool) list" where
  "sample_mounts w t = map (\<lambda>e. (snd (fst e), snd e = ''ro'')) (filter (\<lambda>e. fst (fst e) = t) (s_attrs w))"

lemma filter_pop_mount:
  "filter (\<lambda>e. fst (fst e) = q) (pop_mount t ms) =
     (if q = t then tl (filter (\<lambda>e. fst (fst e) = q) ms) else filter (\<lambda>e. fst (fst e) = q) ms)"
  by (induction ms) auto

lemma mount_env_simps:
  "run_cmd (mount_env busy) p args = State (mount_cmd busy p args)"
  "create_dir_all (mount_env busy) d = State_Monad.return (Inr ())"
  "remove_dir_all (mount_env busy) d = State_Monad.return True"
  "mount_setattr (mount_env busy) d a = State_Monad.return (Inl ''not supported'')"
  by (simp_all add: mount_env_def sample_env_def)

lemma mount_env_ok: "mounts_ok (mount_env busy) sample_mounts"
  by (auto simp: mounts_ok_def mount_env_simps succeeded_def out_ok_def out_fail_def sample_mounts_def fun_eq_iff
      filter_pop_mount map_tl)

definition sample_csi_node :: csi_node where
  "sample_csi_node = \<lparr>cn_node_id = ''a'', cn_zone = ''z'', cn_data_dir = ''/data'', cn_supports_idmapped = False\<rparr>"

definition sample_publish :: node_publish_request where
  "sample_publish = \<lparr>np_volume_id = ''vol-1'', np_publish_context = [], np_target_path = ''/pod'',
     np_readonly = False, np_volume_context = [(''volume_name'', ''vol1'')]\<rparr>"

definition published_world :: sample where
  "published_world = sample_start\<lparr>s_attrs := ((''/pod'', ''/data/vol1''), ''rw'') # s_attrs sample_start\<rparr>"

lemma sample_publish_runs:
  "run_io (node_publish_volume (mount_env busy) sample_csi_node sample_publish) sample_start = (Inr (), published_world)"
  by (simp add: node_publish_volume_def make_dir_def must_run_def mount_env_simps extract_volume_path_def
      sample_csi_node_def sample_publish_def wants_readonly_def mount_args_def out_ok_def published_world_def Let_def run_and_then)

theorem node_publish_mounts_context_witness:
  "sample_mounts published_world ''/pod'' = [(''/data/vol1'', False)]
   \<and> run_io (node_publish_volume (mount_env False) sample_csi_node
       (sample_publish\<lparr>np_publish_context := ''/data/vol1 ro'', np_readonly := True\<rparr>)) sample_start
     = (Inr (), published_world)"
proof -
  have "sample_mounts sample_start ''/pod'' = []" by (simp add: sample_mounts_def sample_start_def)
  then show ?thesis
    using node_publish_mounts_context [OF mount_env_ok sample_publish_runs [of False], where c = "''/data/vol1 ro''" and b = True]
    by (simp add: sample_publish_def sample_csi_node_def)
qed

section \<open>Withdrawing a volume from a node\<close>

text \<open>C16. Withdrawing undoes publishing if \<open>umount\<close> succeeds: all mounts are as they were before the
  volume was published. If \<open>umount\<close> fails, the volume stays mounted, and the target is removed with
  \<open>remove_dir_all\<close> while the volume is still mounted there; the request is answered with success
  all the same. Unstaging does the same with the staging path.\<close>

theorem unpublish_undoes_publish:
  assumes "mounts_ok E mounts" "run_io (node_publish_volume E n req) w = (Inr (), w1)"
    and "run_io (run_cmd E ''umount'' [np_target_path req]) w1 = (r, w2)"
    and "run_io (remove_dir_all E (np_target_path req)) w2 = (gone, w3)"
  shows "run_io (node_unpublish_volume E (np_target_path req)) w1 = ((), w3)
    \<and> run_io (node_unstage_volume E (np_target_path req)) w1 = ((), w3)
    \<and> ((\<exists>out. r = Inr out \<and> success out) \<longrightarrow> mounts w2 = mounts w \<and> mounts w3 = mounts w)
    \<and> (\<not> (\<exists>out. r = Inr out \<and> success out) \<longrightarrow>
         (\<exists>path ro. mounts w2 (np_target_path req) = (path, ro) # mounts w (np_target_path req))
       \<and> mounts w3 = mounts w2)"
proof -
  let ?t = "np_target_path req"
  obtain path ro where w1: "mounts w1 = (mounts w)(?t := (path, ro) # mounts w ?t)"
    using publish_mounts [OF assms(1,2)] by auto
  have w2: "mounts w2 = (if succeeded r then (mounts w1)(?t := tl (mounts w1 ?t)) else mounts w1)"
    using mountsD(4) [OF assms(1,3)] .
  have w3: "mounts w3 = mounts w2" using mountsD(2) [OF assms(1), of ?t w2] assms(4) by simp
  have "succeeded r \<longleftrightarrow> (\<exists>out. r = Inr out \<and> success out)" by (auto simp: succeeded_def split: sum.splits)
  with w1 w2 w3 assms(3,4) show ?thesis
    by (auto simp: node_unpublish_volume_def node_unstage_volume_def)
qed

theorem unpublish_undoes_publish_witness:
  "sample_mounts (snd (run_io (node_unpublish_volume (mount_env False) ''/pod'') published_world)) = sample_mounts sample_start
   \<and> sample_mounts (snd (run_io (node_unpublish_volume (mount_env True) ''/pod'') published_world)) ''/pod'' \<noteq> []"
proof -
  have t: "np_target_path sample_publish = ''/pod''" by (simp add: sample_publish_def)
  have ok: "run_io (run_cmd (mount_env False) ''umount'' [np_target_path sample_publish]) published_world
      = (Inr (out_ok []), sample_start)"
    by (simp add: mount_env_simps t published_world_def)
  have bad: "run_io (run_cmd (mount_env True) ''umount'' [np_target_path sample_publish]) published_world
      = (Inr out_fail, published_world)"
    by (simp add: mount_env_simps)
  have rm: "run_io (remove_dir_all (mount_env b) (np_target_path sample_publish)) x = (True, x)" for b x
    by (simp add: mount_env_simps)
  from unpublish_undoes_publish [OF mount_env_ok sample_publish_runs ok rm]
    unpublish_undoes_publish [OF mount_env_ok sample_publish_runs bad rm] t
  show ?thesis by (auto simp: out_ok_def out_fail_def)
qed

section \<open>Statistics\<close>

text \<open>The second word of the line that \<open>btrfs filesystem usage -b\<close> prints for the allocated size is
  \<open>allocated:\<close>, so the size is never read: the total stays 0, and the available size wraps around
  to the negative of the used one.\<close>

lemma allocated_line_ignored:
  "split_whitespace line = ''Device'' # ''allocated:'' # rest \<Longrightarrow> usage_line acc line = acc"
proof -
  have "parse_u64 ''allocated:'' = None"
    by (rule parse_u64_non_digit [of "CHR '':''"]) (simp_all add: is_digit_def)
  moreover assume "split_whitespace line = ''Device'' # ''allocated:'' # rest"
  ultimately show ?thesis by (simp add: usage_line_def)
qed

lemma usage_fold:
  "(\<And>l. l \<in> set ls \<Longrightarrow> contains_str l ''Device allocated'' \<Longrightarrow> \<exists>rest. split_whitespace l = ''Device'' # ''allocated:'' # rest) \<Longrightarrow>
     fst (foldl usage_line acc ls) = fst acc"
proof (induction ls arbitrary: acc)
  case Nil
  then show ?case by simp
next
  case (Cons l ls)
  have "fst (usage_line acc l) = fst acc"
  proof (cases "contains_str l ''Device allocated''")
    case True
    with Cons.prems [of l] obtain rest where "split_whitespace l = ''Device'' # ''allocated:'' # rest" by auto
    then show ?thesis by (simp add: allocated_line_ignored)
  next
    case False
    then show ?thesis by (auto simp: usage_line_def split: list.splits option.splits)
  qed
  with Cons show ?case by simp
qed

text \<open>The reported volume statistics are wrong for every output in the format of \<open>btrfs\<close>: when
  every line about the allocated size has the words \<open>Device allocated: N\<close>, the total is reported
  as 0 and the available size as the negative of the used size, modulo \<open>2^64\<close>.\<close>

theorem stats_total_is_zero:
  assumes "run_io (run_cmd E ''btrfs'' [''filesystem'', ''usage'', ''-b'', cn_data_dir n]) w = (Inr out, w1)"
    and "\<And>l. l \<in> set (lines (stdout out)) \<Longrightarrow> contains_str l ''Device allocated'' \<Longrightarrow>
           \<exists>rest. split_whitespace l = ''Device'' # ''allocated:'' # rest"
  shows "\<exists>s w2. run_io (node_get_volume_stats E n) w = (Inr s, w2)
       \<and> vs_total s = 0 \<and> vs_available s = - vs_used s"
proof -
  have "fst (parse_btrfs_usage (stdout out)) = 0"
    unfolding parse_btrfs_usage_def using usage_fold [OF assms(2)] by simp
  then show ?thesis
    using assms(1) by (auto simp: node_get_volume_stats_def Let_def split: prod.splits)
qed


definition usage_env :: "sample env" where
  "usage_env = sample_env\<lparr>run_cmd := (\<lambda>p args. State_Monad.return
     (Inr (out_ok (''    Device allocated: 4096'' @ [CHR 0x0A] @ ''    Used: 1024''))))\<rparr>"

theorem stats_total_is_zero_witness:
  "\<exists>s w2. run_io (node_get_volume_stats usage_env sample_csi_node) sample_start = (Inr s, w2)
     \<and> vs_total s = 0 \<and> vs_available s = - vs_used s"
proof -
  let ?t = "''    Device allocated: 4096'' @ [CHR 0x0A] @ ''    Used: 1024''"
  have run: "run_io (run_cmd usage_env ''btrfs'' [''filesystem'', ''usage'', ''-b'', cn_data_dir sample_csi_node]) sample_start
      = (Inr (out_ok ?t), sample_start)"
    by (simp add: usage_env_def)
  have ls: "lines (stdout (out_ok ?t)) = [''    Device allocated: 4096'', ''    Used: 1024'']"
    by (simp add: out_ok_def lines_def split_on_def Let_def strip_cr_def)
  have "\<exists>rest. split_whitespace l = ''Device'' # ''allocated:'' # rest"
    if "l \<in> set (lines (stdout (out_ok ?t)))" "contains_str l ''Device allocated''" for l
  proof -
    have "l = ''    Device allocated: 4096'' \<or> l = ''    Used: 1024''" using that(1) unfolding ls by simp
    with that(2) show ?thesis by (auto simp: split_whitespace_def is_ws_def)
  qed
  from stats_total_is_zero [OF run this] show ?thesis .
qed

end
