(* ===== verification/Csi_Main.thy ===== *)
theory Csi_Main
  imports Csi_Node
begin

text \<open>
  The identity service, the gRPC server and the start of the driver: \<open>csi_identity.rs\<close>,
  \<open>csi_server.rs\<close> and \<open>main.rs\<close> of \<open>crates/btrfs-csi/src\<close>. The gRPC library, the command-line
  parser, logging and signals are not modelled; the loops that the start leaves running are the
  ticks and rounds of the theories of the services.
\<close>

section \<open>Identity\<close>

record plugin_info =
  pi_name :: string
  pi_vendor_version :: string
  pi_manifest :: "string hmap"

definition CARGO_PKG_VERSION :: string where "CARGO_PKG_VERSION = ''0.1.0''"

definition get_plugin_info :: "string \<Rightarrow> plugin_info" where
  "get_plugin_info node =
     \<lparr>pi_name = ''btrfs-csi'', pi_vendor_version = CARGO_PKG_VERSION,
      pi_manifest = hm_insert ''driver'' ''btrfs'' (hm_insert ''node_id'' node [])\<rparr>"

datatype plugin_capability = ControllerService | VolumeAccessibilityConstraints

definition get_plugin_capabilities :: "plugin_capability list" where
  "get_plugin_capabilities = [ControllerService, VolumeAccessibilityConstraints]"

definition probe :: "'w env \<Rightarrow> ('w, bool) io" where
  "probe E = do {
     r \<leftarrow> run_cmd E ''btrfs'' [''version''];
     State_Monad.return (case r of Inl _ \<Rightarrow> False | Inr output \<Rightarrow> success output)
   }"

section \<open>The server\<close>

record csi_server =
  sv_endpoint :: string
  sv_identity :: string
  sv_controller :: controller
  sv_node :: csi_node

definition new_server ::
  "'w env \<Rightarrow> string \<Rightarrow> string \<Rightarrow> string \<Rightarrow> string \<Rightarrow> exchange_config \<Rightarrow> volume_profile hmap \<Rightarrow> ('w, csi_server) io" where
  "new_server E endpoint node z dir cfg profiles = do {
     n \<leftarrow> new_node E node z dir;
     State_Monad.return
       \<lparr>sv_endpoint = endpoint, sv_identity = node,
        sv_controller = \<lparr>ct_node_id = node, ct_zone = z, ct_data_dir = dir, ct_config = cfg, ct_profiles = profiles\<rparr>,
        sv_node = n\<rparr>
   }"

text \<open>\<open>Path::parent\<close> of an absolute path, \<open>None\<close> for the root.\<close>

definition parent_dir :: "string \<Rightarrow> string option" where
  "parent_dir p =
     (let cs = filter (\<lambda>c. c \<noteq> [] \<and> c \<noteq> ''.'') (split_on (CHR ''/'') p) in
      if cs = [] then None else Some (''/'' @ join ''/'' (butlast cs)))"

definition socket_path :: "string \<Rightarrow> string" where
  "socket_path endpoint = dropWhile (\<lambda>c. c = CHR ''/'') (unwrap_or (strip_prefix endpoint ''unix://'') endpoint)"

definition serve :: "'w env \<Rightarrow> csi_server \<Rightarrow> ('w, string + unit) io" where
  "serve E s =
     (if starts_with (sv_endpoint s) ''unix://'' then
        (if socket_path (sv_endpoint s) = [] then
           State_Monad.return (Inl ''unix:// endpoint must contain a path, e.g. unix:///var/run/csi.sock'')
         else do {
           let path = ''/'' @ socket_path (sv_endpoint s);
           _ \<leftarrow> remove_file E path;
           and_then (case parent_dir path of None \<Rightarrow> State_Monad.return (Inr ()) | Some d \<Rightarrow> create_dir_all E d)
             (\<lambda>_. serve_unix E path)
         })
      else if \<not> valid_addr E (sv_endpoint s) then State_Monad.return (Inl ''invalid socket address syntax'')
      else serve_tcp E (sv_endpoint s))"

section \<open>Starting and stopping\<close>

record args =
  arg_config :: string
  arg_endpoint :: string
  arg_node_id :: "string option"
  arg_zone :: "string option"
  arg_auth_key :: "string option"

fun clean_mounts :: "'w env \<Rightarrow> string list \<Rightarrow> ('w, unit) io" where
  "clean_mounts E [] = State_Monad.return ()"
| "clean_mounts E (path # rest) = do {
     d \<leftarrow> is_dir E path;
     _ \<leftarrow> (if \<not> d then State_Monad.return ()
          else do {
            r \<leftarrow> run_cmd E ''mountpoint'' [''-q'', path];
            case r of
              Inl _ \<Rightarrow> State_Monad.return ()
            | Inr output \<Rightarrow>
                (if success output then run_ignored E ''umount'' [path] else State_Monad.return ())
          });
     clean_mounts E rest
   }"

definition cleanup_stale_mounts :: "'w env \<Rightarrow> string \<Rightarrow> ('w, unit) io" where
  "cleanup_stale_mounts E dir = do {
     there \<leftarrow> path_exists E dir;
     if \<not> there then State_Monad.return ()
     else do {
       names \<leftarrow> read_dir E dir;
       case names of
         None \<Rightarrow> State_Monad.return ()
       | Some ns \<Rightarrow> clean_mounts E (map (path_join dir) ns)
     }
   }"

text \<open>The configuration in effect: the file or the defaults, overridden by the command line.\<close>

definition override :: "args \<Rightarrow> exchange_config \<Rightarrow> exchange_config" where
  "override a cfg =
     (let cfg = (case arg_node_id a of None \<Rightarrow> cfg | Some x \<Rightarrow> cfg\<lparr>node_id := x\<rparr>);
          cfg = (case arg_zone a of None \<Rightarrow> cfg | Some x \<Rightarrow> cfg\<lparr>zone := x\<rparr>) in
      case arg_auth_key a of None \<Rightarrow> cfg | Some x \<Rightarrow> cfg\<lparr>cfg_auth_key := x\<rparr>)"

definition configure :: "'w env \<Rightarrow> (string \<Rightarrow> exchange_config option) \<Rightarrow> args \<Rightarrow> ('w, exchange_config) io" where
  "configure E parse a = do {
     r \<leftarrow> load E parse (arg_config a);
     cfg \<leftarrow> (case r of Inl _ \<Rightarrow> default_exchange_config E | Inr c \<Rightarrow> State_Monad.return c);
     State_Monad.return (override a cfg)
   }"

datatype 'w startup = Exited | Failed | Running exchange_config "'w shared" csi_server

text \<open>The services, in the order they are started; a failing bind of the replication receiver is only
  logged by its task.\<close>

definition start_services :: "'w env \<Rightarrow> args \<Rightarrow> exchange_config \<Rightarrow> ('w, 'w startup) io" where
  "start_services E a cfg = do {
     bound \<leftarrow> bind_listener E cfg;
     case bound of
       Inl _ \<Rightarrow> State_Monad.return Failed
     | Inr _ \<Rightarrow> do {
         (joined, g) \<leftarrow> (if seed_nodes cfg \<noteq> [] then join_cluster E cfg new_gossip
                          else State_Monad.return (Inr (), new_gossip));
         case joined of
           Inl _ \<Rightarrow> State_Monad.return Failed
         | Inr _ \<Rightarrow> do {
             _ \<leftarrow> bind_receiver E cfg;
             s \<leftarrow> new_server E (arg_endpoint a) (node_id cfg) (zone cfg) (data_dir (replication cfg)) cfg
                    (volume_profiles (replication cfg));
             State_Monad.return (Running cfg \<lparr>sh_gossip = g, sh_states = []\<rparr> s)
           }
       }
   }"

definition startup_driver :: "'w env \<Rightarrow> (string \<Rightarrow> exchange_config option) \<Rightarrow> args \<Rightarrow> ('w, 'w startup) io" where
  "startup_driver E parse a = do {
     cfg \<leftarrow> configure E parse a;
     if cfg_auth_key cfg = [] then State_Monad.return Exited
     else do {
       d1 \<leftarrow> create_dir_all E (data_dir (replication cfg));
       case d1 of
         Inl _ \<Rightarrow> State_Monad.return Failed
       | Inr _ \<Rightarrow> do {
           d2 \<leftarrow> create_dir_all E (snapshot_dir (replication cfg));
           case d2 of
             Inl _ \<Rightarrow> State_Monad.return Failed
           | Inr _ \<Rightarrow> do {
               _ \<leftarrow> cleanup_stale_mounts E (data_dir (replication cfg));
               start_services E a cfg
             }
         }
     }
   }"

text \<open>What happens on a termination signal.\<close>

definition shutdown_driver :: "'w env \<Rightarrow> exchange_config \<Rightarrow> 'w shared \<Rightarrow> ('w, unit) io" where
  "shutdown_driver E cfg sh = do {
     _ \<leftarrow> leave_cluster E cfg (sh_gossip sh);
     sleep_ms E 2000
   }"

section \<open>What a start guarantees\<close>

lemma new_gossip_ok: "gossip_ok new_gossip"
  by (simp add: gossip_ok_def peers_ok_def epochs_ok_def new_gossip_def)

lemma override_fields:
  "cfg_auth_key (override a c) = unwrap_or (arg_auth_key a) (cfg_auth_key c)"
  "node_id (override a c) = unwrap_or (arg_node_id a) (node_id c)"
  by (simp_all add: override_def split: option.splits)

lemma configure_override:
  assumes "run_io (configure E parse a) w = (cfg, w1)"
  obtains c where "cfg = override a c"
  using assms that by (auto simp: configure_def split: prod.splits)

lemma new_server_fields:
  assumes "run_io (new_server E endpoint node z dir cfg profiles) w = (s, w')"
  shows "sv_identity s = node \<and> ct_node_id (sv_controller s) = node \<and> cn_node_id (sv_node s) = node
    \<and> ct_data_dir (sv_controller s) = dir \<and> cn_data_dir (sv_node s) = dir \<and> ct_config (sv_controller s) = cfg"
  using assms by (auto simp: new_server_def new_node_def split: prod.splits)

lemma start_services_running:
  assumes "run_io (start_services E a cfg) w = (Running c sh s, w')"
  shows "c = cfg \<and> gossip_ok (sh_gossip sh) \<and> sv_identity s = node_id cfg
    \<and> ct_node_id (sv_controller s) = node_id cfg \<and> cn_node_id (sv_node s) = node_id cfg
    \<and> ct_data_dir (sv_controller s) = cn_data_dir (sv_node s) \<and> ct_config (sv_controller s) = cfg"
proof -
  obtain b w1 where b: "run_io (bind_listener E cfg) w = (b, w1)" by (rule prod.exhaust)
  obtain joined g w2 where j: "run_io (if seed_nodes cfg \<noteq> [] then join_cluster E cfg new_gossip
      else State_Monad.return (Inr (), new_gossip)) w1 = ((joined, g), w2)" by (metis surj_pair)
  have g: "gossip_ok g"
    using j new_gossip_ok join_seeds_ok [OF _ new_gossip_ok]
    by (cases "seed_nodes cfg = []") (auto simp: join_cluster_def)
  obtain x w3 where x: "run_io (bind_receiver E cfg) w2 = (x, w3)" by (rule prod.exhaust)
  obtain s' w4 where s': "run_io (new_server E (arg_endpoint a) (node_id cfg) (zone cfg) (data_dir (replication cfg)) cfg
      (volume_profiles (replication cfg))) w3 = (s', w4)" by (rule prod.exhaust)
  have "c = cfg" "s = s'" "sh_gossip sh = g"
    using assms b j x s' by (cases b; cases joined; auto simp: start_services_def)+
  with g new_server_fields [OF s'] show ?thesis by simp
qed

text \<open>C14. The driver does not run without an authentication key. When the configuration in effect has
  an empty key, the process exits and has done nothing but read its configuration; and when the
  services run, the key is not empty, the overrides of the command line are in effect, controller,
  node and identity services carry the node's identifier and data directory, and the gossip tables
  are well formed.\<close>

theorem startup_requires_key:
  assumes "run_io (configure E parse a) w = (cfg, w1)"
    and "run_io (startup_driver E parse a) w = (r, w')"
  shows "(cfg_auth_key cfg = [] \<longrightarrow> r = Exited \<and> w' = w1)
    \<and> (\<forall>c sh s. r = Running c sh s \<longrightarrow>
         c = cfg \<and> cfg_auth_key cfg \<noteq> []
         \<and> (\<forall>k. arg_auth_key a = Some k \<longrightarrow> cfg_auth_key cfg = k)
         \<and> (\<forall>i. arg_node_id a = Some i \<longrightarrow> sv_identity s = i)
         \<and> ct_node_id (sv_controller s) = sv_identity s \<and> cn_node_id (sv_node s) = sv_identity s
         \<and> ct_data_dir (sv_controller s) = cn_data_dir (sv_node s) \<and> ct_config (sv_controller s) = cfg
         \<and> gossip_ok (sh_gossip sh))"
proof -
  obtain c0 where c0: "cfg = override a c0" by (rule configure_override [OF assms(1)])
  have key: "cfg_auth_key cfg = [] \<longrightarrow> r = Exited \<and> w' = w1"
    using assms by (auto simp: startup_driver_def)
  have run: "cfg_auth_key cfg \<noteq> [] \<and> (\<exists>w2. run_io (start_services E a cfg) w2 = (r, w'))" if "r = Running c sh s" for c sh s
    using assms that by (cases "cfg_auth_key cfg = []") (auto simp: startup_driver_def split: prod.splits sum.splits)
  have "c = cfg \<and> cfg_auth_key cfg \<noteq> []
         \<and> (\<forall>k. arg_auth_key a = Some k \<longrightarrow> cfg_auth_key cfg = k)
         \<and> (\<forall>i. arg_node_id a = Some i \<longrightarrow> sv_identity s = i)
         \<and> ct_node_id (sv_controller s) = sv_identity s \<and> cn_node_id (sv_node s) = sv_identity s
         \<and> ct_data_dir (sv_controller s) = cn_data_dir (sv_node s) \<and> ct_config (sv_controller s) = cfg
         \<and> gossip_ok (sh_gossip sh)" if r: "r = Running c sh s" for c sh s
  proof -
    obtain w2 where "cfg_auth_key cfg \<noteq> []" "run_io (start_services E a cfg) w2 = (Running c sh s, w')"
      using run [OF r] r by blast
    with start_services_running [OF this(2)] override_fields [of a c0] c0 show ?thesis by simp
  qed
  with key show ?thesis by blast
qed

theorem startup_requires_key_witness:
  "fst (run_io (startup_driver sample_env (\<lambda>_. None) \<lparr>arg_config = ''/etc/none'', arg_endpoint = ''unix:///csi.sock'',
      arg_node_id = None, arg_zone = None, arg_auth_key = None\<rparr>) sample_start) = Exited"
proof -
  let ?a = "\<lparr>arg_config = ''/etc/none'', arg_endpoint = ''unix:///csi.sock'',
      arg_node_id = None, arg_zone = None, arg_auth_key = None\<rparr>"
  obtain cfg w1 where cfg: "run_io (configure sample_env (\<lambda>_. None) ?a) sample_start = (cfg, w1)" by (rule prod.exhaust)
  then have key: "cfg_auth_key cfg = []"
    by (auto simp: configure_def load_def sample_env_simps default_exchange_config_def override_def)
  obtain r w' where run: "run_io (startup_driver sample_env (\<lambda>_. None) ?a) sample_start = (r, w')" by (rule prod.exhaust)
  have "r = Exited" using conjunct1 [OF startup_requires_key [OF cfg run]] key by (simp only: simp_thms)
  then show ?thesis by (simp only: run fst_conv)
qed

end
