(* ===== verification/Scheduler.thy ===== *)
theory Scheduler
  imports Usage Csi_Main "HOL-Library.Product_Lexorder"
begin

text \<open>
  The maintenance scheduler, \<open>crates/btrfs-exchange/src/scheduler.rs\<close>: waiting for a quiet moment,
  balancing, scrubbing and the deletion of old snapshots. Each loop is modelled by one of its ticks.
\<close>

section \<open>Waiting for a maintenance window\<close>

definition CPU_LOAD_THRESHOLD :: f64 where "CPU_LOAD_THRESHOLD = Finite 4"
definition IO_BUSY_THRESHOLD :: f64 where "IO_BUSY_THRESHOLD = Finite 1000"
definition BUSY_RETRY_SECS :: u64 where "BUSY_RETRY_SECS = 900"

definition system_is_busy :: "'w env \<Rightarrow> string \<Rightarrow> ('w, bool) io" where
  "system_is_busy E dir = do {
     cpu_busy \<leftarrow> is_system_busy E CPU_LOAD_THRESHOLD;
     disk_busy \<leftarrow> is_disk_busy E dir IO_BUSY_THRESHOLD;
     State_Monad.return (cpu_busy \<or> disk_busy)
   }"

text \<open>At most \<open>n\<close> more attempts; the result says how often the loop paused.\<close>

fun wait_window :: "'w env \<Rightarrow> string \<Rightarrow> nat \<Rightarrow> ('w, nat) io" where
  "wait_window E dir 0 = State_Monad.return 0"
| "wait_window E dir (Suc n) = do {
     busy \<leftarrow> system_is_busy E dir;
     if \<not> busy then State_Monad.return 0
     else do {
       _ \<leftarrow> get_load_average E;
       _ \<leftarrow> sleep_ms E (BUSY_RETRY_SECS * 1000);
       k \<leftarrow> wait_window E dir n;
       State_Monad.return (Suc k)
     }
   }"

definition wait_for_maintenance_window :: "'w env \<Rightarrow> exchange_config \<Rightarrow> ('w, nat) io" where
  "wait_for_maintenance_window E cfg = wait_window E (data_dir (replication cfg)) 4"

definition run_with_idle_io :: "'w env \<Rightarrow> ('w, unit) io \<Rightarrow> ('w, unit) io" where
  "run_with_idle_io E f = do { _ \<leftarrow> set_io_priority_idle E; f }"

section \<open>Balance and scrub\<close>

text \<open>\<open>split_number_unit\<close>: the text up to its last digit, and what follows it.\<close>

definition split_number_unit :: "string \<Rightarrow> string \<times> string" where
  "split_number_unit t =
     (let s = trim t; unit = rev (takeWhile (\<lambda>c. \<not> is_digit c) (rev s)) in
      if unit = [] then (s, ''B'') else (take (length s - length unit) s, unit))"

definition byte_units :: "(string \<times> nat) list" where
  "byte_units = [(''B'', 0), (''KiB'', 1), (''KB'', 1), (''MiB'', 2), (''MB'', 2), (''GiB'', 3), (''GB'', 3),
     (''TiB'', 4), (''TB'', 4)]"

definition convert_to_bytes :: "f64 \<Rightarrow> string \<Rightarrow> f64" where
  "convert_to_bytes v unit = times_1024 (unwrap_or (map_of byte_units unit) 0) v"

definition nth_piece :: "char \<Rightarrow> nat \<Rightarrow> string \<Rightarrow> string option" where
  "nth_piece d n s = (let ps = split_on d s in if n < length ps then Some (ps ! n) else None)"

text \<open>A number with its unit, in bytes.\<close>

definition bytes_value :: "string \<Rightarrow> f64 option" where
  "bytes_value t = (let (num, unit) = split_number_unit t in map_option (\<lambda>v. convert_to_bytes v unit) (parse_f64 num))"

definition extract_usage_pct :: "string \<Rightarrow> u64 option" where
  "extract_usage_pct line = do {
     used_part \<leftarrow> nth_piece (CHR '','') 1 line;
     pct_str \<leftarrow> strip_prefix (trim used_part) ''used='';
     used_bytes \<leftarrow> bytes_value pct_str;
     total_str \<leftarrow> nth_piece (CHR '','') 0 line;
     total_val \<leftarrow> nth_piece (CHR ''='') 1 total_str;
     total_bytes \<leftarrow> bytes_value total_val;
     if f64_less (Finite 0) total_bytes
     then Some (u64_of_f64 (f64_mul (f64_div used_bytes total_bytes) (Finite 100)))
     else None
   }"

definition fragmented_line :: "string \<Rightarrow> (u32 \<times> u32) option" where
  "fragmented_line line =
     (if starts_with line ''Data,'' \<or> starts_with line ''Data.''
         \<or> starts_with line ''Metadata,'' \<or> starts_with line ''Metadata.'' then
        (case extract_usage_pct line of
           None \<Rightarrow> None
         | Some pct \<Rightarrow> (if pct < 50 then Some (ucast pct, 0) else None))
      else None)"

definition default_targets :: "(u32 \<times> u32) list" where
  "default_targets = [(25, 25), (50, 50)]"

definition find_fragmented_block_groups :: "'w env \<Rightarrow> string \<Rightarrow> ('w, (u32 \<times> u32) list) io" where
  "find_fragmented_block_groups E dir = do {
     r \<leftarrow> run_cmd E ''btrfs'' [''filesystem'', ''df'', dir];
     State_Monad.return
       (case r of
          Inl _ \<Rightarrow> default_targets
        | Inr output \<Rightarrow>
            (if \<not> success output then default_targets
             else
               let targets = List.map_filter fragmented_line (lines (stdout output)) in
               sort (if targets = [] then default_targets else targets)))
   }"

fun balance_targets :: "'w env \<Rightarrow> string \<Rightarrow> (u32 \<times> u32) list \<Rightarrow> ('w, unit) io" where
  "balance_targets E dir [] = State_Monad.return ()"
| "balance_targets E dir ((dusage, musage) # rest) = do {
     r \<leftarrow> run_cmd E ''btrfs'' [''balance'', ''start'', ''-dusage='' @ show_u32 dusage, ''-musage='' @ show_u32 musage, dir];
     case r of
       Inl _ \<Rightarrow> State_Monad.return ()
     | Inr output \<Rightarrow>
         (if \<not> success output
             \<and> (contains_str (stderr output) ''no balance found'' \<or> contains_str (stderr output) ''Nothing to do'')
          then State_Monad.return ()
          else balance_targets E dir rest)
   }"

definition run_balance :: "'w env \<Rightarrow> exchange_config \<Rightarrow> ('w, unit) io" where
  "run_balance E cfg = do {
     targets \<leftarrow> find_fragmented_block_groups E (data_dir (replication cfg));
     balance_targets E (data_dir (replication cfg)) targets
   }"

definition run_scrub :: "'w env \<Rightarrow> exchange_config \<Rightarrow> ('w, unit) io" where
  "run_scrub E cfg = run_ignored E ''btrfs'' [''scrub'', ''start'', ''-Bd'', data_dir (replication cfg)]"

text \<open>A check that decides whether a maintenance job runs in the next window.\<close>

definition run_when :: "'w env \<Rightarrow> exchange_config \<Rightarrow> ('w, string + bool) io \<Rightarrow> ('w, unit) io \<Rightarrow> ('w, unit) io" where
  "run_when E cfg check job =
     (if \<not> mt_enabled (maintenance cfg) then State_Monad.return ()
      else do {
        r \<leftarrow> check;
        case r of
          Inl _ \<Rightarrow> State_Monad.return ()
        | Inr needed \<Rightarrow>
            (if needed then do {
               _ \<leftarrow> wait_for_maintenance_window E cfg;
               run_with_idle_io E job
             }
             else State_Monad.return ())
      })"

definition balance_check_tick :: "'w env \<Rightarrow> exchange_config \<Rightarrow> ('w, unit) io" where
  "balance_check_tick E cfg =
     run_when E cfg (needs_balance E (data_dir (replication cfg)) (mt_balance_threshold (maintenance cfg)))
       (run_balance E cfg)"

definition scrub_check_tick :: "'w env \<Rightarrow> exchange_config \<Rightarrow> ('w, unit) io" where
  "scrub_check_tick E cfg = run_when E cfg (needs_scrub E None) (run_scrub E cfg)"

section \<open>Deleting old snapshots\<close>

text \<open>The number of snapshots that are kept; the sum wraps in \<open>u32\<close>.\<close>

definition max_keep :: "exchange_config \<Rightarrow> nat" where
  "max_keep cfg =
     (let r = mt_snapshot_retention (maintenance cfg) in unat (sr_daily r + sr_weekly r + sr_monthly r))"

definition listed_snapshot :: "string \<Rightarrow> (string \<times> string) option" where
  "listed_snapshot line =
     (let parts = split_whitespace line in
      if 7 \<le> length parts \<and> parts ! 0 = ''ID'' then
        (let path = join '' '' (drop 6 parts) in Some (last (split_on (CHR ''/'') path), path))
      else None)"

definition sorted_snapshots :: "string \<Rightarrow> (string \<times> string) list" where
  "sorted_snapshots output = sort_key fst (List.map_filter listed_snapshot (lines output))"

text \<open>The names to delete, given a listing.\<close>

definition expired :: "exchange_config \<Rightarrow> string \<Rightarrow> string list" where
  "expired cfg output =
     (if max_keep cfg < length (lines output) then
        (let snapshots = sorted_snapshots output in
         map fst (take (length snapshots - max_keep cfg) snapshots))
      else [])"

fun delete_snapshots :: "'w env \<Rightarrow> string \<Rightarrow> string list \<Rightarrow> ('w, unit) io" where
  "delete_snapshots E dir [] = State_Monad.return ()"
| "delete_snapshots E dir (name # rest) = do {
     _ \<leftarrow> run_ignored E ''btrfs'' [''subvolume'', ''delete'', dir @ ''/'' @ name];
     delete_snapshots E dir rest
   }"

definition snapshot_cleanup_tick :: "'w env \<Rightarrow> exchange_config \<Rightarrow> ('w, unit) io" where
  "snapshot_cleanup_tick E cfg =
     (if \<not> mt_enabled (maintenance cfg) then State_Monad.return ()
      else do {
        let dir = snapshot_dir (replication cfg);
        r \<leftarrow> run_cmd E ''btrfs'' [''subvolume'', ''list'', ''-s'', dir];
        case r of
          Inl _ \<Rightarrow> State_Monad.return ()
        | Inr output \<Rightarrow>
            (if \<not> success output then State_Monad.return ()
             else
               let names = expired cfg (stdout output) in
               if names = [] then State_Monad.return ()
               else do {
                 _ \<leftarrow> wait_for_maintenance_window E cfg;
                 run_with_idle_io E (delete_snapshots E dir names)
               })
      })"

section \<open>Properties\<close>

lemma wait_window_bound: "fst (run_io (wait_window E dir n) w) \<le> n"
  by (induction n arbitrary: w) (simp_all split: prod.splits, metis fst_conv)

text \<open>A maintenance job is deferred at most four times, by 15 minutes each.\<close>

lemma maintenance_wait_bounded:
  "fst (run_io (wait_for_maintenance_window E cfg) w) \<le> 4"
  by (simp add: wait_for_maintenance_window_def wait_window_bound)

lemma sorted_listing: "sorted (map fst (sorted_snapshots output))"
  by (simp add: sorted_snapshots_def sorted_sort_key)

lemma mset_sorted_snapshots:
  "mset (map fst (sorted_snapshots output)) = mset (map fst (List.map_filter listed_snapshot (lines output)))"
  by (simp add: sorted_snapshots_def)

lemma expired_split:
  obtains kept where "map fst (sorted_snapshots output) = expired cfg output @ kept"
    "max_keep cfg < length (lines output) \<Longrightarrow> length kept = min (max_keep cfg) (length (sorted_snapshots output))"
    "length (lines output) \<le> max_keep cfg \<Longrightarrow> expired cfg output = []"
proof (cases "max_keep cfg < length (lines output)")
  case True
  let ?n = "length (sorted_snapshots output) - max_keep cfg"
  have "map fst (sorted_snapshots output) = expired cfg output @ map fst (drop ?n (sorted_snapshots output))"
    using True by (simp add: expired_def Let_def flip: map_append)
  with True show ?thesis by (intro that [of "map fst (drop ?n (sorted_snapshots output))"]) auto
next
  case False
  then show ?thesis by (intro that [of "map fst (sorted_snapshots output)"]) (simp_all add: expired_def)
qed

lemma map_fst_map_filter:
  "map fst (List.map_filter f xs) = List.map_filter (\<lambda>x. map_option fst (f x)) xs"
  by (induction xs) (auto simp: List.map_filter_def)

text \<open>A record of the programs that were run: every one is added with its arguments, and reading
  files, sleeping and setting the I/O priority run none.\<close>

definition command_log :: "'w env \<Rightarrow> ('w \<Rightarrow> (string \<times> string list) list) \<Rightarrow> bool" where
  "command_log E issued \<longleftrightarrow>
     (\<forall>prog args w. issued (snd (run_io (run_cmd E prog args) w)) = issued w @ [(prog, args)])
   \<and> (\<forall>path. preserves issued (read_file E path)) \<and> (\<forall>d. preserves issued (sleep_ms E d))
   \<and> (\<forall>who v. preserves issued (ioprio_set E who v))"

lemma command_logD:
  assumes "command_log E issued"
  shows "issued (snd (run_io (run_cmd E prog args) w)) = issued w @ [(prog, args)]"
    and "preserves issued (read_file E path)" and "preserves issued (sleep_ms E d)"
    and "preserves issued (ioprio_set E who v)"
  using assms by (simp_all add: command_log_def)

lemma busy_check_quiet:
  assumes "command_log E issued"
  shows "preserves issued (system_is_busy E dir)"
proof -
  have "preserves issued (is_disk_busy E d t)" for d t
    unfolding is_disk_busy_def Let_def
    by (intro preserves_bind preserves_option preserves_return command_logD(2) [OF assms])
  then show ?thesis
    unfolding system_is_busy_def is_system_busy_def
    by (intro preserves_bind preserves_return command_logD(2) [OF assms])
qed

lemma wait_window_quiet:
  assumes "command_log E issued"
  shows "preserves issued (wait_window E dir n)"
proof (induction n)
  case 0
  then show ?case by (simp add: preserves_return)
next
  case (Suc n)
  have "preserves issued (get_load_average E)"
    unfolding get_load_average_def by (intro preserves_bind preserves_return command_logD(2) [OF assms])
  with Suc show ?case
    by (auto intro!: preserves_bind busy_check_quiet [OF assms] command_logD(3) [OF assms])
qed

lemma delete_snapshots_issued:
  "command_log E issued \<Longrightarrow>
     issued (snd (run_io (delete_snapshots E dir names) w))
       = issued w @ map (\<lambda>name. (''btrfs'', [''subvolume'', ''delete'', dir @ ''/'' @ name])) names"
proof (induction names arbitrary: w)
  case Nil
  then show ?case by simp
next
  case (Cons name names)
  obtain r w1 where r: "run_io (run_cmd E ''btrfs'' [''subvolume'', ''delete'', dir @ ''/'' @ name]) w = (r, w1)"
    by (rule prod.exhaust)
  then have "issued w1 = issued w @ [(''btrfs'', [''subvolume'', ''delete'', dir @ ''/'' @ name])]"
    using command_logD(1) [OF Cons.prems] by (metis snd_conv)
  with r Cons.IH [OF Cons.prems, of w1] show ?case by (simp add: run_ignored_def)
qed

text \<open>The tick runs the listing and then the deletion of the expired names.\<close>

lemma cleanup_issued:
  assumes "command_log E issued" "mt_enabled (maintenance cfg)"
    and "run_io (run_cmd E ''btrfs'' [''subvolume'', ''list'', ''-s'', snapshot_dir (replication cfg)]) w = (Inr out, w1)"
    and "success out"
  shows "issued (snd (run_io (snapshot_cleanup_tick E cfg) w))
     = issued w @ (''btrfs'', [''subvolume'', ''list'', ''-s'', snapshot_dir (replication cfg)])
       # map (\<lambda>name. (''btrfs'', [''subvolume'', ''delete'', snapshot_dir (replication cfg) @ ''/'' @ name]))
           (expired cfg (stdout out))"
proof -
  let ?names = "expired cfg (stdout out)"
  have w1: "issued w1 = issued w @ [(''btrfs'', [''subvolume'', ''list'', ''-s'', snapshot_dir (replication cfg)])]"
    using command_logD(1) [OF assms(1)] assms(3) by (metis snd_conv)
  obtain k w2 where k: "run_io (wait_for_maintenance_window E cfg) w1 = (k, w2)" by (rule prod.exhaust)
  obtain r w3 where r: "run_io (set_io_priority_idle E) w2 = (r, w3)" by (rule prod.exhaust)
  have "preserves issued (set_io_priority_idle E)"
    unfolding set_io_priority_idle_def by (intro preserves_bind preserves_return command_logD(4) [OF assms(1)])
  then have "issued w3 = issued w1"
    using k r wait_window_quiet [OF assms(1)] unfolding wait_for_maintenance_window_def by (metis preserves_run)
  moreover have "run_io (snapshot_cleanup_tick E cfg) w =
      (if ?names = [] then ((), w1) else run_io (delete_snapshots E (snapshot_dir (replication cfg)) ?names) w3)"
    using assms(2-4) k r by (simp add: snapshot_cleanup_tick_def run_with_idle_io_def Let_def)
  ultimately show ?thesis using w1 delete_snapshots_issued [OF assms(1)] by simp
qed

text \<open>C17. The snapshot cleanup deletes, of the listed snapshots, those with the smallest names. A tick
  runs the listing of the snapshot directory and then exactly the deletions of \<open>names\<close> in this
  directory, and no other program; the names deleted, followed by the names kept, are the sorted list
  of the names of all listed snapshots. If the listing has more lines than the daily, weekly and
  monthly numbers add up to (in \<open>u32\<close>), that many names are kept, or all if fewer were recognised;
  otherwise nothing is deleted.\<close>

theorem retention_deletes_smallest_names:
  assumes "command_log E issued" "mt_enabled (maintenance cfg)"
    and "run_io (run_cmd E ''btrfs'' [''subvolume'', ''list'', ''-s'', snapshot_dir (replication cfg)]) w = (Inr out, w1)"
    and "success out"
    and "listed = List.map_filter (\<lambda>line. let parts = split_whitespace line in
           if 7 \<le> length parts \<and> parts ! 0 = ''ID''
           then Some (last (split_on (CHR ''/'') (join '' '' (drop 6 parts)))) else None) (lines (stdout out))"
    and "keep = unat (sr_daily (mt_snapshot_retention (maintenance cfg))
           + sr_weekly (mt_snapshot_retention (maintenance cfg)) + sr_monthly (mt_snapshot_retention (maintenance cfg)))"
  shows "\<exists>names kept.
       issued (snd (run_io (snapshot_cleanup_tick E cfg) w))
         = issued w @ (''btrfs'', [''subvolume'', ''list'', ''-s'', snapshot_dir (replication cfg)])
           # map (\<lambda>name. (''btrfs'', [''subvolume'', ''delete'', snapshot_dir (replication cfg) @ ''/'' @ name])) names
     \<and> sorted (names @ kept) \<and> mset (names @ kept) = mset listed
     \<and> (if keep < length (lines (stdout out)) then length kept = min keep (length listed) else names = [])"
proof -
  have keep: "max_keep cfg = keep" by (simp add: max_keep_def assms(6) Let_def)
  have "map_option fst (listed_snapshot line) = (let parts = split_whitespace line in
      if 7 \<le> length parts \<and> parts ! 0 = ''ID''
      then Some (last (split_on (CHR ''/'') (join '' '' (drop 6 parts)))) else None)" for line
    by (simp add: listed_snapshot_def Let_def)
  then have listed: "listed = map fst (List.map_filter listed_snapshot (lines (stdout out)))"
    unfolding assms(5) by (simp add: map_fst_map_filter)
  obtain kept where kept: "map fst (sorted_snapshots (stdout out)) = expired cfg (stdout out) @ kept"
    "max_keep cfg < length (lines (stdout out)) \<Longrightarrow> length kept = min (max_keep cfg) (length (sorted_snapshots (stdout out)))"
    "length (lines (stdout out)) \<le> max_keep cfg \<Longrightarrow> expired cfg (stdout out) = []"
    using expired_split [of "stdout out" cfg] by metis
  have "length (sorted_snapshots (stdout out)) = length listed"
    by (simp add: sorted_snapshots_def listed)
  with kept keep listed sorted_listing [of "stdout out"] mset_sorted_snapshots [of "stdout out"]
    cleanup_issued [OF assms(1-4)]
  show ?thesis by (intro exI [of _ "expired cfg (stdout out)"] exI [of _ kept]) (simp add: not_less)
qed

text \<open>Sorting by name compares the names of volumes before the times: with two snapshots and one to
  keep, the newer one of volume \<open>a\<close> is deleted and the older one of volume \<open>b\<close> is kept.\<close>

definition two_snapshots :: string where
  "two_snapshots = ''ID 1 gen 1 top level 5 path s/a_snap_2025'' @ [CHR 0x0A] @ ''ID 2 gen 2 top level 5 path s/b_snap_2020''"

definition keep_one :: exchange_config where
  "keep_one = (sample_config ''a'')\<lparr>maintenance := default_maintenance_config\<lparr>mt_snapshot_retention :=
     \<lparr>sr_daily = 1, sr_weekly = 0, sr_monthly = 0\<rparr>\<rparr>\<rparr>"

lemma two_snapshots_lines:
  "lines two_snapshots = [''ID 1 gen 1 top level 5 path s/a_snap_2025'', ''ID 2 gen 2 top level 5 path s/b_snap_2020'']"
  by (simp add: two_snapshots_def lines_def split_on_def Let_def strip_cr_def)

lemma retention_ignores_age: "expired keep_one two_snapshots = [''a_snap_2025'']"
proof -
  have "split_whitespace ''ID 1 gen 1 top level 5 path s/a_snap_2025'' = [''ID'', ''1'', ''gen'', ''1'', ''top'', ''level'', ''5'', ''path'', ''s/a_snap_2025'']"
    "split_whitespace ''ID 2 gen 2 top level 5 path s/b_snap_2020'' = [''ID'', ''2'', ''gen'', ''2'', ''top'', ''level'', ''5'', ''path'', ''s/b_snap_2020'']"
    by (simp_all add: split_whitespace_def is_ws_def)
  then have "listed_snapshot ''ID 1 gen 1 top level 5 path s/a_snap_2025'' = Some (''a_snap_2025'', ''5 path s/a_snap_2025'')"
    "listed_snapshot ''ID 2 gen 2 top level 5 path s/b_snap_2020'' = Some (''b_snap_2020'', ''5 path s/b_snap_2020'')"
    by (simp_all add: listed_snapshot_def split_on_def Let_def)
  then have "sorted_snapshots two_snapshots = [(''a_snap_2025'', ''5 path s/a_snap_2025''), (''b_snap_2020'', ''5 path s/b_snap_2020'')]"
    by (simp add: sorted_snapshots_def two_snapshots_lines List.map_filter_def less_char_def)
  moreover have "max_keep keep_one = 1" by (simp add: max_keep_def keep_one_def)
  ultimately show ?thesis by (simp add: expired_def two_snapshots_lines)
qed

definition listing_env :: "(string \<times> string list) list env" where
  "listing_env = idle_env\<lparr>
     run_cmd := (\<lambda>p args. State (\<lambda>w. (Inr (out_ok two_snapshots), w @ [(p, args)])))\<rparr>"

theorem retention_deletes_smallest_names_witness:
  "\<exists>names kept. snd (run_io (snapshot_cleanup_tick listing_env keep_one) [])
       = (''btrfs'', [''subvolume'', ''list'', ''-s'', snapshot_dir (replication keep_one)])
         # map (\<lambda>name. (''btrfs'', [''subvolume'', ''delete'', snapshot_dir (replication keep_one) @ ''/'' @ name])) names
     \<and> sorted (names @ kept) \<and> length kept \<le> 1"
proof -
  have log: "command_log listing_env (\<lambda>w. w)"
    by (simp add: command_log_def listing_env_def idle_env_def preserves_def)
  have on: "mt_enabled (maintenance keep_one)" and good: "success (out_ok two_snapshots)"
    by (simp_all add: keep_one_def default_maintenance_config_def out_ok_def)
  have run: "run_io (run_cmd listing_env ''btrfs'' [''subvolume'', ''list'', ''-s'', snapshot_dir (replication keep_one)]) []
      = (Inr (out_ok two_snapshots), [(''btrfs'', [''subvolume'', ''list'', ''-s'', snapshot_dir (replication keep_one)])])"
    by (simp add: listing_env_def)
  have n: "unat (sr_daily (mt_snapshot_retention (maintenance keep_one)) + sr_weekly (mt_snapshot_retention (maintenance keep_one))
      + sr_monthly (mt_snapshot_retention (maintenance keep_one))) = 1" by (simp add: keep_one_def)
  have "1 < length (lines (stdout (out_ok two_snapshots)))" by (simp add: out_ok_def two_snapshots_lines)
  with retention_deletes_smallest_names [OF log on run good refl refl, unfolded n] obtain names kept where
    "snd (run_io (snapshot_cleanup_tick listing_env keep_one) [])
       = (''btrfs'', [''subvolume'', ''list'', ''-s'', snapshot_dir (replication keep_one)])
         # map (\<lambda>name. (''btrfs'', [''subvolume'', ''delete'', snapshot_dir (replication keep_one) @ ''/'' @ name])) names"
    "sorted (names @ kept)" "length kept \<le> 1" by auto
  then show ?thesis by blast
qed

text \<open>The second comma-separated part of a line such as \<open>Data, single: total=1.00GiB, used=256.00MiB\<close>
  is not the used size, so no usage is ever read from the output of \<open>btrfs filesystem df\<close> and the
  default targets are balanced.\<close>

lemma usage_never_extracted:
  assumes "split_on (CHR '','') line = a # b # rest" "\<not> prefix ''used='' (trim b)"
  shows "extract_usage_pct line = None"
  using assms by (simp add: extract_usage_pct_def nth_piece_def strip_prefix_def)

end
