(* ===== verification/Replication_Path.thy ===== *)
theory Replication_Path
  imports Receiver
begin

text \<open>
  The two ends of a replication together: the sender of \<open>replicator.rs\<close> and the receiver of
  \<open>receiver.rs\<close>, joined by the framed, encrypted connection of \<open>transport.rs\<close>. What the sender
  writes is described as messages on the wire, and the receiver is shown to get exactly these.
\<close>

section \<open>The two ends of a connection\<close>

text \<open>Documented behaviour of the socket a sender writes to: \<open>sent\<close> are the bytes written to it so
  far; a successful write appends its bytes, and drawing a nonce, reading the clock and using the
  child process do not touch it.\<close>

definition socket_log :: "'w env \<Rightarrow> nat \<Rightarrow> nat \<Rightarrow> ('w \<Rightarrow> byte list) \<Rightarrow> bool" where
  "socket_log E s child sent \<longleftrightarrow>
     (\<forall>bs w w'. run_io (tcp_write E s bs) w = (Inr (), w') \<longrightarrow> sent w' = sent w @ bs)
   \<and> (\<forall>n w. sent (snd (run_io (random_bytes E n) w)) = sent w)
   \<and> (\<forall>w. sent (snd (run_io (now_ms E) w)) = sent w)
   \<and> (\<forall>w. sent (snd (run_io (child_read E child) w)) = sent w)
   \<and> (\<forall>w. sent (snd (run_io (child_wait E child) w)) = sent w)"

text \<open>Documented behaviour of the socket a receiver reads from: \<open>pending\<close> are the non-empty chunks
  that reads still return, and the child process takes what it is given and leaves them alone.\<close>

definition socket_inbox :: "'w env \<Rightarrow> nat \<Rightarrow> nat \<Rightarrow> ('w \<Rightarrow> byte list list) \<Rightarrow> bool" where
  "socket_inbox E s child pending \<longleftrightarrow>
     (\<forall>c cs w. pending w = c # cs \<longrightarrow> c \<noteq> [] \<and> fst (run_io (tcp_read E s) w) = ReadOk c
        \<and> pending (snd (run_io (tcp_read E s) w)) = cs)
   \<and> (\<forall>bs w. fst (run_io (child_write E child bs) w) = WriteOk
        \<and> pending (snd (run_io (child_write E child bs) w)) = pending w)"

text \<open>An AEAD cipher adds exactly the 16 bytes of its tag.\<close>

definition aead_tag16 :: "crypto \<Rightarrow> bool" where
  "aead_tag16 C \<longleftrightarrow>
     (\<forall>k n p. length (aes_seal C k n p) = length p + 16)
   \<and> (\<forall>k n p. length (xchacha_seal C k n p) = length p + 16)"

text \<open>Random numbers come in the number asked for.\<close>

definition random_ok :: "'w env \<Rightarrow> bool" where
  "random_ok E \<longleftrightarrow> (\<forall>n w. length (fst (run_io (random_bytes E n) w)) = n)"

text \<open>The completion that a sender reports.\<close>

abbreviation sent_completion :: "crypto \<Rightarrow> snapshot \<Rightarrow> byte list \<Rightarrow> send_complete_response" where
  "sent_completion C snap data \<equiv> \<lparr>sc_volume_id = sn_name snap, sc_success = True, sc_error = None,
     sc_checksum = Some (blake3_hex C data)\<rparr>"

section \<open>Messages on the wire\<close>

text \<open>\<open>on_wire C c ms bs\<close>: the bytes \<open>bs\<close> are frames of admissible size that a connection with
  cipher \<open>c\<close> opens to the messages \<open>ms\<close>.\<close>

fun on_wire :: "crypto \<Rightarrow> payload_cipher option \<Rightarrow> message list \<Rightarrow> byte list \<Rightarrow> bool" where
  "on_wire C c [] bs \<longleftrightarrow> bs = []"
| "on_wire C c (m # ms) bs \<longleftrightarrow>
     (\<exists>p rest. length p \<le> MAX_PAYLOAD_SIZE \<and> open_payload C c (m\<lparr>payload := p\<rparr>) = Inr m
        \<and> bs = encode (m\<lparr>payload := p\<rparr>) @ rest \<and> on_wire C c ms rest)"

lemma on_wire_append:
  "on_wire C c ms bs \<Longrightarrow> on_wire C c ms' bs' \<Longrightarrow> on_wire C c (ms @ ms') (bs @ bs')"
  by (induction ms arbitrary: bs) auto

subsection \<open>The sending end\<close>

lemma length_seal_exact: "aead_tag16 C \<Longrightarrow> length (seal_with C c n p) = length n + length p + 16"
  by (cases c) (simp_all add: aead_tag16_def)

lemma wire_payload_length:
  assumes "aead_tag16 (cr E)" "random_ok E" "run_io (wire_payload E conn msg) w = (p, w')"
  shows "length p \<le> length (payload msg) + 40"
proof (cases "cipher conn")
  case None
  with assms(3) show ?thesis by (simp add: wire_payload_def)
next
  case (Some c)
  have "nonce_len c \<le> 24" by (cases c) simp_all
  with Some assms show ?thesis
    by (auto simp: wire_payload_def encrypt_def random_ok_def length_seal_exact split: prod.splits)
      (metis fst_conv)
qed

lemma wire_payload_keeps:
  "socket_log E s child sent \<Longrightarrow> run_io (wire_payload E conn msg) w = (p, w') \<Longrightarrow> sent w' = sent w"
  by (auto simp: wire_payload_def encrypt_def socket_log_def split: option.splits prod.splits)
    (metis snd_conv)

lemma send_message_wire:
  assumes "aead_ok (cr E)" "aead_tag16 (cr E)" "random_ok E" "socket_log E (sock a) child sent"
    and "length (payload m) + 40 \<le> MAX_PAYLOAD_SIZE"
    and "run_io (send_message E a m) w = (Inr (), w')"
  shows "\<exists>bs. sent w' = sent w @ bs \<and> on_wire (cr E) (cipher a) [m] bs"
proof -
  obtain p w1 where p: "run_io (wire_payload E a m) w = (p, w1)" by (metis surj_pair)
  let ?frame = "m\<lparr>payload := p\<rparr>"
  have frame: "\<lparr>msg_type = msg_type m, payload = p, timestamp = timestamp m\<rparr> = ?frame" by simp
  have "run_io (tcp_write E (sock a) (encode ?frame)) w1 = (Inr (), w')"
    using assms(6) p by (auto simp: send_message_def frame split: prod.splits sum.splits)
  then have "sent w' = sent w @ encode ?frame"
    using assms(4) wire_payload_keeps [OF assms(4) p] by (simp add: socket_log_def)
  moreover have "open_payload (cr E) (cipher a) ?frame = Inr m"
    using open_wire_message [OF assms(1) _ p] assms(3) by (simp add: random_ok_def)
  moreover have "length p \<le> MAX_PAYLOAD_SIZE"
    using wire_payload_length [OF assms(2,3) p] assms(5) by simp
  ultimately show ?thesis by auto
qed

lemma send_or_err_wire:
  assumes "aead_ok (cr E)" "aead_tag16 (cr E)" "random_ok E" "socket_log E (sock a) child sent"
    and "length body + 40 \<le> MAX_PAYLOAD_SIZE" "run_io (send_or_err E a t body) w = (Inr (), w')"
  shows "\<exists>bs now. sent w' = sent w @ bs \<and> on_wire (cr E) (cipher a) [new_message t body now] bs"
proof -
  obtain now w1 where now: "run_io (now_ms E) w = (now, w1)" by (metis surj_pair)
  then have "sent w1 = sent w" using assms(4) unfolding socket_log_def by (metis snd_conv)
  moreover have "run_io (send_message E a (new_message t body now)) w1 = (Inr (), w')"
    using assms(6) now by (auto simp: send_or_err_def reply_def split: prod.splits sum.splits)
  ultimately show ?thesis
    using send_message_wire [OF assms(1-4), of "new_message t body now" w1 w'] assms(5)
    by (auto simp: new_message_def)
qed

lemma send_chunks_wire:
  assumes "aead_ok (cr E)" "aead_tag16 (cr E)" "random_ok E" "socket_log E (sock a) child sent"
    and "\<forall>w c. fst (run_io (child_read E child) w) = Inr c \<longrightarrow> length c \<le> 65536"
  shows "run_io (send_chunks fuel E a child hashed) w = (Some (Inr data), w') \<Longrightarrow>
     \<exists>ms bs. sent w' = sent w @ bs \<and> on_wire (cr E) (cipher a) ms bs \<and> data = hashed @ data_payloads ms
       \<and> list_all (\<lambda>m. msg_type m = SendData) ms \<and> length ms < fuel"
proof (induction fuel arbitrary: w hashed)
  case 0
  then show ?case by simp
next
  case (Suc fuel)
  obtain r w1 where rd: "run_io (child_read E child) w = (r, w1)" by (metis surj_pair)
  then have w1: "sent w1 = sent w" using assms(4) unfolding socket_log_def by (metis snd_conv)
  from Suc.prems rd obtain c where r: "r = Inr c" by (cases r) auto
  show ?case
  proof (cases "c = []")
    case True
    with Suc.prems rd r w1 show ?thesis by (intro exI [of _ "[]"] exI [of _ "[]"]) simp
  next
    case False
    obtain s w2 where snd: "run_io (send_or_err E a SendData c) w1 = (s, w2)" by (metis surj_pair)
    with Suc.prems rd r False have s: "s = Inr ()" by (cases s) auto
    have "length c \<le> 65536" using assms(5) rd r by (metis fst_conv)
    then have c: "length c + 40 \<le> MAX_PAYLOAD_SIZE" by (simp add: MAX_PAYLOAD_SIZE_def)
    from snd s have "run_io (send_or_err E a SendData c) w1 = (Inr (), w2)" by simp
    from send_or_err_wire [OF assms(1-4) c this] obtain bs now where bs:
      "sent w2 = sent w @ bs" "on_wire (cr E) (cipher a) [new_message SendData c now] bs" using w1 by auto
    have "run_io (send_chunks fuel E a child (hashed @ c)) w2 = (Some (Inr data), w')"
      using Suc.prems rd r False snd s by simp
    from Suc.IH [OF this] obtain ms bs' where "sent w' = sent w2 @ bs'" "on_wire (cr E) (cipher a) ms bs'"
      "data = (hashed @ c) @ data_payloads ms" "list_all (\<lambda>m. msg_type m = SendData) ms" "length ms < fuel"
      by blast
    with bs on_wire_append [OF bs(2), of ms bs'] show ?thesis
      by (intro exI [of _ "new_message SendData c now # ms"] exI [of _ "bs @ bs'"])
        (simp add: new_message_def)
  qed
qed

lemma finish_send_wire:
  assumes "aead_ok (cr E)" "aead_tag16 (cr E)" "random_ok E" "socket_log E (sock a) child sent"
    and "run_io (finish_send E a child snap data) w = (Inr (), w')"
    and "length (complete_to (js E) (sent_completion (cr E) snap data)) + 40 \<le> MAX_PAYLOAD_SIZE"
  shows "\<exists>bs now. sent w' = sent w @ bs
     \<and> on_wire (cr E) (cipher a) [new_message SendComplete
          (complete_to (js E) (sent_completion (cr E) snap data)) now] bs"
proof -
  obtain r w1 where wt: "run_io (child_wait E child) w = (r, w1)" by (metis surj_pair)
  then have "sent w1 = sent w" using assms(4) unfolding socket_log_def by (metis snd_conv)
  moreover have "run_io (send_or_err E a SendComplete (complete_to (js E) (sent_completion (cr E) snap data))) w1
      = (Inr (), w')"
    using assms(5) wt by (auto simp: finish_send_def run_and_then split: sum.splits if_splits prod.splits)
  ultimately show ?thesis using send_or_err_wire [OF assms(1-4,6)] by metis
qed

subsection \<open>The receiving end\<close>

lemma inbox_delivers:
  assumes "socket_inbox E s child pending"
  shows "pending v = cs \<Longrightarrow> \<exists>v'. delivers E s v cs v'"
proof (induction cs arbitrary: v)
  case Nil
  then show ?case by auto
next
  case (Cons c cs)
  with assms have "c \<noteq> []" "fst (run_io (tcp_read E s) v) = ReadOk c" "pending (snd (run_io (tcp_read E s) v)) = cs"
    by (auto simp: socket_inbox_def)
  with Cons.IH show ?case by auto
qed

lemma inbox_delivered:
  assumes "socket_inbox E s child pending"
  shows "delivers E s v cs1 v1 \<Longrightarrow> pending v = cs1 @ cs2 \<Longrightarrow> pending v1 = cs2"
proof (induction cs1 arbitrary: v)
  case Nil
  then show ?case by simp
next
  case (Cons c cs1)
  with assms have "pending (snd (run_io (tcp_read E s) v)) = cs1 @ cs2"
    by (auto simp: socket_inbox_def)
  with Cons show ?case by auto
qed

text \<open>The first message of the wire is received, and the bytes of the rest stay ahead.\<close>

lemma recv_first:
  assumes "socket_inbox E (sock b) child pending" "on_wire (cr E) (cipher b) (m # ms) (read_buf b @ concat (pending v))"
  shows "\<exists>r v1. run_io (recv_message E b) v = ((Inr m, b\<lparr>read_buf := r\<rparr>), v1)
     \<and> on_wire (cr E) (cipher b) ms (r @ concat (pending v1))"
proof -
  from assms(2) obtain p rest where p: "length p \<le> MAX_PAYLOAD_SIZE"
    "open_payload (cr E) (cipher b) (m\<lparr>payload := p\<rparr>) = Inr m"
    "read_buf b @ concat (pending v) = encode (m\<lparr>payload := p\<rparr>) @ rest" "on_wire (cr E) (cipher b) ms rest" by auto
  obtain v' where dlv: "delivers E (sock b) v (pending v) v'"
    using inbox_delivers [OF assms(1) refl] by blast
  have "sendable (m\<lparr>payload := p\<rparr>)" using p(1) by (simp add: sendable_def)
  from recv_message_front [OF this p(3) dlv] obtain cs1 cs2 v1 r
    where front: "pending v = cs1 @ cs2" "delivers E (sock b) v cs1 v1" "r @ concat cs2 = rest"
      "run_io (recv_message E b) v
         = ((open_payload (cr E) (cipher b) (m\<lparr>payload := p\<rparr>), b\<lparr>read_buf := r\<rparr>), v1)" by auto
  with inbox_delivered [OF assms(1) front(2,1)] p show ?thesis by auto
qed

lemma wire_feeds:
  assumes "socket_inbox E s child pending"
  shows "on_wire (cr E) (cipher b) (ms @ ms') (read_buf b @ concat (pending v)) \<Longrightarrow> sock b = s \<Longrightarrow>
     \<exists>r v'. feeds E child b v ms (b\<lparr>read_buf := r\<rparr>) v'
       \<and> on_wire (cr E) (cipher b) ms' (r @ concat (pending v'))"
proof (induction ms arbitrary: b v)
  case Nil
  then show ?case by (intro exI [of _ "read_buf b"] exI [of _ v]) simp
next
  case (Cons m ms)
  have "socket_inbox E (sock b) child pending" using assms Cons.prems(2) by simp
  from recv_first [OF this, of m "ms @ ms'" v] Cons.prems(1)
  obtain r v1 where rcv: "run_io (recv_message E b) v = ((Inr m, b\<lparr>read_buf := r\<rparr>), v1)"
    and wire: "on_wire (cr E) (cipher b) (ms @ ms') (r @ concat (pending v1))"
    unfolding append_Cons by blast
  let ?v2 = "if msg_type m = SendData then snd (run_io (child_write E child (payload m)) v1) else v1"
  have wr: "run_io (child_write E child (payload m)) v1 = (WriteOk, snd (run_io (child_write E child (payload m)) v1))"
    and "pending ?v2 = pending v1" using assms by (auto simp: socket_inbox_def prod_eq_iff)
  with wire have "on_wire (cr E) (cipher (b\<lparr>read_buf := r\<rparr>)) (ms @ ms')
      (read_buf (b\<lparr>read_buf := r\<rparr>) @ concat (pending ?v2))" by simp
  from Cons.IH [OF this] Cons.prems(2) obtain r' v' where
    rest: "feeds E child (b\<lparr>read_buf := r\<rparr>) ?v2 ms (b\<lparr>read_buf := r'\<rparr>) v'"
    and left: "on_wire (cr E) (cipher b) ms' (r' @ concat (pending v'))" by auto
  have "feeds E child b v (m # ms) (b\<lparr>read_buf := r'\<rparr>) v'"
    using rcv wr rest unfolding feeds.simps
    by (intro exI [of _ "b\<lparr>read_buf := r\<rparr>"] exI [of _ v1] exI [of _ ?v2]) simp
  with left show ?case by blast
qed

section \<open>Properties\<close>

text \<open>C2. A replication arrives: if the sending loop copies the stream \<open>data\<close> of \<open>btrfs send\<close> to a
  connection and finishes without error, and the bytes it wrote reach, in whatever pieces, the
  other end of the connection, whose cipher has the same key, then the receiving loop ends with
  exactly \<open>data\<close>, the sender's checksum of it, and a completion that reports success, as long as
  \<open>data\<close> is at most 512 MiB. The receiver needs no more steps than the sender had.\<close>

theorem replication_arrives:
  assumes "aead_ok (cr E)" and "aead_tag16 (cr E)" and "random_ok E"
    and "socket_log E (sock a) child sent"
    and "\<forall>w c. fst (run_io (child_read E child) w) = Inr c \<longrightarrow> length c \<le> 65536"
    and "run_io (send_chunks fuel E a child []) w = (Some (Inr data), w1)"
    and "run_io (finish_send E a child snap data) w1 = (Inr (), w2)"
    and "length (complete_to (js E) (sent_completion (cr E) snap data)) + 40 \<le> MAX_PAYLOAD_SIZE"
    and "complete_from (js E) (complete_to (js E) (sent_completion (cr E) snap data)) = Some (sent_completion (cr E) snap data)"
    and "cr E' = cr E" and "js E' = js E" and "cipher b = cipher a" and "read_buf b = []"
    and "socket_inbox E' (sock b) child' pending"
    and "sent w2 = sent w @ concat (pending v)"
    and "length data \<le> 512 * 1024 * 1024" and "fuel \<le> fuel'"
  shows "\<exists>b' cs v'. run_io (receive_loop fuel' E' b child' 0 []) v = (Some (Inr (b', cs, data)), v')
     \<and> cs = Some (blake3_hex (cr E) data) \<and> sc_success (completion (cr E') vol cs data)"
proof -
  let ?fin = "sent_completion (cr E) snap data"
  from send_chunks_wire [OF assms(1-6)] obtain ms bs where ms: "sent w1 = sent w @ bs"
    "on_wire (cr E) (cipher a) ms bs" "data = data_payloads ms" "list_all (\<lambda>m. msg_type m = SendData) ms"
    "length ms < fuel" by auto
  from finish_send_wire [OF assms(1-4,7,8)] obtain fbs now where fin: "sent w2 = sent w1 @ fbs"
    "on_wire (cr E) (cipher a) [new_message SendComplete (complete_to (js E) ?fin) now] fbs" by auto
  let ?m = "new_message SendComplete (complete_to (js E) ?fin) now"
  have "concat (pending v) = bs @ fbs" using ms(1) fin(1) assms(15) by simp
  then have "on_wire (cr E') (cipher b) (ms @ [?m]) (read_buf b @ concat (pending v))"
    using on_wire_append [OF ms(2) fin(2)] assms(10,12,13) by simp
  from wire_feeds [OF assms(14) this refl] obtain r v1 where fed: "feeds E' child' b v ms (b\<lparr>read_buf := r\<rparr>) v1"
    and left: "on_wire (cr E') (cipher (b\<lparr>read_buf := r\<rparr>)) [?m] (read_buf (b\<lparr>read_buf := r\<rparr>) @ concat (pending v1))"
    by auto
  have "socket_inbox E' (sock (b\<lparr>read_buf := r\<rparr>)) child' pending" using assms(14) by simp
  from recv_first [OF this left] obtain b' v2 where
    final: "run_io (recv_message E' (b\<lparr>read_buf := r\<rparr>)) v1 = ((Inr ?m, b'), v2)" by blast
  have "list_all (\<lambda>m. msg_type m \<noteq> SendComplete \<and> msg_type m \<noteq> SendError) ms"
    using ms(4) by (auto simp: list_all_iff)
  from receive_loop_fed [OF fed this final, of 0 "[]" fuel'] ms(3,5) assms(9,11,16,17)
  have "run_io (receive_loop fuel' E' b child' 0 []) v = (Some (Inr (b', Some (blake3_hex (cr E) data), data)), v2)"
    by (simp add: new_message_def)
  then show ?thesis using assms(10) by (simp add: completion_def Let_def)
qed

text \<open>An environment in which all this holds: one read of the child gives at most 64 KiB.\<close>

definition path_env :: "sample env" where
  "path_env = receiver_env\<lparr>child_read := (\<lambda>c. State (\<lambda>w. case s_child_out w of
      [] \<Rightarrow> (Inr [], w) | b # bs \<Rightarrow> (Inr (take 65536 b), w\<lparr>s_child_out := bs\<rparr>)))\<rparr>"

fun arrived :: "read_result list \<Rightarrow> byte list list" where
  "arrived (ReadOk (b # bs) # rs) = (b # bs) # arrived rs"
| "arrived rs = []"

lemma path_env_simps:
  "tcp_read path_env s = tcp_read receiver_env s" "child_write path_env c bs = child_write receiver_env c bs"
  "child_wait path_env c = child_wait receiver_env c" "now_ms path_env = now_ms receiver_env"
  "tcp_write path_env s bs = tcp_write receiver_env s bs" "random_bytes path_env n = State_Monad.return (replicate n 0)"
  "cr path_env = sample_crypto" "js path_env = js receiver_env" "complete_to (js receiver_env) fin = []"
  "child_read path_env c = State (\<lambda>w. case s_child_out w of
      [] \<Rightarrow> (Inr [], w) | b # bs \<Rightarrow> (Inr (take 65536 b), w\<lparr>s_child_out := bs\<rparr>))"
  by (simp_all add: path_env_def receiver_env_def sample_env_simps sample_json_def)

lemma path_env_laws:
  "aead_tag16 (cr path_env)" "aead_ok (cr path_env)" "random_ok path_env"
  "socket_log path_env s c s_written" "socket_inbox path_env s c (\<lambda>w. arrived (s_reads w))"
  "fst (run_io (child_read path_env c) w) = Inr x \<Longrightarrow> length x \<le> 65536"
proof -
  show "aead_ok (cr path_env)" by (simp add: path_env_simps sample_crypto_laws)
  show "socket_inbox path_env s c (\<lambda>w. arrived (s_reads w))"
    by (auto simp: socket_inbox_def path_env_simps receiver_env_simps elim!: arrived.elims)
qed (auto simp: aead_tag16_def path_env_simps receiver_env_simps random_ok_def socket_log_def
    sample_crypto_def sample_seal_def split: list.splits)

definition path_conn :: connection where
  "path_conn = \<lparr>sock = 0, read_buf = [], cipher = Some (XChaChaCipher [5])\<rparr>"

definition path_snap :: snapshot where
  "path_snap = \<lparr>sn_id = 1, sn_name = ''vol'', sn_path = ''/s/vol'', sn_subvolume_id = 0, sn_created_at = 0, sn_size = 0\<rparr>"

theorem replication_arrives_witness:
  "\<exists>w1 w2 b' cs v'.
     run_io (send_chunks 3 path_env path_conn 0 []) (sample_start\<lparr>s_child_out := [[7]]\<rparr>) = (Some (Inr [7]), w1)
   \<and> run_io (finish_send path_env path_conn 0 path_snap [7]) w1 = (Inr (), w2)
   \<and> run_io (receive_loop 3 path_env path_conn 0 0 []) (sample_start\<lparr>s_reads := [ReadOk (s_written w2)]\<rparr>)
       = (Some (Inr (b', cs, [7])), v')
   \<and> sc_success (completion (cr path_env) ''vol'' cs [7])"
proof -
  let ?w = "sample_start\<lparr>s_child_out := [[7]]\<rparr>"
  note sims = path_env_simps receiver_env_simps send_or_err_def reply_def send_message_def wire_payload_def
    encrypt_def path_conn_def sample_start_def finish_send_def run_and_then
  have "fst (run_io (send_chunks 3 path_env path_conn 0 []) ?w) = Some (Inr [7])"
    by (simp add: sims numeral_3_eq_3)
  then obtain w1 where w1: "run_io (send_chunks 3 path_env path_conn 0 []) ?w = (Some (Inr [7]), w1)"
    by (metis prod.collapse)
  then have killed: "s_killed w1 = False" by (auto simp: sims numeral_3_eq_3)
  define w2 where "w2 = snd (run_io (finish_send path_env path_conn 0 path_snap [7]) w1)"
  from killed have w2: "run_io (finish_send path_env path_conn 0 path_snap [7]) w1 = (Inr (), w2)"
    by (simp add: w2_def prod_eq_iff sims)
  from killed have "s_written w2 \<noteq> []"
    by (simp add: w2_def sims frame.enc_not_Nil)
  then have arr: "arrived [ReadOk (s_written w2)] = [s_written w2]" by (cases "s_written w2") auto
  have "length (complete_to (js path_env) (sent_completion (cr path_env) path_snap [7])) + 40 \<le> MAX_PAYLOAD_SIZE"
    by (simp add: path_env_simps MAX_PAYLOAD_SIZE_def)
  moreover have "complete_from (js path_env) (complete_to (js path_env) (sent_completion (cr path_env) path_snap [7]))
      = Some (sent_completion (cr path_env) path_snap [7])"
    by (simp add: path_env_simps receiver_env_simps path_snap_def)
  moreover have "\<forall>w c. fst (run_io (child_read path_env 0) w) = Inr c \<longrightarrow> length c \<le> 65536"
    using path_env_laws(6) by blast
  moreover have "s_written w2 = s_written ?w @ concat (arrived (s_reads (sample_start\<lparr>s_reads := [ReadOk (s_written w2)]\<rparr>)))"
    using arr by (simp add: sample_start_def)
  ultimately have "\<exists>b' cs v'. run_io (receive_loop 3 path_env path_conn 0 0 []) (sample_start\<lparr>s_reads := [ReadOk (s_written w2)]\<rparr>)
       = (Some (Inr (b', cs, [7])), v')
     \<and> cs = Some (blake3_hex (cr path_env) [7]) \<and> sc_success (completion (cr path_env) ''vol'' cs [7])"
    using path_env_laws(1-5) w1 w2
    by (intro replication_arrives [where sent = s_written and pending = "\<lambda>w. arrived (s_reads w)"
          and fuel = 3 and E = path_env and a = path_conn and child = 0 and w = ?w and snap = path_snap])
      (simp_all add: path_conn_def)
  with w1 w2 show ?thesis by blast
qed

end
