(* ===== verification/Replication_Pool.thy ===== *)
theory Replication_Pool
  imports Replicator "HOL-Library.Multiset"
begin

text \<open>
  The replications under way, as a state machine whose steps interleave: \<open>replication_loop\<close> of
  \<open>crates/btrfs-exchange/src/replicator.rs\<close> with its semaphore, and the tasks that run
  \<open>replicate_volume\<close>, started by the loop under a permit or by \<open>controller_unpublish_volume\<close> of
  \<open>crates/btrfs-csi/src/csi_controller.rs\<close> without one. A task gives way to the others wherever
  \<open>replicate_volume\<close> awaits; each of its steps runs the operation of the code, in whatever world and
  with whatever gossip table it then finds.
\<close>

section \<open>State and steps\<close>

datatype origin = FromLoop | FromUnpublish

text \<open>How far a task has come: started; its volume marked as \<open>Syncing\<close>; with a snapshot; sending, with
  the number of targets, the targets still to come, the successes and the failed nodes.\<close>

datatype phase =
    Spawned
  | Marked
  | Snapped snapshot "snapshot option"
  | Sending snapshot "snapshot option" nat "node_info list" u32 "string list"

record task =
  tk_origin :: origin
  tk_volume :: string
  tk_phase :: phase

text \<open>\<open>waiting\<close> are the volumes of the current tick that the loop has still to look at, and \<open>admitted\<close> the
  one it found due and for which it waits for a permit.\<close>

record pool =
  pl_permits :: nat
  waiting :: "string list"
  admitted :: "string option"
  tasks :: "task multiset"
  pl_states :: states

definition new_pool :: "exchange_config \<Rightarrow> pool" where
  "new_pool cfg = \<lparr>pl_permits = unat (max_concurrent (replication cfg)), waiting = [], admitted = None,
     tasks = {#}, pl_states = []\<rparr>"

definition start_task :: "origin \<Rightarrow> string \<Rightarrow> pool \<Rightarrow> pool" where
  "start_task from vol p =
     p\<lparr>tasks := tasks p + {#\<lparr>tk_origin = from, tk_volume = vol, tk_phase = Spawned\<rparr>#}\<rparr>"

definition advance :: "task \<Rightarrow> phase \<Rightarrow> pool \<Rightarrow> pool" where
  "advance t ph p = p\<lparr>tasks := tasks p - {#t#} + {#t\<lparr>tk_phase := ph\<rparr>#}\<rparr>"

text \<open>At the end of a task that the loop started its permit is dropped.\<close>

definition end_task :: "task \<Rightarrow> pool \<Rightarrow> pool" where
  "end_task t p =
     p\<lparr>tasks := tasks p - {#t#},
       pl_permits := (if tk_origin t = FromLoop then pl_permits p + 1 else pl_permits p)\<rparr>"

text \<open>The steps of \<open>replicate_volume\<close>.\<close>

inductive task_step :: "'w env \<Rightarrow> exchange_config \<Rightarrow> task \<Rightarrow> pool \<Rightarrow> pool \<Rightarrow> bool" for E cfg where
  mark: "tk_phase t = Spawned \<Longrightarrow>
     task_step E cfg t p (advance t Marked (p\<lparr>pl_states := begin_sync (tk_volume t) (pl_states p)\<rparr>))"
| no_snapshot: "tk_phase t = Marked \<Longrightarrow>
     run_io (create_for_replication E (snapshot_dir (replication cfg)) (tk_volume t)) w = (Inl e, w') \<Longrightarrow>
     task_step E cfg t p (end_task t p)"
| snapshot: "tk_phase t = Marked \<Longrightarrow>
     run_io (create_for_replication E (snapshot_dir (replication cfg)) (tk_volume t)) w = (Inr (snap, previous), w') \<Longrightarrow>
     task_step E cfg t p (advance t (Snapped snap previous) p)"
| no_target: "tk_phase t = Snapped snap previous \<Longrightarrow>
     run_io (select_replication_targets E cfg g (pl_states p) (tk_volume t)) w = ([], w') \<Longrightarrow>
     task_step E cfg t p (end_task t (p\<lparr>pl_states := no_targets (tk_volume t) (pl_states p)\<rparr>))"
| targets: "tk_phase t = Snapped snap previous \<Longrightarrow>
     run_io (select_replication_targets E cfg g (pl_states p) (tk_volume t)) w = (ts, w') \<Longrightarrow> ts \<noteq> [] \<Longrightarrow>
     task_step E cfg t p (advance t (Sending snap previous (length ts) ts 0 []) p)"
| reached: "tk_phase t = Sending snap previous n (target # rest) good bad \<Longrightarrow>
     run_io (send_with_retry fuel E cfg snap previous target) w = (Some (Inr ()), w') \<Longrightarrow>
     task_step E cfg t p (advance t (Sending snap previous n rest (good + 1) bad) p)"
| missed: "tk_phase t = Sending snap previous n (target # rest) good bad \<Longrightarrow>
     run_io (send_with_retry fuel E cfg snap previous target) w = (Some (Inl e), w') \<Longrightarrow>
     task_step E cfg t p (advance t (Sending snap previous n rest good (bad @ [ni_id target])) p)"
| record_sent: "tk_phase t = Sending snap previous n [] good bad \<Longrightarrow> run_io (now_ms E) w = (now, w') \<Longrightarrow>
     task_step E cfg t p (end_task t
       (p\<lparr>pl_states := hm_modify (tk_volume t) (record_outcome (sn_name snap) now n good bad) (pl_states p)\<rparr>))"

text \<open>The loop waits for a tick only when it has been through the volumes of the last one. The final
  synchronisation of a volume that is unpublished takes no permit. Volumes are registered and
  removed at any time.\<close>

inductive pool_step :: "'w env \<Rightarrow> exchange_config \<Rightarrow> pool \<Rightarrow> pool \<Rightarrow> bool" for E cfg where
  tick: "waiting p = [] \<Longrightarrow> admitted p = None \<Longrightarrow>
     run_io (get_volumes_for_replication E cfg (pl_states p)) w = (vols, w') \<Longrightarrow>
     pool_step E cfg p (p\<lparr>waiting := vols\<rparr>)"
| skip: "waiting p = vol # vols \<Longrightarrow> admitted p = None \<Longrightarrow>
     run_io (should_retry E (pl_states p) vol) w = (False, w') \<Longrightarrow>
     pool_step E cfg p (p\<lparr>waiting := vols\<rparr>)"
| admit: "waiting p = vol # vols \<Longrightarrow> admitted p = None \<Longrightarrow>
     run_io (should_retry E (pl_states p) vol) w = (True, w') \<Longrightarrow>
     pool_step E cfg p (p\<lparr>waiting := vols, admitted := Some vol\<rparr>)"
| acquire: "admitted p = Some vol \<Longrightarrow> 0 < pl_permits p \<Longrightarrow>
     pool_step E cfg p (start_task FromLoop vol (p\<lparr>admitted := None, pl_permits := pl_permits p - 1\<rparr>))"
| final_sync: "run_io (get_csi_attr E path ''volume_id'') w = (Inr (Some vol), w1) \<Longrightarrow>
     run_io (get_replica_count E path) w1 = (n, w2) \<Longrightarrow> 0 < n \<Longrightarrow>
     pool_step E cfg p (start_task FromUnpublish vol p)"
| task: "t \<in># tasks p \<Longrightarrow> task_step E cfg t p p' \<Longrightarrow> pool_step E cfg p p'"
| register: "pool_step E cfg p (p\<lparr>pl_states := register_volume vol ts (pl_states p)\<rparr>)"
| unregister: "pool_step E cfg p (p\<lparr>pl_states := unregister_volume vol (pl_states p)\<rparr>)"
| clear: "pool_step E cfg p (p\<lparr>pl_states := clear_failed_nodes vol node (pl_states p)\<rparr>)"

inductive_cases task_stepE: "task_step E cfg t p p'"
inductive_cases pool_stepE: "pool_step E cfg p p'"

section \<open>Permits\<close>

definition loop_tasks :: "pool \<Rightarrow> nat" where
  "loop_tasks p = size {#t \<in># tasks p. tk_origin t = FromLoop#}"

text \<open>A task that is sending has counted, or has still to serve, each of its targets.\<close>

definition task_ok :: "task \<Rightarrow> bool" where
  "task_ok t = (case tk_phase t of
     Sending snap previous n rest good bad \<Rightarrow>
       0 < n \<and> good + word_of_nat (length bad) + word_of_nat (length rest) = word_of_nat n
   | _ \<Rightarrow> True)"

definition pool_ok :: "exchange_config \<Rightarrow> pool \<Rightarrow> bool" where
  "pool_ok cfg p \<longleftrightarrow>
     pl_permits p + loop_tasks p = unat (max_concurrent (replication cfg)) \<and> (\<forall>t \<in># tasks p. task_ok t)"

lemma advance_ok:
  assumes "pool_ok cfg p" "t \<in># tasks p" "task_ok (t\<lparr>tk_phase := ph\<rparr>)" "tasks q = tasks p" "pl_permits q = pl_permits p"
  shows "pool_ok cfg (advance t ph q)"
proof -
  obtain M where "tasks p = add_mset t M" using multi_member_split [OF assms(2)] by blast
  with assms show ?thesis by (simp add: pool_ok_def advance_def loop_tasks_def split: if_splits)
qed

lemma end_task_ok:
  assumes "pool_ok cfg p" "t \<in># tasks p" "tasks q = tasks p" "pl_permits q = pl_permits p"
  shows "pool_ok cfg (end_task t q)"
proof -
  obtain M where "tasks p = add_mset t M" using multi_member_split [OF assms(2)] by blast
  with assms show ?thesis by (simp add: pool_ok_def end_task_def loop_tasks_def split: if_splits)
qed

lemma task_step_ok:
  assumes "task_step E cfg t p p'" "pool_ok cfg p" "t \<in># tasks p"
  shows "pool_ok cfg p'"
proof -
  have "task_ok t" using assms(2,3) by (simp add: pool_ok_def)
  with assms(1) show ?thesis
    by (cases rule: task_step.cases)
      (auto intro!: advance_ok [OF assms(2,3)] end_task_ok [OF assms(2,3)] simp: task_ok_def algebra_simps)
qed

lemma pool_step_ok:
  assumes "pool_ok cfg p" "pool_step E cfg p p'"
  shows "pool_ok cfg p'"
  using assms(2)
proof (cases rule: pool_step.cases)
  case (task t)
  then show ?thesis using task_step_ok assms(1) by blast
qed (use assms(1) in \<open>auto simp: pool_ok_def start_task_def loop_tasks_def task_ok_def\<close>)

lemma new_pool_ok: "pool_ok cfg (new_pool cfg)"
  by (simp add: pool_ok_def loop_tasks_def new_pool_def)

interpretation pool_inv: invariant_of "\<lambda>p. p = new_pool cfg" "pool_step E cfg" "pool_ok cfg"
  for E :: "'w env" and cfg
  by unfold_locales (auto intro: new_pool_ok pool_step_ok)

text \<open>Every change a task makes to the map is one of the changes whose invariant is shown with the
  replicator.\<close>

lemma pool_refines_states:
  "pool_step E cfg p p' \<Longrightarrow> pl_states p' = pl_states p \<or> repl_step (pl_states p) (pl_states p')"
  by (erule pool_stepE)
    (auto elim!: task_stepE intro: repl_step.intros simp: start_task_def advance_def end_task_def)

section \<open>A task runs \<open>replicate_volume\<close>\<close>

lemma advance_in: "t\<lparr>tk_phase := ph\<rparr> \<in># tasks (advance t ph p)"
  by (simp add: advance_def)

lemma advance_again:
  "advance (t\<lparr>tk_phase := ph\<rparr>) ph' (advance t ph p) = advance t ph' p"
  "end_task (t\<lparr>tk_phase := ph\<rparr>) (advance t ph p) = end_task t p"
  "advance t ph p\<lparr>pl_states := ss\<rparr> = advance t ph (p\<lparr>pl_states := ss\<rparr>)"
  "pl_states (advance t ph p) = pl_states p"
  by (simp_all add: advance_def end_task_def)

lemma advance_step:
  assumes "rtranclp (pool_step E cfg) p (advance t ph q)" "task_step E cfg (t\<lparr>tk_phase := ph\<rparr>) (advance t ph q) p'"
  shows "rtranclp (pool_step E cfg) p p'"
  using assms pool_step.task [OF advance_in] by (metis rtranclp.rtrancl_into_rtrancl)

lemma sending_runs:
  assumes "run_io (send_all fuel E cfg snap previous rest (good, bad)) w = (Some (good', bad'), w')"
  shows "rtranclp (pool_step E cfg) (advance t (Sending snap previous n rest good bad) p)
     (advance t (Sending snap previous n [] good' bad') p)"
  using assms
proof (induction rest arbitrary: good bad w)
  case Nil
  then show ?case by simp
next
  case (Cons target rest)
  let ?t = "t\<lparr>tk_phase := Sending snap previous n (target # rest) good bad\<rparr>"
    and ?p = "advance t (Sending snap previous n (target # rest) good bad) p"
  from Cons.prems obtain r w1 where send: "run_io (send_with_retry fuel E cfg snap previous target) w = (Some r, w1)"
    and next_run: "run_io (send_all fuel E cfg snap previous rest
        (case r of Inr _ \<Rightarrow> (good + 1, bad) | Inl _ \<Rightarrow> (good, bad @ [ni_id target]))) w1 = (Some (good', bad'), w')"
    by (auto simp: run_opt_bind split: prod.splits option.splits)
  show ?case
  proof (cases r)
    case (Inl e)
    have "task_step E cfg ?t ?p (advance ?t (Sending snap previous n rest good (bad @ [ni_id target])) ?p)"
      using send Inl by (intro task_step.missed) simp_all
    from advance_step [OF rtranclp.rtrancl_refl this [unfolded advance_again]] Cons.IH next_run Inl
    show ?thesis by (fastforce intro: rtranclp_trans)
  next
    case (Inr u)
    have "task_step E cfg ?t ?p (advance ?t (Sending snap previous n rest (good + 1) bad) ?p)"
      using send Inr by (intro task_step.reached) simp_all
    from advance_step [OF rtranclp.rtrancl_refl this [unfolded advance_again]] Cons.IH next_run Inr
    show ?thesis by (fastforce intro: rtranclp_trans)
  qed
qed

text \<open>A task that is not disturbed does what \<open>replicate_volume\<close> does, and ends.\<close>

lemma task_runs:
  assumes "t \<in># tasks p" "tk_phase t = Spawned"
    and "run_io (replicate_volume fuel E cfg g (pl_states p) (tk_volume t)) w = (Some (r, ss), w')"
  shows "rtranclp (pool_step E cfg) p (end_task t (p\<lparr>pl_states := ss\<rparr>))"
proof -
  let ?vol = "tk_volume t" and ?steps = "rtranclp (pool_step E cfg) p"
  let ?ss = "begin_sync ?vol (pl_states p)"
  let ?q = "p\<lparr>pl_states := ?ss\<rparr>"
  have marked: "?steps (advance t Marked ?q)"
    using pool_step.task [OF assms(1) task_step.mark [OF assms(2)]] by blast
  obtain made w1 where made: "run_io (create_for_replication E (snapshot_dir (replication cfg)) ?vol) w = (made, w1)"
    by (meson surj_pair)
  show ?thesis
  proof (cases made)
    case (Inl e)
    then have "ss = ?ss" using assms(3) made by (simp add: replicate_volume_def context_err_def Let_def)
    with advance_step [OF marked task_step.no_snapshot] made Inl show ?thesis by (simp add: advance_again)
  next
    case (Inr s)
    obtain snap previous where s: "s = (snap, previous)" by (rule prod.exhaust)
    obtain ts w2 where ts: "run_io (select_replication_targets E cfg g ?ss ?vol) w1 = (ts, w2)"
      by (meson surj_pair)
    have snapped: "?steps (advance t (Snapped snap previous) ?q)"
      using advance_step [OF marked task_step.snapshot] made Inr s by (simp add: advance_again)
    show ?thesis
    proof (cases "ts = []")
      case True
      then have "ss = no_targets ?vol ?ss"
        using assms(3) made Inr s ts by (simp add: replicate_volume_def context_err_def Let_def)
      with advance_step [OF snapped task_step.no_target] ts True show ?thesis by (simp add: advance_again)
    next
      case False
      with assms(3) made Inr s ts obtain good bad w3 now where
        sent: "run_io (send_all fuel E cfg snap previous ts (0, [])) w2 = (Some (good, bad), w3)"
        and now: "run_io (now_ms E) w3 = (now, w')"
        and ss: "ss = hm_modify ?vol (record_outcome (sn_name snap) now (length ts) good bad) ?ss"
        by (auto simp: replicate_volume_def context_err_def Let_def run_opt_bind split: prod.splits option.splits)
      have "?steps (advance t (Sending snap previous (length ts) ts 0 []) ?q)"
        using advance_step [OF snapped task_step.targets] ts False by (simp add: advance_again)
      with sending_runs [OF sent] have "?steps (advance t (Sending snap previous (length ts) [] good bad) ?q)"
        by (meson rtranclp_trans)
      from advance_step [OF this task_step.record_sent [OF _ now]] ss show ?thesis by (simp add: advance_again)
    qed
  qed
qed

section \<open>Properties\<close>

text \<open>C27. The replication loop keeps to its limit, for the tasks that it starts itself: in every reachable
  state the free permits and the tasks started by the loop are together \<open>max_concurrent\<close>, so that no
  permit is lost or used twice, however the tasks end. A task that is sending has counted as reached or
  missed, or has still to serve, each of its targets. And whenever \<open>replicate_volume\<close> returns for a task
  that has not begun, the task can run to its end, where it leaves the map as \<open>replicate_volume\<close> does and
  gives its permit back, if it had one.\<close>

theorem replication_pool_bounded:
  assumes "rtranclp (pool_step E cfg) (new_pool cfg) p"
  shows "pl_permits p + size {#t \<in># tasks p. tk_origin t = FromLoop#} = unat (max_concurrent (replication cfg))
     \<and> (\<forall>t snap previous n rest good bad. t \<in># tasks p \<and> tk_phase t = Sending snap previous n rest good bad \<longrightarrow>
          0 < n \<and> good + word_of_nat (length bad) + word_of_nat (length rest) = word_of_nat n)
     \<and> (\<forall>t fuel g w r ss w'. t \<in># tasks p \<and> tk_phase t = Spawned
          \<and> run_io (replicate_volume fuel E cfg g (pl_states p) (tk_volume t)) w = (Some (r, ss), w') \<longrightarrow>
          (\<exists>p'. rtranclp (pool_step E cfg) p p' \<and> tasks p' = tasks p - {#t#} \<and> pl_states p' = ss
             \<and> pl_permits p' = pl_permits p + (if tk_origin t = FromLoop then 1 else 0)))"
proof -
  have "pool_ok cfg p" using pool_inv.reachable_inv [OF refl assms] .
  moreover have "\<exists>p'. rtranclp (pool_step E cfg) p p' \<and> tasks p' = tasks p - {#t#} \<and> pl_states p' = ss
             \<and> pl_permits p' = pl_permits p + (if tk_origin t = FromLoop then 1 else 0)"
    if "t \<in># tasks p" "tk_phase t = Spawned"
      "run_io (replicate_volume fuel E cfg g (pl_states p) (tk_volume t)) w = (Some (r, ss), w')"
    for t fuel g w r ss w'
    using task_runs [OF that] by (intro exI [of _ "end_task t (p\<lparr>pl_states := ss\<rparr>)"]) (simp add: end_task_def)
  ultimately show ?thesis by (fastforce simp: pool_ok_def loop_tasks_def task_ok_def)
qed

text \<open>The limit says nothing of the final synchronisations: any number of them can run at once, for a
  volume that asks for replicas.\<close>

lemma final_syncs_unlimited:
  assumes "run_io (get_csi_attr E path ''volume_id'') w = (Inr (Some vol), w1)"
    and "run_io (get_replica_count E path) w1 = (k, w2)" and "0 < k"
  shows "\<exists>p. rtranclp (pool_step E cfg) (new_pool cfg) p \<and> size (tasks p) = n"
proof (induction n)
  case 0
  have "size (tasks (new_pool cfg)) = 0" by (simp add: new_pool_def)
  then show ?case by blast
next
  case (Suc n)
  then obtain p where "rtranclp (pool_step E cfg) (new_pool cfg) p" "size (tasks p) = n" by blast
  moreover have "pool_step E cfg p (start_task FromUnpublish vol p)" by (rule pool_step.final_sync [OF assms])
  ultimately show ?case
    by (intro exI [of _ "start_task FromUnpublish vol p"]) (auto simp: start_task_def intro: rtranclp.rtrancl_into_rtrancl)
qed

text \<open>A run of the loop with one volume.\<close>

definition one_volume :: pool where
  "one_volume = (new_pool (sample_config ''a''))\<lparr>pl_states := [(''v'', fresh_state ''v'' [])]\<rparr>"

abbreviation sample_pool_step :: "pool \<Rightarrow> pool \<Rightarrow> bool" where
  "sample_pool_step \<equiv> pool_step sample_env (sample_config ''a'')"

lemma one_volume_registered: "sample_pool_step (new_pool (sample_config ''a'')) one_volume"
  using pool_step.register [of sample_env "sample_config ''a''" "new_pool (sample_config ''a'')" "''v''" "[]"]
  by (simp add: one_volume_def new_pool_def register_volume_def)

lemma one_volume_due:
  "run_io (get_volumes_for_replication sample_env (sample_config ''a'') (pl_states one_volume)) x = ([''v''], x)"
  "run_io (should_retry sample_env (pl_states one_volume) ''v'') x = (True, x)"
  by (simp_all add: get_volumes_for_replication_def should_retry_def one_volume_def fresh_state_def due_def
      sample_env_simps)

text \<open>One round: a tick, and the start of a task as long as there is a permit.\<close>

lemma one_volume_round:
  assumes "pl_states p = pl_states one_volume" "waiting p = []" "admitted p = None" "0 < pl_permits p"
  shows "rtranclp sample_pool_step p (start_task FromLoop ''v'' (p\<lparr>pl_permits := pl_permits p - 1\<rparr>))"
proof -
  let ?p1 = "p\<lparr>waiting := [''v'']\<rparr>" and ?p2 = "p\<lparr>admitted := Some ''v''\<rparr>"
  have same: "?p1\<lparr>waiting := [], admitted := Some ''v''\<rparr> = ?p2"
    "?p2\<lparr>admitted := None, pl_permits := pl_permits ?p2 - 1\<rparr> = p\<lparr>pl_permits := pl_permits p - 1\<rparr>"
    using assms(2,3) by simp_all
  have "sample_pool_step p ?p1"
    using assms(1-3) one_volume_due(1) by (intro pool_step.tick [where w = sample_start]) simp_all
  moreover have "sample_pool_step ?p1 (?p1\<lparr>waiting := [], admitted := Some ''v''\<rparr>)"
    using assms(1-3) one_volume_due(2) by (intro pool_step.admit [where w = sample_start]) simp_all
  then have "sample_pool_step ?p1 ?p2" unfolding same .
  moreover have "sample_pool_step ?p2 (start_task FromLoop ''v'' (?p2\<lparr>admitted := None, pl_permits := pl_permits ?p2 - 1\<rparr>))"
    using assms(4) by (intro pool_step.acquire) simp_all
  then have "sample_pool_step ?p2 (start_task FromLoop ''v'' (p\<lparr>pl_permits := pl_permits p - 1\<rparr>))"
    unfolding same .
  ultimately show ?thesis by (meson converse_rtranclp_into_rtranclp rtranclp.rtrancl_refl)
qed

definition two_tasks :: pool where
  "two_tasks = start_task FromLoop ''v'' (start_task FromLoop ''v'' (one_volume\<lparr>pl_permits := 2\<rparr>))"

lemma two_tasks_reachable: "rtranclp sample_pool_step (new_pool (sample_config ''a'')) two_tasks"
proof -
  let ?p1 = "start_task FromLoop ''v'' (one_volume\<lparr>pl_permits := 3\<rparr>)"
  have start: "pl_permits one_volume = 4" "waiting one_volume = []" "admitted one_volume = None"
    by (simp_all add: one_volume_def new_pool_def sample_config_def default_replication_config_def)
  have "rtranclp sample_pool_step one_volume ?p1"
    using one_volume_round [of one_volume] start by simp
  moreover have "rtranclp sample_pool_step ?p1 two_tasks"
    using one_volume_round [of ?p1] start by (simp add: two_tasks_def start_task_def)
  ultimately show ?thesis
    using one_volume_registered by (meson converse_rtranclp_into_rtranclp rtranclp_trans)
qed

text \<open>The first of the two tasks finds no subvolume to take a snapshot of, and ends.\<close>

theorem replication_pool_bounded_witness:
  "pl_permits two_tasks = 2 \<and> (\<exists>p'. rtranclp sample_pool_step two_tasks p' \<and> size (tasks p') = 1 \<and> pl_permits p' = 3)"
proof -
  let ?t = "\<lparr>tk_origin = FromLoop, tk_volume = ''v'', tk_phase = Spawned\<rparr>"
  have "snapshot_dir (replication (sample_config ''a'')) = ''/mnt/snapshots''" "s_paths sample_start = [''/data/vol1'']"
    by (simp_all add: sample_config_def default_replication_config_def sample_start_def)
  then have "run_io (create_for_replication sample_env (snapshot_dir (replication (sample_config ''a''))) ''v'') sample_start
      = (Inl ''Failed to create snapshot'', sample_start)"
    by (simp add: create_for_replication_def create_snapshot_def context_err_def run_and_then run_btrfs_run
        sample_env_simps out_fail_def Let_def)
  then obtain ss where "run_io (replicate_volume 1 sample_env (sample_config ''a'') (sample_gossip []) (pl_states two_tasks)
      (tk_volume ?t)) sample_start = (Some (Inl ''Failed to create snapshot'', ss), sample_start)"
    by (simp add: replicate_volume_def context_err_def Let_def)
  moreover have two: "tasks two_tasks = {#?t, ?t#}" "pl_permits two_tasks = 2"
    by (simp_all add: two_tasks_def start_task_def one_volume_def new_pool_def)
  ultimately obtain p' where "rtranclp sample_pool_step two_tasks p'" "tasks p' = tasks two_tasks - {#?t#}"
    "pl_permits p' = pl_permits two_tasks + 1"
    using replication_pool_bounded [OF two_tasks_reachable] by fastforce
  with two show ?thesis by auto
qed

text \<open>A volume can be replicated twice at once: nothing but its status keeps the loop from
  starting it again, and the status changes only when the first task runs. When the loop was held up
  for a permit, the ticks it missed follow at once.\<close>

lemma same_volume_twice:
  "\<exists>p. rtranclp sample_pool_step (new_pool (sample_config ''a'')) p
     \<and> tasks p = {#\<lparr>tk_origin = FromLoop, tk_volume = ''v'', tk_phase = Marked\<rparr>,
                   \<lparr>tk_origin = FromLoop, tk_volume = ''v'', tk_phase = Marked\<rparr>#}"
proof -
  let ?t = "\<lparr>tk_origin = FromLoop, tk_volume = ''v'', tk_phase = Spawned\<rparr>"
  have two: "tasks two_tasks = {#?t, ?t#}"
    by (simp_all add: two_tasks_def start_task_def one_volume_def new_pool_def)
  let ?p1 = "advance ?t Marked (two_tasks\<lparr>pl_states := begin_sync ''v'' (pl_states two_tasks)\<rparr>)"
  let ?p2 = "advance ?t Marked (?p1\<lparr>pl_states := begin_sync ''v'' (pl_states ?p1)\<rparr>)"
  have mark: "sample_pool_step p (advance ?t Marked (p\<lparr>pl_states := begin_sync ''v'' (pl_states p)\<rparr>))"
    if "?t \<in># tasks p" for p
    using task_step.mark [of ?t sample_env "sample_config ''a''" p] by (intro pool_step.task [OF that]) simp
  have "sample_pool_step two_tasks ?p1" using two by (intro mark) simp
  moreover have "sample_pool_step ?p1 ?p2" using two by (intro mark) (simp add: advance_def)
  ultimately have "rtranclp sample_pool_step (new_pool (sample_config ''a'')) ?p2"
    using two_tasks_reachable by (meson rtranclp.rtrancl_into_rtrancl)
  moreover have "tasks ?p2 = {#?t\<lparr>tk_phase := Marked\<rparr>, ?t\<lparr>tk_phase := Marked\<rparr>#}"
    using two by (simp add: advance_def)
  ultimately show ?thesis by auto
qed

end
