(* ===== verification/Spec2Isabelle.thy ===== *)
theory Spec2Isabelle
  imports Scheduler Replication_Path Replication_Pool
begin

text \<open>
  \<^bold>\<open>A verification of the btrfs CSI driver\<close>

  The program (\<open>src/crates\<close>) is one process per node of a cluster. It serves the Container Storage
  Interface: volumes are btrfs subvolumes of a data directory, and what the driver knows of them is
  kept in extended attributes. A gossip service keeps a table of peers and of volume epochs and
  grants quorum leases for writing; a replicator sends snapshots of volumes to peers, whose
  receivers pass them to \<open>btrfs receive\<close>; a scheduler does maintenance. Connections between nodes
  are authenticated with HMAC tokens and encrypted.

  \<^bold>\<open>Theories and sources.\<close>
  \<^item> \<open>Prelude\<close>, \<open>Rust_Text\<close>, \<open>F64\<close>: machine integers and their bytes, the state monad \<open>io\<close>, Rust's
    \<open>str\<close> operations and number parsers, \<open>f64\<close> arithmetic. No code of the repository.
  \<^item> \<open>Environment\<close>: the parameters (below), and \<open>BtrfsCommand\<close> of \<open>btrfs-ops/src/commands.rs\<close>.
    \<open>Sample_World\<close>: one concrete environment for the witnesses.
  \<^item> \<open>Wire_Message\<close>: \<open>btrfs-protocol/src/message.rs\<close>, \<open>Message::encode\<close>, \<open>Message::decode\<close> and the
    payload structures. \<open>Hmac_Auth\<close>: \<open>auth.rs\<close>. \<open>Transport\<close>: \<open>transport.rs\<close>, the ciphers, keys,
    \<open>send_message\<close>, \<open>recv_message\<close>, \<open>connect\<close>, \<open>accept\<close>. \<open>Handshake\<close>: both ends of the last two.
  \<^item> \<open>Vector_Clock\<close>, \<open>Xattr_Ops\<close>: \<open>btrfs-ops/src/xattr.rs\<close>. \<open>Snapshot\<close>: \<open>snapshot.rs\<close>. \<open>Subvolume\<close>:
    \<open>subvolume.rs\<close>. \<open>Usage\<close>: \<open>usage.rs\<close> and \<open>io_priority.rs\<close>.
  \<^item> \<open>Config\<close>: \<open>btrfs-exchange/src/config.rs\<close>. \<open>Gossip\<close>: \<open>gossip.rs\<close>, the tables, the message handlers,
    one tick of each loop, the accept loop with its handlers as an interleaving of steps, replica
    selection. \<open>Quorum\<close>: \<open>request_quorum_lease\<close> of the same file.
    \<open>Replicator\<close> and \<open>Replication_Pool\<close>: \<open>replicator.rs\<close>, the operations, and the replication loop, its
    tasks and the final synchronisations of the controller as an interleaving of steps. \<open>Receiver\<close>:
    \<open>receiver.rs\<close>. \<open>Replication_Path\<close>: sender and receiver together. \<open>Scheduler\<close>: \<open>scheduler.rs\<close>.
  \<^item> \<open>Csi_Controller\<close>: \<open>btrfs-csi/src/csi_controller.rs\<close>, with its theorems in \<open>Controller_Props\<close> (single
    helpers), \<open>Controller_Flow\<close> (lookup, publishing, deleting, taking over) and \<open>Controller_Create\<close>
    (creating volumes and snapshots). \<open>Csi_Node\<close>: \<open>csi_node.rs\<close>. \<open>Csi_Main\<close>: \<open>csi_identity.rs\<close>,
    \<open>csi_server.rs\<close> and the start and shutdown of \<open>main.rs\<close>.

  \<^bold>\<open>How code is modelled.\<close> A structure is a record, an enumeration a datatype, \<open>Result\<close> a sum with the
  error on the left, an integer a word of its width (the release build wraps around). Code with
  effects is a value of the state monad over a world \<open>'w\<close>; whatever is outside the repository
  (external programs, files, sockets, child processes, the clock, random numbers, cryptography,
  JSON, dates) is a field of the record \<open>env\<close>, an argument of the definitions. The maps that tasks
  share behind locks (peers, epochs, replication states) are threaded explicitly; each handler's
  change of them is one step, and \<open>gossip_step\<close>, \<open>listener_step\<close>, \<open>repl_step\<close> and \<open>pool_step\<close> are the
  state machines these steps make up. A \<open>HashMap\<close> is an association list with distinct keys whose
  order stands for the unspecified iteration order.

  \<^bold>\<open>Hypotheses about the environment.\<close> They state documented behaviour, and every theorem that has
  one has a witness in a concrete environment: \<open>aead_ok\<close>, \<open>aead_tag16\<close>, \<open>aead_shrinks\<close>,
  \<open>digest_sizes_ok\<close>, \<open>random_ok\<close> (cryptography), \<open>xattr_tools_ok\<close>, \<open>volume_tools_ok\<close>,
  \<open>snapshot_tools_ok\<close> (\<open>getfattr\<close>, \<open>setfattr\<close>, \<open>btrfs\<close>), \<open>mounts_ok\<close> (the mount table under \<open>mount\<close> and
  \<open>umount\<close>), \<open>command_log\<close> (which programs were run), \<open>child_laws\<close>, \<open>buffered_writer\<close> (the pipe to
  \<open>btrfs receive\<close>), \<open>socket_log\<close>, \<open>socket_inbox\<close>, \<open>write_log\<close> (sockets), \<open>vote_json_ok\<close> (\<open>serde_json\<close>).
  No hypothesis relies on the secrecy of a key.

  \<^bold>\<open>Interfaces.\<close> Each locale is interpreted on the model: \<open>framing\<close> (what a connection needs of the
  frame codec; on \<open>encode\<close> and \<open>decode\<close>), \<open>clock_order\<close> (what conflict detection needs of vector
  clocks), \<open>replica_picker\<close> (what a client of replica selection relies on), \<open>node_set\<close> (the set of nodes
  a volume is published on, implemented by the text of an attribute), and \<open>invariant_of\<close> (a state
  machine and its invariant; on the gossip tables, the accept loop, the replication states and the
  replication loop).

  \<^bold>\<open>What is shown.\<close>
  \<^item> Wire and transport: decoding inverts encoding, delivers only what was on the wire and waits
    only on short buffers; receiving does not depend on how the stream is cut; a connection is
    accepted only with a fresh token of the shared key, and what either end of a handshake writes leads
    the other to a connection under the same key, with the same cipher if their processors agree; the
    exact acceptance window.
  \<^item> Attributes and clocks: attributes are a store, the epoch is incremented and nothing else changes,
    clocks are printed and parsed back, and a conflict is reported exactly for concurrent clocks.
  \<^item> Gossip and quorum: the tables stay well formed, the accept loop handles authenticated
    connections only and stays within its limit (how long a peer's handshake can hold the loop is not
    claimed), peers are dropped exactly when silent for too long, replicas are the eligible peers with
    most space; exactly when a lease is granted, when two leases share a voter, and that the two halves
    of a cluster of even size are both granted one.
  \<^item> Replication: what is sent arrives, with its checksum; the receiver accounts for every byte, and the
    checksum decides if there is one; retries are bounded and exact, targets legitimate, outcomes
    recorded as they happened. The replications that the loop starts are limited; those that the
    controller starts when a volume is unpublished are not. Theorems show faults: the tail of a stream
    is not flushed, a failed snapshot leaves its volume marked for good.
  \<^item> CSI: accepted names stay inside the data directory; creation is recorded attribute by
    attribute; publishing follows the lease; deletion happens exactly when it may, and how; taking over
    advances epoch and clock; paging lists everything once; the driver does not start without a
    key. On the node, publishing mounts what the volume context says and withdrawing undoes it.
    Theorems on the node service and on snapshots also state what the code does where that is not
    what it means to do.
  \<^item> Maintenance: the retention deletes exactly the snapshots with the smallest names, whatever their age.

  \<^bold>\<open>Fuel.\<close> \<open>recv_message\<close> is total, since an incomplete frame is bounded. Loops over a stream of
  unknown length (\<open>send_chunks\<close>, \<open>pull_chunks\<close>, \<open>receive_loop\<close>) take fuel and give \<open>None\<close> without it;
  the theorems show that one step more than there are chunks or messages is enough.

  \<^bold>\<open>Abstractions.\<close> White space is the ASCII part of Unicode's, and letters are folded as in ASCII.
  The text of an error that a library reports is left out of the message that quotes it. A loop that
  never ends is modelled by one of its rounds; what its rounds do together is stated over the step
  relations.

  \<^bold>\<open>Not modelled.\<close> The test client (\<open>btrfs-csi/src/bin/csi-test-client.rs\<close>, a manual test program), the
  crate roots and the build script (module declarations and code generation), the gRPC library,
  command-line parsing, logging, signals, and the spawning of tasks by the runtime, of which only
  the interleaving of their steps is modelled.
\<close>

end
